(* ===== verification/Prelude.thy ===== *)
theory Prelude
  imports "HOL-Library.Word" "HOL-Library.Sublist" "HOL-Library.Char_ord"
    "HOL-Library.List_Lexorder" "HOL-Library.Product_Lexorder" "HOL-Library.AList"
begin

text \<open>
  What every theory of the library shares: the names of the model's machine types, the
  collections that the component proofs feed to the simplifier, and facts on lists, options and
  words that the standard library does not state in the form the proofs need.

  The collections:
  \<^item> \<open>text_simps\<close>: how the string helpers act on concatenations;
  \<^item> \<open>host_simps\<close>: which path a helper reads, and what it answers when the path is missing;
  \<^item> \<open>honest_intros\<close>: a field never carries the pair (not valid, ok);
  \<^item> \<open>json_simps\<close>: what the JSON writer has produced after each call.
\<close>

named_theorems text_simps
named_theorems host_simps
named_theorems honest_intros
named_theorems json_simps

type_synonym u32 = "32 word"
type_synonym u64 = "64 word"

text \<open>
  A \<open>std::int64_t\<close> is the same 64 bits read as two's complement: \<open>sint\<close> is its value.
\<close>

type_synonym i64 = "64 word"

section \<open>Lists\<close>

lemma takeWhile_append_stop [text_simps]:
  "\<forall>x \<in> set xs. P x \<Longrightarrow> \<not> P y \<Longrightarrow> takeWhile P (xs @ y # ys) = xs"
  by (induction xs) auto

lemma dropWhile_append_stop [text_simps]:
  "\<forall>x \<in> set xs. P x \<Longrightarrow> \<not> P y \<Longrightarrow> dropWhile P (xs @ y # ys) = y # ys"
  by (induction xs) auto

lemma takeWhile_until [text_simps]: "c \<notin> set a \<Longrightarrow> takeWhile (\<lambda>x. x \<noteq> c) (a @ c # b) = a"
  by (induction a) auto

lemma dropWhile_until [text_simps]: "c \<notin> set a \<Longrightarrow> dropWhile (\<lambda>x. x \<noteq> c) (a @ c # b) = c # b"
  by (induction a) auto

lemma takeWhile_without: "c \<notin> set a \<Longrightarrow> takeWhile (\<lambda>x. x \<noteq> c) a = a"
  by (induction a) auto

lemma dropWhile_without: "c \<notin> set a \<Longrightarrow> dropWhile (\<lambda>x. x \<noteq> c) a = []"
  by (induction a) auto

lemma takeWhile_all: "\<forall>x \<in> set xs. P x \<Longrightarrow> takeWhile P xs = xs"
  by (induction xs) auto

lemma dropWhile_all: "\<forall>x \<in> set xs. P x \<Longrightarrow> dropWhile P xs = []"
  by (induction xs) auto

lemma takeWhile_hd: "xs = [] \<or> \<not> P (hd xs) \<Longrightarrow> takeWhile P xs = []"
  by (cases xs) auto

lemma dropWhile_hd: "xs = [] \<or> \<not> P (hd xs) \<Longrightarrow> dropWhile P xs = xs"
  by (cases xs) auto

lemma length_takeWhile_dropWhile: "drop (length (takeWhile P xs)) xs = dropWhile P xs"
  by (simp add: dropWhile_eq_drop)

lemma set_dropWhileD': "x \<in> set (dropWhile P xs) \<Longrightarrow> x \<in> set xs"
  by (rule set_dropWhileD)

lemma hd_dropWhile_not: "dropWhile P xs \<noteq> [] \<Longrightarrow> \<not> P (hd (dropWhile P xs))"
  by (rule hd_dropWhile)

lemma suffix_same_tail: "suffix (x # xs) zs \<Longrightarrow> suffix (x # ys) zs \<Longrightarrow> x \<notin> set xs \<Longrightarrow> x \<notin> set ys \<Longrightarrow> xs = ys"
proof -
  assume s: "suffix (x # xs) zs" "suffix (x # ys) zs" and n: "x \<notin> set xs" "x \<notin> set ys"
  have "takeWhile (\<lambda>y. y \<noteq> x) (rev zs) = rev xs"
    using s(1) n(1) by (auto simp: suffix_def takeWhile_append)
  moreover have "takeWhile (\<lambda>y. y \<noteq> x) (rev zs) = rev ys"
    using s(2) n(2) by (auto simp: suffix_def takeWhile_append)
  ultimately show "xs = ys" by simp
qed

lemma subseq_set: "subseq xs ys \<Longrightarrow> set xs \<subseteq> set ys"
  by (induction rule: list_emb.induct) auto

lemma set_map_filter: "x \<in> set (List.map_filter f xs) \<longleftrightarrow> (\<exists>y \<in> set xs. f y = Some x)"
  by (induction xs) (auto simp: map_filter_simps split: option.split)

section \<open>Words\<close>

lemma unat_word_of_nat_small: "n < 2 ^ LENGTH('a) \<Longrightarrow> unat (word_of_nat n :: 'a::len word) = n"
  by (simp add: unat_of_nat take_bit_nat_eq_self)

lemma unat_u64_bound [simp]: "unat (w :: u64) < 18446744073709551616"
  using unsigned_less [of w, where 'a = nat] by simp

lemma unat_u32_bound [simp]: "unat (w :: u32) < 4294967296"
  using unsigned_less [of w, where 'a = nat] by simp

lemma sint_word_of_int_small:
  "- 9223372036854775808 \<le> v \<Longrightarrow> v \<le> 9223372036854775807 \<Longrightarrow> sint (word_of_int v :: i64) = v"
  by (simp add: signed_of_int signed_take_bit_int_eq_self)

lemma sint_i64_bounds: "- 9223372036854775808 \<le> sint (v :: i64)" "sint (v :: i64) \<le> 9223372036854775807"
  using sint_ge [of v] sint_lt [of v] by simp_all

text \<open>\<open>std::numeric_limits<std::uint64_t>::max()\<close> and \<open>UINT32_MAX\<close>.\<close>

abbreviation u64_max :: u64 where
  "u64_max \<equiv> 18446744073709551615"

abbreviation u32_max :: u64 where
  "u32_max \<equiv> 4294967295"

lemma unat_le_u64_max: "unat (w :: u64) \<le> 18446744073709551615"
  using unat_u64_bound [of w] by linarith

lemma unat_u64_max_minus: "unat (u64_max - (w :: u64)) = 18446744073709551615 - unat w"
  using unat_le_u64_max [of w] by (simp add: unat_sub_if_size)

lemma unat_div_word: "unat ((a :: u64) div b) = unat a div unat b"
  by (simp add: unat_div_distrib)

lemma unat_ucast_u32: "w \<le> u32_max \<Longrightarrow> unat (ucast w :: u32) = unat (w :: u64)"
proof -
  assume "w \<le> u32_max"
  then have "unat w < 4294967296" by (simp add: word_le_nat_alt)
  then show ?thesis by (simp add: unsigned_ucast_eq take_bit_nat_eq_self)
qed

text \<open>The overflow guards of the code say what they mean to say.\<close>

lemma mul_guard_iff:
  "m \<noteq> 0 \<Longrightarrow> u64_max div m < (v :: u64) \<longleftrightarrow> 18446744073709551615 < unat v * unat m"
proof -
  assume m: "m \<noteq> 0"
  then have "0 < unat m" by (simp add: unat_gt_0)
  then show ?thesis
    by (simp add: word_less_nat_alt unat_div_word div_less_iff_less_mult)
qed

lemma unat_mult_bounded:
  "unat (a :: u64) * unat b \<le> 18446744073709551615 \<Longrightarrow> unat (a * b) = unat a * unat b"
  by (subst unat_mult_lem [symmetric]) simp

lemma add_guard_iff: "u64_max - r < (c :: u64) \<longleftrightarrow> 18446744073709551615 < unat c + unat r"
  using unat_le_u64_max [of r] by (simp add: word_less_nat_alt unat_u64_max_minus) linarith

lemma unat_add_bounded:
  "unat (a :: u64) + unat b \<le> 18446744073709551615 \<Longrightarrow> unat (a + b) = unat a + unat b"
  by (subst unat_add_lem [symmetric]) simp

end
