(* ===== verification/Text.thy ===== *)
theory Text
  imports Prelude
begin

text \<open>
  The string helpers of \<open>src/src/internal.hh\<close> (namespace \<open>archspec::detail\<close>) and the parts of the
  C++ library they are written with. A \<open>std::string\<close> is a list of 8-bit characters; an iterator
  or position is its index; \<open>std::string::npos\<close> is \<open>None\<close>. The character classes are those of the
  "C" locale, which the program never changes.
\<close>

section \<open>The C++ library's string operations\<close>

definition isspace :: "char \<Rightarrow> bool" where
  "isspace c \<longleftrightarrow> c \<in> set [CHR '' '', CHR 0x09, CHR 0x0A, CHR 0x0B, CHR 0x0C, CHR 0x0D]"

definition tolower :: "char \<Rightarrow> char" where
  "tolower c = (if 65 \<le> (of_char c :: nat) \<and> (of_char c :: nat) \<le> 90
                then char_of ((of_char c :: nat) + 32) else c)"

text \<open>\<open>value.substr(pos, n)\<close>; every call of the program has \<open>pos \<le> length\<close>.\<close>

definition substr :: "string \<Rightarrow> nat \<Rightarrow> nat \<Rightarrow> string" where
  "substr s pos n = take n (drop pos s)"

fun find_char :: "char \<Rightarrow> string \<Rightarrow> nat option" where
  "find_char c [] = None"
| "find_char c (x # xs) = (if x = c then Some 0 else map_option Suc (find_char c xs))"

fun find_str :: "string \<Rightarrow> string \<Rightarrow> nat option" where
  "find_str pat s = (if take (length pat) s = pat then Some 0
     else (case s of [] \<Rightarrow> None | _ # xs \<Rightarrow> map_option Suc (find_str pat xs)))"

declare find_str.simps [simp del]

text \<open>\<open>find_last_of\<close> and \<open>find_last_not_of\<close>: the last position whose character satisfies a predicate.\<close>

definition find_last :: "(char \<Rightarrow> bool) \<Rightarrow> string \<Rightarrow> nat option" where
  "find_last P s = (let skipped = length (takeWhile (\<lambda>c. \<not> P c) (rev s))
     in if skipped = length s then None else Some (length s - 1 - skipped))"

text \<open>The characters a C function sees through \<open>c_str()\<close>: everything before the first NUL.\<close>

definition c_str :: "string \<Rightarrow> string" where
  "c_str s = takeWhile (\<lambda>c. c \<noteq> CHR 0x00) s"

text \<open>\<open>in >> word\<close>: skip white space, then take the characters up to the next white space.\<close>

definition extract_word :: "string \<Rightarrow> (string \<times> string) option" where
  "extract_word s = (let t = dropWhile isspace s
     in if t = [] then None
        else Some (takeWhile (\<lambda>c. \<not> isspace c) t, dropWhile (\<lambda>c. \<not> isspace c) t))"

text \<open>\<open>std::getline(in, line, delim)\<close>: fails only when nothing is left.\<close>

definition getline :: "char \<Rightarrow> string \<Rightarrow> (string \<times> string) option" where
  "getline d s = (if s = [] then None
     else Some (takeWhile (\<lambda>c. c \<noteq> d) s, drop 1 (dropWhile (\<lambda>c. c \<noteq> d) s)))"

lemma extract_word_shorter: "extract_word s = Some (w, r) \<Longrightarrow> length r < length s"
proof -
  assume a: "extract_word s = Some (w, r)"
  define t where "t = dropWhile isspace s"
  from a have t: "t \<noteq> []" and r: "r = dropWhile (\<lambda>c. \<not> isspace c) t"
    by (auto simp: extract_word_def t_def Let_def split: if_splits)
  have "\<not> isspace (hd t)" using t by (simp add: t_def hd_dropWhile_not)
  with t have "length r < length t"
    unfolding r by (cases t) (auto simp: le_imp_less_Suc length_dropWhile_le)
  also have "length t \<le> length s" by (simp add: t_def length_dropWhile_le)
  finally show ?thesis .
qed

lemma getline_shorter: "getline d s = Some (l, r) \<Longrightarrow> length r < length s"
  using length_dropWhile_le [of "\<lambda>c. c \<noteq> d" s]
  by (cases s) (auto simp: getline_def split: if_splits)

text \<open>The loop \<open>while (std::getline(in, line, d))\<close>: every line, in order.\<close>

function lines_by :: "char \<Rightarrow> string \<Rightarrow> string list" where
  "lines_by d s = (case getline d s of None \<Rightarrow> [] | Some (l, r) \<Rightarrow> l # lines_by d r)"
  by pat_completeness auto
termination
  by (relation "measure (\<lambda>(d, s). length s)") (auto dest: getline_shorter)

declare lines_by.simps [simp del]

section \<open>The helpers of internal.hh\<close>

definition starts_with :: "string \<Rightarrow> string \<Rightarrow> bool" where
  "starts_with val pre \<longleftrightarrow> take (length pre) val = pre"

definition trim :: "string \<Rightarrow> string" where
  "trim s = (let first = length (takeWhile isspace s);
                 last = length s - length (takeWhile isspace (rev s))
     in if last \<le> first then [] else take (last - first) (drop first s))"

definition is_separator :: "char \<Rightarrow> bool" where
  "is_separator c \<longleftrightarrow> c = CHR ''/'' \<or> c = CHR 0x5C"

definition basename :: "string \<Rightarrow> string" where
  "basename path = (if path = [] then []
     else case find_last (\<lambda>c. \<not> is_separator c) path of
         None \<Rightarrow> ''/''
       | Some end \<Rightarrow>
           (case find_last is_separator (take (end + 1) path) of
              None \<Rightarrow> substr path 0 (end + 1)
            | Some slash \<Rightarrow> substr path (slash + 1) (end - slash)))"

definition join_path :: "string \<Rightarrow> string \<Rightarrow> string" where
  "join_path root suf =
     (if suf = [] then root
      else if root = [] \<or> root = ''/''
      then ''/'' @ (if hd suf = CHR ''/'' then substr suf 1 (length suf) else suf)
      else if hd suf = CHR ''/'' then root @ suf
      else root @ ''/'' @ suf)"

function split_words :: "string \<Rightarrow> string list" where
  "split_words s = (case extract_word s of None \<Rightarrow> [] | Some (w, r) \<Rightarrow> w # split_words r)"
  by pat_completeness auto
termination
  by (relation "measure length") (auto dest: extract_word_shorter)

declare split_words.simps [simp del]

definition word_set :: "string \<Rightarrow> string set" where
  "word_set s = set (split_words s)"

definition lower_copy :: "string \<Rightarrow> string" where
  "lower_copy s = map tolower s"

section \<open>What the helpers do\<close>

lemma starts_with_iff_prefix: "starts_with val pre \<longleftrightarrow> prefix pre val"
  by (metis append_eq_conv_conj prefix_def starts_with_def take_is_prefix)

lemma takeWhile_rev_append:
  "\<exists>x \<in> set t. \<not> P x \<Longrightarrow> takeWhile P (rev (a @ t)) = takeWhile P (rev t)"
  by (auto simp: takeWhile_append1)

lemma length_takeWhile_less: "\<exists>x \<in> set t. \<not> P x \<Longrightarrow> length (takeWhile P t) < length t"
  by (induction t) auto

lemma trim_eq: "trim s = rev (dropWhile isspace (rev (dropWhile isspace s)))"
proof (cases "dropWhile isspace s")
  case Nil
  then have "\<forall>c \<in> set s. isspace c" by (simp add: dropWhile_eq_Nil_conv)
  then have "takeWhile isspace s = s" by (simp add: takeWhile_all)
  then have "length (takeWhile isspace s) = length s" by metis
  then have "trim s = []" by (simp add: trim_def Let_def)
  then show ?thesis unfolding Nil by simp
next
  case (Cons c u)
  let ?t = "dropWhile isspace s" and ?a = "takeWhile isspace s"
  have ex: "\<exists>x \<in> set ?t. \<not> isspace x"
    using hd_dropWhile_not [of isspace s] Cons by auto
  have b: "takeWhile isspace (rev s) = takeWhile isspace (rev ?t)"
    using takeWhile_rev_append [OF ex, of ?a] by simp
  have len: "length (takeWhile isspace (rev ?t)) < length ?t"
    using length_takeWhile_less [of "rev ?t" isspace] ex by simp
  have ls: "length s = length ?a + length ?t" by (metis length_append takeWhile_dropWhile_id)
  define n where "n = length (takeWhile isspace (rev ?t))"
  have t: "drop (length ?a) s = ?t" by (rule dropWhile_eq_drop [symmetric])
  have cond: "\<not> length s - n \<le> length ?a" using len ls unfolding n_def by linarith
  have rest: "length s - n - length ?a = length ?t - n" using ls by linarith
  have "trim s = take (length s - n - length ?a) (drop (length ?a) s)"
    using cond unfolding trim_def Let_def b n_def [symmetric] by (simp only: if_False)
  then have "trim s = take (length ?t - n) ?t" unfolding t rest .
  also have "\<dots> = rev (drop n (rev ?t))" by (simp add: rev_drop)
  also have "\<dots> = rev (dropWhile isspace (rev ?t))"
    unfolding n_def by (simp only: dropWhile_eq_drop [symmetric])
  finally show ?thesis .
qed

lemma trim_Nil [simp]: "trim [] = []"
  by (simp add: trim_eq)

lemma trim_ends: "trim s \<noteq> [] \<Longrightarrow> \<not> isspace (hd (trim s)) \<and> \<not> isspace (last (trim s))"
proof -
  assume ne: "trim s \<noteq> []"
  let ?t = "dropWhile isspace s" and ?r = "dropWhile isspace (rev (dropWhile isspace s))"
  have r: "?r \<noteq> []" using ne by (simp add: trim_eq)
  then have last: "\<not> isspace (last (trim s))"
    by (simp add: trim_eq last_rev hd_dropWhile_not)
  obtain z where z: "rev ?t = z @ ?r" by (metis takeWhile_dropWhile_id)
  then have "?t = rev ?r @ rev z" by (metis rev_append rev_rev_ident)
  then have "hd ?t = hd (rev ?r)" using r by (metis hd_append2 rev_is_Nil_conv)
  moreover have "?t \<noteq> []" using r by (metis dropWhile.simps(1) rev.simps(1))
  ultimately have "\<not> isspace (hd (trim s))" by (metis hd_dropWhile_not trim_eq)
  with last show ?thesis by simp
qed

lemma trim_pad:
  assumes "\<forall>c \<in> set a. isspace c" "\<forall>c \<in> set b. isspace c"
    and "s \<noteq> [] \<Longrightarrow> \<not> isspace (hd s) \<and> \<not> isspace (last s)"
  shows "trim (a @ s @ b) = s"
proof (cases s)
  case Nil
  with assms show ?thesis by (simp add: trim_eq dropWhile_append dropWhile_all)
next
  case (Cons c t)
  then obtain u d where s: "s = u @ [d]" by (metis rev_exhaust list.distinct(1))
  have "dropWhile isspace (a @ s @ b) = s @ b"
    using assms Cons by (simp add: dropWhile_append dropWhile_all)
  moreover have "dropWhile isspace (rev (s @ b)) = rev s"
    using assms s by (simp add: dropWhile_append dropWhile_all)
  ultimately show ?thesis by (simp add: trim_eq)
qed

lemma trim_decompose:
  "\<exists>a b. s = a @ trim s @ b \<and> (\<forall>c \<in> set a. isspace c) \<and> (\<forall>c \<in> set b. isspace c)"
proof -
  let ?t = "dropWhile isspace s"
  let ?b = "rev (takeWhile isspace (rev ?t))"
  have "?t = trim s @ ?b"
    by (metis trim_eq rev_append rev_rev_ident takeWhile_dropWhile_id)
  then have "s = takeWhile isspace s @ trim s @ ?b" by (metis takeWhile_dropWhile_id)
  moreover have "\<forall>c \<in> set (takeWhile isspace s). isspace c" by (auto dest: set_takeWhileD)
  moreover have "\<forall>c \<in> set ?b. isspace c" by (auto dest: set_takeWhileD)
  ultimately show ?thesis by blast
qed

lemma trim_idem [simp]: "trim (trim s) = trim s"
  using trim_pad [of "[]" "[]" "trim s"] trim_ends [of s] by simp

lemma trim_id: "s \<noteq> [] \<Longrightarrow> \<not> isspace (hd s) \<Longrightarrow> \<not> isspace (last s) \<Longrightarrow> trim s = s"
  using trim_pad [of "[]" "[]" s] by simp

lemma trim_no_space: "\<forall>c \<in> set s. \<not> isspace c \<Longrightarrow> trim s = s"
  by (cases "s = []") (auto intro: trim_id)

lemma set_trim: "set (trim s) \<subseteq> set s"
  using trim_decompose [of s] by (metis Un_iff set_append subsetI)

subsection \<open>Searching\<close>

lemma find_char_None: "find_char c s = None \<longleftrightarrow> c \<notin> set s"
  by (induction s) auto

lemma find_char_append [text_simps]: "c \<notin> set a \<Longrightarrow> find_char c (a @ c # b) = Some (length a)"
  by (induction a) auto

lemma find_char_SomeD:
  "find_char c s = Some i \<Longrightarrow> s = take i s @ c # drop (Suc i) s \<and> c \<notin> set (take i s) \<and> i < length s"
  by (induction s arbitrary: i) (auto split: if_splits)

lemma find_char_less: "find_char c s = Some i \<Longrightarrow> i < length s"
  by (auto dest: find_char_SomeD)

subsection \<open>Lines and words\<close>

lemma lines_by_Nil [simp]: "lines_by d [] = []"
  by (simp add: lines_by.simps getline_def)

lemma lines_by_Cons [text_simps]: "d \<notin> set l \<Longrightarrow> lines_by d (l @ d # r) = l # lines_by d r"
  by (simp add: lines_by.simps [of d "l @ d # r"] getline_def takeWhile_until dropWhile_until)

lemma lines_by_last [text_simps]: "d \<notin> set l \<Longrightarrow> l \<noteq> [] \<Longrightarrow> lines_by d l = [l]"
  by (simp add: lines_by.simps [of d l] getline_def takeWhile_without dropWhile_without)

lemma lines_by_concat:
  "\<forall>l \<in> set ls. d \<notin> set l \<Longrightarrow> lines_by d (concat (map (\<lambda>l. l @ [d]) ls)) = ls"
  by (induction ls) (auto simp: lines_by_Cons)

lemma lines_by_no_delim: "l \<in> set (lines_by d s) \<Longrightarrow> d \<notin> set l"
proof (induction d s rule: lines_by.induct)
  case (1 d s)
  show ?case
  proof (cases "getline d s")
    case None
    with "1.prems" show ?thesis by (simp add: lines_by.simps [of d s])
  next
    case (Some p)
    then obtain a r where p: "getline d s = Some (a, r)" by (cases p) auto
    have "d \<notin> set a" using p by (auto simp: getline_def split: if_splits dest: set_takeWhileD)
    with "1.prems" "1.IH" [OF p] p show ?thesis by (auto simp: lines_by.simps [of d s])
  qed
qed

lemma split_words_blank: "\<forall>c \<in> set s. isspace c \<Longrightarrow> split_words s = []"
  by (subst split_words.simps) (simp add: extract_word_def dropWhile_all)

lemma split_words_step:
  assumes "\<forall>c \<in> set a. isspace c" "w \<noteq> []" "\<forall>c \<in> set w. \<not> isspace c"
    and "r = [] \<or> isspace (hd r)"
  shows "split_words (a @ w @ r) = w # split_words r"
proof -
  have "dropWhile isspace (a @ w @ r) = w @ r"
    using assms by (cases w) (auto simp: dropWhile_append dropWhile_all)
  moreover have "takeWhile (\<lambda>c. \<not> isspace c) (w @ r) = w"
    using assms by (cases r) (auto simp: takeWhile_append_stop takeWhile_all)
  moreover have "dropWhile (\<lambda>c. \<not> isspace c) (w @ r) = r"
    using assms by (cases r) (auto simp: dropWhile_append_stop dropWhile_all)
  ultimately have "extract_word (a @ w @ r) = Some (w, r)"
    using assms by (simp add: extract_word_def)
  then show ?thesis by (simp add: split_words.simps [of "a @ w @ r"])
qed

lemma split_words_word: "w \<in> set (split_words s) \<Longrightarrow> w \<noteq> [] \<and> (\<forall>c \<in> set w. \<not> isspace c)"
proof (induction s rule: split_words.induct)
  case (1 s)
  show ?case
  proof (cases "extract_word s")
    case None
    with "1.prems" show ?thesis by (simp add: split_words.simps [of s])
  next
    case (Some p)
    then obtain a r where p: "extract_word s = Some (a, r)" by (cases p) auto
    have "dropWhile isspace s \<noteq> []" and a: "a = takeWhile (\<lambda>c. \<not> isspace c) (dropWhile isspace s)"
      using p by (auto simp: extract_word_def Let_def split: if_splits)
    then have "a \<noteq> []" using hd_dropWhile_not [of isspace s]
      by (cases "dropWhile isspace s") auto
    moreover have "\<forall>c \<in> set a. \<not> isspace c" unfolding a by (auto dest: set_takeWhileD)
    ultimately show ?thesis using "1.prems" "1.IH" [OF p] p by (auto simp: split_words.simps [of s])
  qed
qed

subsection \<open>Paths\<close>

text \<open>\<open>file_name p\<close> is what follows the last slash of \<open>p\<close>: the name of the file a path opens.\<close>

definition file_name :: "string \<Rightarrow> string" where
  "file_name p = rev (takeWhile (\<lambda>c. c \<noteq> CHR ''/'') (rev p))"

lemma file_name_append: "CHR ''/'' \<in> set s \<Longrightarrow> file_name (p @ s) = file_name s"
  by (auto simp: file_name_def takeWhile_append1)

lemma file_name_slash: "CHR ''/'' \<notin> set n \<Longrightarrow> file_name (p @ ''/'' @ n) = n"
  using takeWhile_until [of "CHR ''/''" "rev n" "rev p"] by (simp add: file_name_def)

lemma join_path_prefix: "prefix root (join_path root suf)"
  by (auto simp: join_path_def)

lemma join_path_under: "prefix root p \<Longrightarrow> prefix root (join_path p suf)"
  using join_path_prefix prefix_order.trans by blast

lemma join_path_form:
  "suf \<noteq> [] \<Longrightarrow> hd suf \<noteq> CHR ''/'' \<Longrightarrow> \<exists>q. join_path root suf = q @ ''/'' @ suf"
  by (auto simp: join_path_def intro: exI [of _ "[]"])

text \<open>Joining never changes the name of the file that is opened.\<close>

lemma file_name_join:
  "suf \<noteq> [] \<Longrightarrow> file_name (join_path root suf) = file_name (CHR ''/'' # suf)"
proof -
  assume ne: "suf \<noteq> []"
  show ?thesis
  proof (cases "hd suf = CHR ''/''")
    case True
    then obtain t where t: "suf = CHR ''/'' # t" using ne by (cases suf) auto
    have "file_name (CHR ''/'' # suf) = file_name suf"
      using file_name_append [of suf "''/''"] t by simp
    moreover have "file_name (root @ suf) = file_name suf"
      using file_name_append [of suf root] t by simp
    ultimately show ?thesis using t by (auto simp: join_path_def substr_def)
  next
    case False
    then obtain q where "join_path root suf = q @ ''/'' @ suf"
      using join_path_form ne by blast
    then show ?thesis using file_name_append [of "''/'' @ suf" q] by simp
  qed
qed

text \<open>\<open>join_path\<close> puts exactly one slash between a non-empty root and a relative name.\<close>

lemma join_path_relative:
  "root \<noteq> [] \<Longrightarrow> root \<noteq> ''/'' \<Longrightarrow> suf \<noteq> [] \<Longrightarrow> hd suf \<noteq> CHR ''/'' \<Longrightarrow>
   join_path root suf = root @ ''/'' @ suf"
  by (simp add: join_path_def)

lemma find_last_snoc:
  "find_last P (s @ [c]) = (if P c then Some (length s) else find_last P s)"
  by (auto simp: find_last_def Let_def)

lemma find_last_append_last:
  "P c \<Longrightarrow> \<forall>x \<in> set b. \<not> P x \<Longrightarrow> find_last P (a @ c # b) = Some (length a)"
  by (induction b rule: rev_induct) (auto simp: find_last_def Let_def takeWhile_append)

lemma find_last_None: "find_last P s = None \<longleftrightarrow> (\<forall>c \<in> set s. \<not> P c)"
proof (induction s rule: rev_induct)
  case Nil
  then show ?case by (simp add: find_last_def)
next
  case (snoc c s)
  then show ?case by (simp add: find_last_snoc)
qed

text \<open>The last component of a path, with or without trailing separators.\<close>

lemma basename_component:
  assumes "n \<noteq> []" "\<forall>c \<in> set n. \<not> is_separator c"
    and "d = [] \<or> is_separator (last d)" and "\<forall>c \<in> set t. is_separator c"
  shows "basename (d @ n @ t) = n"
proof -
  obtain u c where n: "n = u @ [c]" using assms(1) by (metis rev_exhaust)
  have "find_last (\<lambda>c. \<not> is_separator c) ((d @ u) @ c # t) = Some (length (d @ u))"
    by (rule find_last_append_last) (use assms n in auto)
  then have e: "find_last (\<lambda>c. \<not> is_separator c) (d @ n @ t) = Some (length d + length u)"
    by (simp add: n)
  have tk: "take (length d + length u + 1) (d @ n @ t) = d @ n" by (simp add: n)
  show ?thesis
  proof (cases "d = []")
    case True
    have "find_last is_separator n = None" using assms(2) by (simp add: find_last_None)
    then show ?thesis using e tk True assms(1) by (simp add: basename_def substr_def n)
  next
    case False
    then obtain v s where d: "d = v @ [s]" "is_separator s" using assms(3) by (metis rev_exhaust last_snoc)
    have "find_last is_separator (v @ s # n) = Some (length v)"
      by (rule find_last_append_last) (use assms(2) d in auto)
    then have sl: "find_last is_separator (d @ n) = Some (length v)" by (simp add: d)
    show ?thesis unfolding basename_def using e tk sl assms(1) by (simp add: substr_def d n)
  qed
qed

lemma drop_after_last:
  "find_last P q = Some i \<Longrightarrow> drop (Suc i) q = rev (takeWhile (\<lambda>c. \<not> P c) (rev q))"
proof (induction q arbitrary: i rule: rev_induct)
  case Nil
  then show ?case by (simp add: find_last_def)
next
  case (snoc c q)
  show ?case
  proof (cases "P c")
    case False
    with snoc have "find_last P q = Some i" by (simp add: find_last_snoc)
    moreover from this have "i < length q"
      by (cases "q = []") (auto simp: find_last_def Let_def split: if_splits)
    ultimately show ?thesis using snoc.IH False by simp
  qed (use snoc.prems in \<open>simp add: find_last_snoc\<close>)
qed

lemma basename_no_separator: "basename p \<noteq> ''/'' \<Longrightarrow> \<forall>c \<in> set (basename p). \<not> is_separator c"
proof -
  assume ns: "basename p \<noteq> ''/''"
  show ?thesis
  proof (cases "p = [] \<or> find_last (\<lambda>c. \<not> is_separator c) p = None")
    case True
    with ns show ?thesis by (auto simp: basename_def)
  next
    case False
    then obtain e where p: "p \<noteq> []" and e: "find_last (\<lambda>c. \<not> is_separator c) p = Some e" by auto
    show ?thesis
    proof (cases "find_last is_separator (take (e + 1) p)")
      case None
      then have "basename p = take (e + 1) p" by (simp add: basename_def p e substr_def)
      with None show ?thesis by (simp add: find_last_None)
    next
      case (Some i)
      then have "basename p = drop (Suc i) (take (e + 1) p)"
        by (simp add: basename_def p e substr_def drop_take)
      also have "\<dots> = rev (takeWhile (\<lambda>c. \<not> is_separator c) (rev (take (e + 1) p)))"
        by (rule drop_after_last) (rule Some)
      finally show ?thesis by (simp only:) (auto dest: set_takeWhileD)
    qed
  qed
qed

subsection \<open>Substrings\<close>

lemma find_str_iff_sublist: "find_str pat s \<noteq> None \<longleftrightarrow> sublist pat s"
proof (induction s)
  case Nil
  then show ?case by (auto simp: find_str.simps)
next
  case (Cons x xs)
  have "prefix pat (x # xs) \<longleftrightarrow> take (length pat) (x # xs) = pat"
    using starts_with_iff_prefix [of "x # xs" pat] by (simp add: starts_with_def)
  with Cons show ?case by (auto simp: find_str.simps [of pat "x # xs"] sublist_Cons_right)
qed

end
