(* ===== verification/Numerals.thy ===== *)
theory Numerals
  imports Text
begin

text \<open>
  Reading and printing integers: the parsers \<open>parse_u64\<close>, \<open>parse_i64\<close> and \<open>parse_size_bytes\<close> of
  \<open>src/src/internal.hh\<close> over \<open>strtoull\<close> and \<open>strtoll\<close> of the C library, and the decimal output of
  \<open>std::to_string\<close> and \<open>operator <<\<close>. A parser that returns \<open>false\<close> is \<open>None\<close>; one that returns
  \<open>true\<close> and stores a value is \<open>Some\<close> of it. The C functions are those of C17: prefixes 0x and 0,
  no 0b, one optional sign.
\<close>

section \<open>strtoull and strtoll\<close>

definition digit_value :: "char \<Rightarrow> nat option" where
  "digit_value c = (let n = (of_char c :: nat)
     in if 48 \<le> n \<and> n \<le> 57 then Some (n - 48)
        else if 97 \<le> n \<and> n \<le> 122 then Some (n - 87)
        else if 65 \<le> n \<and> n \<le> 90 then Some (n - 55)
        else None)"

definition is_digit_in :: "nat \<Rightarrow> char \<Rightarrow> bool" where
  "is_digit_in b c = (case digit_value c of None \<Rightarrow> False | Some d \<Rightarrow> d < b)"

definition digits_to_nat :: "nat \<Rightarrow> string \<Rightarrow> nat" where
  "digits_to_nat b ds =
     foldl (\<lambda>acc c. acc * b + (case digit_value c of None \<Rightarrow> 0 | Some d \<Rightarrow> d)) 0 ds"

definition strip_sign :: "string \<Rightarrow> bool \<times> string" where
  "strip_sign s = (case s of [] \<Rightarrow> (False, [])
     | c # r \<Rightarrow> if c = CHR ''-'' then (True, r) else if c = CHR ''+'' then (False, r) else (False, s))"

definition has_hex_prefix :: "string \<Rightarrow> bool" where
  "has_hex_prefix s = (case s of
       z # x # d # _ \<Rightarrow> z = CHR ''0'' \<and> (x = CHR ''x'' \<or> x = CHR ''X'') \<and> is_digit_in 16 d
     | _ \<Rightarrow> False)"

definition number_base :: "nat \<Rightarrow> string \<Rightarrow> nat \<times> string" where
  "number_base base s =
     (if (base = 0 \<or> base = 16) \<and> has_hex_prefix s then (16, drop 2 s)
      else if base = 0 then (if s \<noteq> [] \<and> hd s = CHR ''0'' then 8 else 10, s)
      else (base, s))"

text \<open>Sign, magnitude and the characters left over; \<open>None\<close> when no conversion is possible.\<close>

definition strto_scan :: "nat \<Rightarrow> string \<Rightarrow> (bool \<times> nat \<times> string) option" where
  "strto_scan base s =
     (let (neg, t) = strip_sign (dropWhile isspace s);
          (b, u) = number_base base t;
          ds = takeWhile (is_digit_in b) u
      in if ds = [] then None else Some (neg, digits_to_nat b ds, dropWhile (is_digit_in b) u))"

text \<open>
  The value returned, whether \<open>errno\<close> was set, and \<open>*end\<close>; \<open>end\<close> is the start of the string when
  nothing was converted.
\<close>

definition strtoull :: "nat \<Rightarrow> string \<Rightarrow> u64 \<times> bool \<times> string" where
  "strtoull base s = (case strto_scan base s of
       None \<Rightarrow> (0, False, s)
     | Some (neg, m, rest) \<Rightarrow>
         if 18446744073709551615 < m then (u64_max, True, rest)
         else (if neg then - word_of_nat m else word_of_nat m, False, rest))"

definition strtoll :: "nat \<Rightarrow> string \<Rightarrow> i64 \<times> bool \<times> string" where
  "strtoll base s = (case strto_scan base s of
       None \<Rightarrow> (0, False, s)
     | Some (neg, m, rest) \<Rightarrow>
         (let v = (if neg then - int m else int m)
          in if v < - 9223372036854775808 then (word_of_int (- 9223372036854775808), True, rest)
             else if 9223372036854775807 < v then (word_of_int 9223372036854775807, True, rest)
             else (word_of_int v, False, rest)))"

section \<open>The parsers\<close>

definition parse_u64 :: "string \<Rightarrow> u64 option" where
  "parse_u64 txt = (let trimmed = trim txt
     in if trimmed = [] \<or> hd trimmed = CHR ''-'' then None
        else let (parsed, err, rest) = strtoull 0 (c_str trimmed)
          in if err \<or> rest = c_str trimmed then None
             else if list_all isspace rest then Some parsed else None)"

definition parse_i64 :: "string \<Rightarrow> i64 option" where
  "parse_i64 txt = (let trimmed = trim txt
     in if trimmed = [] then None
        else let (parsed, err, rest) = strtoll 0 (c_str trimmed)
          in if err \<or> rest = c_str trimmed then None
             else if list_all isspace rest then Some parsed else None)"

definition size_multiplier :: "string \<Rightarrow> u64 option" where
  "size_multiplier suf =
     (if suf = ''k'' \<or> suf = ''kb'' \<or> suf = ''kib'' then Some 1024
      else if suf = ''m'' \<or> suf = ''mb'' \<or> suf = ''mib'' then Some (1024 * 1024)
      else if suf = ''g'' \<or> suf = ''gb'' \<or> suf = ''gib'' then Some (1024 * 1024 * 1024)
      else if suf \<noteq> [] \<and> suf \<noteq> ''b'' then None
      else Some 1)"

definition parse_size_bytes :: "string \<Rightarrow> u64 option" where
  "parse_size_bytes txt = (let val = trim txt
     in if val = [] \<or> hd val = CHR ''-'' then None
        else let (parsed, err, rest) = strtoull 10 (c_str val)
          in if err \<or> rest = c_str val then None
             else (case size_multiplier (map tolower (trim rest)) of
                 None \<Rightarrow> None
               | Some m \<Rightarrow> if m \<noteq> 0 \<and> parsed > u64_max div m then None else Some (parsed * m)))"

section \<open>Decimal output\<close>

fun dec :: "nat \<Rightarrow> string" where
  "dec n = (if n < 10 then [char_of (48 + n)] else dec (n div 10) @ [char_of (48 + n mod 10)])"

declare dec.simps [simp del]

definition to_string_u64 :: "u64 \<Rightarrow> string" where
  "to_string_u64 v = dec (unat v)"

definition to_string_u32 :: "u32 \<Rightarrow> string" where
  "to_string_u32 v = dec (unat v)"

definition to_string_i64 :: "i64 \<Rightarrow> string" where
  "to_string_i64 v = (if sint v < 0 then CHR ''-'' # dec (nat (- sint v)) else dec (nat (sint v)))"

section \<open>Digits\<close>

lemma digits_to_nat_Nil [simp]: "digits_to_nat b [] = 0"
  by (simp add: digits_to_nat_def)

lemma digits_to_nat_snoc:
  "digits_to_nat b (ds @ [c]) = digits_to_nat b ds * b + (case digit_value c of None \<Rightarrow> 0 | Some d \<Rightarrow> d)"
  by (simp add: digits_to_nat_def)

lemma digit_value_of_nat: "d < 10 \<Longrightarrow> digit_value (char_of (48 + d)) = Some d"
  by (simp add: digit_value_def of_char_of)

lemma is_digit_not_space: "is_digit_in b c \<Longrightarrow> \<not> isspace c"
  by (auto simp: is_digit_in_def digit_value_def isspace_def)

lemma is_digit_facts:
  assumes "is_digit_in b c"
  shows "c \<noteq> CHR ''-''" "c \<noteq> CHR ''+''" "c \<noteq> CHR 0x00" "c \<noteq> CHR '',''" "c \<noteq> CHR '':''"
  using assms by (auto simp: is_digit_in_def digit_value_def)

lemma is_digit_mono: "is_digit_in b c \<Longrightarrow> b \<le> b' \<Longrightarrow> is_digit_in b' c"
  by (auto simp: is_digit_in_def split: option.splits)

lemma digit_value_small: "digit_value c = Some d \<Longrightarrow> d < 36"
  by (auto simp: digit_value_def Let_def split: if_splits)

lemma dec_induct [case_names small step]:
  fixes n :: nat
  assumes "\<And>n. n < 10 \<Longrightarrow> P n" and "\<And>n. 10 \<le> n \<Longrightarrow> P (n div 10) \<Longrightarrow> P n"
  shows "P n"
proof (induction n rule: less_induct)
  case (less n)
  show ?case
  proof (cases "n < 10")
    case False
    then show ?thesis using less [of "n div 10"] assms(2) [of n] by simp
  qed (rule assms(1))
qed

lemma dec_small: "n < 10 \<Longrightarrow> dec n = [char_of (48 + n)]"
  by (simp add: dec.simps)

lemma dec_step: "10 \<le> n \<Longrightarrow> dec n = dec (n div 10) @ [char_of (48 + n mod 10)]"
  by (subst dec.simps) simp

lemma dec_not_Nil [simp]: "dec n \<noteq> []"
  by (subst dec.simps) simp

lemma dec_digits: "c \<in> set (dec n) \<Longrightarrow> is_digit_in 10 c"
proof (induction n rule: dec_induct)
  case (small n)
  then show ?case using digit_value_of_nat [of n] by (simp add: dec_small is_digit_in_def)
next
  case (step n)
  then show ?case using digit_value_of_nat [of "n mod 10"] by (auto simp: dec_step is_digit_in_def)
qed

lemma digits_to_nat_dec [simp]: "digits_to_nat 10 (dec n) = n"
proof (induction n rule: dec_induct)
  case (small n)
  then show ?case using digit_value_of_nat [of n] by (simp add: dec_small digits_to_nat_def)
next
  case (step n)
  then show ?case using digit_value_of_nat [of "n mod 10"] by (simp add: dec_step digits_to_nat_snoc)
qed

lemma dec_inject [simp]: "dec m = dec n \<longleftrightarrow> m = n"
  by (metis digits_to_nat_dec)

lemma char_of_48: "char_of (48 :: nat) = CHR ''0''"
proof -
  have "char_of (of_char (CHR ''0'') :: nat) = CHR ''0''" by (rule char_of_char)
  then show ?thesis by simp
qed

lemma dec_leading_zero: "hd (dec n) = CHR ''0'' \<longleftrightarrow> n = 0"
proof (induction n rule: dec_induct)
  case (small n)
  have "char_of (48 + n) = CHR ''0'' \<longleftrightarrow> n = 0"
    using small digit_value_of_nat [of n] digit_value_of_nat [of 0] char_of_48
    by (metis add_0_right option.inject zero_less_numeral)
  with small show ?case by (simp add: dec_small)
next
  case (step n)
  then show ?case by (simp add: dec_step)
qed

lemma dec_zero: "dec 0 = ''0''"
  by (simp add: dec_small char_of_48)

section \<open>The grammar the parsers accept\<close>

text \<open>
  The numerals of C with base detection, as a relation between a text and its value: decimal
  without a leading zero, octal after a zero, hexadecimal after 0x.
\<close>

inductive numeral_text :: "string \<Rightarrow> nat \<Rightarrow> bool" where
  decimal: "ds \<noteq> [] \<Longrightarrow> hd ds \<noteq> CHR ''0'' \<Longrightarrow> list_all (is_digit_in 10) ds \<Longrightarrow>
    numeral_text ds (digits_to_nat 10 ds)"
| octal: "list_all (is_digit_in 8) ds \<Longrightarrow>
    numeral_text (CHR ''0'' # ds) (digits_to_nat 8 (CHR ''0'' # ds))"
| hex: "ds \<noteq> [] \<Longrightarrow> list_all (is_digit_in 16) ds \<Longrightarrow> x = CHR ''x'' \<or> x = CHR ''X'' \<Longrightarrow>
    numeral_text (CHR ''0'' # x # ds) (digits_to_nat 16 ds)"

lemma takeWhile_list_all_append:
  "list_all P ds \<Longrightarrow> rest = [] \<or> \<not> P (hd rest) \<Longrightarrow>
   takeWhile P (ds @ rest) = ds \<and> dropWhile P (ds @ rest) = rest"
  by (induction ds) (auto simp: takeWhile_hd dropWhile_hd)

lemma is_digit_zero: "is_digit_in 8 (CHR ''0'')" "is_digit_in 10 (CHR ''0'')"
  by (simp_all add: is_digit_in_def digit_value_def)

lemma not_digit_x: "\<not> is_digit_in 8 (CHR ''x'')" "\<not> is_digit_in 8 (CHR ''X'')"
  by (simp_all add: is_digit_in_def digit_value_def)

lemma strip_sign_plain:
  "s = [] \<or> hd s \<noteq> CHR ''-'' \<and> hd s \<noteq> CHR ''+'' \<Longrightarrow> strip_sign s = (False, s)"
  by (cases s) (auto simp: strip_sign_def)

text \<open>What follows a numeral that ends there: nothing, or a character that is no digit at all.\<close>

definition ends_number :: "string \<Rightarrow> bool" where
  "ends_number rest \<longleftrightarrow> rest = [] \<or> digit_value (hd rest) = None"

lemma ends_number_stop: "ends_number rest \<Longrightarrow> rest = [] \<or> \<not> is_digit_in b (hd rest)"
  by (auto simp: ends_number_def is_digit_in_def)

lemma digit_value_space: "isspace c \<Longrightarrow> digit_value c = None"
  by (auto simp: isspace_def digit_value_def)

lemma ends_number_space: "rest = [] \<or> isspace (hd rest) \<Longrightarrow> ends_number rest"
  by (auto simp: ends_number_def digit_value_space)

lemma numeral_text_first:
  "numeral_text t n \<Longrightarrow> t \<noteq> [] \<and> is_digit_in 10 (hd t)"
  by (erule numeral_text.cases) (auto simp: is_digit_zero neq_Nil_conv)

lemma numeral_text_chars: "numeral_text t n \<Longrightarrow> c \<in> set t \<Longrightarrow> digit_value c \<noteq> None"
  by (erule numeral_text.cases)
     (auto simp: list_all_iff is_digit_in_def digit_value_def split: option.splits if_splits)

lemma has_hex_prefix_octal:
  "list_all (is_digit_in 8) ds \<Longrightarrow> ends_number rest \<Longrightarrow> \<not> has_hex_prefix (CHR ''0'' # ds @ rest)"
proof -
  assume a: "list_all (is_digit_in 8) ds" "ends_number rest"
  show ?thesis
  proof (cases "ds @ rest")
    case Nil
    then show ?thesis by (simp add: has_hex_prefix_def)
  next
    case (Cons x u)
    have "x \<noteq> CHR ''x'' \<and> x \<noteq> CHR ''X''"
    proof (cases ds)
      case Nil
      with Cons a show ?thesis by (auto simp: ends_number_def digit_value_def)
    next
      case (Cons y ys)
      with \<open>ds @ rest = x # u\<close> a show ?thesis using not_digit_x by auto
    qed
    with Cons show ?thesis by (auto simp: has_hex_prefix_def split: list.splits)
  qed
qed

lemma number_base_numeral:
  assumes "numeral_text t n" "ends_number rest"
  obtains b u where "number_base 0 (t @ rest) = (b, u @ rest)" "u \<noteq> []"
    "list_all (is_digit_in b) u" "digits_to_nat b u = n"
  using assms
proof (cases rule: numeral_text.cases)
  case decimal
  then have "number_base 0 (t @ rest) = (10, t @ rest)"
    by (cases t) (auto simp: number_base_def has_hex_prefix_def split: list.splits)
  with decimal that show thesis by blast
next
  case (octal ds)
  then have "number_base 0 (t @ rest) = (8, t @ rest)"
    using has_hex_prefix_octal [OF _ assms(2)] by (simp add: number_base_def)
  moreover have "list_all (is_digit_in 8) t" using octal is_digit_zero by simp
  ultimately show thesis using octal that by blast
next
  case (hex ds x)
  then have "number_base 0 (t @ rest) = (16, ds @ rest)"
    by (cases ds) (auto simp: number_base_def has_hex_prefix_def)
  with hex that show thesis by blast
qed

lemma strto_scan_unsigned:
  assumes "numeral_text t n" "ends_number rest"
  shows "strto_scan 0 (t @ rest) = Some (False, n, rest)"
proof -
  obtain b u where u: "number_base 0 (t @ rest) = (b, u @ rest)" "u \<noteq> []"
      "list_all (is_digit_in b) u" "digits_to_nat b u = n"
    using assms by (rule number_base_numeral)
  have t: "t \<noteq> []" "is_digit_in 10 (hd t)" using numeral_text_first [OF assms(1)] by auto
  then have "dropWhile isspace (t @ rest) = t @ rest"
    by (intro dropWhile_hd) (auto dest: is_digit_not_space)
  moreover have "strip_sign (t @ rest) = (False, t @ rest)"
    using t by (intro strip_sign_plain) (auto dest: is_digit_facts)
  ultimately show ?thesis
    using u takeWhile_list_all_append [OF u(3) ends_number_stop [OF assms(2)]]
    by (simp add: strto_scan_def Let_def)
qed

lemma strto_scan_signed:
  assumes "numeral_text t n" "ends_number rest" "c = CHR ''-'' \<or> c = CHR ''+''"
  shows "strto_scan 0 (c # t @ rest) = Some (c = CHR ''-'', n, rest)"
proof -
  obtain b u where u: "number_base 0 (t @ rest) = (b, u @ rest)" "u \<noteq> []"
      "list_all (is_digit_in b) u" "digits_to_nat b u = n"
    using assms(1,2) by (rule number_base_numeral)
  have "dropWhile isspace (c # t @ rest) = c # t @ rest"
    using assms(3) by (auto simp: isspace_def)
  moreover have "strip_sign (c # t @ rest) = (c = CHR ''-'', t @ rest)"
    using assms(3) by (auto simp: strip_sign_def)
  ultimately show ?thesis
    using u takeWhile_list_all_append [OF u(3) ends_number_stop [OF assms(2)]]
    by (simp add: strto_scan_def Let_def)
qed

lemma number_base_sound:
  assumes "number_base 0 s = (b, u)" "ds = takeWhile (is_digit_in b) u" "ds \<noteq> []"
  obtains t where "numeral_text t (digits_to_nat b ds)" "s = t @ dropWhile (is_digit_in b) u"
proof (cases "has_hex_prefix s")
  case True
  then obtain x d r where s: "s = CHR ''0'' # x # d # r" "x = CHR ''x'' \<or> x = CHR ''X''"
    by (auto simp: has_hex_prefix_def split: list.splits)
  with True assms(1) have b: "b = 16" "u = d # r" by (auto simp: number_base_def)
  have "list_all (is_digit_in 16) ds" using assms(2) b by (auto simp: list_all_iff dest: set_takeWhileD)
  then have "numeral_text (CHR ''0'' # x # ds) (digits_to_nat b ds)"
    using s(2) assms(3) b by (auto intro: numeral_text.hex)
  moreover have "s = (CHR ''0'' # x # ds) @ dropWhile (is_digit_in b) u"
    using s b by (simp add: assms(2) del: takeWhile.simps dropWhile.simps)
  ultimately show thesis by (rule that)
next
  case False
  then have u: "u = s" and b: "b = (if s \<noteq> [] \<and> hd s = CHR ''0'' then 8 else 10)"
    using assms(1) by (auto simp: number_base_def)
  have s: "s = ds @ dropWhile (is_digit_in b) u" using assms(2) u by simp
  have all: "list_all (is_digit_in b) ds" using assms(2) by (auto simp: list_all_iff dest: set_takeWhileD)
  have hd: "hd s = hd ds" using assms(3) s by (metis hd_append2)
  have "numeral_text ds (digits_to_nat b ds)"
  proof (cases "hd ds = CHR ''0''")
    case True
    then obtain r where ds: "ds = CHR ''0'' # r" using assms(3) by (cases ds) auto
    moreover have "b = 8" using b hd True s assms(3) by auto
    ultimately show ?thesis using all numeral_text.octal [of r] by simp
  next
    case False
    then have "b = 10" using b hd by simp
    with False all assms(3) show ?thesis by (auto intro: numeral_text.decimal)
  qed
  with s show thesis by (rule that [rotated])
qed

lemma strto_scan_sound:
  assumes "strto_scan 0 s = Some (neg, m, rest)" "s = [] \<or> \<not> isspace (hd s)"
  obtains t where "numeral_text t m" "\<not> neg \<and> s = t @ rest \<or> (\<exists>c. s = c # t @ rest \<and> (if neg then c = CHR ''-'' else c = CHR ''+''))"
proof -
  have dw: "dropWhile isspace s = s" using assms(2) by (rule dropWhile_hd)
  obtain sg u where sg: "strip_sign s = (sg, u)" by (cases "strip_sign s")
  obtain b v where nb: "number_base 0 u = (b, v)" by (cases "number_base 0 u")
  have ne: "takeWhile (is_digit_in b) v \<noteq> []" and eq: "neg = sg" "m = digits_to_nat b (takeWhile (is_digit_in b) v)"
    "rest = dropWhile (is_digit_in b) v"
    using assms(1) by (auto simp: strto_scan_def Let_def dw sg nb split: if_splits)
  obtain t where t: "numeral_text t m" "u = t @ rest"
    using number_base_sound [OF nb refl ne] eq by metis
  have "\<not> sg \<and> s = u \<or> (\<exists>c. s = c # u \<and> (if sg then c = CHR ''-'' else c = CHR ''+''))"
    using sg by (auto simp: strip_sign_def split: list.splits if_splits)
  with t eq that show thesis by auto
qed

section \<open>parse\_u64 and parse\_i64 against the grammar\<close>

lemma c_str_id: "CHR 0x00 \<notin> set s \<Longrightarrow> c_str s = s"
  by (simp add: c_str_def takeWhile_without)

lemma trim_nul_free: "CHR 0x00 \<notin> set s \<Longrightarrow> CHR 0x00 \<notin> set (trim s)"
  using set_trim by blast

text \<open>After trimming there is no white space left at the end for the loop over \<open>*end\<close> to accept.\<close>

lemma trimmed_rest_Nil:
  "trim s = a @ rest \<Longrightarrow> list_all isspace rest \<Longrightarrow> rest = []"
proof (rule ccontr)
  assume t: "trim s = a @ rest" "list_all isspace rest" and ne: "rest \<noteq> []"
  then have "last (trim s) = last rest" "trim s \<noteq> []" by auto
  moreover have "isspace (last rest)" using t(2) ne by (auto simp: list_all_iff)
  ultimately show False using trim_ends [of s] by simp
qed

definition u64_text :: "string \<Rightarrow> nat \<Rightarrow> bool" where
  "u64_text s n \<longleftrightarrow> (\<exists>t. numeral_text t n \<and> (s = t \<or> s = CHR ''+'' # t))"

definition i64_text :: "string \<Rightarrow> int \<Rightarrow> bool" where
  "i64_text s v \<longleftrightarrow> (\<exists>t n. numeral_text t n \<and>
     (s = t \<and> v = int n \<or> s = CHR ''+'' # t \<and> v = int n \<or> s = CHR ''-'' # t \<and> v = - int n))"

lemma trim_head: "trim s = [] \<or> \<not> isspace (hd (trim s))"
  using trim_ends by blast

lemma u64_text_scan:
  "u64_text s n \<Longrightarrow> strto_scan 0 s = Some (False, n, []) \<and> s \<noteq> [] \<and> hd s \<noteq> CHR ''-''"
  using strto_scan_unsigned [of _ n "[]"] strto_scan_signed [of _ n "[]" "CHR ''+''"]
  by (force simp: u64_text_def ends_number_def dest: numeral_text_first is_digit_facts)

lemma i64_text_scan:
  "i64_text s v \<Longrightarrow> \<exists>neg n. strto_scan 0 s = Some (neg, n, []) \<and> s \<noteq> [] \<and> v = (if neg then - int n else int n)"
proof -
  assume "i64_text s v"
  then obtain t n where t: "numeral_text t n" "s = t \<and> v = int n \<or> s = CHR ''+'' # t \<and> v = int n \<or>
     s = CHR ''-'' # t \<and> v = - int n" by (auto simp: i64_text_def)
  have e: "ends_number []" by (simp add: ends_number_def)
  show ?thesis
    using t strto_scan_unsigned [OF t(1) e] strto_scan_signed [OF t(1) e, of "CHR ''+''"]
      strto_scan_signed [OF t(1) e, of "CHR ''-''"] numeral_text_first [OF t(1)] by auto
qed

theorem parse_u64_iff:
  assumes "CHR 0x00 \<notin> set s"
  shows "parse_u64 s = Some v \<longleftrightarrow> u64_text (trim s) (unat v)"
proof
  have cs: "c_str (trim s) = trim s" using assms by (simp add: c_str_id trim_nul_free)
  assume "parse_u64 s = Some v"
  then obtain neg m rest where sc: "strto_scan 0 (trim s) = Some (neg, m, rest)"
    and m: "m \<le> 18446744073709551615" and v: "v = (if neg then - word_of_nat m else word_of_nat m)"
    and sp: "list_all isspace rest" and nm: "hd (trim s) \<noteq> CHR ''-''"
    by (auto simp: parse_u64_def strtoull_def cs Let_def split: if_splits option.splits)
  obtain t where t: "numeral_text t m" "\<not> neg \<and> trim s = t @ rest \<or>
      (\<exists>c. trim s = c # t @ rest \<and> (if neg then c = CHR ''-'' else c = CHR ''+''))"
    using strto_scan_sound [OF sc trim_head] by metis
  have "rest = []" using t(2) trimmed_rest_Nil [OF _ sp] by (metis append_Cons)
  moreover have "\<not> neg" using t(2) nm by auto
  ultimately have "u64_text (trim s) m" using t by (auto simp: u64_text_def)
  moreover have "unat v = m" using v m \<open>\<not> neg\<close> by (simp add: unat_word_of_nat_small)
  ultimately show "u64_text (trim s) (unat v)" by simp
next
  have cs: "c_str (trim s) = trim s" using assms by (simp add: c_str_id trim_nul_free)
  assume "u64_text (trim s) (unat v)"
  from u64_text_scan [OF this] show "parse_u64 s = Some v"
    using unat_le_u64_max [of v]
    by (auto simp: parse_u64_def strtoull_def cs Let_def)
qed

theorem parse_i64_iff:
  assumes "CHR 0x00 \<notin> set s"
  shows "parse_i64 s = Some v \<longleftrightarrow> i64_text (trim s) (sint v)"
proof
  have cs: "c_str (trim s) = trim s" using assms by (simp add: c_str_id trim_nul_free)
  assume "parse_i64 s = Some v"
  then obtain neg m rest where sc: "strto_scan 0 (trim s) = Some (neg, m, rest)"
    and b: "- 9223372036854775808 \<le> (if neg then - int m else int m)" "(if neg then - int m else int m) \<le> 9223372036854775807"
    and v: "v = word_of_int (if neg then - int m else int m)" and sp: "list_all isspace rest"
    by (auto simp: parse_i64_def strtoll_def cs Let_def split: if_splits option.splits)
  obtain t where t: "numeral_text t m" "\<not> neg \<and> trim s = t @ rest \<or>
      (\<exists>c. trim s = c # t @ rest \<and> (if neg then c = CHR ''-'' else c = CHR ''+''))"
    using strto_scan_sound [OF sc trim_head] by metis
  have "rest = []" using t(2) trimmed_rest_Nil [OF _ sp] by (metis append_Cons)
  then have "i64_text (trim s) (if neg then - int m else int m)"
    using t by (auto simp: i64_text_def split: if_splits)
  moreover have "sint v = (if neg then - int m else int m)"
    unfolding v by (rule sint_word_of_int_small) (use b in auto)
  ultimately show "i64_text (trim s) (sint v)" by simp
next
  have cs: "c_str (trim s) = trim s" using assms by (simp add: c_str_id trim_nul_free)
  assume "i64_text (trim s) (sint v)"
  then obtain neg n where n: "strto_scan 0 (trim s) = Some (neg, n, [])" "trim s \<noteq> []"
    "sint v = (if neg then - int n else int n)" using i64_text_scan by blast
  from sint_i64_bounds [of v] n(1,2) show "parse_i64 s = Some v"
    by (simp add: parse_i64_def strtoll_def cs Let_def n(3) [symmetric])
qed

section \<open>Round trips\<close>

text \<open>
  What a number printer and a number parser promise each other. The clients of the parsers (the
  file readers and the CPU list) use only this.
\<close>

locale number_codec =
  fixes show_num :: "'a \<Rightarrow> string"
    and parse_num :: "string \<Rightarrow> 'a option"
  assumes parse_padded: "\<forall>c \<in> set a. isspace c \<Longrightarrow> \<forall>c \<in> set b. isspace c \<Longrightarrow>
      parse_num (a @ show_num v @ b) = Some v"
    and show_visible: "show_num v \<noteq> [] \<and> (\<forall>c \<in> set (show_num v). \<not> isspace c)"
begin

lemma parse_show: "parse_num (show_num v) = Some v"
  using parse_padded [of "[]" "[]"] by simp

lemma show_inject: "show_num v = show_num w \<longleftrightarrow> v = w"
  using parse_show by (metis option.inject)

lemma trim_show: "trim (show_num v) = show_num v"
  using show_visible by (simp add: trim_no_space)

lemma split_words_show: "split_words (show_num v) = [show_num v]"
  using split_words_step [of "[]" "show_num v" "[]"] show_visible
  by (simp add: split_words_blank)

lemma show_no_newline: "CHR 0x0A \<notin> set (show_num v)"
  using show_visible by (auto simp: isspace_def)

end

lemma dec_numeral_text: "numeral_text (dec n) n"
proof (cases "n = 0")
  case True
  then show ?thesis using numeral_text.octal [of "[]"]
    by (simp add: dec_zero digits_to_nat_def digit_value_def)
next
  case False
  then have "hd (dec n) \<noteq> CHR ''0''" by (simp add: dec_leading_zero)
  then show ?thesis using numeral_text.decimal [of "dec n"]
    by (simp add: list_all_iff dec_digits)
qed

lemma numeral_text_visible: "numeral_text t n \<Longrightarrow> c \<in> set t \<Longrightarrow> \<not> isspace c \<and> c \<noteq> CHR 0x00"
  using numeral_text_chars [of t n c] by (auto simp: isspace_def digit_value_def split: if_splits)

lemma trim_padded_visible:
  "\<forall>c \<in> set a. isspace c \<Longrightarrow> \<forall>c \<in> set b. isspace c \<Longrightarrow> \<forall>c \<in> set s. \<not> isspace c \<Longrightarrow>
   trim (a @ s @ b) = s"
  by (rule trim_pad) auto

lemma isspace_not_nul: "isspace c \<Longrightarrow> c \<noteq> CHR 0x00"
  by (auto simp: isspace_def)

interpretation u64_codec: number_codec to_string_u64 parse_u64
proof
  fix a b :: string and v :: u64
  assume sp: "\<forall>c \<in> set a. isspace c" "\<forall>c \<in> set b. isspace c"
  have vis: "\<forall>c \<in> set (to_string_u64 v). \<not> isspace c \<and> c \<noteq> CHR 0x00"
    using numeral_text_visible [OF dec_numeral_text] by (simp add: to_string_u64_def)
  then have "trim (a @ to_string_u64 v @ b) = to_string_u64 v"
    using trim_padded_visible [OF sp] by blast
  moreover have "CHR 0x00 \<notin> set (a @ to_string_u64 v @ b)"
    using sp vis isspace_not_nul by auto
  ultimately show "parse_u64 (a @ to_string_u64 v @ b) = Some v"
    using dec_numeral_text by (auto simp: parse_u64_iff u64_text_def to_string_u64_def)
next
  fix v :: u64
  show "to_string_u64 v \<noteq> [] \<and> (\<forall>c \<in> set (to_string_u64 v). \<not> isspace c)"
    using numeral_text_visible [OF dec_numeral_text] by (simp add: to_string_u64_def)
qed

lemma i64_text_to_string: "i64_text (to_string_i64 v) (sint v)"
  using dec_numeral_text by (fastforce simp: i64_text_def to_string_i64_def)

lemma to_string_i64_visible: "c \<in> set (to_string_i64 v) \<Longrightarrow> \<not> isspace c \<and> c \<noteq> CHR 0x00"
  using numeral_text_visible [OF dec_numeral_text]
  by (auto simp: to_string_i64_def isspace_def split: if_splits)

interpretation i64_codec: number_codec to_string_i64 parse_i64
proof
  fix a b :: string and v :: i64
  assume sp: "\<forall>c \<in> set a. isspace c" "\<forall>c \<in> set b. isspace c"
  have "trim (a @ to_string_i64 v @ b) = to_string_i64 v"
    using trim_padded_visible [OF sp] to_string_i64_visible by blast
  moreover have "CHR 0x00 \<notin> set (a @ to_string_i64 v @ b)"
    using sp to_string_i64_visible [of "CHR 0x00"] isspace_not_nul [of "CHR 0x00"] by auto
  ultimately show "parse_i64 (a @ to_string_i64 v @ b) = Some v"
    using i64_text_to_string by (simp add: parse_i64_iff)
next
  fix v :: i64
  show "to_string_i64 v \<noteq> [] \<and> (\<forall>c \<in> set (to_string_i64 v). \<not> isspace c)"
    using to_string_i64_visible by (auto simp: to_string_i64_def)
qed

section \<open>Sizes\<close>

lemma strto_scan_decimal:
  assumes "ds \<noteq> []" "list_all (is_digit_in 10) ds" "rest = [] \<or> \<not> is_digit_in 10 (hd rest)"
  shows "strto_scan 10 (ds @ rest) = Some (False, digits_to_nat 10 ds, rest)"
proof -
  have h: "is_digit_in 10 (hd ds)" using assms(1,2) by (cases ds) auto
  then have "dropWhile isspace (ds @ rest) = ds @ rest"
    using assms(1) by (intro dropWhile_hd) (auto dest: is_digit_not_space)
  moreover have "strip_sign (ds @ rest) = (False, ds @ rest)"
    using h assms(1) by (intro strip_sign_plain) (auto dest: is_digit_facts)
  ultimately show ?thesis
    using assms(1) takeWhile_list_all_append [OF assms(2,3)]
    by (simp add: strto_scan_def Let_def number_base_def)
qed

lemma size_multiplier_nonzero: "size_multiplier s = Some m \<Longrightarrow> m \<noteq> 0"
  by (auto simp: size_multiplier_def split: if_splits)

text \<open>
  A size is a decimal number, blanks, and a unit. The result is the exact product when that fits
  64 bits, and a failure otherwise.
\<close>

lemma parse_size_scaled:
  assumes t: "trim s = ds @ rest" "CHR 0x00 \<notin> set s"
    and ds: "ds \<noteq> []" "list_all (is_digit_in 10) ds" "rest = [] \<or> \<not> is_digit_in 10 (hd rest)"
    and m: "size_multiplier (map tolower (trim rest)) = Some m"
  shows "parse_size_bytes s =
    (if digits_to_nat 10 ds * unat m \<le> 18446744073709551615
     then Some (word_of_nat (digits_to_nat 10 ds * unat m)) else None)"
proof -
  let ?n = "digits_to_nat 10 ds"
  have cs: "c_str (trim s) = trim s" using t(2) by (simp add: c_str_id trim_nul_free)
  have sc: "strto_scan 10 (trim s) = Some (False, ?n, rest)"
    unfolding t(1) by (rule strto_scan_decimal [OF ds])
  have hd: "trim s \<noteq> []" "hd (trim s) \<noteq> CHR ''-''" "rest \<noteq> trim s"
    using ds(1,2) is_digit_facts(1) [of 10 "hd ds"] by (auto simp: t(1) neq_Nil_conv)
  have m0: "m \<noteq> 0" by (rule size_multiplier_nonzero [OF m])
  then have m1: "1 \<le> unat m" by (simp add: Suc_leI unat_gt_0)
  show ?thesis
  proof (cases "18446744073709551615 < ?n")
    case True
    moreover have "?n * 1 \<le> ?n * unat m" using m1 by (rule mult_le_mono2)
    ultimately have "\<not> ?n * unat m \<le> 18446744073709551615" by linarith
    with True show ?thesis
      using hd by (simp add: parse_size_bytes_def cs strtoull_def sc Let_def)
  next
    case False
    then have u: "unat (word_of_nat ?n :: u64) = ?n" by (simp add: unat_word_of_nat_small)
    have "parse_size_bytes s = (if word_of_nat ?n > u64_max div m then None else Some (word_of_nat ?n * m))"
      using hd m0 m False by (simp add: parse_size_bytes_def cs strtoull_def sc Let_def)
    moreover have "(word_of_nat ?n :: u64) * m = word_of_nat (?n * unat m)"
      by simp
    ultimately show ?thesis
      using mul_guard_iff [OF m0, of "word_of_nat ?n"] u by (simp add: not_less)
  qed
qed

end
