(* ===== verification/Status_Field.thy ===== *)
theory Status_Field
  imports Numerals
begin

text \<open>
  The vocabulary of \<open>src/include/aview.hh\<close>: the status of a field, the class template \<open>Field\<close>, the
  enumerations with their names (\<open>src/src/core.cc\<close>), the category bit set and the collection
  options.
\<close>

unbundle bit_operations_syntax

section \<open>Status\<close>

datatype status =
    ok | unsupported | perm_denied | not_found | parse_error | invalid_arg | redacted
  | internal_error

fun to_string_status :: "status \<Rightarrow> string" where
  "to_string_status ok = ''ok''"
| "to_string_status unsupported = ''unsupported''"
| "to_string_status perm_denied = ''permission denied''"
| "to_string_status not_found = ''not found''"
| "to_string_status parse_error = ''parse error''"
| "to_string_status invalid_arg = ''invalid argument''"
| "to_string_status redacted = ''redacted''"
| "to_string_status internal_error = ''internal error''"

fun status_code :: "status \<Rightarrow> string" where
  "status_code ok = ''ok''"
| "status_code unsupported = ''unsupported''"
| "status_code perm_denied = ''perm_denied''"
| "status_code not_found = ''not_found''"
| "status_code parse_error = ''parse_error''"
| "status_code invalid_arg = ''invalid_arg''"
| "status_code redacted = ''redacted''"
| "status_code internal_error = ''internal_error''"

definition available :: "status \<Rightarrow> bool" where
  "available st \<longleftrightarrow> st = ok"

lemma status_code_inject: "status_code s = status_code t \<longleftrightarrow> s = t"
  by (cases s; cases t) simp_all

section \<open>Field\<close>

text \<open>
  \<open>T value_{}\<close> is value-initialised: false, 0, or the empty string. The library's class \<open>default\<close>
  carries that value.
\<close>

instantiation bool :: default
begin
definition default_bool :: bool where
  "default_bool = False"
instance ..
end

instantiation list :: (type) default
begin
definition default_list :: "'a list" where
  "default_list = []"
instance ..
end

instantiation word :: (len) default
begin
definition default_word :: "'a word" where
  "default_word = 0"
instance ..
end

record 'a field =
  valid :: bool
  field_status :: status
  val :: 'a

type_synonym bool_field = "bool field"
type_synonym u32_field = "u32 field"
type_synonym u64_field = "u64 field"
type_synonym i64_field = "i64 field"
type_synonym string_field = "string field"

text \<open>\<open>Field() = default\<close>, \<open>Field::value\<close> and \<open>Field::unavailable\<close>.\<close>

definition no_field :: "'a::default field" where
  "no_field = \<lparr>valid = False, field_status = not_found, val = default\<rparr>"

definition field_value :: "'a::default \<Rightarrow> 'a field" where
  "field_value v = no_field\<lparr>valid := True, field_status := ok, val := v\<rparr>"

definition unavailable :: "status \<Rightarrow> 'a::default field" where
  "unavailable st = no_field\<lparr>valid := False, field_status := st\<rparr>"

definition value_or :: "'a field \<Rightarrow> 'a \<Rightarrow> 'a" where
  "value_or f d = (if valid f then val f else d)"

text \<open>Writing through the reference that \<open>get()\<close> returns.\<close>

definition get_assign :: "'a \<Rightarrow> 'a field \<Rightarrow> 'a field" where
  "get_assign v f = f\<lparr>val := v\<rparr>"

lemma field_value_sel [simp]:
  "valid (field_value v)" "field_status (field_value v) = ok" "val (field_value v) = v"
  by (simp_all add: field_value_def)

lemma unavailable_sel [simp]:
  "\<not> valid (unavailable st)" "field_status (unavailable st) = st" "val (unavailable st) = default"
  by (simp_all add: unavailable_def no_field_def)

lemma no_field_unavailable: "no_field = unavailable not_found"
  by (simp add: unavailable_def no_field_def)

lemma field_value_inject [simp]: "field_value v = field_value w \<longleftrightarrow> v = w"
  by (metis field_value_sel(3))

lemma unavailable_inject [simp]: "unavailable s = unavailable t \<longleftrightarrow> s = t"
  by (metis unavailable_sel(2))

lemma field_value_not_unavailable [simp]: "field_value v \<noteq> unavailable st" "unavailable st \<noteq> field_value v"
  by (metis field_value_sel(1) unavailable_sel(1))+

lemma value_or_simps [simp]: "value_or (field_value v) d = v" "value_or (unavailable st) d = d"
  by (simp_all add: value_or_def)

text \<open>
  The contract of a field: it is valid exactly when its status is \<open>ok\<close>. Neither constructor
  enforces it (\<open>unavailable ok\<close> is a legal call), so it is a property of the callers.
\<close>

definition honest :: "'a field \<Rightarrow> bool" where
  "honest f \<longleftrightarrow> (valid f \<longleftrightarrow> field_status f = ok)"

lemma honest_field_value [honest_intros, simp]: "honest (field_value v)"
  by (simp add: honest_def)

lemma honest_unavailable [honest_intros]: "st \<noteq> ok \<Longrightarrow> honest (unavailable st)"
  by (simp add: honest_def)

lemma honest_unavailable_iff [simp]: "honest (unavailable st) \<longleftrightarrow> st \<noteq> ok"
  by (simp add: honest_def)

lemma honest_no_field [honest_intros, simp]: "honest no_field"
  by (simp add: no_field_unavailable)

text \<open>A field of any of the five instances, for statements about all fields of a struct.\<close>

datatype any_field =
    Bool_field bool_field | U32_field u32_field | U64_field u64_field | I64_field i64_field
  | String_field string_field

fun any_honest :: "any_field \<Rightarrow> bool" where
  "any_honest (Bool_field f) = honest f"
| "any_honest (U32_field f) = honest f"
| "any_honest (U64_field f) = honest f"
| "any_honest (I64_field f) = honest f"
| "any_honest (String_field f) = honest f"

fun any_valid :: "any_field \<Rightarrow> bool" where
  "any_valid (Bool_field f) = valid f"
| "any_valid (U32_field f) = valid f"
| "any_valid (U64_field f) = valid f"
| "any_valid (I64_field f) = valid f"
| "any_valid (String_field f) = valid f"

fun any_status :: "any_field \<Rightarrow> status" where
  "any_status (Bool_field f) = field_status f"
| "any_status (U32_field f) = field_status f"
| "any_status (U64_field f) = field_status f"
| "any_status (I64_field f) = field_status f"
| "any_status (String_field f) = field_status f"

section \<open>Enumerations\<close>

datatype arch_type =
    Arch_unknown | Arch_x86 | Arch_x86_64 | Arch_arm | Arch_aarch64 | Arch_riscv32
  | Arch_riscv64 | Arch_ppc64 | Arch_s390x

fun to_string_arch :: "arch_type \<Rightarrow> string" where
  "to_string_arch Arch_unknown = ''unknown''"
| "to_string_arch Arch_x86 = ''x86''"
| "to_string_arch Arch_x86_64 = ''x86_64''"
| "to_string_arch Arch_arm = ''arm''"
| "to_string_arch Arch_aarch64 = ''aarch64''"
| "to_string_arch Arch_riscv32 = ''riscv32''"
| "to_string_arch Arch_riscv64 = ''riscv64''"
| "to_string_arch Arch_ppc64 = ''ppc64''"
| "to_string_arch Arch_s390x = ''s390x''"

datatype cache_type = Cache_unknown | Cache_data | Cache_instruction | Cache_unified

fun to_string_cache :: "cache_type \<Rightarrow> string" where
  "to_string_cache Cache_unknown = ''unknown''"
| "to_string_cache Cache_data = ''data''"
| "to_string_cache Cache_instruction = ''instruction''"
| "to_string_cache Cache_unified = ''unified''"

datatype gpu_vendor = Gpu_unknown | Gpu_intel | Gpu_amd | Gpu_nvidia

fun to_string_gpu :: "gpu_vendor \<Rightarrow> string" where
  "to_string_gpu Gpu_unknown = ''unknown''"
| "to_string_gpu Gpu_intel = ''intel''"
| "to_string_gpu Gpu_amd = ''amd''"
| "to_string_gpu Gpu_nvidia = ''nvidia''"

lemma to_string_arch_inject: "to_string_arch a = to_string_arch b \<longleftrightarrow> a = b"
  by (cases a; cases b) simp_all

section \<open>Categories\<close>

type_synonym collect_category = u64

definition cat_none :: collect_category where "cat_none = 0"
definition cat_os :: collect_category where "cat_os = push_bit 0 1"
definition cat_cpu :: collect_category where "cat_cpu = push_bit 1 1"
definition cat_isa :: collect_category where "cat_isa = push_bit 2 1"
definition cat_cache :: collect_category where "cat_cache = push_bit 3 1"
definition cat_memory :: collect_category where "cat_memory = push_bit 4 1"
definition cat_pci :: collect_category where "cat_pci = push_bit 5 1"
definition cat_gpu :: collect_category where "cat_gpu = push_bit 6 1"
definition cat_perf :: collect_category where "cat_perf = push_bit 7 1"
definition cat_block :: collect_category where "cat_block = push_bit 8 1"
definition cat_net :: collect_category where "cat_net = push_bit 9 1"
definition cat_thermal :: collect_category where "cat_thermal = push_bit 10 1"
definition cat_power :: collect_category where "cat_power = push_bit 11 1"
definition cat_virtualization :: collect_category where "cat_virtualization = push_bit 12 1"
definition cat_platform :: collect_category where "cat_platform = push_bit 13 1"
definition cat_all :: collect_category where "cat_all = NOT 0"

definition cat_or :: "collect_category \<Rightarrow> collect_category \<Rightarrow> collect_category" where
  "cat_or a b = a OR b"

definition cat_and :: "collect_category \<Rightarrow> collect_category \<Rightarrow> collect_category" where
  "cat_and a b = a AND b"

definition has_category :: "collect_category \<Rightarrow> collect_category \<Rightarrow> bool" where
  "has_category flags category \<longleftrightarrow> cat_and flags category \<noteq> 0"

lemmas category_defs = cat_os_def cat_cpu_def cat_isa_def cat_cache_def cat_memory_def cat_pci_def
  cat_gpu_def cat_perf_def cat_block_def cat_net_def cat_thermal_def cat_power_def
  cat_virtualization_def cat_platform_def

lemma has_category_bit: "n < 64 \<Longrightarrow> has_category flags (push_bit n 1) \<longleftrightarrow> bit flags n"
  by (simp add: has_category_def cat_and_def push_bit_eq_mult and_exp_eq_0_iff_not_bit)

lemma has_category_or: "has_category (cat_or a b) c \<longleftrightarrow> has_category a c \<or> has_category b c"
  by (simp add: has_category_def cat_or_def cat_and_def bit_eq_iff bit_simps) blast

lemma has_category_none [simp]: "\<not> has_category cat_none c"
  by (simp add: has_category_def cat_and_def cat_none_def)

lemma has_category_all: "c \<noteq> 0 \<Longrightarrow> has_category cat_all c"
  by (simp add: has_category_def cat_and_def cat_all_def)

section \<open>Options\<close>

record collect_options =
  categories :: collect_category
  procfs_root :: string
  sysfs_root :: string
  etc_root :: string
  dev_root :: string
  allow_slow_probes :: bool
  allow_vendor_libraries :: bool
  allow_perf_open :: bool
  include_sensitive :: bool

definition default_options :: collect_options where
  "default_options = \<lparr>categories = cat_all, procfs_root = ''/proc'', sysfs_root = ''/sys'',
     etc_root = ''/etc'', dev_root = ''/dev'', allow_slow_probes = False,
     allow_vendor_libraries = False, allow_perf_open = False, include_sensitive = True\<rparr>"

definition proc_path :: "collect_options \<Rightarrow> string \<Rightarrow> string" where
  "proc_path options suf = join_path (procfs_root options) suf"

definition sys_path :: "collect_options \<Rightarrow> string \<Rightarrow> string" where
  "sys_path options suf = join_path (sysfs_root options) suf"

definition etc_path :: "collect_options \<Rightarrow> string \<Rightarrow> string" where
  "etc_path options suf = join_path (etc_root options) suf"

definition dev_path :: "collect_options \<Rightarrow> string \<Rightarrow> string" where
  "dev_path options suf = join_path (dev_root options) suf"

lemmas rooted_path_defs = proc_path_def sys_path_def etc_path_def dev_path_def

lemma paths_ignore_categories [simp]:
  "proc_path (opts\<lparr>categories := c\<rparr>) s = proc_path opts s"
  "sys_path (opts\<lparr>categories := c\<rparr>) s = sys_path opts s"
  "etc_path (opts\<lparr>categories := c\<rparr>) s = etc_path opts s"
  "dev_path (opts\<lparr>categories := c\<rparr>) s = dev_path opts s"
  by (simp_all add: rooted_path_defs)

end
