(* ===== verification/Json_Writer.thy ===== *)
theory Json_Writer
  imports Status_Field
begin

text \<open>
  The writer of \<open>src/src/json.cc\<close>: escaping, the class \<open>JsonObject\<close> with its stream and its flag
  \<open>first_\<close>, the five overloads of \<open>field_to_json\<close> and the function template \<open>vector_to_json\<close>.
\<close>

section \<open>Strings\<close>

definition hex_digit :: "nat \<Rightarrow> char" where
  "hex_digit n = (if n < 10 then char_of (48 + n) else char_of (87 + n))"

text \<open>\<open>std::hex << std::setw(4) << std::setfill('0')\<close> for a number below 32.\<close>

definition hex4 :: "nat \<Rightarrow> string" where
  "hex4 n = ''00'' @ [hex_digit (n div 16 mod 16), hex_digit (n mod 16)]"

lemma hex_digit_printable: "n < 16 \<Longrightarrow> of_char (hex_digit n) \<ge> (32 :: nat)"
  by (simp add: hex_digit_def of_char_of)

definition escape_char :: "char \<Rightarrow> string" where
  "escape_char c =
     (if c = CHR 0x22 then [CHR 0x5C, CHR 0x22]
      else if c = CHR 0x5C then [CHR 0x5C, CHR 0x5C]
      else if c = CHR 0x08 then [CHR 0x5C, CHR ''b'']
      else if c = CHR 0x0C then [CHR 0x5C, CHR ''f'']
      else if c = CHR 0x0A then [CHR 0x5C, CHR ''n'']
      else if c = CHR 0x0D then [CHR 0x5C, CHR ''r'']
      else if c = CHR 0x09 then [CHR 0x5C, CHR ''t'']
      else if of_char c < (32 :: nat) then [CHR 0x5C, CHR ''u''] @ hex4 (of_char c)
      else [c])"

definition escape_json :: "string \<Rightarrow> string" where
  "escape_json input = foldl (\<lambda>out c. out @ escape_char c) [] input"

definition json_string :: "string \<Rightarrow> string" where
  "json_string v = [CHR 0x22] @ escape_json v @ [CHR 0x22]"

definition json_bool :: "bool \<Rightarrow> string" where
  "json_bool v = (if v then ''true'' else ''false'')"

section \<open>JsonObject\<close>

record json_object =
  obj_first :: bool
  obj_out :: string

definition new_object :: json_object where
  "new_object = \<lparr>obj_first = True, obj_out = []\<rparr>"

definition add_comma :: "json_object \<Rightarrow> json_object" where
  "add_comma obj = (if \<not> obj_first obj then obj\<lparr>obj_out := obj_out obj @ '',''\<rparr>
                    else obj\<lparr>obj_first := False\<rparr>)"

definition out_append :: "string \<Rightarrow> json_object \<Rightarrow> json_object" where
  "out_append s obj = obj\<lparr>obj_out := obj_out obj @ s\<rparr>"

definition add_raw :: "string \<Rightarrow> string \<Rightarrow> json_object \<Rightarrow> json_object" where
  "add_raw key raw_value obj = out_append (json_string key @ '':'' @ raw_value) (add_comma obj)"

definition add_string :: "string \<Rightarrow> string \<Rightarrow> json_object \<Rightarrow> json_object" where
  "add_string key v obj = add_raw key (json_string v) obj"

definition add_u64 :: "string \<Rightarrow> u64 \<Rightarrow> json_object \<Rightarrow> json_object" where
  "add_u64 key v obj = out_append (json_string key @ '':'' @ to_string_u64 v) (add_comma obj)"

definition add_i64 :: "string \<Rightarrow> i64 \<Rightarrow> json_object \<Rightarrow> json_object" where
  "add_i64 key v obj = out_append (json_string key @ '':'' @ to_string_i64 v) (add_comma obj)"

definition add_bool :: "string \<Rightarrow> bool \<Rightarrow> json_object \<Rightarrow> json_object" where
  "add_bool key v obj = add_raw key (json_bool v) obj"

definition str :: "json_object \<Rightarrow> string" where
  "str obj = ''{'' @ obj_out obj @ ''}''"

section \<open>Fields\<close>

definition string_field_to_json :: "string_field \<Rightarrow> string" where
  "string_field_to_json f =
     (let obj = add_bool ''valid'' (valid f) new_object;
          obj = add_string ''status'' (status_code (field_status f)) obj;
          obj = (if valid f then add_string ''value'' (val f) obj else obj)
      in str obj)"

definition bool_field_to_json :: "bool_field \<Rightarrow> string" where
  "bool_field_to_json f =
     (let obj = add_bool ''valid'' (valid f) new_object;
          obj = add_string ''status'' (status_code (field_status f)) obj;
          obj = (if valid f then add_bool ''value'' (val f) obj else obj)
      in str obj)"

definition u32_field_to_json :: "u32_field \<Rightarrow> string" where
  "u32_field_to_json f =
     (let obj = add_bool ''valid'' (valid f) new_object;
          obj = add_string ''status'' (status_code (field_status f)) obj;
          obj = (if valid f then add_u64 ''value'' (ucast (val f)) obj else obj)
      in str obj)"

definition u64_field_to_json :: "u64_field \<Rightarrow> string" where
  "u64_field_to_json f =
     (let obj = add_bool ''valid'' (valid f) new_object;
          obj = add_string ''status'' (status_code (field_status f)) obj;
          obj = (if valid f then add_u64 ''value'' (val f) obj else obj)
      in str obj)"

definition i64_field_to_json :: "i64_field \<Rightarrow> string" where
  "i64_field_to_json f =
     (let obj = add_bool ''valid'' (valid f) new_object;
          obj = add_string ''status'' (status_code (field_status f)) obj;
          obj = (if valid f then add_i64 ''value'' (val f) obj else obj)
      in str obj)"

text \<open>The five overloads of \<open>field_to_json\<close> and of \<open>add_field\<close>, chosen by the type of the field.\<close>

fun field_to_json :: "any_field \<Rightarrow> string" where
  "field_to_json (String_field f) = string_field_to_json f"
| "field_to_json (Bool_field f) = bool_field_to_json f"
| "field_to_json (U32_field f) = u32_field_to_json f"
| "field_to_json (U64_field f) = u64_field_to_json f"
| "field_to_json (I64_field f) = i64_field_to_json f"

definition add_field :: "string \<Rightarrow> any_field \<Rightarrow> json_object \<Rightarrow> json_object" where
  "add_field key f obj = add_raw key (field_to_json f) obj"

section \<open>Lists\<close>

text \<open>The loop with its stream and its flag \<open>first\<close>.\<close>

fun vector_loop :: "('a \<Rightarrow> string) \<Rightarrow> bool \<Rightarrow> string \<Rightarrow> 'a list \<Rightarrow> string" where
  "vector_loop to_json_fn fst_item out [] = out"
| "vector_loop to_json_fn fst_item out (v # vs) =
     vector_loop to_json_fn False ((if \<not> fst_item then out @ '','' else out) @ to_json_fn v) vs"

definition vector_to_json :: "'a list \<Rightarrow> ('a \<Rightarrow> string) \<Rightarrow> string" where
  "vector_to_json values to_json_fn = vector_loop to_json_fn True ''['' values @ '']''"

section \<open>What an object has written\<close>

text \<open>Items with commas between them.\<close>

fun commas :: "string list \<Rightarrow> string" where
  "commas [] = []"
| "commas [s] = s"
| "commas (s # t # ss) = s @ '','' @ commas (t # ss)"

lemma commas_Cons: "commas (s # ss) = (if ss = [] then s else s @ '','' @ commas ss)"
  by (cases ss) simp_all

lemma commas_snoc: "commas (ss @ [s]) = (if ss = [] then s else commas ss @ '','' @ s)"
  by (induction ss rule: commas.induct) (simp_all add: commas_Cons)

definition show_member :: "string \<times> string \<Rightarrow> string" where
  "show_member m = json_string (fst m) @ '':'' @ snd m"

text \<open>The object after the members \<open>ms\<close> were added, given as pairs of a key and its raw value.\<close>

definition obj_of :: "(string \<times> string) list \<Rightarrow> json_object" where
  "obj_of ms = \<lparr>obj_first = (ms = []), obj_out = commas (map show_member ms)\<rparr>"

lemma new_object_of [json_simps]: "new_object = obj_of []"
  by (simp add: new_object_def obj_of_def)

lemma add_raw_of [json_simps]: "add_raw k raw (obj_of ms) = obj_of (ms @ [(k, raw)])"
  by (simp add: add_raw_def out_append_def add_comma_def obj_of_def commas_snoc show_member_def)

lemma add_string_of [json_simps]: "add_string k v (obj_of ms) = obj_of (ms @ [(k, json_string v)])"
  by (simp add: add_string_def add_raw_of)

lemma add_bool_of [json_simps]: "add_bool k v (obj_of ms) = obj_of (ms @ [(k, json_bool v)])"
  by (simp add: add_bool_def add_raw_of)

lemma add_u64_of [json_simps]: "add_u64 k v (obj_of ms) = obj_of (ms @ [(k, to_string_u64 v)])"
  using add_raw_of [of k "to_string_u64 v" ms] by (simp add: add_u64_def add_raw_def)

lemma add_i64_of [json_simps]: "add_i64 k v (obj_of ms) = obj_of (ms @ [(k, to_string_i64 v)])"
  using add_raw_of [of k "to_string_i64 v" ms] by (simp add: add_i64_def add_raw_def)

lemma add_field_of [json_simps]: "add_field k f (obj_of ms) = obj_of (ms @ [(k, field_to_json f)])"
  by (simp add: add_field_def add_raw_of)

lemma str_of [json_simps]: "str (obj_of ms) = ''{'' @ commas (map show_member ms) @ ''}''"
  by (simp add: str_def obj_of_def)

lemma vector_to_json_commas: "vector_to_json vs f = ''['' @ commas (map f vs) @ '']''"
proof -
  have "vector_loop f False out ws = out @ concat (map (\<lambda>v. '','' @ f v) ws)" for out ws
    by (induction ws arbitrary: out) simp_all
  moreover have "commas (s # ss) = s @ concat (map (\<lambda>t. '','' @ t) ss)" for s ss
    by (induction ss arbitrary: s) simp_all
  ultimately show ?thesis by (cases vs) (simp_all add: vector_to_json_def comp_def)
qed

lemma escape_json_concat: "escape_json s = concat (map escape_char s)"
proof -
  have "foldl (\<lambda>out c. out @ escape_char c) out s = out @ concat (map escape_char s)" for out
    by (induction s arbitrary: out) simp_all
  then show ?thesis by (simp add: escape_json_def)
qed

end
