(* ===== verification/Json_Spec.thy ===== *)
theory Json_Spec
  imports Json_Writer
begin

text \<open>
  What the writer is meant to write: JSON values, their compact text, and a decoder written from
  the grammar of RFC 8259 alone (without insignificant white space and with integers only). The
  decoder gives back every value from its text; this is what makes a report readable.
\<close>

datatype json =
    JNull | JBool bool | JNum int | JStr string | JArr "json list" | JObj "(string \<times> json) list"

section \<open>Texts\<close>

definition show_int :: "int \<Rightarrow> string" where
  "show_int i = (if i < 0 then CHR ''-'' # dec (nat (- i)) else dec (nat i))"

primrec render :: "json \<Rightarrow> string" where
  "render JNull = ''null''"
| "render (JBool b) = json_bool b"
| "render (JNum i) = show_int i"
| "render (JStr s) = json_string s"
| "render (JArr js) = ''['' @ commas (map render js) @ '']''"
| "render (JObj ms) = ''{'' @ commas (map show_member (map (map_prod id render) ms)) @ ''}''"

section \<open>The decoder\<close>

definition simple_escape :: "char \<Rightarrow> char option" where
  "simple_escape e =
     (if e = CHR 0x22 \<or> e = CHR 0x5C \<or> e = CHR ''/'' then Some e
      else if e = CHR ''b'' then Some (CHR 0x08)
      else if e = CHR ''f'' then Some (CHR 0x0C)
      else if e = CHR ''n'' then Some (CHR 0x0A)
      else if e = CHR ''r'' then Some (CHR 0x0D)
      else if e = CHR ''t'' then Some (CHR 0x09)
      else None)"

text \<open>A \<open>\u\<close> escape is read when it names an ASCII character.\<close>

definition ascii_escape :: "string \<Rightarrow> char option" where
  "ascii_escape hs = (if length hs = 4 \<and> list_all (is_digit_in 16) hs \<and> digits_to_nat 16 hs < 128
     then Some (char_of (digits_to_nat 16 hs)) else None)"

function read_string :: "string \<Rightarrow> (string \<times> string) option" where
  "read_string s = (case s of
       [] \<Rightarrow> None
     | c # r \<Rightarrow>
         if c = CHR 0x22 then Some ([], r)
         else if c = CHR 0x5C then
           (if r = [] then None
            else (case simple_escape (hd r) of
                Some x \<Rightarrow> map_option (apfst (Cons x)) (read_string (tl r))
              | None \<Rightarrow>
                  if hd r = CHR ''u'' then
                    (case ascii_escape (take 4 (tl r)) of
                       Some x \<Rightarrow> map_option (apfst (Cons x)) (read_string (drop 4 (tl r)))
                     | None \<Rightarrow> None)
                  else None))
         else if of_char c < (32 :: nat) then None
         else map_option (apfst (Cons c)) (read_string r))"
  by pat_completeness auto
termination
  by (relation "measure length") (auto simp: less_Suc_eq_le)

declare read_string.simps [simp del]

definition read_number :: "string \<Rightarrow> (json \<times> string) option" where
  "read_number s =
     (let (neg, t) = (if s \<noteq> [] \<and> hd s = CHR ''-'' then (True, tl s) else (False, s));
          ds = takeWhile (is_digit_in 10) t
      in if ds = [] \<or> (1 < length ds \<and> hd ds = CHR ''0'') then None
         else Some (JNum (if neg then - int (digits_to_nat 10 ds) else int (digits_to_nat 10 ds)),
                    dropWhile (is_digit_in 10) t))"

fun read_json :: "nat \<Rightarrow> string \<Rightarrow> (json \<times> string) option"
and read_elements :: "nat \<Rightarrow> string \<Rightarrow> (json list \<times> string) option"
and read_members :: "nat \<Rightarrow> string \<Rightarrow> ((string \<times> json) list \<times> string) option" where
  "read_json 0 s = None"
| "read_json (Suc n) s =
     (if s = [] then None
      else if hd s = CHR 0x22 then map_option (apfst JStr) (read_string (tl s))
      else if hd s = CHR ''['' then
        (if tl s \<noteq> [] \<and> hd (tl s) = CHR '']'' then Some (JArr [], tl (tl s))
         else map_option (apfst JArr) (read_elements n (tl s)))
      else if hd s = CHR 0x7B then
        (if tl s \<noteq> [] \<and> hd (tl s) = CHR 0x7D then Some (JObj [], tl (tl s))
         else map_option (apfst JObj) (read_members n (tl s)))
      else if starts_with s ''true'' then Some (JBool True, drop 4 s)
      else if starts_with s ''false'' then Some (JBool False, drop 5 s)
      else if starts_with s ''null'' then Some (JNull, drop 4 s)
      else read_number s)"
| "read_elements 0 s = None"
| "read_elements (Suc n) s = (case read_json n s of
       None \<Rightarrow> None
     | Some (j, r) \<Rightarrow>
         if r = [] then None
         else if hd r = CHR '','' then map_option (apfst (Cons j)) (read_elements n (tl r))
         else if hd r = CHR '']'' then Some ([j], tl r)
         else None)"
| "read_members 0 s = None"
| "read_members (Suc n) s =
     (if s = [] \<or> hd s \<noteq> CHR 0x22 then None
      else (case read_string (tl s) of
          None \<Rightarrow> None
        | Some (k, q) \<Rightarrow>
            if q = [] \<or> hd q \<noteq> CHR '':'' then None
            else (case read_json n (tl q) of
                None \<Rightarrow> None
              | Some (j, r) \<Rightarrow>
                  if r = [] then None
                  else if hd r = CHR '','' then map_option (apfst (Cons (k, j))) (read_members n (tl r))
                  else if hd r = CHR 0x7D then Some ([(k, j)], tl r)
                  else None)))"

text \<open>Two units of fuel per character are enough, because every level of nesting costs one.\<close>

definition decode :: "string \<Rightarrow> json option" where
  "decode s = (case read_json (2 * length s + 2) s of
       Some (j, []) \<Rightarrow> Some j
     | _ \<Rightarrow> None)"

section \<open>Decoding what was rendered\<close>

lemma hex_digit_value: "n < 16 \<Longrightarrow> digit_value (hex_digit n) = Some n"
  by (simp add: hex_digit_def digit_value_def)

lemma ascii_escape_hex4: "n < 32 \<Longrightarrow> ascii_escape (hex4 n) = Some (char_of n)"
proof -
  assume n: "n < 32"
  have "digit_value (CHR ''0'') = Some 0" by (simp add: digit_value_def)
  with n show ?thesis
    using hex_digit_value [of "n div 16 mod 16"] hex_digit_value [of "n mod 16"]
    by (simp add: ascii_escape_def hex4_def is_digit_in_def digits_to_nat_def)
qed

lemma read_string_char:
  "read_string (escape_char c @ r) = map_option (apfst (Cons c)) (read_string r)"
proof -
  consider "c \<in> {CHR 0x22, CHR 0x5C, CHR 0x08, CHR 0x0C, CHR 0x0A, CHR 0x0D, CHR 0x09}"
    | "c \<notin> {CHR 0x22, CHR 0x5C, CHR 0x08, CHR 0x0C, CHR 0x0A, CHR 0x0D, CHR 0x09}" "of_char c < (32 :: nat)"
    | "c \<notin> {CHR 0x22, CHR 0x5C, CHR 0x08, CHR 0x0C, CHR 0x0A, CHR 0x0D, CHR 0x09}" "\<not> of_char c < (32 :: nat)"
    by blast
  then show ?thesis
  proof cases
    case 1
    then show ?thesis by (subst read_string.simps) (auto simp: escape_char_def simple_escape_def)
  next
    case 2
    then have "escape_char c = CHR 0x5C # CHR ''u'' # hex4 (of_char c)" by (simp add: escape_char_def)
    moreover have "length (hex4 (of_char c)) = 4" by (simp add: hex4_def)
    ultimately show ?thesis using 2(2)
      by (subst read_string.simps) (simp add: simple_escape_def ascii_escape_hex4)
  next
    case 3
    then show ?thesis by (subst read_string.simps) (simp add: escape_char_def)
  qed
qed

lemma read_string_escape: "read_string (escape_json s @ CHR 0x22 # r) = Some (s, r)"
proof -
  have "read_string (concat (map escape_char s) @ CHR 0x22 # r) = Some (s, r)"
  proof (induction s)
    case Nil
    show ?case by (subst read_string.simps) simp
  next
    case (Cons c s)
    then show ?case using read_string_char [of c "concat (map escape_char s) @ CHR 0x22 # r"] by simp
  qed
  then show ?thesis by (simp add: escape_json_concat)
qed

definition stops :: "string \<Rightarrow> bool" where
  "stops r \<longleftrightarrow> r = [] \<or> \<not> is_digit_in 10 (hd r)"

lemma digit_chars: "is_digit_in 10 c \<Longrightarrow> c \<notin> {CHR 0x22, CHR ''['', CHR '']'', CHR 0x7B, CHR ''t'', CHR ''f'', CHR ''n'', CHR ''-''}"
  by (auto simp: is_digit_in_def digit_value_def)

lemma digit_stop: "stops r \<Longrightarrow> takeWhile (is_digit_in 10) r = [] \<and> dropWhile (is_digit_in 10) r = r"
  by (cases r) (auto simp: stops_def)

lemma dec_hd_digit: "is_digit_in 10 (hd (dec n))"
  by (rule dec_digits [of _ n]) simp

lemma dec_single: "hd (dec n) = CHR ''0'' \<Longrightarrow> length (dec n) = 1"
  by (simp add: dec_leading_zero dec_zero)

lemma read_number_dec: "stops r \<Longrightarrow> read_number (show_int i @ r) = Some (JNum i, r)"
proof -
  assume r: "stops r"
  have t: "takeWhile (is_digit_in 10) (dec n @ r) = dec n" "dropWhile (is_digit_in 10) (dec n @ r) = r" for n
    using digit_stop [OF r] dec_digits by (auto simp: takeWhile_append2 dropWhile_append2)
  have z: "\<not> (1 < length (dec n) \<and> hd (dec n) = CHR ''0'')" for n
    using dec_single [of n] by auto
  have h: "hd (dec n @ r) \<noteq> CHR ''-''" for n
    using digit_chars [OF dec_hd_digit [of n]] by simp
  show ?thesis using t z h by (auto simp: read_number_def show_int_def Let_def)
qed

text \<open>No text starts with a bracket that closes.\<close>

lemma render_start:
  "render j \<noteq> [] \<and> hd (render j) \<noteq> CHR '']'' \<and> hd (render j) \<noteq> CHR 0x7D"
proof (cases j)
  case (JNum i)
  have "hd (dec n) \<noteq> CHR '']'' \<and> hd (dec n) \<noteq> CHR 0x7D" for n
    using dec_hd_digit [of n] by (auto simp: is_digit_in_def digit_value_def)
  then show ?thesis using JNum by (simp add: show_int_def)
qed (simp_all add: json_bool_def json_string_def)

text \<open>The fuel that a value needs.\<close>

primrec fuel :: "json \<Rightarrow> nat" where
  "fuel JNull = 1"
| "fuel (JBool b) = 1"
| "fuel (JNum i) = 1"
| "fuel (JStr s) = 1"
| "fuel (JArr js) = Suc (sum_list (map (\<lambda>m. Suc m) (map fuel js)))"
| "fuel (JObj ms) = Suc (sum_list (map (\<lambda>m. Suc (snd m)) (map (map_prod id fuel) ms)))"

definition reads_back :: "json \<Rightarrow> bool" where
  "reads_back j \<longleftrightarrow> (\<forall>n r. fuel j \<le> n \<longrightarrow> stops r \<longrightarrow> read_json n (render j @ r) = Some (j, r))"

lemma stops_char [simp]: "stops (CHR '','' # r)" "stops (CHR '']'' # r)" "stops (CHR 0x7D # r)"
  by (simp_all add: stops_def is_digit_in_def digit_value_def)

lemma read_elements_render:
  "js \<noteq> [] \<Longrightarrow> \<forall>j \<in> set js. reads_back j \<Longrightarrow> sum_list (map (\<lambda>m. Suc m) (map fuel js)) \<le> n \<Longrightarrow>
   read_elements n (commas (map render js) @ CHR '']'' # r) = Some (js, r)"
proof (induction js arbitrary: n)
  case (Cons j js)
  then obtain m where n: "n = Suc m" by (cases n) auto
  have j: "stops q \<Longrightarrow> read_json m (render j @ q) = Some (j, q)" for q
    using Cons.prems by (simp add: reads_back_def n)
  show ?case
  proof (cases "js = []")
    case True
    then show ?thesis using j by (simp add: n)
  next
    case False
    have "read_elements m (commas (map render js) @ CHR '']'' # r) = Some (js, r)"
      using Cons.prems False by (intro Cons.IH) (simp_all add: n)
    then show ?thesis using j False by (simp add: n commas_Cons)
  qed
qed simp

lemma read_members_render:
  "ms \<noteq> [] \<Longrightarrow> \<forall>m \<in> set ms. reads_back (snd m) \<Longrightarrow>
   sum_list (map (\<lambda>m. Suc (snd m)) (map (map_prod id fuel) ms)) \<le> n \<Longrightarrow>
   read_members n (commas (map show_member (map (map_prod id render) ms)) @ CHR 0x7D # r) = Some (ms, r)"
proof (induction ms arbitrary: n)
  case (Cons kj ms)
  obtain k j where kj: "kj = (k, j)" by (cases kj)
  from Cons.prems obtain m where n: "n = Suc m" by (cases n) auto
  have j: "stops q \<Longrightarrow> read_json m (render j @ q) = Some (j, q)" for q
    using Cons.prems by (simp add: reads_back_def n kj)
  have k: "read_string (escape_json k @ CHR 0x22 # q) = Some (k, q)" for q
    by (rule read_string_escape)
  have member: "show_member (k, render j) = CHR 0x22 # escape_json k @ CHR 0x22 # CHR '':'' # render j"
    by (simp add: show_member_def json_string_def)
  show ?case
  proof (cases "ms = []")
    case True
    then show ?thesis using j k by (simp add: n kj member)
  next
    case False
    have "read_members m (commas (map show_member (map (map_prod id render) ms)) @ CHR 0x7D # r) = Some (ms, r)"
      using Cons.prems False by (intro Cons.IH) (simp_all add: n)
    then show ?thesis using j k False
      by (simp add: n kj commas_Cons member id_def)
  qed
qed simp

lemma reads_back_all: "reads_back j"
proof (induction j)
  case (JNum i)
  have "read_json (Suc m) (show_int i @ r) = Some (JNum i, r)" if "stops r" for m r
  proof -
    have "hd (dec n) \<notin> {CHR 0x22, CHR ''['', CHR 0x7B, CHR ''t'', CHR ''f'', CHR ''n''}" for n
      using digit_chars [OF dec_hd_digit [of n]] by simp
    then have h: "hd (show_int i @ r) \<notin> {CHR 0x22, CHR ''['', CHR 0x7B, CHR ''t'', CHR ''f'', CHR ''n''}"
      by (simp add: show_int_def)
    have "show_int i @ r \<noteq> []" by (simp add: show_int_def)
    then have "\<not> starts_with (show_int i @ r) w" if "w \<noteq> []" "hd w \<in> {CHR ''t'', CHR ''f'', CHR ''n''}" for w
      using that h by (cases w; cases "show_int i @ r") (auto simp: starts_with_def)
    then show ?thesis using h read_number_dec [OF that, of i] by (simp add: show_int_def)
  qed
  then show ?case by (auto simp: reads_back_def dest!: Suc_le_D)
next
  case (JStr s)
  then show ?case
    by (auto simp: reads_back_def json_string_def read_string_escape dest!: Suc_le_D)
next
  case (JArr js)
  then have js: "\<forall>j \<in> set js. reads_back j" by blast
  have "hd (commas (map render js) @ q) \<noteq> CHR '']''" if "js \<noteq> []" for q
    using that render_start [of "hd js"] by (cases js) (auto simp: commas_Cons)
  then have "read_json (Suc m) (render (JArr js) @ r) = Some (JArr js, r)" if "fuel (JArr js) \<le> Suc m" for m r
    using read_elements_render [OF _ js, of m r] that by (cases "js = []") simp_all
  then show ?case unfolding reads_back_def by (metis Suc_le_D fuel.simps(5))
next
  case (JObj ms)
  then have ms: "\<forall>m \<in> set ms. reads_back (snd m)" by (auto simp: snds.simps)
  have "hd (commas (map show_member (map (map_prod id render) ms)) @ q) \<noteq> CHR 0x7D" if "ms \<noteq> []" for q
    using that by (cases ms) (auto simp: commas_Cons show_member_def json_string_def)
  then have "read_json (Suc m) (render (JObj ms) @ r) = Some (JObj ms, r)" if "fuel (JObj ms) \<le> Suc m" for m r
    using read_members_render [OF _ ms, of m r] that by (cases "ms = []") simp_all
  then show ?case unfolding reads_back_def by (metis Suc_le_D fuel.simps(6))
qed (auto simp: reads_back_def json_bool_def starts_with_def dest!: Suc_le_D)

lemma length_commas: "length (commas ss) + 1 = sum_list (map (\<lambda>s. Suc (length s)) ss) \<or> ss = []"
  by (induction ss rule: commas.induct) auto

lemma sum_double:
  "\<forall>x \<in> set xs. f x \<le> 2 * g x \<Longrightarrow>
   sum_list (map (\<lambda>x. Suc (f x)) xs) \<le> 2 * sum_list (map (\<lambda>x. Suc (g x)) xs)"
  by (induction xs) auto

lemma fuel_bound: "fuel j \<le> 2 * length (render j)"
proof (induction j)
  case (JNum i)
  show ?case by (cases "i < 0") (simp_all add: show_int_def Suc_le_eq)
next
  case (JArr js)
  then have "sum_list (map (\<lambda>m. Suc m) (map fuel js)) \<le> 2 * sum_list (map (\<lambda>s. Suc (length s)) (map render js))"
    using sum_double [of js fuel "\<lambda>j. length (render j)"] by (simp add: comp_def)
  then show ?case using length_commas [of "map render js"] by auto
next
  case (JObj ms)
  have "\<forall>m \<in> set ms. fuel (snd m) \<le> 2 * length (show_member (map_prod id render m))"
    using JObj by (fastforce simp: show_member_def snds.simps)
  then have "sum_list (map (\<lambda>m. Suc (snd m)) (map (map_prod id fuel) ms)) \<le>
      2 * sum_list (map (\<lambda>s. Suc (length s)) (map show_member (map (map_prod id render) ms)))"
    using sum_double [of ms "\<lambda>m. fuel (snd m)" "\<lambda>m. length (show_member (map_prod id render m))"]
    by (simp add: comp_def)
  then show ?case using length_commas [of "map show_member (map (map_prod id render) ms)"] by auto
qed (simp_all add: json_bool_def json_string_def)

lemma decode_render: "decode (render j) = Some j"
proof -
  have "fuel j \<le> 2 * length (render j) + 2" using fuel_bound [of j] by simp
  then have "read_json (2 * length (render j) + 2) (render j @ []) = Some (j, [])"
    using reads_back_all [of j] unfolding reads_back_def stops_def by blast
  then show ?thesis by (simp only: decode_def append_Nil2 option.case prod.case list.case)
qed

lemma render_inject: "render i = render j \<longleftrightarrow> i = j"
  by (metis decode_render option.inject)

section \<open>The contract of an encoder\<close>

text \<open>
  An encoder writes the text of a value. What its clients get from that: the text can be decoded,
  equal texts mean equal values, and lists of encoded items are arrays.
\<close>

locale json_encoder =
  fixes encode :: "'a \<Rightarrow> string"
    and value_of :: "'a \<Rightarrow> json"
  assumes encode_render: "encode x = render (value_of x)"
begin

lemma decode_encode: "decode (encode x) = Some (value_of x)"
  by (simp add: encode_render decode_render)

lemma encode_eq_iff: "encode x = encode y \<longleftrightarrow> value_of x = value_of y"
  by (simp add: encode_render render_inject)

lemma encode_list: "vector_to_json xs encode = render (JArr (map value_of xs))"
proof -
  have "encode = (\<lambda>x. render (value_of x))" by (rule ext) (rule encode_render)
  then show ?thesis by (simp add: vector_to_json_commas comp_def)
qed

end

end
