(* ===== verification/Cpu_List.thy ===== *)
theory Cpu_List
  imports Status_Field
begin

text \<open>
  \<open>cpu_list_count\<close> of \<open>src/src/internal.hh\<close>: how many CPUs a kernel CPU list such as 0-2,8,10-11
  names. The loop over \<open>start\<close> is a recursion over the text from \<open>start\<close> on.
\<close>

definition cpu_token :: "u64 \<Rightarrow> string \<Rightarrow> u64 option" where
  "cpu_token count token = (case find_char (CHR ''-'') token of
       None \<Rightarrow>
         (case parse_u64 token of
            None \<Rightarrow> None
          | Some cpu \<Rightarrow> if count = u64_max then None else Some (count + 1))
     | Some dash \<Rightarrow>
         (case parse_u64 (substr token 0 dash) of
            None \<Rightarrow> None
          | Some lo \<Rightarrow>
              (case parse_u64 (drop (dash + 1) token) of
                 None \<Rightarrow> None
               | Some hi \<Rightarrow>
                   if hi < lo then None
                   else let range_count = hi - lo + 1
                     in if range_count = 0 \<or> count > u64_max - range_count then None
                        else Some (count + range_count))))"

function cpu_list_loop :: "u64 \<Rightarrow> string \<Rightarrow> u64 option" where
  "cpu_list_loop count rest =
     (let comma = find_char (CHR '','') rest;
          token = trim (case comma of None \<Rightarrow> rest | Some i \<Rightarrow> substr rest 0 i)
      in case cpu_token count token of
           None \<Rightarrow> None
         | Some count' \<Rightarrow>
             (case comma of
                None \<Rightarrow> Some count'
              | Some i \<Rightarrow> cpu_list_loop count' (drop (i + 1) rest)))"
  by pat_completeness auto
termination
proof (relation "measure (\<lambda>(count, rest). length rest)", goal_cases)
  case (2 count rest comma token count' i)
  then have "i < length rest" by (auto intro: find_char_less)
  then show ?case by simp
qed simp

declare cpu_list_loop.simps [simp del]

definition cpu_list_count :: "string \<Rightarrow> u64 option" where
  "cpu_list_count txt = (let val = trim txt in if val = [] then Some 0 else cpu_list_loop 0 val)"

section \<open>Kernel CPU lists\<close>

text \<open>
  The other side of the interface: the list of CPUs and ranges a kernel prints, its text, the
  CPUs it names, and how many it counts.
\<close>

datatype cpu_item = Cpu u64 | Cpus u64 u64

fun show_item :: "cpu_item \<Rightarrow> string" where
  "show_item (Cpu c) = to_string_u64 c"
| "show_item (Cpus a b) = to_string_u64 a @ ''-'' @ to_string_u64 b"

fun show_items :: "cpu_item list \<Rightarrow> string" where
  "show_items [] = []"
| "show_items [i] = show_item i"
| "show_items (i # j # is) = show_item i @ '','' @ show_items (j # is)"

fun item_ok :: "cpu_item \<Rightarrow> bool" where
  "item_ok (Cpu c) = True"
| "item_ok (Cpus a b) = (a \<le> b)"

fun item_count :: "cpu_item \<Rightarrow> nat" where
  "item_count (Cpu c) = 1"
| "item_count (Cpus a b) = unat b - unat a + 1"

fun item_cpus :: "cpu_item \<Rightarrow> nat set" where
  "item_cpus (Cpu c) = {unat c}"
| "item_cpus (Cpus a b) = {unat a..unat b}"

lemma card_item_cpus: "item_ok i \<Longrightarrow> card (item_cpus i) = item_count i"
  by (cases i) (auto simp: word_le_nat_alt)

lemma to_string_digits: "c \<in> set (to_string_u64 v) \<Longrightarrow> is_digit_in 10 c"
  by (auto simp: to_string_u64_def dec_digits)

lemma to_string_no_dash: "CHR ''-'' \<notin> set (to_string_u64 v)"
  and to_string_no_comma: "CHR '','' \<notin> set (to_string_u64 v)"
  using to_string_digits is_digit_facts by blast+

lemma show_item_visible: "show_item i \<noteq> [] \<and> (\<forall>c \<in> set (show_item i). \<not> isspace c)"
  using u64_codec.show_visible by (cases i) (auto simp: isspace_def)

lemma show_item_no_comma: "CHR '','' \<notin> set (show_item i)"
  using to_string_no_comma by (cases i) auto

lemma cpu_token_item:
  "cpu_token count (show_item i) =
     (if item_ok i \<and> unat count + item_count i \<le> 18446744073709551615
      then Some (count + word_of_nat (item_count i)) else None)"
proof (cases i)
  case (Cpu c)
  have "find_char (CHR ''-'') (to_string_u64 c) = None"
    using to_string_no_dash by (simp add: find_char_None)
  moreover have "count = u64_max \<longleftrightarrow> \<not> unat count + 1 \<le> 18446744073709551615"
    using unat_le_u64_max [of count] by (auto simp: word_unat_eq_iff)
  ultimately show ?thesis using Cpu by (simp add: cpu_token_def u64_codec.parse_show)
next
  case (Cpus a b)
  have "find_char (CHR ''-'') (show_item i) = Some (length (to_string_u64 a))"
    using Cpus find_char_append [OF to_string_no_dash] by simp
  then have step: "cpu_token count (show_item i) = (if b < a then None
      else let r = b - a + 1 in if r = 0 \<or> count > u64_max - r then None else Some (count + r))"
    using Cpus by (simp add: cpu_token_def substr_def u64_codec.parse_show)
  show ?thesis
  proof (cases "b < a")
    case True
    then have "\<not> a \<le> b" by simp
    with True step Cpus show ?thesis by simp
  next
    case False
    then have le: "unat a \<le> unat b" by (simp add: not_less word_le_nat_alt)
    then have d: "unat (b - a) = unat b - unat a" by (simp add: unat_sub_if_size)
    show ?thesis
    proof (cases "unat b - unat a = 18446744073709551615")
      case True
      then have "b - a + 1 = 0" using d by (simp add: word_unat_eq_iff unat_word_ariths)
      with True step False Cpus show ?thesis by simp
    next
      case ne: False
      define r where "r = b - a + 1"
      have small: "unat b - unat a + 1 \<le> 18446744073709551615"
        using ne unat_le_u64_max [of b] by linarith
      then have r: "unat r = item_count i" unfolding r_def using d Cpus by (simp add: unat_add_bounded)
      then have "r \<noteq> 0" using Cpus by auto
      moreover have "word_of_nat (item_count i) = r" unfolding r [symmetric] by simp
      moreover have "item_ok i" using False Cpus by (simp add: not_less)
      ultimately show ?thesis
        unfolding step r_def [symmetric] using False add_guard_iff [of r count]
        by (auto simp: Let_def not_less r)
    qed
  qed
qed

lemma cpu_list_loop_items:
  "items \<noteq> [] \<Longrightarrow> cpu_list_loop count (show_items items) =
     (if (\<forall>i \<in> set items. item_ok i) \<and> unat count + sum_list (map item_count items) \<le> 18446744073709551615
      then Some (count + word_of_nat (sum_list (map item_count items))) else None)"
proof (induction items arbitrary: count rule: show_items.induct)
  case 1
  then show ?case by simp
next
  case (2 i)
  have "find_char (CHR '','') (show_item i) = None"
    using show_item_no_comma by (simp add: find_char_None)
  then show ?case
    using show_item_visible [of i]
    by (simp add: cpu_list_loop.simps [of count "show_item i"] trim_no_space cpu_token_item)
next
  case (3 i j "is")
  let ?rest = "show_items (j # is)" and ?n = "item_count i"
  have "find_char (CHR '','') (show_item i @ CHR '','' # ?rest) = Some (length (show_item i))"
    by (rule find_char_append) (rule show_item_no_comma)
  then have step: "cpu_list_loop count (show_items (i # j # is)) =
      (case cpu_token count (show_item i) of None \<Rightarrow> None | Some c \<Rightarrow> cpu_list_loop c ?rest)"
    using show_item_visible [of i]
    by (simp add: cpu_list_loop.simps [of count "show_item i @ CHR '','' # ?rest"] trim_no_space substr_def split: option.split)
  show ?case
  proof (cases "item_ok i \<and> unat count + ?n \<le> 18446744073709551615")
    case False
    then show ?thesis unfolding step cpu_token_item by auto
  next
    case True
    then have "unat (word_of_nat ?n :: u64) = ?n" by (simp add: unat_word_of_nat_small)
    with True have "unat (count + word_of_nat ?n) = unat count + ?n"
      by (simp add: unat_add_bounded)
    with True show ?thesis unfolding step cpu_token_item by (simp add: "3.IH" add.assoc)
  qed
qed

lemma show_items_visible: "items \<noteq> [] \<Longrightarrow> show_items items \<noteq> [] \<and> (\<forall>c \<in> set (show_items items). \<not> isspace c)"
proof (induction items rule: show_items.induct)
  case (2 i)
  show ?case using show_item_visible [of i] by simp
next
  case (3 i j "is")
  have "\<not> isspace (CHR '','')" by (simp add: isspace_def)
  with 3 show_item_visible [of i] show ?case by auto
qed simp

lemma cpu_list_count_items:
  "items \<noteq> [] \<Longrightarrow> cpu_list_count (show_items items) =
     (if (\<forall>i \<in> set items. item_ok i) \<and> sum_list (map item_count items) \<le> 18446744073709551615
      then Some (word_of_nat (sum_list (map item_count items))) else None)"
  using show_items_visible [of items] cpu_list_loop_items [of items 0]
  by (simp add: cpu_list_count_def trim_no_space)

text \<open>When the items do not overlap, the number counted is the number of CPUs named.\<close>

fun disjoint_items :: "cpu_item list \<Rightarrow> bool" where
  "disjoint_items [] = True"
| "disjoint_items (i # is) = ((\<forall>j \<in> set is. item_cpus i \<inter> item_cpus j = {}) \<and> disjoint_items is)"

lemma finite_item_cpus [simp]: "finite (item_cpus i)"
  by (cases i) auto

lemma card_items:
  "\<forall>i \<in> set items. item_ok i \<Longrightarrow> disjoint_items items \<Longrightarrow>
   card (\<Union>i \<in> set items. item_cpus i) = sum_list (map item_count items)"
proof (induction items)
  case (Cons i "is")
  have "item_cpus i \<inter> (\<Union>j \<in> set is. item_cpus j) = {}" using Cons.prems(2) by auto
  then have "card (item_cpus i \<union> (\<Union>j \<in> set is. item_cpus j)) =
      card (item_cpus i) + card (\<Union>j \<in> set is. item_cpus j)"
    by (intro card_Un_disjoint) auto
  with Cons show ?case by (simp add: card_item_cpus)
qed simp

end
