(* ===== verification/Key_Values.thy ===== *)
theory Key_Values
  imports Status_Field
begin

text \<open>
  The key/value texts of \<open>src/src/internal.hh\<close>: quoted values, blocks of \<open>key : value\<close> lines, and
  lookups in a \<open>std::map\<close>. A map is an association list with one entry per key, written only by
  \<open>AList.update\<close> (\<open>operator []\<close> and assignment) and read by \<open>map_of\<close> (\<open>find\<close>).
\<close>

section \<open>Maps\<close>

text \<open>The promises of a map, and what its clients conclude from them.\<close>

locale dictionary =
  fixes empty_map :: "'m"
    and put :: "'k \<Rightarrow> 'v \<Rightarrow> 'm \<Rightarrow> 'm"
    and lookup :: "'m \<Rightarrow> 'k \<Rightarrow> 'v option"
  assumes lookup_empty: "lookup empty_map k = None"
    and lookup_put: "lookup (put k v m) j = (if j = k then Some v else lookup m j)"
begin

lemma lookup_put_same [simp]: "lookup (put k v m) k = Some v"
  by (simp add: lookup_put)

text \<open>After a sequence of assignments the last one to a key decides.\<close>

lemma lookup_puts:
  "lookup (foldl (\<lambda>m (k, v). put k v m) m kvs) j =
     (case map_of (rev kvs) j of None \<Rightarrow> lookup m j | Some v \<Rightarrow> Some v)"
proof (induction kvs arbitrary: m)
  case (Cons kv kvs)
  obtain k v where kv: "kv = (k, v)" by (cases kv)
  show ?case
    by (simp add: Cons kv map_add_def lookup_put split: option.split)
qed simp

end

type_synonym ('k, 'v) std_map = "('k \<times> 'v) list"
type_synonym kv_map = "(string, string) std_map"

interpretation std_map: dictionary "[]" AList.update map_of
  by unfold_locales (simp_all add: update_conv')

section \<open>Quoted values\<close>

fun unquote_loop :: "char \<Rightarrow> bool \<Rightarrow> string \<Rightarrow> string" where
  "unquote_loop quote escaped [] = []"
| "unquote_loop quote escaped (c # cs) =
     (if escaped then c # unquote_loop quote False cs
      else if quote = CHR 0x22 \<and> c = CHR 0x5C then unquote_loop quote True cs
      else c # unquote_loop quote False cs)"

definition unquote_value :: "string \<Rightarrow> string" where
  "unquote_value txt = (let v = trim txt
     in if length v < 2 then v
        else let quote = hd v
          in if (quote \<noteq> CHR 0x22 \<and> quote \<noteq> CHR 0x27) \<or> last v \<noteq> quote then v
             else unquote_loop quote False (substr v 1 (length v - 2)))"

text \<open>How a shell-style writer protects a value: a backslash before each character of \<open>E\<close>.\<close>

definition shell_escape :: "char set \<Rightarrow> string \<Rightarrow> string" where
  "shell_escape E s = concat (map (\<lambda>c. if c \<in> E then [CHR 0x5C, c] else [c]) s)"

lemma unquote_loop_escape:
  "CHR 0x5C \<in> E \<Longrightarrow> unquote_loop (CHR 0x22) False (shell_escape E s) = s"
  by (induction s) (auto simp: shell_escape_def)

lemma unquote_loop_single: "unquote_loop (CHR 0x27) False s = s"
  by (induction s) auto

lemma unquote_value_quoted:
  assumes "q = CHR 0x22 \<or> q = CHR 0x27" "\<forall>c \<in> set a. isspace c" "\<forall>c \<in> set b. isspace c"
  shows "unquote_value (a @ (q # s @ [q]) @ b) = unquote_loop q False s"
proof -
  have "\<not> isspace q" using assms(1) by (auto simp: isspace_def)
  then have "trim (a @ (q # s @ [q]) @ b) = q # s @ [q]"
    using assms(2,3) by (intro trim_pad) auto
  then show ?thesis using assms(1) by (auto simp: unquote_value_def substr_def)
qed

section \<open>Blocks of key : value lines\<close>

definition colon_line :: "kv_map list \<times> kv_map \<Rightarrow> string \<Rightarrow> kv_map list \<times> kv_map" where
  "colon_line st line = (case st of (blocks, current) \<Rightarrow>
     if trim line = [] then (if current \<noteq> [] then (blocks @ [current], []) else (blocks, current))
     else (case find_char (CHR '':'') line of
         None \<Rightarrow> (blocks, current)
       | Some colon \<Rightarrow>
           (blocks, AList.update (trim (substr line 0 colon)) (trim (drop (colon + 1) line)) current)))"

definition parse_colon_blocks :: "string \<Rightarrow> kv_map list" where
  "parse_colon_blocks txt =
     (let (blocks, current) = foldl colon_line ([], []) (lines_by (CHR 0x0A) txt)
      in if current \<noteq> [] then blocks @ [current] else blocks)"

definition map_value :: "kv_map \<Rightarrow> string \<Rightarrow> string option" where
  "map_value values key = (case map_of values key of
       None \<Rightarrow> None
     | Some v \<Rightarrow> if v = [] then None else Some v)"

fun string_from_map :: "kv_map \<Rightarrow> string list \<Rightarrow> string_field" where
  "string_from_map values [] = unavailable not_found"
| "string_from_map values (key # keys) = (case map_value values key of
       Some v \<Rightarrow> field_value v
     | None \<Rightarrow> string_from_map values keys)"

fun u64_from_map :: "kv_map \<Rightarrow> string list \<Rightarrow> u64_field" where
  "u64_from_map values [] = unavailable not_found"
| "u64_from_map values (key # keys) = (case map_value values key of
       None \<Rightarrow> u64_from_map values keys
     | Some txt \<Rightarrow> (case parse_u64 txt of
           None \<Rightarrow> unavailable parse_error
         | Some v \<Rightarrow> field_value v))"

definition bool_from_flag :: "string set \<Rightarrow> string \<Rightarrow> bool_field" where
  "bool_from_flag flags name = field_value (name \<in> flags)"

lemma honest_string_from_map [honest_intros, simp]: "honest (string_from_map m ks)"
  by (induction ks) (auto split: option.split)

lemma honest_u64_from_map [honest_intros, simp]: "honest (u64_from_map m ks)"
  by (induction ks) (auto split: option.split)

lemma honest_bool_from_flag [honest_intros, simp]: "honest (bool_from_flag flags n)"
  by (simp add: bool_from_flag_def)

lemma map_value_not_Nil: "map_value m k = Some v \<Longrightarrow> v \<noteq> []"
  by (auto simp: map_value_def split: option.splits if_splits)

text \<open>The first key that is present and not empty decides.\<close>

lemma string_from_map_first:
  "string_from_map m ks =
     (case List.find (\<lambda>k. map_value m k \<noteq> None) ks of
        None \<Rightarrow> unavailable not_found
      | Some k \<Rightarrow> field_value (the (map_value m k)))"
  by (induction ks) (auto split: option.split)

lemma string_from_map_valid_not_Nil: "valid (string_from_map m ks) \<Longrightarrow> val (string_from_map m ks) \<noteq> []"
  by (induction ks) (auto split: option.splits dest: map_value_not_Nil)

section \<open>What parse\_colon\_blocks returns\<close>

text \<open>Every block has at least one entry, one entry per key, and trimmed keys and values.\<close>

definition block_ok :: "kv_map \<Rightarrow> bool" where
  "block_ok b \<longleftrightarrow> distinct (map fst b) \<and> (\<forall>(k, v) \<in> set b. trim k = k \<and> trim v = v \<and> CHR '':'' \<notin> set k)"

lemma block_ok_update:
  "block_ok b \<Longrightarrow> CHR '':'' \<notin> set k \<Longrightarrow> block_ok (AList.update (trim k) (trim v) b)"
proof -
  assume b: "block_ok b" and k: "CHR '':'' \<notin> set k"
  have c: "CHR '':'' \<notin> set (trim k)" using k set_trim by blast
  have "set (AList.update (trim k) (trim v) b) \<subseteq> insert (trim k, trim v) (set b)"
    by (induction b) auto
  then show ?thesis using b c by (fastforce simp: block_ok_def distinct_update)
qed

definition colon_inv :: "kv_map list \<times> kv_map \<Rightarrow> bool" where
  "colon_inv st \<longleftrightarrow> (\<forall>b \<in> set (fst st). b \<noteq> [] \<and> block_ok b) \<and> block_ok (snd st)"

lemma colon_line_inv: "colon_inv st \<Longrightarrow> colon_inv (colon_line st line)"
proof -
  assume inv: "colon_inv st"
  obtain bs cur where st: "st = (bs, cur)" by (cases st)
  show ?thesis
  proof (cases "find_char (CHR '':'') line")
    case None
    with inv st show ?thesis by (auto simp: colon_line_def colon_inv_def block_ok_def)
  next
    case (Some i)
    then have "CHR '':'' \<notin> set (substr line 0 i)"
      by (auto simp: substr_def dest: find_char_SomeD)
    with Some inv st show ?thesis
      by (auto simp: colon_line_def colon_inv_def block_ok_update)
        (auto simp: block_ok_def)
  qed
qed

lemma colon_fold_inv: "colon_inv st \<Longrightarrow> colon_inv (foldl colon_line st ls)"
proof (induction ls arbitrary: st)
  case (Cons l ls)
  show ?case unfolding foldl_Cons by (rule Cons.IH [OF colon_line_inv [OF Cons.prems]])
qed simp

lemma parse_colon_blocks_ok: "b \<in> set (parse_colon_blocks txt) \<Longrightarrow> b \<noteq> [] \<and> block_ok b"
proof -
  assume b: "b \<in> set (parse_colon_blocks txt)"
  obtain bs cur where st: "foldl colon_line ([], []) (lines_by (CHR 0x0A) txt) = (bs, cur)"
    by (cases "foldl colon_line ([], []) (lines_by (CHR 0x0A) txt)")
  have "colon_inv ([], [])" by (simp add: colon_inv_def block_ok_def)
  from colon_fold_inv [OF this] have "colon_inv (bs, cur)" unfolding st [symmetric] .
  with b show ?thesis by (auto simp: parse_colon_blocks_def st colon_inv_def split: if_splits)
qed

section \<open>Reading back what was printed\<close>

text \<open>A block as procfs prints it: one \<open>key : value\<close> line per entry, then an empty line.\<close>

definition show_entry :: "string \<times> string \<Rightarrow> string" where
  "show_entry e = fst e @ '' : '' @ snd e"

definition show_block :: "kv_map \<Rightarrow> string" where
  "show_block b = concat (map (\<lambda>e. show_entry e @ [CHR 0x0A]) b) @ [CHR 0x0A]"

definition entry_printable :: "string \<times> string \<Rightarrow> bool" where
  "entry_printable e \<longleftrightarrow> fst e \<noteq> [] \<and> trim (fst e) = fst e \<and> trim (snd e) = snd e \<and>
     CHR '':'' \<notin> set (fst e) \<and> CHR 0x0A \<notin> set (fst e) \<and> CHR 0x0A \<notin> set (snd e)"

lemma trim_end_blank: "trim s = s \<Longrightarrow> trim (s @ '' '') = s"
  using trim_pad [of "[]" "'' ''" s] trim_ends [of s] by (simp add: isspace_def)

lemma trim_front_blank: "trim s = s \<Longrightarrow> trim (CHR '' '' # s) = s"
  using trim_pad [of "'' ''" "[]" s] trim_ends [of s] by (simp add: isspace_def)

lemma trim_not_Nil: "c \<in> set s \<Longrightarrow> \<not> isspace c \<Longrightarrow> trim s \<noteq> []"
  using trim_decompose [of s] by (metis Un_iff append_Nil set_append)

lemma colon_line_entry:
  assumes "entry_printable (k, v)"
  shows "colon_line (bs, cur) (show_entry (k, v)) = (bs, AList.update k v cur)"
proof -
  have nc: "CHR '':'' \<notin> set (k @ '' '')" using assms by (simp add: entry_printable_def)
  have line: "show_entry (k, v) = (k @ '' '') @ CHR '':'' # CHR '' '' # v" by (simp add: show_entry_def)
  have "find_char (CHR '':'') (show_entry (k, v)) = Some (length (k @ '' ''))"
    unfolding line by (rule find_char_append) (rule nc)
  moreover have "trim (show_entry (k, v)) \<noteq> []"
    by (rule trim_not_Nil [of "CHR '':''"]) (auto simp: line isspace_def)
  ultimately show ?thesis
    using assms trim_end_blank [of k] trim_front_blank [of v]
    by (simp add: colon_line_def substr_def entry_printable_def line)
qed

lemma colon_fold_entries:
  "\<forall>e \<in> set es. entry_printable e \<Longrightarrow>
   foldl colon_line (bs, cur) (map show_entry es) = (bs, foldl (\<lambda>m (k, v). AList.update k v m) cur es)"
  by (induction es arbitrary: cur) (auto simp: colon_line_entry)

lemma update_new: "k \<notin> fst ` set m \<Longrightarrow> AList.update k v m = m @ [(k, v)]"
  by (induction m) auto

lemma puts_distinct:
  "distinct (map fst (cur @ es)) \<Longrightarrow> foldl (\<lambda>m (k, v). AList.update k v m) cur es = cur @ es"
  by (induction es arbitrary: cur) (auto simp: update_new)

definition block_printable :: "kv_map \<Rightarrow> bool" where
  "block_printable b \<longleftrightarrow> b \<noteq> [] \<and> distinct (map fst b) \<and> (\<forall>e \<in> set b. entry_printable e)"

lemma show_entry_no_newline: "entry_printable e \<Longrightarrow> CHR 0x0A \<notin> set (show_entry e)"
  by (auto simp: entry_printable_def show_entry_def)

lemma lines_entries:
  "\<forall>e \<in> set es. entry_printable e \<Longrightarrow>
   lines_by (CHR 0x0A) (concat (map (\<lambda>e. show_entry e @ [CHR 0x0A]) es) @ CHR 0x0A # r) =
     map show_entry es @ [] # lines_by (CHR 0x0A) r"
proof (induction es)
  case Nil
  show ?case using lines_by_Cons [of "CHR 0x0A" "[]" r] by simp
next
  case (Cons e es)
  then show ?case using lines_by_Cons [OF show_entry_no_newline [of e]] by simp
qed

lemma colon_fold_block:
  "block_printable b \<Longrightarrow>
   foldl colon_line (bs, []) (lines_by (CHR 0x0A) (show_block b @ r)) =
     foldl colon_line (bs @ [b], []) (lines_by (CHR 0x0A) r)"
proof -
  assume b: "block_printable b"
  then have "lines_by (CHR 0x0A) (show_block b @ r) = map show_entry b @ [] # lines_by (CHR 0x0A) r"
    using lines_entries [of b r] by (simp add: show_block_def block_printable_def)
  moreover have "foldl colon_line (bs, []) (map show_entry b) = (bs, b)"
    using b colon_fold_entries [of b bs "[]"] puts_distinct [of "[]" b]
    by (simp add: block_printable_def)
  moreover have "colon_line (bs, b) [] = (bs @ [b], [])"
    using b by (simp add: colon_line_def block_printable_def)
  ultimately show ?thesis by simp
qed

lemma colon_fold_blocks:
  "\<forall>b \<in> set bl. block_printable b \<Longrightarrow>
   foldl colon_line (bs, []) (lines_by (CHR 0x0A) (concat (map show_block bl))) = (bs @ bl, [])"
  by (induction bl arbitrary: bs) (auto simp: colon_fold_block)

lemma parse_show_blocks:
  "\<forall>b \<in> set bl. block_printable b \<Longrightarrow> parse_colon_blocks (concat (map show_block bl)) = bl"
  by (simp add: parse_colon_blocks_def colon_fold_blocks)

end
