(* ===== verification/Host.thy ===== *)
theory Host
  imports Cpu_List Key_Values
begin

text \<open>
  The operating system as the program sees it, and the file readers of \<open>src/src/internal.hh\<close>.

  The operating system is not code of the repository: it is the parameter \<open>host\<close>, a record of
  its answers to the calls the program makes, for a snapshot that does not change while a report
  is collected. Nothing is assumed of the answers here; where a property needs documented
  behaviour of the system it says so (\<open>posix_host\<close>).
\<close>

section \<open>The answers of the operating system\<close>

datatype errno = ENOENT | ENOTDIR | EACCES | EPERM | ENODEV | EOPNOTSUPP | EINVAL | Other_errno

text \<open>
  Opening a file for reading: it fails, or it gives the bytes that can be read; the flag says that
  the read after them fails (EIO, EISDIR) instead of reporting the end of the file.
\<close>

datatype open_file = Not_open | Opened string bool

record utsname =
  sysname :: string
  nodename :: string
  release :: string
  version :: string
  machine :: string

text \<open>The hardware events of \<open>linux/perf_event.h\<close> that the program asks for.\<close>

datatype hw_counter =
    Hw_cpu_cycles | Hw_instructions | Hw_cache_references | Hw_cache_misses
  | Hw_branch_instructions | Hw_branch_misses | Hw_bus_cycles | Hw_ref_cpu_cycles

text \<open>The address of one entry of \<open>getifaddrs\<close>, with the answer of \<open>inet_ntop\<close> for it.\<close>

datatype if_addr = No_addr | Inet "string option" | Inet6 "string option" | Other_family

text \<open>
  \<open>host_exists p\<close> is \<open>std::filesystem::exists(p, error)\<close> with the error code it leaves;
  \<open>host_dir p\<close> the names a \<open>directory_iterator\<close> yields before it ends or fails, \<open>None\<close> when it can
  not be created; \<open>host_perf_open c\<close> is \<open>None\<close> when \<open>perf_event_open\<close> returns a descriptor;
  \<open>host_stale_arch\<close> is what the storage of an \<open>ArchType\<close> without initialiser holds.
\<close>

record host =
  host_open :: "string \<Rightarrow> open_file"
  host_exists :: "string \<Rightarrow> bool \<times> errno option"
  host_is_dir :: "string \<Rightarrow> bool"
  host_dir :: "string \<Rightarrow> string list option"
  host_symlink :: "string \<Rightarrow> string option"
  host_access_rw :: "string \<Rightarrow> bool"
  host_uname :: "utsname option"
  host_page_size :: i64
  host_pointer_bytes :: u64
  host_little_endian :: bool
  host_hw_threads :: u32
  host_perf_open :: "hw_counter \<Rightarrow> errno option"
  host_ifaddrs :: "(string \<times> if_addr) list option"
  host_stale_arch :: arch_type

section \<open>Reading files\<close>

definition status_for_path_error :: "host \<Rightarrow> string \<Rightarrow> status" where
  "status_for_path_error h path = (case host_exists h path of (found, err) \<Rightarrow>
     if found then perm_denied
     else if err = None \<or> err = Some ENOENT \<or> err = Some ENOTDIR then not_found
     else if err = Some EACCES \<or> err = Some EPERM then perm_denied
     else internal_error)"

definition path_exists :: "host \<Rightarrow> string \<Rightarrow> bool" where
  "path_exists h path = fst (host_exists h path)"

definition path_is_dir :: "host \<Rightarrow> string \<Rightarrow> bool" where
  "path_is_dir h path = host_is_dir h path"

record read_result =
  rr_status :: status
  rr_value :: string

text \<open>
  \<open>out << file.rdbuf()\<close>: the bytes that reach \<open>out\<close>, and \<open>file.bad()\<close> afterwards. The inserter
  works on the stream buffer and reports a failed read on \<open>out\<close> only, so the state of \<open>file\<close> is
  still the good state in which it was opened.
\<close>

definition insert_rdbuf :: "string \<Rightarrow> bool \<Rightarrow> string \<times> bool" where
  "insert_rdbuf content fails = (content, False)"

definition read_file :: "host \<Rightarrow> string \<Rightarrow> read_result" where
  "read_file h path = (case host_open h path of
       Not_open \<Rightarrow> \<lparr>rr_status = status_for_path_error h path, rr_value = []\<rparr>
     | Opened content fails \<Rightarrow>
         (let (out, bad) = insert_rdbuf content fails
          in if bad then \<lparr>rr_status = internal_error, rr_value = []\<rparr>
             else \<lparr>rr_status = ok, rr_value = out\<rparr>))"

text \<open>
  \<open>std::getline(file, line)\<close> on a file stream: the line, whether the stream converts to true, and
  \<open>file.bad()\<close>. A failing read before the end of the line leaves badbit set.
\<close>

definition getline_file :: "string \<Rightarrow> bool \<Rightarrow> string \<times> bool \<times> bool" where
  "getline_file content fails =
     (let line = takeWhile (\<lambda>c. c \<noteq> CHR 0x0A) content;
          ended = CHR 0x0A \<in> set content
      in if ended then (line, True, False)
         else if fails then (line, False, True)
         else (line, content \<noteq> [], False))"

definition read_first_line :: "host \<Rightarrow> string \<Rightarrow> read_result" where
  "read_first_line h path = (case host_open h path of
       Not_open \<Rightarrow> \<lparr>rr_status = status_for_path_error h path, rr_value = []\<rparr>
     | Opened content fails \<Rightarrow>
         (let (line, good, bad) = getline_file content fails
          in if \<not> good \<and> bad then \<lparr>rr_status = internal_error, rr_value = []\<rparr>
             else \<lparr>rr_status = ok, rr_value = line\<rparr>))"

definition read_string_field :: "host \<Rightarrow> string \<Rightarrow> bool \<Rightarrow> string_field" where
  "read_string_field h path trim_value = (let result = read_first_line h path
     in if rr_status result \<noteq> ok then unavailable (rr_status result)
        else field_value (if trim_value then trim (rr_value result) else rr_value result))"

definition read_u64_field :: "host \<Rightarrow> string \<Rightarrow> u64 \<Rightarrow> u64_field" where
  "read_u64_field h path multiplier = (let result = read_first_line h path
     in if rr_status result \<noteq> ok then unavailable (rr_status result)
        else (case parse_u64 (rr_value result) of
            None \<Rightarrow> unavailable parse_error
          | Some v \<Rightarrow>
              if multiplier \<noteq> 0 \<and> v > u64_max div multiplier then unavailable parse_error
              else field_value (v * multiplier)))"

definition read_u32_field :: "host \<Rightarrow> string \<Rightarrow> u32_field" where
  "read_u32_field h path = (let result = read_first_line h path
     in if rr_status result \<noteq> ok then unavailable (rr_status result)
        else (case parse_u64 (rr_value result) of
            None \<Rightarrow> unavailable parse_error
          | Some v \<Rightarrow> if v > u32_max then unavailable parse_error else field_value (ucast v)))"

definition read_i64_field :: "host \<Rightarrow> string \<Rightarrow> i64_field" where
  "read_i64_field h path = (let result = read_first_line h path
     in if rr_status result \<noteq> ok then unavailable (rr_status result)
        else (case parse_i64 (rr_value result) of
            None \<Rightarrow> unavailable parse_error
          | Some v \<Rightarrow> field_value v))"

definition read_cpu_list_count_field :: "host \<Rightarrow> string \<Rightarrow> u64_field" where
  "read_cpu_list_count_field h path = (let result = read_first_line h path
     in if rr_status result \<noteq> ok then unavailable (rr_status result)
        else (case cpu_list_count (rr_value result) of
            None \<Rightarrow> unavailable parse_error
          | Some v \<Rightarrow> field_value v))"

definition read_size_bytes_field :: "host \<Rightarrow> string \<Rightarrow> u64_field" where
  "read_size_bytes_field h path = (let result = read_first_line h path
     in if rr_status result \<noteq> ok then unavailable (rr_status result)
        else (case parse_size_bytes (rr_value result) of
            None \<Rightarrow> unavailable parse_error
          | Some v \<Rightarrow> field_value v))"

section \<open>Directories and links\<close>

definition list_dir :: "host \<Rightarrow> string \<Rightarrow> string list" where
  "list_dir h path = (case host_dir h path of None \<Rightarrow> [] | Some entries \<Rightarrow> sort entries)"

definition read_symlink_target :: "host \<Rightarrow> string \<Rightarrow> string option" where
  "read_symlink_target h path = host_symlink h path"

definition read_symlink_basename_field :: "host \<Rightarrow> string \<Rightarrow> string_field" where
  "read_symlink_basename_field h path = (case read_symlink_target h path of
       None \<Rightarrow> unavailable (status_for_path_error h path)
     | Some target \<Rightarrow> field_value (basename target))"

definition rooted_path :: "collect_options \<Rightarrow> string \<Rightarrow> string" where
  "rooted_path options path =
     (if starts_with path ''/proc'' then proc_path options (drop 5 path)
      else if starts_with path ''/sys'' then sys_path options (drop 4 path)
      else if starts_with path ''/etc'' then etc_path options (drop 4 path)
      else if starts_with path ''/dev'' then dev_path options (drop 4 path)
      else path)"

fun first_existing_rooted :: "host \<Rightarrow> collect_options \<Rightarrow> string list \<Rightarrow> string" where
  "first_existing_rooted h options [] = []"
| "first_existing_rooted h options (path # paths) =
     (if path_exists h (rooted_path options path) then rooted_path options path
      else first_existing_rooted h options paths)"

section \<open>Statuses\<close>

lemma status_for_path_error_not_ok [simp]: "status_for_path_error h p \<noteq> ok"
  by (auto simp: status_for_path_error_def split: prod.splits)

text \<open>A value is delivered only together with the status \<open>ok\<close>.\<close>

lemma read_first_line_failed: "rr_status (read_first_line h p) \<noteq> ok \<Longrightarrow> rr_value (read_first_line h p) = []"
  by (auto simp: read_first_line_def Let_def split: open_file.splits prod.splits if_splits)

lemma read_file_failed: "rr_status (read_file h p) \<noteq> ok \<Longrightarrow> rr_value (read_file h p) = []"
  by (auto simp: read_file_def Let_def split: open_file.splits prod.splits if_splits)

lemma read_first_line_missing:
  "host_open h p = Not_open \<Longrightarrow> read_first_line h p = \<lparr>rr_status = status_for_path_error h p, rr_value = []\<rparr>"
  by (simp add: read_first_line_def)

lemma read_first_line_line:
  "host_open h p = Opened (l @ CHR 0x0A # r) fails \<Longrightarrow> CHR 0x0A \<notin> set l \<Longrightarrow>
   read_first_line h p = \<lparr>rr_status = ok, rr_value = l\<rparr>"
  by (simp add: read_first_line_def getline_file_def takeWhile_until)

lemma read_first_line_status:
  "rr_status (read_first_line h p) =
     (case host_open h p of Not_open \<Rightarrow> status_for_path_error h p
      | Opened content fails \<Rightarrow> if fails \<and> CHR 0x0A \<notin> set content then internal_error else ok)"
  by (simp add: read_first_line_def getline_file_def Let_def split: open_file.split)

lemma status_for_path_error_cong:
  "host_exists h p = host_exists h' p \<Longrightarrow> status_for_path_error h p = status_for_path_error h' p"
  by (simp add: status_for_path_error_def)

lemma read_first_line_cong:
  "host_open h p = host_open h' p \<Longrightarrow> host_exists h p = host_exists h' p \<Longrightarrow>
   read_first_line h p = read_first_line h' p"
  by (simp add: read_first_line_def status_for_path_error_cong [of h p h'] split: open_file.split)

lemma read_file_cong:
  "host_open h p = host_open h' p \<Longrightarrow> host_exists h p = host_exists h' p \<Longrightarrow>
   read_file h p = read_file h' p"
  by (simp add: read_file_def status_for_path_error_cong [of h p h'] split: open_file.split)

section \<open>The contract of the field readers\<close>

text \<open>
  All the readers of one line have one shape: the status of a file that can not be read is passed
  on, a line that does not parse is a \<open>parse_error\<close>, and a valid field carries what was parsed.
  Their clients use only this contract.
\<close>

locale field_reader =
  fixes read_field :: "host \<Rightarrow> string \<Rightarrow> 'a::default field"
    and interpret_line :: "string \<Rightarrow> 'a option"
  assumes read_field_eq: "read_field h p =
     (if rr_status (read_first_line h p) \<noteq> ok then unavailable (rr_status (read_first_line h p))
      else case interpret_line (rr_value (read_first_line h p)) of
             None \<Rightarrow> unavailable parse_error
           | Some v \<Rightarrow> field_value v)"
begin

lemma honest_read [simp]: "honest (read_field h p)"
  by (auto simp: read_field_eq split: option.split)

lemma missing_file: "host_open h p = Not_open \<Longrightarrow> read_field h p = unavailable (status_for_path_error h p)"
  by (simp add: read_field_eq read_first_line_missing)

lemma malformed_line:
  "host_open h p = Opened (l @ CHR 0x0A # r) fails \<Longrightarrow> CHR 0x0A \<notin> set l \<Longrightarrow> interpret_line l = None \<Longrightarrow>
   read_field h p = unavailable parse_error"
  by (simp add: read_field_eq read_first_line_line)

lemma good_line:
  "host_open h p = Opened (l @ CHR 0x0A # r) fails \<Longrightarrow> CHR 0x0A \<notin> set l \<Longrightarrow> interpret_line l = Some v \<Longrightarrow>
   read_field h p = field_value v"
  by (simp add: read_field_eq read_first_line_line)

lemma valid_interpreted:
  "valid (read_field h p) \<Longrightarrow>
   \<exists>line. read_first_line h p = \<lparr>rr_status = ok, rr_value = line\<rparr> \<and> interpret_line line = Some (val (read_field h p))"
  by (cases "read_first_line h p") (auto simp: read_field_eq split: option.splits if_splits)

lemma depends_on_path:
  "host_open h p = host_open h' p \<Longrightarrow> host_exists h p = host_exists h' p \<Longrightarrow> read_field h p = read_field h' p"
  by (simp add: read_field_eq read_first_line_cong [of h p h'])

end

definition scaled :: "u64 \<Rightarrow> u64 \<Rightarrow> u64 option" where
  "scaled m v = (if m \<noteq> 0 \<and> v > u64_max div m then None else Some (v * m))"

interpretation string_reader: field_reader "\<lambda>h p. read_string_field h p tr"
    "\<lambda>l. Some (if tr then trim l else l)" for tr
  by unfold_locales (simp add: read_string_field_def)

interpretation u64_reader: field_reader "\<lambda>h p. read_u64_field h p m"
    "\<lambda>l. Option.bind (parse_u64 l) (scaled m)" for m
  by unfold_locales (simp add: read_u64_field_def scaled_def Let_def split: option.split)

interpretation u32_reader: field_reader read_u32_field
    "\<lambda>l. Option.bind (parse_u64 l) (\<lambda>v. if v > u32_max then None else Some (ucast v))"
  by unfold_locales (simp add: read_u32_field_def Let_def split: option.split)

interpretation i64_reader: field_reader read_i64_field parse_i64
  by unfold_locales (simp add: read_i64_field_def Let_def split: option.split)

interpretation cpu_list_reader: field_reader read_cpu_list_count_field cpu_list_count
  by unfold_locales (simp add: read_cpu_list_count_field_def Let_def split: option.split)

interpretation size_reader: field_reader read_size_bytes_field parse_size_bytes
  by unfold_locales (simp add: read_size_bytes_field_def Let_def split: option.split)

lemma honest_symlink_field [simp]: "honest (read_symlink_basename_field h p)"
  by (simp add: read_symlink_basename_field_def split: option.split)

text \<open>A file that opens is delivered with \<open>ok\<close>, whatever happens while it is read.\<close>

lemma read_file_opened:
  "host_open h p = Opened content fails \<Longrightarrow> read_file h p = \<lparr>rr_status = ok, rr_value = content\<rparr>"
  by (simp add: read_file_def insert_rdbuf_def)

text \<open>A scaled number is the exact product; a product beyond 64 bits is an error.\<close>

lemma read_u64_scaled:
  assumes "read_first_line h p = \<lparr>rr_status = ok, rr_value = line\<rparr>" "parse_u64 line = Some v" "m \<noteq> 0"
  shows "if unat v * unat m \<le> 18446744073709551615
    then \<exists>w. read_u64_field h p m = field_value w \<and> unat w = unat v * unat m
    else read_u64_field h p m = unavailable parse_error"
  using assms mul_guard_iff [OF assms(3), of v] unat_mult_bounded [of v m]
  by (auto simp: read_u64_field_def Let_def)

end
