(* ===== verification/Records.thy ===== *)
theory Records
  imports Host
begin

text \<open>
  The structs of \<open>src/include/aview.hh\<close> that a report is made of, each with its default-initialised
  value and the list of its fields under their member names. A member \<open>m\<close> of a struct is the record
  field \<open>s_m\<close>, with a prefix per struct because the structs share member names; the feature flags
  of \<open>IsaFeatures\<close> keep their names. \<open>CpuInfo::arch\<close> has no initialiser, so a default-initialised
  \<open>CpuInfo\<close> holds whatever its storage held.
\<close>

section \<open>Operating system, CPU and instruction set\<close>

record os_info =
  os_kernel_name :: string_field
  os_kernel_version :: string_field
  os_kernel_release :: string_field
  os_machine :: string_field
  os_hostname :: string_field
  os_distro_name :: string_field
  os_distro_version :: string_field
  os_distro_id :: string_field
  os_cmdline :: string_field
  os_page_size :: u64_field
  os_word_size :: u64_field
  os_endianness :: string_field

definition new_os_info :: os_info where
  "new_os_info = \<lparr>os_kernel_name = no_field, os_kernel_version = no_field, os_kernel_release = no_field,
    os_machine = no_field, os_hostname = no_field, os_distro_name = no_field,
    os_distro_version = no_field, os_distro_id = no_field, os_cmdline = no_field,
    os_page_size = no_field, os_word_size = no_field, os_endianness = no_field\<rparr>"

definition os_info_fields :: "os_info \<Rightarrow> (string \<times> any_field) list" where
  "os_info_fields i =
    [(''kernel_name'', String_field (os_kernel_name i)),
     (''kernel_version'', String_field (os_kernel_version i)),
     (''kernel_release'', String_field (os_kernel_release i)),
     (''machine'', String_field (os_machine i)),
     (''hostname'', String_field (os_hostname i)),
     (''distro_name'', String_field (os_distro_name i)),
     (''distro_version'', String_field (os_distro_version i)),
     (''distro_id'', String_field (os_distro_id i)),
     (''cmdline'', String_field (os_cmdline i)),
     (''page_size'', U64_field (os_page_size i)),
     (''word_size'', U64_field (os_word_size i)),
     (''endianness'', String_field (os_endianness i))]"

record cpu_topology_entry =
  topo_logical_id :: u32_field
  topo_core_id :: u32_field
  topo_package_id :: u32_field
  topo_numa_node :: u32_field
  topo_thread_siblings_mask :: string_field
  topo_core_siblings_mask :: string_field

definition new_cpu_topology_entry :: cpu_topology_entry where
  "new_cpu_topology_entry = \<lparr>topo_logical_id = no_field, topo_core_id = no_field, topo_package_id = no_field,
    topo_numa_node = no_field, topo_thread_siblings_mask = no_field,
    topo_core_siblings_mask = no_field\<rparr>"

definition cpu_topology_entry_fields :: "cpu_topology_entry \<Rightarrow> (string \<times> any_field) list" where
  "cpu_topology_entry_fields e =
    [(''logical_id'', U32_field (topo_logical_id e)),
     (''core_id'', U32_field (topo_core_id e)),
     (''package_id'', U32_field (topo_package_id e)),
     (''numa_node'', U32_field (topo_numa_node e)),
     (''thread_siblings_mask'', String_field (topo_thread_siblings_mask e)),
     (''core_siblings_mask'', String_field (topo_core_siblings_mask e))]"

record cpu_info =
  cpu_arch :: arch_type
  cpu_arch_name :: string_field
  cpu_vendor :: string_field
  cpu_brand :: string_field
  cpu_model_name :: string_field
  cpu_present_cpu_count :: u64_field
  cpu_online_cpu_count :: u64_field
  cpu_possible_cpu_count :: u64_field
  cpu_sockets :: u64_field
  cpu_cores_per_socket :: u64_field
  cpu_threads_per_core :: u64_field
  cpu_family :: u64_field
  cpu_model :: u64_field
  cpu_stepping :: u64_field
  cpu_microcode :: string_field
  cpu_physical_address_bits :: u64_field
  cpu_virtual_address_bits :: u64_field
  cpu_is_virtualized :: bool_field
  cpu_hypervisor_vendor :: string_field
  cpu_topology :: "cpu_topology_entry list"

definition new_cpu_info :: "arch_type \<Rightarrow> cpu_info" where
  "new_cpu_info stale = \<lparr>cpu_arch = stale, cpu_arch_name = no_field, cpu_vendor = no_field, cpu_brand = no_field,
    cpu_model_name = no_field, cpu_present_cpu_count = no_field,
    cpu_online_cpu_count = no_field, cpu_possible_cpu_count = no_field, cpu_sockets = no_field,
    cpu_cores_per_socket = no_field, cpu_threads_per_core = no_field, cpu_family = no_field,
    cpu_model = no_field, cpu_stepping = no_field, cpu_microcode = no_field,
    cpu_physical_address_bits = no_field, cpu_virtual_address_bits = no_field,
    cpu_is_virtualized = no_field, cpu_hypervisor_vendor = no_field, cpu_topology = []\<rparr>"

definition cpu_info_fields :: "cpu_info \<Rightarrow> (string \<times> any_field) list" where
  "cpu_info_fields i =
    [(''arch_name'', String_field (cpu_arch_name i)),
     (''vendor'', String_field (cpu_vendor i)),
     (''brand'', String_field (cpu_brand i)),
     (''model_name'', String_field (cpu_model_name i)),
     (''present_cpu_count'', U64_field (cpu_present_cpu_count i)),
     (''online_cpu_count'', U64_field (cpu_online_cpu_count i)),
     (''possible_cpu_count'', U64_field (cpu_possible_cpu_count i)),
     (''sockets'', U64_field (cpu_sockets i)),
     (''cores_per_socket'', U64_field (cpu_cores_per_socket i)),
     (''threads_per_core'', U64_field (cpu_threads_per_core i)),
     (''family'', U64_field (cpu_family i)),
     (''model'', U64_field (cpu_model i)),
     (''stepping'', U64_field (cpu_stepping i)),
     (''microcode'', String_field (cpu_microcode i)),
     (''physical_address_bits'', U64_field (cpu_physical_address_bits i)),
     (''virtual_address_bits'', U64_field (cpu_virtual_address_bits i)),
     (''is_virtualized'', Bool_field (cpu_is_virtualized i)),
     (''hypervisor_vendor'', String_field (cpu_hypervisor_vendor i))]"

record isa_features =
  x86_fpu :: bool_field
  x86_mmx :: bool_field
  x86_sse :: bool_field
  x86_sse2 :: bool_field
  x86_sse3 :: bool_field
  x86_ssse3 :: bool_field
  x86_sse41 :: bool_field
  x86_sse42 :: bool_field
  x86_avx :: bool_field
  x86_avx2 :: bool_field
  x86_avx512f :: bool_field
  x86_avx512dq :: bool_field
  x86_avx512cd :: bool_field
  x86_avx512bw :: bool_field
  x86_avx512vl :: bool_field
  x86_aes :: bool_field
  x86_sha :: bool_field
  x86_pclmulqdq :: bool_field
  x86_rdrand :: bool_field
  x86_rdseed :: bool_field
  x86_xsave :: bool_field
  x86_xsaveopt :: bool_field
  x86_xsavec :: bool_field
  x86_vmx :: bool_field
  x86_ept :: bool_field
  x86_svm :: bool_field
  x86_npt :: bool_field
  x86_tsc :: bool_field
  x86_constant_tsc :: bool_field
  x86_nonstop_tsc :: bool_field
  x86_rdtscp :: bool_field
  arm_neon :: bool_field
  arm_asimd :: bool_field
  arm_sve :: bool_field
  arm_sve2 :: bool_field
  arm_aes :: bool_field
  arm_sha1 :: bool_field
  arm_sha2 :: bool_field
  arm_crc32 :: bool_field
  arm_pauth :: bool_field
  riscv_i :: bool_field
  riscv_m :: bool_field
  riscv_a :: bool_field
  riscv_f :: bool_field
  riscv_d :: bool_field
  riscv_c :: bool_field
  riscv_v :: bool_field
  riscv_h :: bool_field
  raw_flags :: string_field

definition new_isa_features :: isa_features where
  "new_isa_features = \<lparr>x86_fpu = no_field, x86_mmx = no_field, x86_sse = no_field, x86_sse2 = no_field,
    x86_sse3 = no_field, x86_ssse3 = no_field, x86_sse41 = no_field, x86_sse42 = no_field,
    x86_avx = no_field, x86_avx2 = no_field, x86_avx512f = no_field, x86_avx512dq = no_field,
    x86_avx512cd = no_field, x86_avx512bw = no_field, x86_avx512vl = no_field,
    x86_aes = no_field, x86_sha = no_field, x86_pclmulqdq = no_field, x86_rdrand = no_field,
    x86_rdseed = no_field, x86_xsave = no_field, x86_xsaveopt = no_field,
    x86_xsavec = no_field, x86_vmx = no_field, x86_ept = no_field, x86_svm = no_field,
    x86_npt = no_field, x86_tsc = no_field, x86_constant_tsc = no_field,
    x86_nonstop_tsc = no_field, x86_rdtscp = no_field, arm_neon = no_field,
    arm_asimd = no_field, arm_sve = no_field, arm_sve2 = no_field, arm_aes = no_field,
    arm_sha1 = no_field, arm_sha2 = no_field, arm_crc32 = no_field, arm_pauth = no_field,
    riscv_i = no_field, riscv_m = no_field, riscv_a = no_field, riscv_f = no_field,
    riscv_d = no_field, riscv_c = no_field, riscv_v = no_field, riscv_h = no_field,
    raw_flags = no_field\<rparr>"

definition isa_features_fields :: "isa_features \<Rightarrow> (string \<times> any_field) list" where
  "isa_features_fields f =
    [(''x86_fpu'', Bool_field (x86_fpu f)),
     (''x86_mmx'', Bool_field (x86_mmx f)),
     (''x86_sse'', Bool_field (x86_sse f)),
     (''x86_sse2'', Bool_field (x86_sse2 f)),
     (''x86_sse3'', Bool_field (x86_sse3 f)),
     (''x86_ssse3'', Bool_field (x86_ssse3 f)),
     (''x86_sse41'', Bool_field (x86_sse41 f)),
     (''x86_sse42'', Bool_field (x86_sse42 f)),
     (''x86_avx'', Bool_field (x86_avx f)),
     (''x86_avx2'', Bool_field (x86_avx2 f)),
     (''x86_avx512f'', Bool_field (x86_avx512f f)),
     (''x86_avx512dq'', Bool_field (x86_avx512dq f)),
     (''x86_avx512cd'', Bool_field (x86_avx512cd f)),
     (''x86_avx512bw'', Bool_field (x86_avx512bw f)),
     (''x86_avx512vl'', Bool_field (x86_avx512vl f)),
     (''x86_aes'', Bool_field (x86_aes f)),
     (''x86_sha'', Bool_field (x86_sha f)),
     (''x86_pclmulqdq'', Bool_field (x86_pclmulqdq f)),
     (''x86_rdrand'', Bool_field (x86_rdrand f)),
     (''x86_rdseed'', Bool_field (x86_rdseed f)),
     (''x86_xsave'', Bool_field (x86_xsave f)),
     (''x86_xsaveopt'', Bool_field (x86_xsaveopt f)),
     (''x86_xsavec'', Bool_field (x86_xsavec f)),
     (''x86_vmx'', Bool_field (x86_vmx f)),
     (''x86_ept'', Bool_field (x86_ept f)),
     (''x86_svm'', Bool_field (x86_svm f)),
     (''x86_npt'', Bool_field (x86_npt f)),
     (''x86_tsc'', Bool_field (x86_tsc f)),
     (''x86_constant_tsc'', Bool_field (x86_constant_tsc f)),
     (''x86_nonstop_tsc'', Bool_field (x86_nonstop_tsc f)),
     (''x86_rdtscp'', Bool_field (x86_rdtscp f)),
     (''arm_neon'', Bool_field (arm_neon f)),
     (''arm_asimd'', Bool_field (arm_asimd f)),
     (''arm_sve'', Bool_field (arm_sve f)),
     (''arm_sve2'', Bool_field (arm_sve2 f)),
     (''arm_aes'', Bool_field (arm_aes f)),
     (''arm_sha1'', Bool_field (arm_sha1 f)),
     (''arm_sha2'', Bool_field (arm_sha2 f)),
     (''arm_crc32'', Bool_field (arm_crc32 f)),
     (''arm_pauth'', Bool_field (arm_pauth f)),
     (''riscv_i'', Bool_field (riscv_i f)),
     (''riscv_m'', Bool_field (riscv_m f)),
     (''riscv_a'', Bool_field (riscv_a f)),
     (''riscv_f'', Bool_field (riscv_f f)),
     (''riscv_d'', Bool_field (riscv_d f)),
     (''riscv_c'', Bool_field (riscv_c f)),
     (''riscv_v'', Bool_field (riscv_v f)),
     (''riscv_h'', Bool_field (riscv_h f)),
     (''raw_flags'', String_field (raw_flags f))]"

section \<open>Caches and memory\<close>

record cache_info =
  cache_cpu_id :: u32_field
  cache_level :: u32_field
  cache_kind :: cache_type
  cache_size :: u64_field
  cache_line_size :: u64_field
  cache_associativity :: u64_field
  cache_sets :: u64_field
  cache_shared_cpu_list :: string_field

definition new_cache_info :: cache_info where
  "new_cache_info = \<lparr>cache_cpu_id = no_field, cache_level = no_field, cache_kind = Cache_unknown,
    cache_size = no_field, cache_line_size = no_field, cache_associativity = no_field,
    cache_sets = no_field, cache_shared_cpu_list = no_field\<rparr>"

definition cache_info_fields :: "cache_info \<Rightarrow> (string \<times> any_field) list" where
  "cache_info_fields c =
    [(''cpu_id'', U32_field (cache_cpu_id c)),
     (''level'', U32_field (cache_level c)),
     (''size'', U64_field (cache_size c)),
     (''line_size'', U64_field (cache_line_size c)),
     (''associativity'', U64_field (cache_associativity c)),
     (''sets'', U64_field (cache_sets c)),
     (''shared_cpu_list'', String_field (cache_shared_cpu_list c))]"

type_synonym cache_list = "cache_info list"

record numa_node_info =
  numa_node_id :: u32_field
  numa_total_kb :: u64_field
  numa_free_kb :: u64_field
  numa_cpu_list :: string_field

definition new_numa_node_info :: numa_node_info where
  "new_numa_node_info = \<lparr>numa_node_id = no_field, numa_total_kb = no_field, numa_free_kb = no_field,
    numa_cpu_list = no_field\<rparr>"

definition numa_node_info_fields :: "numa_node_info \<Rightarrow> (string \<times> any_field) list" where
  "numa_node_info_fields n =
    [(''node_id'', U32_field (numa_node_id n)),
     (''total_kb'', U64_field (numa_total_kb n)),
     (''free_kb'', U64_field (numa_free_kb n)),
     (''cpu_list'', String_field (numa_cpu_list n))]"

record memory_info =
  mem_total_kb :: u64_field
  mem_free_kb :: u64_field
  mem_available_kb :: u64_field
  mem_buffers_kb :: u64_field
  mem_cached_kb :: u64_field
  mem_swap_total_kb :: u64_field
  mem_swap_free_kb :: u64_field
  mem_page_size_bytes :: u64_field
  mem_hugepage_size_kb :: u64_field
  mem_hugepages_total :: u64_field
  mem_hugepages_free :: u64_field
  mem_transparent_hugepages_enabled :: bool_field
  mem_numa_nodes :: "numa_node_info list"

definition new_memory_info :: memory_info where
  "new_memory_info = \<lparr>mem_total_kb = no_field, mem_free_kb = no_field, mem_available_kb = no_field,
    mem_buffers_kb = no_field, mem_cached_kb = no_field, mem_swap_total_kb = no_field,
    mem_swap_free_kb = no_field, mem_page_size_bytes = no_field,
    mem_hugepage_size_kb = no_field, mem_hugepages_total = no_field,
    mem_hugepages_free = no_field, mem_transparent_hugepages_enabled = no_field,
    mem_numa_nodes = []\<rparr>"

definition memory_info_fields :: "memory_info \<Rightarrow> (string \<times> any_field) list" where
  "memory_info_fields i =
    [(''total_kb'', U64_field (mem_total_kb i)),
     (''free_kb'', U64_field (mem_free_kb i)),
     (''available_kb'', U64_field (mem_available_kb i)),
     (''buffers_kb'', U64_field (mem_buffers_kb i)),
     (''cached_kb'', U64_field (mem_cached_kb i)),
     (''swap_total_kb'', U64_field (mem_swap_total_kb i)),
     (''swap_free_kb'', U64_field (mem_swap_free_kb i)),
     (''page_size_bytes'', U64_field (mem_page_size_bytes i)),
     (''hugepage_size_kb'', U64_field (mem_hugepage_size_kb i)),
     (''hugepages_total'', U64_field (mem_hugepages_total i)),
     (''hugepages_free'', U64_field (mem_hugepages_free i)),
     (''transparent_hugepages_enabled'', Bool_field (mem_transparent_hugepages_enabled i))]"

section \<open>Devices\<close>

record pci_device_info =
  pci_pci_address :: string_field
  pci_vendor_id :: string_field
  pci_device_id :: string_field
  pci_subsystem_vendor_id :: string_field
  pci_subsystem_device_id :: string_field
  pci_class_id :: string_field
  pci_driver :: string_field
  pci_numa_node :: i64_field
  pci_iommu_group :: string_field
  pci_resource_path :: string_field

definition new_pci_device_info :: pci_device_info where
  "new_pci_device_info = \<lparr>pci_pci_address = no_field, pci_vendor_id = no_field, pci_device_id = no_field,
    pci_subsystem_vendor_id = no_field, pci_subsystem_device_id = no_field,
    pci_class_id = no_field, pci_driver = no_field, pci_numa_node = no_field,
    pci_iommu_group = no_field, pci_resource_path = no_field\<rparr>"

definition pci_device_info_fields :: "pci_device_info \<Rightarrow> (string \<times> any_field) list" where
  "pci_device_info_fields d =
    [(''pci_address'', String_field (pci_pci_address d)),
     (''vendor_id'', String_field (pci_vendor_id d)),
     (''device_id'', String_field (pci_device_id d)),
     (''subsystem_vendor_id'', String_field (pci_subsystem_vendor_id d)),
     (''subsystem_device_id'', String_field (pci_subsystem_device_id d)),
     (''class_id'', String_field (pci_class_id d)),
     (''driver'', String_field (pci_driver d)),
     (''numa_node'', I64_field (pci_numa_node d)),
     (''iommu_group'', String_field (pci_iommu_group d)),
     (''resource_path'', String_field (pci_resource_path d))]"

record gpu_info =
  gpu_vendor :: gpu_vendor
  gpu_name :: string_field
  gpu_drm_card :: string_field
  gpu_render_node :: string_field
  gpu_pci_address :: string_field
  gpu_vendor_id :: string_field
  gpu_device_id :: string_field
  gpu_driver :: string_field
  gpu_vram_total_bytes :: u64_field
  gpu_vram_used_bytes :: u64_field
  gpu_temp_millidegree_c :: u64_field
  gpu_power_mw :: u64_field
  gpu_graphics_clock_mhz :: u64_field
  gpu_memory_clock_mhz :: u64_field
  gpu_cuda_available :: bool_field
  gpu_cuda_compute_capability :: string_field

definition new_gpu_info :: gpu_info where
  "new_gpu_info = \<lparr>gpu_vendor = Gpu_unknown, gpu_name = no_field, gpu_drm_card = no_field,
    gpu_render_node = no_field, gpu_pci_address = no_field, gpu_vendor_id = no_field,
    gpu_device_id = no_field, gpu_driver = no_field, gpu_vram_total_bytes = no_field,
    gpu_vram_used_bytes = no_field, gpu_temp_millidegree_c = no_field, gpu_power_mw = no_field,
    gpu_graphics_clock_mhz = no_field, gpu_memory_clock_mhz = no_field,
    gpu_cuda_available = no_field, gpu_cuda_compute_capability = no_field\<rparr>"

definition gpu_info_fields :: "gpu_info \<Rightarrow> (string \<times> any_field) list" where
  "gpu_info_fields g =
    [(''name'', String_field (gpu_name g)),
     (''drm_card'', String_field (gpu_drm_card g)),
     (''render_node'', String_field (gpu_render_node g)),
     (''pci_address'', String_field (gpu_pci_address g)),
     (''vendor_id'', String_field (gpu_vendor_id g)),
     (''device_id'', String_field (gpu_device_id g)),
     (''driver'', String_field (gpu_driver g)),
     (''vram_total_bytes'', U64_field (gpu_vram_total_bytes g)),
     (''vram_used_bytes'', U64_field (gpu_vram_used_bytes g)),
     (''temp_millidegree_c'', U64_field (gpu_temp_millidegree_c g)),
     (''power_mw'', U64_field (gpu_power_mw g)),
     (''graphics_clock_mhz'', U64_field (gpu_graphics_clock_mhz g)),
     (''memory_clock_mhz'', U64_field (gpu_memory_clock_mhz g)),
     (''cuda_available'', Bool_field (gpu_cuda_available g)),
     (''cuda_compute_capability'', String_field (gpu_cuda_compute_capability g))]"

record perf_counter_availability =
  avail_cpu_cycles :: bool_field
  avail_instructions :: bool_field
  avail_cache_references :: bool_field
  avail_cache_misses :: bool_field
  avail_branch_instructions :: bool_field
  avail_branch_misses :: bool_field
  avail_bus_cycles :: bool_field
  avail_ref_cpu_cycles :: bool_field

definition new_perf_counter_availability :: perf_counter_availability where
  "new_perf_counter_availability = \<lparr>avail_cpu_cycles = no_field, avail_instructions = no_field,
    avail_cache_references = no_field, avail_cache_misses = no_field,
    avail_branch_instructions = no_field, avail_branch_misses = no_field,
    avail_bus_cycles = no_field, avail_ref_cpu_cycles = no_field\<rparr>"

definition perf_counter_availability_fields :: "perf_counter_availability \<Rightarrow> (string \<times> any_field) list" where
  "perf_counter_availability_fields a =
    [(''cpu_cycles'', Bool_field (avail_cpu_cycles a)),
     (''instructions'', Bool_field (avail_instructions a)),
     (''cache_references'', Bool_field (avail_cache_references a)),
     (''cache_misses'', Bool_field (avail_cache_misses a)),
     (''branch_instructions'', Bool_field (avail_branch_instructions a)),
     (''branch_misses'', Bool_field (avail_branch_misses a)),
     (''bus_cycles'', Bool_field (avail_bus_cycles a)),
     (''ref_cpu_cycles'', Bool_field (avail_ref_cpu_cycles a))]"

record perf_counter_info =
  perf_event_paranoid :: i64_field
  perf_available :: perf_counter_availability
  perf_rdtsc_available :: bool_field
  perf_rdtscp_available :: bool_field
  perf_invariant_tsc :: bool_field

definition new_perf_counter_info :: perf_counter_info where
  "new_perf_counter_info = \<lparr>perf_event_paranoid = no_field, perf_available = new_perf_counter_availability,
    perf_rdtsc_available = no_field, perf_rdtscp_available = no_field, perf_invariant_tsc = no_field\<rparr>"

definition perf_counter_info_fields :: "perf_counter_info \<Rightarrow> (string \<times> any_field) list" where
  "perf_counter_info_fields i =
    [(''perf_event_paranoid'', I64_field (perf_event_paranoid i)),
     (''rdtsc_available'', Bool_field (perf_rdtsc_available i)),
     (''rdtscp_available'', Bool_field (perf_rdtscp_available i)),
     (''invariant_tsc'', Bool_field (perf_invariant_tsc i))]
     @ perf_counter_availability_fields (perf_available i)"

record block_device_info =
  block_name :: string_field
  block_model :: string_field
  block_vendor :: string_field
  block_path :: string_field
  block_rotational :: bool_field
  block_size_bytes :: u64_field
  block_logical_block_size :: u64_field
  block_physical_block_size :: u64_field
  block_scheduler :: string_field

definition new_block_device_info :: block_device_info where
  "new_block_device_info = \<lparr>block_name = no_field, block_model = no_field, block_vendor = no_field,
    block_path = no_field, block_rotational = no_field, block_size_bytes = no_field,
    block_logical_block_size = no_field, block_physical_block_size = no_field,
    block_scheduler = no_field\<rparr>"

definition block_device_info_fields :: "block_device_info \<Rightarrow> (string \<times> any_field) list" where
  "block_device_info_fields b =
    [(''name'', String_field (block_name b)),
     (''model'', String_field (block_model b)),
     (''vendor'', String_field (block_vendor b)),
     (''path'', String_field (block_path b)),
     (''rotational'', Bool_field (block_rotational b)),
     (''size_bytes'', U64_field (block_size_bytes b)),
     (''logical_block_size'', U64_field (block_logical_block_size b)),
     (''physical_block_size'', U64_field (block_physical_block_size b)),
     (''scheduler'', String_field (block_scheduler b))]"

record net_interface_info =
  net_name :: string_field
  net_mac_address :: string_field
  net_ipv4_addresses :: string_field
  net_ipv6_addresses :: string_field
  net_mtu :: u64_field
  net_speed_mbps :: u64_field
  net_duplex :: string_field
  net_carrier :: bool_field
  net_driver :: string_field

definition new_net_interface_info :: net_interface_info where
  "new_net_interface_info = \<lparr>net_name = no_field, net_mac_address = no_field, net_ipv4_addresses = no_field,
    net_ipv6_addresses = no_field, net_mtu = no_field, net_speed_mbps = no_field,
    net_duplex = no_field, net_carrier = no_field, net_driver = no_field\<rparr>"

definition net_interface_info_fields :: "net_interface_info \<Rightarrow> (string \<times> any_field) list" where
  "net_interface_info_fields n =
    [(''name'', String_field (net_name n)),
     (''mac_address'', String_field (net_mac_address n)),
     (''ipv4_addresses'', String_field (net_ipv4_addresses n)),
     (''ipv6_addresses'', String_field (net_ipv6_addresses n)),
     (''mtu'', U64_field (net_mtu n)),
     (''speed_mbps'', U64_field (net_speed_mbps n)),
     (''duplex'', String_field (net_duplex n)),
     (''carrier'', Bool_field (net_carrier n)),
     (''driver'', String_field (net_driver n))]"

section \<open>Thermal, power, virtualization and platform\<close>

record thermal_zone_info =
  zone_name :: string_field
  zone_type :: string_field
  zone_temp :: string_field

definition new_thermal_zone_info :: thermal_zone_info where
  "new_thermal_zone_info = \<lparr>zone_name = no_field, zone_type = no_field, zone_temp = no_field\<rparr>"

definition thermal_zone_info_fields :: "thermal_zone_info \<Rightarrow> (string \<times> any_field) list" where
  "thermal_zone_info_fields z =
    [(''name'', String_field (zone_name z)),
     (''type'', String_field (zone_type z)),
     (''temp'', String_field (zone_temp z))]"

record power_info =
  power_on_battery :: bool_field
  power_battery_status :: string_field
  power_battery_capacity_percent :: u64_field
  power_cpu_governor :: string_field
  power_cpu_current_freq_mhz :: u64_field
  power_cpu_min_freq_mhz :: u64_field
  power_cpu_max_freq_mhz :: u64_field

definition new_power_info :: power_info where
  "new_power_info = \<lparr>power_on_battery = no_field, power_battery_status = no_field,
    power_battery_capacity_percent = no_field, power_cpu_governor = no_field,
    power_cpu_current_freq_mhz = no_field, power_cpu_min_freq_mhz = no_field,
    power_cpu_max_freq_mhz = no_field\<rparr>"

definition power_info_fields :: "power_info \<Rightarrow> (string \<times> any_field) list" where
  "power_info_fields i =
    [(''on_battery'', Bool_field (power_on_battery i)),
     (''battery_status'', String_field (power_battery_status i)),
     (''battery_capacity_percent'', U64_field (power_battery_capacity_percent i)),
     (''cpu_governor'', String_field (power_cpu_governor i)),
     (''cpu_current_freq_mhz'', U64_field (power_cpu_current_freq_mhz i)),
     (''cpu_min_freq_mhz'', U64_field (power_cpu_min_freq_mhz i)),
     (''cpu_max_freq_mhz'', U64_field (power_cpu_max_freq_mhz i))]"

record virtualization_info =
  virt_running_under_hypervisor :: bool_field
  virt_hypervisor_vendor :: string_field
  virt_kvm_available :: bool_field
  virt_dev_kvm_exists :: bool_field
  virt_intel_vmx_available :: bool_field
  virt_amd_svm_available :: bool_field
  virt_iommu_present :: bool_field

definition new_virtualization_info :: virtualization_info where
  "new_virtualization_info = \<lparr>virt_running_under_hypervisor = no_field, virt_hypervisor_vendor = no_field,
    virt_kvm_available = no_field, virt_dev_kvm_exists = no_field,
    virt_intel_vmx_available = no_field, virt_amd_svm_available = no_field,
    virt_iommu_present = no_field\<rparr>"

definition virtualization_info_fields :: "virtualization_info \<Rightarrow> (string \<times> any_field) list" where
  "virtualization_info_fields i =
    [(''running_under_hypervisor'', Bool_field (virt_running_under_hypervisor i)),
     (''hypervisor_vendor'', String_field (virt_hypervisor_vendor i)),
     (''kvm_available'', Bool_field (virt_kvm_available i)),
     (''dev_kvm_exists'', Bool_field (virt_dev_kvm_exists i)),
     (''intel_vmx_available'', Bool_field (virt_intel_vmx_available i)),
     (''amd_svm_available'', Bool_field (virt_amd_svm_available i)),
     (''iommu_present'', Bool_field (virt_iommu_present i))]"

record platform_info =
  plat_system_vendor :: string_field
  plat_product_name :: string_field
  plat_product_version :: string_field
  plat_board_vendor :: string_field
  plat_board_name :: string_field
  plat_bios_vendor :: string_field
  plat_bios_version :: string_field
  plat_bios_date :: string_field
  plat_uefi :: bool_field
  plat_secure_boot :: bool_field

definition new_platform_info :: platform_info where
  "new_platform_info = \<lparr>plat_system_vendor = no_field, plat_product_name = no_field,
    plat_product_version = no_field, plat_board_vendor = no_field, plat_board_name = no_field,
    plat_bios_vendor = no_field, plat_bios_version = no_field, plat_bios_date = no_field,
    plat_uefi = no_field, plat_secure_boot = no_field\<rparr>"

definition platform_info_fields :: "platform_info \<Rightarrow> (string \<times> any_field) list" where
  "platform_info_fields i =
    [(''system_vendor'', String_field (plat_system_vendor i)),
     (''product_name'', String_field (plat_product_name i)),
     (''product_version'', String_field (plat_product_version i)),
     (''board_vendor'', String_field (plat_board_vendor i)),
     (''board_name'', String_field (plat_board_name i)),
     (''bios_vendor'', String_field (plat_bios_vendor i)),
     (''bios_version'', String_field (plat_bios_version i)),
     (''bios_date'', String_field (plat_bios_date i)),
     (''uefi'', Bool_field (plat_uefi i)),
     (''secure_boot'', Bool_field (plat_secure_boot i))]"

section \<open>The whole system and the report\<close>

record system_info =
  sys_os_info :: os_info
  sys_cpu_info :: cpu_info
  sys_isa_features :: isa_features
  sys_cache_list :: cache_list
  sys_memory_info :: memory_info
  sys_pci_devices :: "pci_device_info list"
  sys_gpu_list :: "gpu_info list"
  sys_perf_info :: perf_counter_info
  sys_block_devices :: "block_device_info list"
  sys_net_interfaces :: "net_interface_info list"
  sys_thermal_info :: "thermal_zone_info list"
  sys_power_info :: power_info
  sys_virtualization_info :: virtualization_info
  sys_platform_info :: platform_info

definition new_system_info :: "arch_type \<Rightarrow> system_info" where
  "new_system_info stale = \<lparr>sys_os_info = new_os_info, sys_cpu_info = new_cpu_info stale,
    sys_isa_features = new_isa_features, sys_cache_list = [], sys_memory_info = new_memory_info,
    sys_pci_devices = [], sys_gpu_list = [], sys_perf_info = new_perf_counter_info,
    sys_block_devices = [], sys_net_interfaces = [], sys_thermal_info = [],
    sys_power_info = new_power_info, sys_virtualization_info = new_virtualization_info,
    sys_platform_info = new_platform_info\<rparr>"

record report =
  report_categories :: collect_category
  report_system :: system_info

lemmas field_tables = os_info_fields_def cpu_topology_entry_fields_def cpu_info_fields_def
  isa_features_fields_def cache_info_fields_def numa_node_info_fields_def memory_info_fields_def
  pci_device_info_fields_def gpu_info_fields_def perf_counter_availability_fields_def
  perf_counter_info_fields_def block_device_info_fields_def net_interface_info_fields_def
  thermal_zone_info_fields_def power_info_fields_def virtualization_info_fields_def
  platform_info_fields_def

definition all_honest :: "(string \<times> any_field) list \<Rightarrow> bool" where
  "all_honest fs \<longleftrightarrow> list_all (\<lambda>(k, f). any_honest f) fs"

lemma all_honest_simps [simp]:
  "all_honest []" "all_honest ((k, f) # fs) \<longleftrightarrow> any_honest f \<and> all_honest fs"
  "all_honest (fs @ gs) \<longleftrightarrow> all_honest fs \<and> all_honest gs"
  "all_honest (concat fss) \<longleftrightarrow> (\<forall>fs \<in> set fss. all_honest fs)"
  by (auto simp: all_honest_def list_all_iff)

end
