(* ===== verification/Json_Report.thy ===== *)
theory Json_Report
  imports Json_Spec Records
begin

text \<open>
  The serialisation of the structs in \<open>src/src/json.cc\<close>: a function per struct that adds the fields in
  order, and the report with its list of categories. For each of them the value that its text
  denotes, and an interpretation of the encoder contract that proves it.
\<close>

section \<open>The structs\<close>

definition cpu_topology_to_json :: "cpu_topology_entry \<Rightarrow> string" where
  "cpu_topology_to_json e =
     (let obj = new_object;
          obj = add_field ''logical_id'' (U32_field (topo_logical_id e)) obj;
          obj = add_field ''core_id'' (U32_field (topo_core_id e)) obj;
          obj = add_field ''package_id'' (U32_field (topo_package_id e)) obj;
          obj = add_field ''numa_node'' (U32_field (topo_numa_node e)) obj;
          obj = add_field ''thread_siblings_mask'' (String_field (topo_thread_siblings_mask e)) obj;
          obj = add_field ''core_siblings_mask'' (String_field (topo_core_siblings_mask e)) obj
      in str obj)"

definition cache_info_to_json :: "cache_info \<Rightarrow> string" where
  "cache_info_to_json c =
     (let obj = new_object;
          obj = add_field ''cpu_id'' (U32_field (cache_cpu_id c)) obj;
          obj = add_field ''level'' (U32_field (cache_level c)) obj;
          obj = add_string ''type'' (to_string_cache (cache_kind c)) obj;
          obj = add_field ''size'' (U64_field (cache_size c)) obj;
          obj = add_field ''line_size'' (U64_field (cache_line_size c)) obj;
          obj = add_field ''associativity'' (U64_field (cache_associativity c)) obj;
          obj = add_field ''sets'' (U64_field (cache_sets c)) obj;
          obj = add_field ''shared_cpu_list'' (String_field (cache_shared_cpu_list c)) obj
      in str obj)"

definition numa_node_to_json :: "numa_node_info \<Rightarrow> string" where
  "numa_node_to_json n =
     (let obj = new_object;
          obj = add_field ''node_id'' (U32_field (numa_node_id n)) obj;
          obj = add_field ''total_kb'' (U64_field (numa_total_kb n)) obj;
          obj = add_field ''free_kb'' (U64_field (numa_free_kb n)) obj;
          obj = add_field ''cpu_list'' (String_field (numa_cpu_list n)) obj
      in str obj)"

definition pci_device_to_json :: "pci_device_info \<Rightarrow> string" where
  "pci_device_to_json d =
     (let obj = new_object;
          obj = add_field ''pci_address'' (String_field (pci_pci_address d)) obj;
          obj = add_field ''vendor_id'' (String_field (pci_vendor_id d)) obj;
          obj = add_field ''device_id'' (String_field (pci_device_id d)) obj;
          obj = add_field ''subsystem_vendor_id'' (String_field (pci_subsystem_vendor_id d)) obj;
          obj = add_field ''subsystem_device_id'' (String_field (pci_subsystem_device_id d)) obj;
          obj = add_field ''class_id'' (String_field (pci_class_id d)) obj;
          obj = add_field ''driver'' (String_field (pci_driver d)) obj;
          obj = add_field ''numa_node'' (I64_field (pci_numa_node d)) obj;
          obj = add_field ''iommu_group'' (String_field (pci_iommu_group d)) obj;
          obj = add_field ''resource_path'' (String_field (pci_resource_path d)) obj
      in str obj)"

definition gpu_info_to_json :: "gpu_info \<Rightarrow> string" where
  "gpu_info_to_json g =
     (let obj = new_object;
          obj = add_string ''vendor'' (to_string_gpu (gpu_vendor g)) obj;
          obj = add_field ''name'' (String_field (gpu_name g)) obj;
          obj = add_field ''drm_card'' (String_field (gpu_drm_card g)) obj;
          obj = add_field ''render_node'' (String_field (gpu_render_node g)) obj;
          obj = add_field ''pci_address'' (String_field (gpu_pci_address g)) obj;
          obj = add_field ''vendor_id'' (String_field (gpu_vendor_id g)) obj;
          obj = add_field ''device_id'' (String_field (gpu_device_id g)) obj;
          obj = add_field ''driver'' (String_field (gpu_driver g)) obj;
          obj = add_field ''vram_total_bytes'' (U64_field (gpu_vram_total_bytes g)) obj;
          obj = add_field ''vram_used_bytes'' (U64_field (gpu_vram_used_bytes g)) obj;
          obj = add_field ''temp_millidegree_c'' (U64_field (gpu_temp_millidegree_c g)) obj;
          obj = add_field ''power_mw'' (U64_field (gpu_power_mw g)) obj;
          obj = add_field ''graphics_clock_mhz'' (U64_field (gpu_graphics_clock_mhz g)) obj;
          obj = add_field ''memory_clock_mhz'' (U64_field (gpu_memory_clock_mhz g)) obj;
          obj = add_field ''cuda_available'' (Bool_field (gpu_cuda_available g)) obj;
          obj = add_field ''cuda_compute_capability'' (String_field (gpu_cuda_compute_capability g)) obj
      in str obj)"

definition block_device_to_json :: "block_device_info \<Rightarrow> string" where
  "block_device_to_json b =
     (let obj = new_object;
          obj = add_field ''name'' (String_field (block_name b)) obj;
          obj = add_field ''model'' (String_field (block_model b)) obj;
          obj = add_field ''vendor'' (String_field (block_vendor b)) obj;
          obj = add_field ''path'' (String_field (block_path b)) obj;
          obj = add_field ''rotational'' (Bool_field (block_rotational b)) obj;
          obj = add_field ''size_bytes'' (U64_field (block_size_bytes b)) obj;
          obj = add_field ''logical_block_size'' (U64_field (block_logical_block_size b)) obj;
          obj = add_field ''physical_block_size'' (U64_field (block_physical_block_size b)) obj;
          obj = add_field ''scheduler'' (String_field (block_scheduler b)) obj
      in str obj)"

definition net_interface_to_json :: "net_interface_info \<Rightarrow> string" where
  "net_interface_to_json n =
     (let obj = new_object;
          obj = add_field ''name'' (String_field (net_name n)) obj;
          obj = add_field ''mac_address'' (String_field (net_mac_address n)) obj;
          obj = add_field ''ipv4_addresses'' (String_field (net_ipv4_addresses n)) obj;
          obj = add_field ''ipv6_addresses'' (String_field (net_ipv6_addresses n)) obj;
          obj = add_field ''mtu'' (U64_field (net_mtu n)) obj;
          obj = add_field ''speed_mbps'' (U64_field (net_speed_mbps n)) obj;
          obj = add_field ''duplex'' (String_field (net_duplex n)) obj;
          obj = add_field ''carrier'' (Bool_field (net_carrier n)) obj;
          obj = add_field ''driver'' (String_field (net_driver n)) obj
      in str obj)"

definition thermal_zone_to_json :: "thermal_zone_info \<Rightarrow> string" where
  "thermal_zone_to_json z =
     (let obj = new_object;
          obj = add_field ''name'' (String_field (zone_name z)) obj;
          obj = add_field ''type'' (String_field (zone_type z)) obj;
          obj = add_field ''temp'' (String_field (zone_temp z)) obj
      in str obj)"

definition to_json_os :: "os_info \<Rightarrow> string" where
  "to_json_os i =
     (let obj = new_object;
          obj = add_field ''kernel_name'' (String_field (os_kernel_name i)) obj;
          obj = add_field ''kernel_version'' (String_field (os_kernel_version i)) obj;
          obj = add_field ''kernel_release'' (String_field (os_kernel_release i)) obj;
          obj = add_field ''machine'' (String_field (os_machine i)) obj;
          obj = add_field ''hostname'' (String_field (os_hostname i)) obj;
          obj = add_field ''distro_name'' (String_field (os_distro_name i)) obj;
          obj = add_field ''distro_version'' (String_field (os_distro_version i)) obj;
          obj = add_field ''distro_id'' (String_field (os_distro_id i)) obj;
          obj = add_field ''cmdline'' (String_field (os_cmdline i)) obj;
          obj = add_field ''page_size'' (U64_field (os_page_size i)) obj;
          obj = add_field ''word_size'' (U64_field (os_word_size i)) obj;
          obj = add_field ''endianness'' (String_field (os_endianness i)) obj
      in str obj)"

definition to_json_cpu :: "cpu_info \<Rightarrow> string" where
  "to_json_cpu i =
     (let obj = new_object;
          obj = add_string ''arch'' (to_string_arch (cpu_arch i)) obj;
          obj = add_field ''arch_name'' (String_field (cpu_arch_name i)) obj;
          obj = add_field ''vendor'' (String_field (cpu_vendor i)) obj;
          obj = add_field ''brand'' (String_field (cpu_brand i)) obj;
          obj = add_field ''model_name'' (String_field (cpu_model_name i)) obj;
          obj = add_field ''present_cpu_count'' (U64_field (cpu_present_cpu_count i)) obj;
          obj = add_field ''online_cpu_count'' (U64_field (cpu_online_cpu_count i)) obj;
          obj = add_field ''possible_cpu_count'' (U64_field (cpu_possible_cpu_count i)) obj;
          obj = add_field ''sockets'' (U64_field (cpu_sockets i)) obj;
          obj = add_field ''cores_per_socket'' (U64_field (cpu_cores_per_socket i)) obj;
          obj = add_field ''threads_per_core'' (U64_field (cpu_threads_per_core i)) obj;
          obj = add_field ''family'' (U64_field (cpu_family i)) obj;
          obj = add_field ''model'' (U64_field (cpu_model i)) obj;
          obj = add_field ''stepping'' (U64_field (cpu_stepping i)) obj;
          obj = add_field ''microcode'' (String_field (cpu_microcode i)) obj;
          obj = add_field ''physical_address_bits'' (U64_field (cpu_physical_address_bits i)) obj;
          obj = add_field ''virtual_address_bits'' (U64_field (cpu_virtual_address_bits i)) obj;
          obj = add_field ''is_virtualized'' (Bool_field (cpu_is_virtualized i)) obj;
          obj = add_field ''hypervisor_vendor'' (String_field (cpu_hypervisor_vendor i)) obj;
          obj = add_raw ''topology'' (vector_to_json (cpu_topology i) cpu_topology_to_json) obj
      in str obj)"

definition to_json_isa :: "isa_features \<Rightarrow> string" where
  "to_json_isa f =
     (let obj = new_object;
          obj = add_field ''x86_fpu'' (Bool_field (x86_fpu f)) obj;
          obj = add_field ''x86_mmx'' (Bool_field (x86_mmx f)) obj;
          obj = add_field ''x86_sse'' (Bool_field (x86_sse f)) obj;
          obj = add_field ''x86_sse2'' (Bool_field (x86_sse2 f)) obj;
          obj = add_field ''x86_sse3'' (Bool_field (x86_sse3 f)) obj;
          obj = add_field ''x86_ssse3'' (Bool_field (x86_ssse3 f)) obj;
          obj = add_field ''x86_sse41'' (Bool_field (x86_sse41 f)) obj;
          obj = add_field ''x86_sse42'' (Bool_field (x86_sse42 f)) obj;
          obj = add_field ''x86_avx'' (Bool_field (x86_avx f)) obj;
          obj = add_field ''x86_avx2'' (Bool_field (x86_avx2 f)) obj;
          obj = add_field ''x86_avx512f'' (Bool_field (x86_avx512f f)) obj;
          obj = add_field ''x86_avx512dq'' (Bool_field (x86_avx512dq f)) obj;
          obj = add_field ''x86_avx512cd'' (Bool_field (x86_avx512cd f)) obj;
          obj = add_field ''x86_avx512bw'' (Bool_field (x86_avx512bw f)) obj;
          obj = add_field ''x86_avx512vl'' (Bool_field (x86_avx512vl f)) obj;
          obj = add_field ''x86_aes'' (Bool_field (x86_aes f)) obj;
          obj = add_field ''x86_sha'' (Bool_field (x86_sha f)) obj;
          obj = add_field ''x86_pclmulqdq'' (Bool_field (x86_pclmulqdq f)) obj;
          obj = add_field ''x86_rdrand'' (Bool_field (x86_rdrand f)) obj;
          obj = add_field ''x86_rdseed'' (Bool_field (x86_rdseed f)) obj;
          obj = add_field ''x86_xsave'' (Bool_field (x86_xsave f)) obj;
          obj = add_field ''x86_xsaveopt'' (Bool_field (x86_xsaveopt f)) obj;
          obj = add_field ''x86_xsavec'' (Bool_field (x86_xsavec f)) obj;
          obj = add_field ''x86_vmx'' (Bool_field (x86_vmx f)) obj;
          obj = add_field ''x86_ept'' (Bool_field (x86_ept f)) obj;
          obj = add_field ''x86_svm'' (Bool_field (x86_svm f)) obj;
          obj = add_field ''x86_npt'' (Bool_field (x86_npt f)) obj;
          obj = add_field ''x86_tsc'' (Bool_field (x86_tsc f)) obj;
          obj = add_field ''x86_constant_tsc'' (Bool_field (x86_constant_tsc f)) obj;
          obj = add_field ''x86_nonstop_tsc'' (Bool_field (x86_nonstop_tsc f)) obj;
          obj = add_field ''x86_rdtscp'' (Bool_field (x86_rdtscp f)) obj;
          obj = add_field ''arm_neon'' (Bool_field (arm_neon f)) obj;
          obj = add_field ''arm_asimd'' (Bool_field (arm_asimd f)) obj;
          obj = add_field ''arm_sve'' (Bool_field (arm_sve f)) obj;
          obj = add_field ''arm_sve2'' (Bool_field (arm_sve2 f)) obj;
          obj = add_field ''arm_aes'' (Bool_field (arm_aes f)) obj;
          obj = add_field ''arm_sha1'' (Bool_field (arm_sha1 f)) obj;
          obj = add_field ''arm_sha2'' (Bool_field (arm_sha2 f)) obj;
          obj = add_field ''arm_crc32'' (Bool_field (arm_crc32 f)) obj;
          obj = add_field ''arm_pauth'' (Bool_field (arm_pauth f)) obj;
          obj = add_field ''riscv_i'' (Bool_field (riscv_i f)) obj;
          obj = add_field ''riscv_m'' (Bool_field (riscv_m f)) obj;
          obj = add_field ''riscv_a'' (Bool_field (riscv_a f)) obj;
          obj = add_field ''riscv_f'' (Bool_field (riscv_f f)) obj;
          obj = add_field ''riscv_d'' (Bool_field (riscv_d f)) obj;
          obj = add_field ''riscv_c'' (Bool_field (riscv_c f)) obj;
          obj = add_field ''riscv_v'' (Bool_field (riscv_v f)) obj;
          obj = add_field ''riscv_h'' (Bool_field (riscv_h f)) obj;
          obj = add_field ''raw_flags'' (String_field (raw_flags f)) obj
      in str obj)"

definition to_json_cache :: "cache_info list \<Rightarrow> string" where
  "to_json_cache entries = (let obj = new_object;
          obj = add_raw ''entries'' (vector_to_json entries cache_info_to_json) obj
      in str obj)"

definition to_json_memory :: "memory_info \<Rightarrow> string" where
  "to_json_memory i =
     (let obj = new_object;
          obj = add_field ''total_kb'' (U64_field (mem_total_kb i)) obj;
          obj = add_field ''free_kb'' (U64_field (mem_free_kb i)) obj;
          obj = add_field ''available_kb'' (U64_field (mem_available_kb i)) obj;
          obj = add_field ''buffers_kb'' (U64_field (mem_buffers_kb i)) obj;
          obj = add_field ''cached_kb'' (U64_field (mem_cached_kb i)) obj;
          obj = add_field ''swap_total_kb'' (U64_field (mem_swap_total_kb i)) obj;
          obj = add_field ''swap_free_kb'' (U64_field (mem_swap_free_kb i)) obj;
          obj = add_field ''page_size_bytes'' (U64_field (mem_page_size_bytes i)) obj;
          obj = add_field ''hugepage_size_kb'' (U64_field (mem_hugepage_size_kb i)) obj;
          obj = add_field ''hugepages_total'' (U64_field (mem_hugepages_total i)) obj;
          obj = add_field ''hugepages_free'' (U64_field (mem_hugepages_free i)) obj;
          obj = add_field ''transparent_hugepages_enabled'' (Bool_field (mem_transparent_hugepages_enabled i)) obj;
          obj = add_raw ''numa_nodes'' (vector_to_json (mem_numa_nodes i) numa_node_to_json) obj
      in str obj)"

definition to_json_pci :: "pci_device_info list \<Rightarrow> string" where
  "to_json_pci entries = (let obj = new_object;
          obj = add_raw ''entries'' (vector_to_json entries pci_device_to_json) obj
      in str obj)"

definition to_json_gpu :: "gpu_info list \<Rightarrow> string" where
  "to_json_gpu entries = (let obj = new_object;
          obj = add_raw ''entries'' (vector_to_json entries gpu_info_to_json) obj
      in str obj)"

definition to_json_perf :: "perf_counter_info \<Rightarrow> string" where
  "to_json_perf i =
     (let obj = new_object;
          obj = add_field ''perf_event_paranoid'' (I64_field (perf_event_paranoid i)) obj;
          avail = new_object;
          avail = add_field ''cpu_cycles'' (Bool_field (avail_cpu_cycles (perf_available i))) avail;
          avail = add_field ''instructions'' (Bool_field (avail_instructions (perf_available i))) avail;
          avail = add_field ''cache_references'' (Bool_field (avail_cache_references (perf_available i))) avail;
          avail = add_field ''cache_misses'' (Bool_field (avail_cache_misses (perf_available i))) avail;
          avail = add_field ''branch_instructions'' (Bool_field (avail_branch_instructions (perf_available i))) avail;
          avail = add_field ''branch_misses'' (Bool_field (avail_branch_misses (perf_available i))) avail;
          avail = add_field ''bus_cycles'' (Bool_field (avail_bus_cycles (perf_available i))) avail;
          avail = add_field ''ref_cpu_cycles'' (Bool_field (avail_ref_cpu_cycles (perf_available i))) avail;
          obj = add_raw ''available'' (str avail) obj;
          obj = add_field ''rdtsc_available'' (Bool_field (perf_rdtsc_available i)) obj;
          obj = add_field ''rdtscp_available'' (Bool_field (perf_rdtscp_available i)) obj;
          obj = add_field ''invariant_tsc'' (Bool_field (perf_invariant_tsc i)) obj
      in str obj)"

definition to_json_block :: "block_device_info list \<Rightarrow> string" where
  "to_json_block entries = (let obj = new_object;
          obj = add_raw ''entries'' (vector_to_json entries block_device_to_json) obj
      in str obj)"

definition to_json_net :: "net_interface_info list \<Rightarrow> string" where
  "to_json_net entries = (let obj = new_object;
          obj = add_raw ''entries'' (vector_to_json entries net_interface_to_json) obj
      in str obj)"

definition to_json_thermal :: "thermal_zone_info list \<Rightarrow> string" where
  "to_json_thermal entries = (let obj = new_object;
          obj = add_raw ''entries'' (vector_to_json entries thermal_zone_to_json) obj
      in str obj)"

definition to_json_power :: "power_info \<Rightarrow> string" where
  "to_json_power i =
     (let obj = new_object;
          obj = add_field ''on_battery'' (Bool_field (power_on_battery i)) obj;
          obj = add_field ''battery_status'' (String_field (power_battery_status i)) obj;
          obj = add_field ''battery_capacity_percent'' (U64_field (power_battery_capacity_percent i)) obj;
          obj = add_field ''cpu_governor'' (String_field (power_cpu_governor i)) obj;
          obj = add_field ''cpu_current_freq_mhz'' (U64_field (power_cpu_current_freq_mhz i)) obj;
          obj = add_field ''cpu_min_freq_mhz'' (U64_field (power_cpu_min_freq_mhz i)) obj;
          obj = add_field ''cpu_max_freq_mhz'' (U64_field (power_cpu_max_freq_mhz i)) obj
      in str obj)"

definition to_json_virtualization :: "virtualization_info \<Rightarrow> string" where
  "to_json_virtualization i =
     (let obj = new_object;
          obj = add_field ''running_under_hypervisor'' (Bool_field (virt_running_under_hypervisor i)) obj;
          obj = add_field ''hypervisor_vendor'' (String_field (virt_hypervisor_vendor i)) obj;
          obj = add_field ''kvm_available'' (Bool_field (virt_kvm_available i)) obj;
          obj = add_field ''dev_kvm_exists'' (Bool_field (virt_dev_kvm_exists i)) obj;
          obj = add_field ''intel_vmx_available'' (Bool_field (virt_intel_vmx_available i)) obj;
          obj = add_field ''amd_svm_available'' (Bool_field (virt_amd_svm_available i)) obj;
          obj = add_field ''iommu_present'' (Bool_field (virt_iommu_present i)) obj
      in str obj)"

definition to_json_platform :: "platform_info \<Rightarrow> string" where
  "to_json_platform i =
     (let obj = new_object;
          obj = add_field ''system_vendor'' (String_field (plat_system_vendor i)) obj;
          obj = add_field ''product_name'' (String_field (plat_product_name i)) obj;
          obj = add_field ''product_version'' (String_field (plat_product_version i)) obj;
          obj = add_field ''board_vendor'' (String_field (plat_board_vendor i)) obj;
          obj = add_field ''board_name'' (String_field (plat_board_name i)) obj;
          obj = add_field ''bios_vendor'' (String_field (plat_bios_vendor i)) obj;
          obj = add_field ''bios_version'' (String_field (plat_bios_version i)) obj;
          obj = add_field ''bios_date'' (String_field (plat_bios_date i)) obj;
          obj = add_field ''uefi'' (Bool_field (plat_uefi i)) obj;
          obj = add_field ''secure_boot'' (Bool_field (plat_secure_boot i)) obj
      in str obj)"

definition to_json_system :: "system_info \<Rightarrow> string" where
  "to_json_system info =
     (let obj = new_object;
          obj = add_raw ''os_info'' (to_json_os (sys_os_info info)) obj;
          obj = add_raw ''cpu_info'' (to_json_cpu (sys_cpu_info info)) obj;
          obj = add_raw ''isa_features'' (to_json_isa (sys_isa_features info)) obj;
          obj = add_raw ''cache_list'' (to_json_cache (sys_cache_list info)) obj;
          obj = add_raw ''memory_info'' (to_json_memory (sys_memory_info info)) obj;
          obj = add_raw ''pci_devices'' (to_json_pci (sys_pci_devices info)) obj;
          obj = add_raw ''gpu_list'' (to_json_gpu (sys_gpu_list info)) obj;
          obj = add_raw ''perf_info'' (to_json_perf (sys_perf_info info)) obj;
          obj = add_raw ''block_devices'' (to_json_block (sys_block_devices info)) obj;
          obj = add_raw ''net_interfaces'' (to_json_net (sys_net_interfaces info)) obj;
          obj = add_raw ''thermal_info'' (to_json_thermal (sys_thermal_info info)) obj;
          obj = add_raw ''power_info'' (to_json_power (sys_power_info info)) obj;
          obj = add_raw ''virtualization_info'' (to_json_virtualization (sys_virtualization_info info)) obj;
          obj = add_raw ''platform_info'' (to_json_platform (sys_platform_info info)) obj
      in str obj)"

section \<open>The report\<close>

definition lib_version :: string where "lib_version = ''0.2.0''"
definition report_schema_version :: string where "report_schema_version = ''1.0.0''"

text \<open>The table of names; the command line and the Python module have the same one.\<close>

definition category_table :: "(collect_category \<times> string) list" where
  "category_table = [
     (cat_os, ''os''),
     (cat_cpu, ''cpu''),
     (cat_isa, ''isa''),
     (cat_cache, ''cache''),
     (cat_memory, ''memory''),
     (cat_pci, ''pci''),
     (cat_gpu, ''gpu''),
     (cat_perf, ''perf''),
     (cat_block, ''block''),
     (cat_net, ''net''),
     (cat_thermal, ''thermal''),
     (cat_power, ''power''),
     (cat_virtualization, ''virtualization''),
     (cat_platform, ''platform'')]"

fun selected_loop :: "collect_category \<Rightarrow> bool \<Rightarrow> string \<Rightarrow> (collect_category \<times> string) list \<Rightarrow> string" where
  "selected_loop cats fst_item selected [] = selected"
| "selected_loop cats fst_item selected ((category, name) # entries) =
     (if \<not> has_category cats category then selected_loop cats fst_item selected entries
      else selected_loop cats False
             ((if \<not> fst_item then selected @ '','' else selected) @ json_string name) entries)"

definition selected_to_json :: "collect_category \<Rightarrow> string" where
  "selected_to_json cats = selected_loop cats True ''['' category_table @ '']''"

text \<open>\<open>if (has_category(report.categories, category)) data.add_raw(key, raw)\<close>\<close>

definition add_selected :: "collect_category \<Rightarrow> collect_category \<Rightarrow> string \<Rightarrow> string \<Rightarrow> json_object \<Rightarrow> json_object" where
  "add_selected cats category key raw obj =
     (if has_category cats category then add_raw key raw obj else obj)"

definition data_to_json :: "report \<Rightarrow> string" where
  "data_to_json r =
     (let info = report_system r; cats = report_categories r; obj = new_object;
          obj = add_selected cats cat_os ''os'' (to_json_os (sys_os_info info)) obj;
          obj = add_selected cats cat_cpu ''cpu'' (to_json_cpu (sys_cpu_info info)) obj;
          obj = add_selected cats cat_isa ''isa'' (to_json_isa (sys_isa_features info)) obj;
          obj = add_selected cats cat_cache ''cache'' (to_json_cache (sys_cache_list info)) obj;
          obj = add_selected cats cat_memory ''memory'' (to_json_memory (sys_memory_info info)) obj;
          obj = add_selected cats cat_pci ''pci'' (to_json_pci (sys_pci_devices info)) obj;
          obj = add_selected cats cat_gpu ''gpu'' (to_json_gpu (sys_gpu_list info)) obj;
          obj = add_selected cats cat_perf ''perf'' (to_json_perf (sys_perf_info info)) obj;
          obj = add_selected cats cat_block ''block'' (to_json_block (sys_block_devices info)) obj;
          obj = add_selected cats cat_net ''net'' (to_json_net (sys_net_interfaces info)) obj;
          obj = add_selected cats cat_thermal ''thermal'' (to_json_thermal (sys_thermal_info info)) obj;
          obj = add_selected cats cat_power ''power'' (to_json_power (sys_power_info info)) obj;
          obj = add_selected cats cat_virtualization ''virtualization'' (to_json_virtualization (sys_virtualization_info info)) obj;
          obj = add_selected cats cat_platform ''platform'' (to_json_platform (sys_platform_info info)) obj
      in str obj)"

definition to_json_report :: "report \<Rightarrow> string" where
  "to_json_report r =
     (let root = new_object;
          root = add_string ''schema_version'' report_schema_version root;
          producer = new_object;
          producer = add_string ''name'' ''archspec-inspect'' producer;
          producer = add_string ''version'' lib_version producer;
          root = add_raw ''producer'' (str producer) root;
          root = add_raw ''collected_categories'' (selected_to_json (report_categories r)) root;
          root = add_raw ''data'' (data_to_json r) root
      in str root)"

section \<open>The values that are meant\<close>

fun any_field_json :: "any_field \<Rightarrow> json" where
  "any_field_json (Bool_field f) = JObj ([(''valid'', JBool (valid f)),
     (''status'', JStr (status_code (field_status f)))] @ (if valid f then [(''value'', JBool (val f))] else []))"
| "any_field_json (U32_field f) = JObj ([(''valid'', JBool (valid f)),
     (''status'', JStr (status_code (field_status f)))] @ (if valid f then [(''value'', JNum (int (unat (val f))))] else []))"
| "any_field_json (U64_field f) = JObj ([(''valid'', JBool (valid f)),
     (''status'', JStr (status_code (field_status f)))] @ (if valid f then [(''value'', JNum (int (unat (val f))))] else []))"
| "any_field_json (I64_field f) = JObj ([(''valid'', JBool (valid f)),
     (''status'', JStr (status_code (field_status f)))] @ (if valid f then [(''value'', JNum (sint (val f)))] else []))"
| "any_field_json (String_field f) = JObj ([(''valid'', JBool (valid f)),
     (''status'', JStr (status_code (field_status f)))] @ (if valid f then [(''value'', JStr (val f))] else []))"

definition field_members :: "(string \<times> any_field) list \<Rightarrow> (string \<times> json) list" where
  "field_members fs = map (\<lambda>(k, f). (k, any_field_json f)) fs"

definition entries_value :: "('a \<Rightarrow> json) \<Rightarrow> 'a list \<Rightarrow> json" where
  "entries_value f xs = JObj [(''entries'', JArr (map f xs))]"

definition topology_value :: "cpu_topology_entry \<Rightarrow> json" where
  "topology_value e = JObj (field_members (cpu_topology_entry_fields e))"

definition cache_entry_value :: "cache_info \<Rightarrow> json" where
  "cache_entry_value c = JObj (
     field_members [(''cpu_id'', U32_field (cache_cpu_id c)), (''level'', U32_field (cache_level c))] @
     [(''type'', JStr (to_string_cache (cache_kind c)))] @ field_members (tl (tl (cache_info_fields c))))"

definition numa_value :: "numa_node_info \<Rightarrow> json" where
  "numa_value n = JObj (field_members (numa_node_info_fields n))"

definition pci_device_value :: "pci_device_info \<Rightarrow> json" where
  "pci_device_value d = JObj (field_members (pci_device_info_fields d))"

definition gpu_entry_value :: "gpu_info \<Rightarrow> json" where
  "gpu_entry_value g = JObj ((''vendor'', JStr (to_string_gpu (gpu_vendor g))) # field_members (gpu_info_fields g))"

definition block_entry_value :: "block_device_info \<Rightarrow> json" where
  "block_entry_value b = JObj (field_members (block_device_info_fields b))"

definition interface_value :: "net_interface_info \<Rightarrow> json" where
  "interface_value n = JObj (field_members (net_interface_info_fields n))"

definition zone_value :: "thermal_zone_info \<Rightarrow> json" where
  "zone_value z = JObj (field_members (thermal_zone_info_fields z))"

definition os_value :: "os_info \<Rightarrow> json" where
  "os_value i = JObj (field_members (os_info_fields i))"

definition cpu_value :: "cpu_info \<Rightarrow> json" where
  "cpu_value i = JObj ([(''arch'', JStr (to_string_arch (cpu_arch i)))] @
     field_members (cpu_info_fields i) @ [(''topology'', JArr (map topology_value (cpu_topology i)))])"

definition isa_value :: "isa_features \<Rightarrow> json" where
  "isa_value f = JObj (field_members (isa_features_fields f))"

definition memory_value :: "memory_info \<Rightarrow> json" where
  "memory_value i = JObj (field_members (memory_info_fields i) @
     [(''numa_nodes'', JArr (map numa_value (mem_numa_nodes i)))])"

definition perf_value :: "perf_counter_info \<Rightarrow> json" where
  "perf_value i = JObj (field_members [(''perf_event_paranoid'', I64_field (perf_event_paranoid i))] @
     [(''available'', JObj (field_members (perf_counter_availability_fields (perf_available i))))] @
     field_members [(''rdtsc_available'', Bool_field (perf_rdtsc_available i)),
       (''rdtscp_available'', Bool_field (perf_rdtscp_available i)),
       (''invariant_tsc'', Bool_field (perf_invariant_tsc i))])"

definition power_value :: "power_info \<Rightarrow> json" where
  "power_value i = JObj (field_members (power_info_fields i))"

definition virtualization_value :: "virtualization_info \<Rightarrow> json" where
  "virtualization_value i = JObj (field_members (virtualization_info_fields i))"

definition platform_value :: "platform_info \<Rightarrow> json" where
  "platform_value i = JObj (field_members (platform_info_fields i))"

definition system_value :: "system_info \<Rightarrow> json" where
  "system_value info = JObj [
     (''os_info'', os_value (sys_os_info info)),
     (''cpu_info'', cpu_value (sys_cpu_info info)),
     (''isa_features'', isa_value (sys_isa_features info)),
     (''cache_list'', entries_value cache_entry_value (sys_cache_list info)),
     (''memory_info'', memory_value (sys_memory_info info)),
     (''pci_devices'', entries_value pci_device_value (sys_pci_devices info)),
     (''gpu_list'', entries_value gpu_entry_value (sys_gpu_list info)),
     (''perf_info'', perf_value (sys_perf_info info)),
     (''block_devices'', entries_value block_entry_value (sys_block_devices info)),
     (''net_interfaces'', entries_value interface_value (sys_net_interfaces info)),
     (''thermal_info'', entries_value zone_value (sys_thermal_info info)),
     (''power_info'', power_value (sys_power_info info)),
     (''virtualization_info'', virtualization_value (sys_virtualization_info info)),
     (''platform_info'', platform_value (sys_platform_info info))]"

text \<open>One line per category: its bit, its name, and the value of its part of the system.\<close>

definition section_table :: "system_info \<Rightarrow> (collect_category \<times> string \<times> json) list" where
  "section_table info = [
     (cat_os, ''os'', os_value (sys_os_info info)),
     (cat_cpu, ''cpu'', cpu_value (sys_cpu_info info)),
     (cat_isa, ''isa'', isa_value (sys_isa_features info)),
     (cat_cache, ''cache'', entries_value cache_entry_value (sys_cache_list info)),
     (cat_memory, ''memory'', memory_value (sys_memory_info info)),
     (cat_pci, ''pci'', entries_value pci_device_value (sys_pci_devices info)),
     (cat_gpu, ''gpu'', entries_value gpu_entry_value (sys_gpu_list info)),
     (cat_perf, ''perf'', perf_value (sys_perf_info info)),
     (cat_block, ''block'', entries_value block_entry_value (sys_block_devices info)),
     (cat_net, ''net'', entries_value interface_value (sys_net_interfaces info)),
     (cat_thermal, ''thermal'', entries_value zone_value (sys_thermal_info info)),
     (cat_power, ''power'', power_value (sys_power_info info)),
     (cat_virtualization, ''virtualization'', virtualization_value (sys_virtualization_info info)),
     (cat_platform, ''platform'', platform_value (sys_platform_info info))]"

definition selected_names :: "collect_category \<Rightarrow> string list" where
  "selected_names cats = map snd (filter (\<lambda>e. has_category cats (fst e)) category_table)"

definition data_members :: "report \<Rightarrow> (string \<times> json) list" where
  "data_members r = map snd (filter (\<lambda>e. has_category (report_categories r) (fst e))
     (section_table (report_system r)))"

definition report_value :: "report \<Rightarrow> json" where
  "report_value r = JObj [
     (''schema_version'', JStr report_schema_version),
     (''producer'', JObj [(''name'', JStr ''archspec-inspect''), (''version'', JStr lib_version)]),
     (''collected_categories'', JArr (map JStr (selected_names (report_categories r)))),
     (''data'', JObj (data_members r))]"

section \<open>The writer writes these values\<close>

lemma field_to_json_render: "field_to_json f = render (any_field_json f)"
proof -
  have num: "to_string_u64 v = show_int (int (unat v))" "to_string_i64 w = show_int (sint w)" for v w
    by (simp_all add: to_string_u64_def to_string_i64_def show_int_def)
  have u: "unat (ucast (x :: u32) :: u64) = unat x" for x
  proof -
    have "unat x < 2 ^ 64" by (rule less_trans [OF unat_u32_bound]) simp
    then have "take_bit 64 (unat x) = unat x" by (rule take_bit_nat_eq_self)
    then show ?thesis by (simp add: unsigned_ucast_eq)
  qed
  show ?thesis
    by (cases f) (auto simp: string_field_to_json_def bool_field_to_json_def u32_field_to_json_def
        u64_field_to_json_def i64_field_to_json_def Let_def json_simps num u show_member_def)
qed

lemmas writes = Let_def json_simps append.simps list.map prod.case render.simps(2-6)
  map_prod_simp id_apply field_to_json_render field_members_def map_append

lemma render_members:
  "render (JObj ms) = ''{'' @ commas (map show_member (map (\<lambda>(k, j). (k, render j)) ms)) @ ''}''"
  by (simp add: map_prod_def id_def)

lemma string_render: "json_string s = render (JStr s)"
  by simp

interpretation topology_json: json_encoder cpu_topology_to_json topology_value
  by unfold_locales (simp only: cpu_topology_to_json_def topology_value_def cpu_topology_entry_fields_def writes)

interpretation cache_entry_json: json_encoder cache_info_to_json cache_entry_value
  by unfold_locales (simp only: cache_info_to_json_def cache_entry_value_def cache_info_fields_def list.sel writes)

interpretation numa_json: json_encoder numa_node_to_json numa_value
  by unfold_locales (simp only: numa_node_to_json_def numa_value_def numa_node_info_fields_def writes)

interpretation pci_device_json: json_encoder pci_device_to_json pci_device_value
  by unfold_locales (simp only: pci_device_to_json_def pci_device_value_def pci_device_info_fields_def writes)

interpretation gpu_entry_json: json_encoder gpu_info_to_json gpu_entry_value
  by unfold_locales (simp only: gpu_info_to_json_def gpu_entry_value_def gpu_info_fields_def writes)

interpretation block_entry_json: json_encoder block_device_to_json block_entry_value
  by unfold_locales (simp only: block_device_to_json_def block_entry_value_def block_device_info_fields_def writes)

interpretation interface_json: json_encoder net_interface_to_json interface_value
  by unfold_locales (simp only: net_interface_to_json_def interface_value_def net_interface_info_fields_def writes)

interpretation zone_json: json_encoder thermal_zone_to_json zone_value
  by unfold_locales (simp only: thermal_zone_to_json_def zone_value_def thermal_zone_info_fields_def writes)

interpretation os_json: json_encoder to_json_os os_value
  by unfold_locales (simp only: to_json_os_def os_value_def os_info_fields_def writes)

interpretation cpu_json: json_encoder to_json_cpu cpu_value
  by unfold_locales (simp only: to_json_cpu_def cpu_value_def cpu_info_fields_def topology_json.encode_list writes)

interpretation isa_json: json_encoder to_json_isa isa_value
  by unfold_locales (simp only: to_json_isa_def isa_value_def isa_features_fields_def writes)

interpretation cache_json: json_encoder to_json_cache "entries_value cache_entry_value"
  by unfold_locales (simp only: to_json_cache_def entries_value_def cache_entry_json.encode_list writes)

interpretation memory_json: json_encoder to_json_memory memory_value
  by unfold_locales (simp only: to_json_memory_def memory_value_def memory_info_fields_def numa_json.encode_list writes)

interpretation pci_json: json_encoder to_json_pci "entries_value pci_device_value"
  by unfold_locales (simp only: to_json_pci_def entries_value_def pci_device_json.encode_list writes)

interpretation gpu_json: json_encoder to_json_gpu "entries_value gpu_entry_value"
  by unfold_locales (simp only: to_json_gpu_def entries_value_def gpu_entry_json.encode_list writes)

interpretation perf_json: json_encoder to_json_perf perf_value
  by unfold_locales (simp only: to_json_perf_def perf_value_def perf_counter_availability_fields_def writes)

interpretation block_json: json_encoder to_json_block "entries_value block_entry_value"
  by unfold_locales (simp only: to_json_block_def entries_value_def block_entry_json.encode_list writes)

interpretation net_json: json_encoder to_json_net "entries_value interface_value"
  by unfold_locales (simp only: to_json_net_def entries_value_def interface_json.encode_list writes)

interpretation thermal_json: json_encoder to_json_thermal "entries_value zone_value"
  by unfold_locales (simp only: to_json_thermal_def entries_value_def zone_json.encode_list writes)

interpretation power_json: json_encoder to_json_power power_value
  by unfold_locales (simp only: to_json_power_def power_value_def power_info_fields_def writes)

interpretation virtualization_json: json_encoder to_json_virtualization virtualization_value
  by unfold_locales (simp only: to_json_virtualization_def virtualization_value_def virtualization_info_fields_def writes)

interpretation platform_json: json_encoder to_json_platform platform_value
  by unfold_locales (simp only: to_json_platform_def platform_value_def platform_info_fields_def writes)

lemmas sections_render = os_json.encode_render cpu_json.encode_render isa_json.encode_render
  cache_json.encode_render memory_json.encode_render pci_json.encode_render
  gpu_json.encode_render perf_json.encode_render block_json.encode_render
  net_json.encode_render thermal_json.encode_render power_json.encode_render
  virtualization_json.encode_render platform_json.encode_render

interpretation system_json: json_encoder to_json_system system_value
  by unfold_locales (simp only: to_json_system_def system_value_def sections_render writes)

section \<open>The report\<close>

lemma selected_loop_vector:
  "selected_loop cats b out es =
   vector_loop json_string b out (map snd (filter (\<lambda>e. has_category cats (fst e)) es))"
  by (induction cats b out es rule: selected_loop.induct) simp_all

interpretation name_json: json_encoder json_string JStr
  by unfold_locales simp

lemma selected_to_json_render: "selected_to_json cats = render (JArr (map JStr (selected_names cats)))"
  using name_json.encode_list [of "selected_names cats"]
  by (simp only: selected_to_json_def selected_loop_vector selected_names_def vector_to_json_def)

lemma add_selected_of:
  "add_selected cats c k raw (obj_of ms) = obj_of (ms @ (if has_category cats c then [(k, raw)] else []))"
  by (simp add: add_selected_def json_simps)

lemma filter_concat: "map snd (filter (\<lambda>e. P (fst e)) es) = concat (map (\<lambda>e. if P (fst e) then [snd e] else []) es)"
  by (induction es) simp_all

lemma rendered_if:
  "map (map_prod id render) (if c then [(k, j)] else []) = (if c then [(k, render j)] else [])"
  by simp

lemma data_to_json_render: "data_to_json r = render (JObj (data_members r))"
  unfolding data_to_json_def data_members_def filter_concat section_table_def
  by (simp only: Let_def new_object_of add_selected_of str_of sections_render render.simps(6) list.map
      concat.simps map_append rendered_if append.simps append_assoc append_Nil2 fst_conv snd_conv)

interpretation report_json: json_encoder to_json_report report_value
  by unfold_locales (simp only: to_json_report_def report_value_def selected_to_json_render
      data_to_json_render writes)

text \<open>The categories that are listed are the sections of the data, in the same order.\<close>

lemma data_members_no_cpu:
  "\<not> has_category cats cat_cpu \<Longrightarrow>
   data_members \<lparr>report_categories = cats, report_system = info\<lparr>sys_cpu_info := c\<rparr>\<rparr> =
   data_members \<lparr>report_categories = cats, report_system = info\<rparr>"
  unfolding data_members_def filter_concat section_table_def
  by (cases info) (simp only: report.simps system_info.simps list.map concat.simps fst_conv snd_conv if_False append.simps)

lemma data_keys: "map fst (data_members r) = selected_names (report_categories r)"
  unfolding data_members_def selected_names_def filter_concat section_table_def category_table_def
  by (simp only: list.map concat.simps map_append fst_conv snd_conv if_distrib [of "map fst"])

end
