(* ===== verification/View.thy ===== *)
theory View
  imports Records
begin

text \<open>
  What a collection may depend on. Two hosts have the same view under given options when they
  answer alike to every question about a path below one of the four roots, except for what the
  options hide: without \<open>include_sensitive\<close> the contents of the files named \<open>cmdline\<close> and \<open>address\<close>,
  the host name and the interface addresses may differ; without \<open>allow_perf_open\<close> the answers of
  \<open>perf_event_open\<close> may differ; with a \<open>sysfs_root\<close> other than /sys the interface addresses may
  differ. Each collector is shown to give equal results on hosts with the same view.
\<close>

definition rooted :: "collect_options \<Rightarrow> string \<Rightarrow> bool" where
  "rooted options p \<longleftrightarrow> prefix (procfs_root options) p \<or> prefix (sysfs_root options) p \<or>
     prefix (etc_root options) p \<or> prefix (dev_root options) p"

definition sensitive_name :: "string \<Rightarrow> bool" where
  "sensitive_name n \<longleftrightarrow> n = ''cmdline'' \<or> n = ''address''"

definition same_file_view :: "collect_options \<Rightarrow> host \<Rightarrow> host \<Rightarrow> bool" where
  "same_file_view options h h' \<longleftrightarrow> (\<forall>p. rooted options p \<longrightarrow>
     (include_sensitive options \<or> \<not> sensitive_name (file_name p) \<longrightarrow> host_open h p = host_open h' p) \<and>
     host_exists h p = host_exists h' p \<and> host_is_dir h p = host_is_dir h' p \<and>
     host_dir h p = host_dir h' p \<and> host_symlink h p = host_symlink h' p \<and>
     host_access_rw h p = host_access_rw h' p)"

definition same_view :: "collect_options \<Rightarrow> host \<Rightarrow> host \<Rightarrow> bool" where
  "same_view options h h' \<longleftrightarrow> same_file_view options h h' \<and>
     map_option (nodename_update (\<lambda>n. if include_sensitive options then n else [])) (host_uname h) =
     map_option (nodename_update (\<lambda>n. if include_sensitive options then n else [])) (host_uname h') \<and>
     host_page_size h = host_page_size h' \<and>
     host_pointer_bytes h = host_pointer_bytes h' \<and>
     host_little_endian h = host_little_endian h' \<and>
     host_hw_threads h = host_hw_threads h' \<and>
     (allow_perf_open options \<longrightarrow> host_perf_open h = host_perf_open h') \<and>
     (include_sensitive options \<and> sysfs_root options = ''/sys'' \<longrightarrow> host_ifaddrs h = host_ifaddrs h')"

text \<open>
  Documented behaviour of a POSIX directory: the names of its entries are distinct and none
  contains a slash.
\<close>

definition posix_host :: "host \<Rightarrow> bool" where
  "posix_host h \<longleftrightarrow> (\<forall>p names. host_dir h p = Some names \<longrightarrow>
     distinct names \<and> (\<forall>n \<in> set names. n \<noteq> [] \<and> CHR ''/'' \<notin> set n))"

section \<open>Paths below the roots\<close>

lemma rooted_paths [host_simps, simp]:
  "rooted opts (proc_path opts s)" "rooted opts (sys_path opts s)"
  "rooted opts (etc_path opts s)" "rooted opts (dev_path opts s)"
  by (simp_all add: rooted_def rooted_path_defs join_path_prefix)

lemma rooted_join [host_simps, simp]: "rooted opts p \<Longrightarrow> rooted opts (join_path p s)"
  by (auto simp: rooted_def join_path_under)

text \<open>The name of the file a joined path opens, for relative names.\<close>

lemma file_name_literal: "CHR ''/'' \<notin> set n \<Longrightarrow> n \<noteq> [] \<Longrightarrow> file_name (join_path p n) = n"
  using file_name_slash [of n "[]"] by (simp add: file_name_join)

lemma file_name_two: "CHR ''/'' \<notin> set n \<Longrightarrow> file_name (join_path p (d @ ''/'' @ n)) = n"
  using file_name_slash [of n "CHR ''/'' # d"] by (simp add: file_name_join)

lemma same_viewD: "same_view opts h h' \<Longrightarrow> same_file_view opts h h'"
  by (simp add: same_view_def)

section \<open>The readers agree\<close>

lemma view_open:
  "same_file_view opts h h' \<Longrightarrow> rooted opts p \<Longrightarrow> include_sensitive opts \<or> \<not> sensitive_name (file_name p) \<Longrightarrow>
   host_open h p = host_open h' p"
  by (auto simp: same_file_view_def)

lemma view_answers:
  assumes "same_file_view opts h h'" "rooted opts p"
  shows "host_exists h p = host_exists h' p" "path_exists h p = path_exists h' p"
    "path_is_dir h p = path_is_dir h' p" "list_dir h p = list_dir h' p"
    "read_symlink_target h p = read_symlink_target h' p"
    "read_symlink_basename_field h p = read_symlink_basename_field h' p"
    "host_access_rw h p = host_access_rw h' p"
  using assms status_for_path_error_cong [of h p h']
  by (simp_all add: same_file_view_def path_exists_def path_is_dir_def list_dir_def
      read_symlink_target_def read_symlink_basename_field_def split: option.split)

lemma view_reads:
  assumes "same_file_view opts h h'" "rooted opts p" "include_sensitive opts \<or> \<not> sensitive_name (file_name p)"
  shows "read_file h p = read_file h' p" "read_first_line h p = read_first_line h' p"
    "read_string_field h p t = read_string_field h' p t"
    "read_u64_field h p m = read_u64_field h' p m" "read_u32_field h p = read_u32_field h' p"
    "read_i64_field h p = read_i64_field h' p"
    "read_cpu_list_count_field h p = read_cpu_list_count_field h' p"
    "read_size_bytes_field h p = read_size_bytes_field h' p"
proof -
  have "host_open h p = host_open h' p" "host_exists h p = host_exists h' p"
    using assms view_open view_answers by blast+
  then show "read_file h p = read_file h' p" "read_first_line h p = read_first_line h' p"
    "read_string_field h p t = read_string_field h' p t"
    "read_u64_field h p m = read_u64_field h' p m" "read_u32_field h p = read_u32_field h' p"
    "read_i64_field h p = read_i64_field h' p"
    "read_cpu_list_count_field h p = read_cpu_list_count_field h' p"
    "read_size_bytes_field h p = read_size_bytes_field h' p"
    by (rule read_file_cong read_first_line_cong string_reader.depends_on_path
        u64_reader.depends_on_path u32_reader.depends_on_path i64_reader.depends_on_path
        cpu_list_reader.depends_on_path size_reader.depends_on_path; assumption)+
qed

text \<open>
  The same rules for the paths the collectors build, with the side conditions on literal names
  in a form the simplifier decides.
\<close>

lemma view_reads_join:
  assumes "same_file_view opts h h'" "rooted opts p" "n \<noteq> []" "\<not> sensitive_name (file_name (CHR ''/'' # n))"
  shows "read_file h (join_path p n) = read_file h' (join_path p n)"
    "read_first_line h (join_path p n) = read_first_line h' (join_path p n)"
    "read_string_field h (join_path p n) t = read_string_field h' (join_path p n) t"
    "read_u64_field h (join_path p n) m = read_u64_field h' (join_path p n) m"
    "read_u32_field h (join_path p n) = read_u32_field h' (join_path p n)"
    "read_i64_field h (join_path p n) = read_i64_field h' (join_path p n)"
    "read_size_bytes_field h (join_path p n) = read_size_bytes_field h' (join_path p n)"
  using view_reads [of opts h h' "join_path p n"] assms by (simp_all add: file_name_join)

lemma view_reads_sys:
  assumes "same_file_view opts h h'" "n \<noteq> []" "\<not> sensitive_name (file_name (CHR ''/'' # n))"
  shows "read_file h (sys_path opts n) = read_file h' (sys_path opts n)"
    "read_first_line h (sys_path opts n) = read_first_line h' (sys_path opts n)"
    "read_string_field h (sys_path opts n) t = read_string_field h' (sys_path opts n) t"
    "read_cpu_list_count_field h (sys_path opts n) = read_cpu_list_count_field h' (sys_path opts n)"
  using view_reads [of opts h h' "sys_path opts n"] assms
  by (simp_all add: sys_path_def file_name_join) (simp_all add: rooted_def join_path_prefix)

lemma view_reads_proc:
  assumes "same_file_view opts h h'" "n \<noteq> []" "\<not> sensitive_name (file_name (CHR ''/'' # n))"
  shows "read_file h (proc_path opts n) = read_file h' (proc_path opts n)"
    "read_first_line h (proc_path opts n) = read_first_line h' (proc_path opts n)"
  using view_reads [of opts h h' "proc_path opts n"] assms
  by (simp_all add: proc_path_def file_name_join) (simp_all add: rooted_def join_path_prefix)

lemma view_reads_etc:
  assumes "same_file_view opts h h'" "n \<noteq> []" "\<not> sensitive_name (file_name (CHR ''/'' # n))"
  shows "read_file h (etc_path opts n) = read_file h' (etc_path opts n)"
  using view_reads [of opts h h' "etc_path opts n"] assms
  by (simp_all add: etc_path_def file_name_join) (simp_all add: rooted_def join_path_prefix)

lemmas view_rules = view_reads_join view_reads_sys view_reads_proc view_reads_etc view_answers

section \<open>The contract of a collector\<close>

text \<open>
  What \<open>Collector::collect\<close> and the report rely on: a collector looks at nothing beyond its view,
  it delivers honest fields only, and it does not look at the selection of categories.
\<close>

locale collector =
  fixes collect_it :: "collect_options \<Rightarrow> host \<Rightarrow> 'a"
    and its_fields :: "'a \<Rightarrow> (string \<times> any_field) list"
  assumes view: "same_view opts h h' \<Longrightarrow> posix_host h \<Longrightarrow> collect_it opts h = collect_it opts h'"
    and honest: "all_honest (its_fields (collect_it opts h))"
    and any_selection: "collect_it (opts\<lparr>categories := c\<rparr>) h = collect_it opts h"
begin

lemma never_invalid_ok: "(k, f) \<in> set (its_fields (collect_it opts h)) \<Longrightarrow> any_honest f"
  using honest [of opts h] by (auto simp: all_honest_def list_all_iff)

end

lemma sorted_list_dir [simp]: "sorted (list_dir h p)"
  by (simp add: list_dir_def split: option.split)

lemma distinct_list_dir: "posix_host h \<Longrightarrow> distinct (list_dir h p)"
  by (auto simp: posix_host_def list_dir_def split: option.split)

lemma set_list_dir: "n \<in> set (list_dir h p) \<longleftrightarrow> (\<exists>names. host_dir h p = Some names \<and> n \<in> set names)"
  by (cases "host_dir h p") (auto simp: list_dir_def)

lemma listed_name: "posix_host h \<Longrightarrow> n \<in> set (list_dir h p) \<Longrightarrow> n \<noteq> [] \<and> CHR ''/'' \<notin> set n"
  by (auto simp: posix_host_def set_list_dir simp del: split_paired_All)

text \<open>
  A list of names that is the listing of a directory, restricted to the entries that pass a test:
  in order, without repetition and complete.
\<close>

definition lists_entries :: "host \<Rightarrow> string \<Rightarrow> (string \<Rightarrow> bool) \<Rightarrow> string list \<Rightarrow> bool" where
  "lists_entries h p passes names \<longleftrightarrow> sorted_wrt (<) names \<and>
     set names = {n. passes n \<and> (\<exists>entries. host_dir h p = Some entries \<and> n \<in> set entries)}"

lemma lists_entries_filter: "posix_host h \<Longrightarrow> lists_entries h p passes (filter passes (list_dir h p))"
  by (auto simp: lists_entries_def strict_sorted_iff distinct_list_dir sorted_wrt_filter set_list_dir)

text \<open>A loop over a directory listing agrees when its test and its body agree on every entry.\<close>

lemma map_listing_cong:
  assumes "same_file_view opts h h'" "rooted opts p"
    and "\<And>n. n \<in> set (list_dir h p) \<Longrightarrow> P n = Q n"
    and "\<And>n. n \<in> set (list_dir h p) \<Longrightarrow> P n \<Longrightarrow> f n = g n"
  shows "map f (filter P (list_dir h p)) = map g (filter Q (list_dir h' p))"
proof -
  have "list_dir h' p = list_dir h p" using view_answers(4) [OF assms(1,2)] by simp
  moreover have "filter Q (list_dir h p) = filter P (list_dir h p)"
    using assms(3) by (auto intro: filter_cong)
  ultimately show ?thesis using assms(4) by simp
qed

text \<open>What the simplifier needs to see that a path with a literal end is not a sensitive one.\<close>

lemmas literal_name = file_name_def sensitive_name_def

end
