(* ===== verification/Collect_Os.thy ===== *)
theory Collect_Os
  imports View
begin

text \<open>
  \<open>src/src/os.cc\<close>, in its POSIX branch (\<open>Windows_Build\<close> has the other):
  \<open>uname\<close>, \<open>sysconf\<close>, the width and byte order of the running program, the
  kernel command line and the file os-release.
\<close>

definition os_release_line :: "kv_map \<Rightarrow> string \<Rightarrow> kv_map" where
  "os_release_line values raw = (let line = trim raw
     in if line = [] \<or> hd line = CHR 0x23 then values
        else (case find_char (CHR ''='') line of
            None \<Rightarrow> values
          | Some equals \<Rightarrow> AList.update (trim (substr line 0 equals))
              (unquote_value (drop (equals + 1) line)) values))"

definition parse_os_release :: "string \<Rightarrow> kv_map" where
  "parse_os_release txt = foldl os_release_line [] (lines_by (CHR 0x0A) txt)"

definition os_release_field :: "kv_map \<Rightarrow> string list \<Rightarrow> string_field" where
  "os_release_field values keys = string_from_map values keys"

definition uname_fields :: "host \<Rightarrow> os_info \<Rightarrow> os_info" where
  "uname_fields h info = (case host_uname h of
       Some uts \<Rightarrow> info\<lparr>
         os_kernel_name := field_value (sysname uts),
         os_kernel_release := field_value (release uts),
         os_kernel_version := field_value (version uts),
         os_machine := field_value (machine uts),
         os_hostname := field_value (nodename uts)\<rparr>
     | None \<Rightarrow> info\<lparr>
         os_kernel_name := unavailable internal_error,
         os_kernel_release := unavailable internal_error,
         os_kernel_version := unavailable internal_error,
         os_machine := unavailable internal_error,
         os_hostname := unavailable internal_error\<rparr>)"

text \<open>\<open>sysconf(_SC_PAGESIZE)\<close> is a \<open>long\<close>; a positive one is the same 64 bits read unsigned.\<close>

definition page_size_field :: "host \<Rightarrow> u64_field" where
  "page_size_field h = (if sint (host_page_size h) > 0 then field_value (host_page_size h)
                        else unavailable not_found)"

definition distro_fields :: "collect_options \<Rightarrow> host \<Rightarrow> os_info \<Rightarrow> os_info" where
  "distro_fields options h info = (let os_release = read_file h (etc_path options ''/os-release'')
     in if rr_status os_release \<noteq> ok then info\<lparr>
            os_distro_name := unavailable (rr_status os_release),
            os_distro_version := unavailable (rr_status os_release),
            os_distro_id := unavailable (rr_status os_release)\<rparr>
        else let values = parse_os_release (rr_value os_release) in info\<lparr>
            os_distro_name := os_release_field values [''PRETTY_NAME'', ''NAME''],
            os_distro_version := os_release_field values [''VERSION_ID'', ''VERSION''],
            os_distro_id := os_release_field values [''ID'']\<rparr>)"

text \<open>What every build fills in after the answers of its system calls.\<close>

definition os_common_fields :: "collect_options \<Rightarrow> host \<Rightarrow> os_info \<Rightarrow> os_info" where
  "os_common_fields options h info =
     (let info = info\<lparr>os_word_size := field_value (host_pointer_bytes h * 8)\<rparr>;
          info = info\<lparr>os_endianness := field_value (if host_little_endian h then ''little'' else ''big'')\<rparr>;
          info = info\<lparr>os_cmdline := read_string_field h (proc_path options ''/cmdline'') False\<rparr>
      in (if \<not> include_sensitive options
          then info\<lparr>os_hostname := unavailable redacted, os_cmdline := unavailable redacted\<rparr>
          else info))"

definition collect_os :: "collect_options \<Rightarrow> host \<Rightarrow> os_info" where
  "collect_os options h =
     (let info = uname_fields h new_os_info;
          info = info\<lparr>os_page_size := page_size_field h\<rparr>
      in distro_fields options h (os_common_fields options h info))"

section \<open>The contract\<close>

lemma honest_page_size [honest_intros, simp]: "honest (page_size_field h)"
  by (simp add: page_size_field_def)

lemma honest_os_release_field [honest_intros, simp]: "honest (os_release_field m ks)"
  by (simp add: os_release_field_def)

text \<open>With \<open>include_sensitive\<close> off only the host name depends on more than the view.\<close>

lemma uname_view_sensitive:
  "same_view opts h h' \<Longrightarrow> include_sensitive opts \<Longrightarrow> uname_fields h info = uname_fields h' info"
proof -
  assume "same_view opts h h'" "include_sensitive opts"
  moreover have "nodename_update (\<lambda>n. n) = (\<lambda>u :: utsname. u)"
  proof
    fix u :: utsname
    show "nodename_update (\<lambda>n. n) u = u" by (cases u) simp
  qed
  ultimately have "host_uname h = host_uname h'" by (simp add: same_view_def option.map_ident)
  then show ?thesis by (simp add: uname_fields_def)
qed

lemma uname_view_redacted:
  assumes "same_view opts h h'" "\<not> include_sensitive opts"
  shows "(uname_fields h info)\<lparr>os_hostname := x\<rparr> = (uname_fields h' info)\<lparr>os_hostname := x\<rparr>"
proof -
  have e: "map_option (nodename_update (\<lambda>n. [])) (host_uname h) = map_option (nodename_update (\<lambda>n. [])) (host_uname h')"
    using assms by (simp add: same_view_def)
  show ?thesis
  proof (cases "host_uname h")
    case None
    with e show ?thesis by (simp add: uname_fields_def)
  next
    case (Some u)
    with e obtain u' where u': "host_uname h' = Some u'"
      and eq: "nodename_update (\<lambda>n. []) u = nodename_update (\<lambda>n. []) u'"
      by (cases "host_uname h'") auto
    have "sysname u = sysname u'" "release u = release u'" "version u = version u'" "machine u = machine u'"
      using arg_cong [OF eq, of sysname] arg_cong [OF eq, of release] arg_cong [OF eq, of version]
        arg_cong [OF eq, of machine] by simp_all
    with Some u' show ?thesis by (simp add: uname_fields_def)
  qed
qed

lemma distro_any_selection: "distro_fields (opts\<lparr>categories := c\<rparr>) h = distro_fields opts h"
  by (intro ext) (simp add: distro_fields_def)

lemma distro_view:
  "same_file_view opts h h' \<Longrightarrow> distro_fields opts h = distro_fields opts h'"
  by (intro ext) (simp add: distro_fields_def Let_def literal_name view_reads_etc [of opts h h'])

lemma os_common_any_selection: "os_common_fields (opts\<lparr>categories := c\<rparr>) h = os_common_fields opts h"
  by (intro ext) (simp add: os_common_fields_def)

interpretation os: collector collect_os os_info_fields
proof
  fix opts h h'
  assume s: "same_view opts h h'"
  then have v: "same_file_view opts h h'" by (rule same_viewD)
  have more: "page_size_field h = page_size_field h'" "host_pointer_bytes h = host_pointer_bytes h'"
    "host_little_endian h = host_little_endian h'"
    using s by (simp_all add: same_view_def page_size_field_def)
  have cmd: "include_sensitive opts \<Longrightarrow>
      read_string_field h (proc_path opts ''/cmdline'') t = read_string_field h' (proc_path opts ''/cmdline'') t" for t
    by (rule view_reads(3) [OF v]) simp_all
  have dist: "distro_fields opts h = distro_fields opts h'" by (rule distro_view [OF v])
  show "collect_os opts h = collect_os opts h'"
  proof (cases "include_sensitive opts")
    case True
    then show ?thesis
      by (simp add: collect_os_def os_common_fields_def Let_def more cmd dist uname_view_sensitive [OF s])
  next
    case False
    have swap: "i\<lparr>os_page_size := p, os_word_size := w, os_endianness := e, os_hostname := n, os_cmdline := c\<rparr> =
        i\<lparr>os_hostname := n, os_page_size := p, os_word_size := w, os_endianness := e, os_cmdline := c\<rparr>"
      for i :: os_info and p w e n c
      by (cases i) simp
    have mid: "(uname_fields h i)\<lparr>os_page_size := p, os_word_size := w, os_endianness := e,
          os_hostname := unavailable redacted, os_cmdline := c\<rparr> =
        (uname_fields h' i)\<lparr>os_page_size := p, os_word_size := w, os_endianness := e,
          os_hostname := unavailable redacted, os_cmdline := c\<rparr>" for i p w e c
      unfolding swap using arg_cong [OF uname_view_redacted [OF s False, where info = i and x = "unavailable redacted"],
          of "\<lambda>i. i\<lparr>os_page_size := p, os_word_size := w, os_endianness := e, os_cmdline := c\<rparr>"] by simp
    show ?thesis using False by (simp add: collect_os_def os_common_fields_def Let_def more dist mid)
  qed
next
  fix opts :: collect_options and c h
  show "collect_os (opts\<lparr>categories := c\<rparr>) h = collect_os opts h"
    by (simp add: collect_os_def os_common_any_selection distro_any_selection)
qed (auto simp: collect_os_def os_common_fields_def uname_fields_def distro_fields_def Let_def os_info_fields_def
      new_os_info_def split: option.split)

lemma collect_os_redacts:
  "\<not> include_sensitive opts \<Longrightarrow> os_hostname (collect_os opts h) = unavailable redacted \<and>
     os_cmdline (collect_os opts h) = unavailable redacted"
  by (simp add: collect_os_def os_common_fields_def Let_def distro_fields_def)

section \<open>Reading back an os-release file\<close>

text \<open>
  A line of the file: the key, an equals sign, and the value between double quotes with a
  backslash before each character of \<open>E\<close>, as os-release(5) asks for.
\<close>

definition show_assignment :: "char set \<Rightarrow> string \<times> string \<Rightarrow> string" where
  "show_assignment E e = fst e @ ''='' @ [CHR 0x22] @ shell_escape E (snd e) @ [CHR 0x22]"

definition assignment_printable :: "string \<times> string \<Rightarrow> bool" where
  "assignment_printable e \<longleftrightarrow> fst e \<noteq> [] \<and> hd (fst e) \<noteq> CHR 0x23 \<and> CHR ''='' \<notin> set (fst e) \<and>
     CHR 0x0A \<notin> set (fst e) \<and> (\<forall>c \<in> set (fst e). \<not> isspace c) \<and> CHR 0x0A \<notin> set (snd e)"

lemma os_release_line_show:
  assumes "assignment_printable (k, v)" "CHR 0x5C \<in> E"
  shows "os_release_line m (show_assignment E (k, v)) = AList.update k v m"
proof -
  have k: "k \<noteq> []" "hd k \<noteq> CHR 0x23" "CHR ''='' \<notin> set k" "\<forall>c \<in> set k. \<not> isspace c"
    using assms(1) by (simp_all add: assignment_printable_def)
  let ?l = "show_assignment E (k, v)"
  have "\<not> isspace (hd k)" using k by (cases k) auto
  then have t: "trim ?l = ?l"
    by (intro trim_id) (simp_all add: show_assignment_def k(1) isspace_def)
  have f: "find_char (CHR ''='') ?l = Some (length k)"
    using find_char_append [OF k(3)] by (simp add: show_assignment_def)
  have "unquote_value (drop (length k + 1) ?l) = v"
    using unquote_value_quoted [of "CHR 0x22" "[]" "[]" "shell_escape E v"] assms(2)
    by (simp add: show_assignment_def unquote_loop_escape)
  moreover have "trim (substr ?l 0 (length k)) = k"
    using k(4) by (simp add: show_assignment_def substr_def trim_no_space)
  ultimately show ?thesis using k(1,2)
    by (simp only: os_release_line_def Let_def t f option.case) (simp add: show_assignment_def)
qed

lemma parse_os_release_show:
  assumes "\<forall>e \<in> set es. assignment_printable e" "CHR 0x5C \<in> E" "CHR 0x0A \<notin> E"
  shows "parse_os_release (concat (map (\<lambda>e. show_assignment E e @ [CHR 0x0A]) es)) =
    foldl (\<lambda>m (k, v). AList.update k v m) [] es"
proof -
  have esc: "CHR 0x0A \<notin> set s \<Longrightarrow> CHR 0x0A \<notin> set (shell_escape E s)" for s
    by (induction s) (auto simp: shell_escape_def)
  have nl: "assignment_printable e \<Longrightarrow> CHR 0x0A \<notin> set (show_assignment E e)" for e
    by (auto simp: assignment_printable_def show_assignment_def esc)
  have "foldl os_release_line m (lines_by (CHR 0x0A) (concat (map (\<lambda>e. show_assignment E e @ [CHR 0x0A]) es))) =
      foldl (\<lambda>m (k, v). AList.update k v m) m es" for m
    using assms(1)
  proof (induction es arbitrary: m)
    case (Cons e es)
    obtain k v where e: "e = (k, v)" by (cases e)
    show ?case using Cons lines_by_Cons [OF nl [of e]] os_release_line_show [OF _ assms(2), of k v]
      by (simp add: e)
  qed simp
  then show ?thesis by (simp add: parse_os_release_def)
qed

end
