(* ===== verification/Probing.thy ===== *)
theory Probing
  imports View
begin

text \<open>
  Two helpers that several sources repeat: the loop that takes the first readable file of a list
  of candidates (\<open>first_u64_file\<close> in \<open>src/src/gpu.cc\<close>, \<open>read_khz_as_mhz\<close> in \<open>src/src/power.cc\<close>), and
  \<open>cpu_dirs\<close>, which \<open>src/src/cpu.cc\<close> and \<open>src/src/cache.cc\<close> define alike.
\<close>

section \<open>The first readable candidate\<close>

definition next_status :: "status \<Rightarrow> status \<Rightarrow> status" where
  "next_status last_status st = (if st \<noteq> not_found then st else last_status)"

text \<open>
  The contract: the first candidate with a valid field decides; without one the status of the last
  candidate that exists but can not be used is reported.
\<close>

locale candidate_loop =
  fixes probe :: "host \<Rightarrow> status \<Rightarrow> string list \<Rightarrow> 'b::default field"
    and candidate :: "host \<Rightarrow> string \<Rightarrow> 'a::default field"
    and convert :: "'a \<Rightarrow> 'b"
  assumes probe_Nil: "probe h st [] = unavailable st"
    and probe_Cons: "probe h st (p # ps) =
      (if valid (candidate h p) then field_value (convert (val (candidate h p)))
       else probe h (next_status st (field_status (candidate h p))) ps)"
    and candidate_honest: "honest (candidate h p)"
begin

lemma probe_first:
  "probe h st ps = (case List.find (\<lambda>p. valid (candidate h p)) ps of
     Some p \<Rightarrow> field_value (convert (val (candidate h p)))
   | None \<Rightarrow> unavailable (foldl next_status st (map (\<lambda>p. field_status (candidate h p)) ps)))"
  by (induction ps arbitrary: st) (simp_all add: probe_Nil probe_Cons split: option.split)

lemma probe_honest: "st \<noteq> ok \<Longrightarrow> honest (probe h st ps)"
proof (induction ps arbitrary: st)
  case (Cons p ps)
  have "\<not> valid (candidate h p) \<Longrightarrow> field_status (candidate h p) \<noteq> ok"
    using candidate_honest [of h p] by (simp add: honest_def)
  with Cons show ?case by (auto simp: probe_Cons next_status_def)
qed (simp add: probe_Nil)

lemma probe_missing:
  "\<forall>p \<in> set ps. candidate h p = unavailable not_found \<Longrightarrow> probe h not_found ps = unavailable not_found"
  by (induction ps) (simp_all add: probe_Nil probe_Cons next_status_def)

lemma probe_cong: "\<forall>p \<in> set ps. candidate h p = candidate h' p \<Longrightarrow> probe h st ps = probe h' st ps"
  by (induction ps arbitrary: st) (simp_all add: probe_Nil probe_Cons split: option.split)

end

section \<open>CPU directories\<close>

text \<open>The number after \<open>cpu\<close>, for the names that the loop does not skip.\<close>

definition cpu_dir_id :: "string \<Rightarrow> u64 option" where
  "cpu_dir_id name =
     (if \<not> starts_with name ''cpu'' \<or> length name = 3 then None
      else (case parse_u64 (drop 3 name) of
          None \<Rightarrow> None
        | Some cpu \<Rightarrow> if cpu > u32_max then None else Some cpu))"

fun cpu_dirs_loop :: "string \<Rightarrow> string list \<Rightarrow> (u64 \<times> string) list" where
  "cpu_dirs_loop root [] = []"
| "cpu_dirs_loop root (name # names) = (case cpu_dir_id name of
       None \<Rightarrow> cpu_dirs_loop root names
     | Some cpu \<Rightarrow> (cpu, join_path root name) # cpu_dirs_loop root names)"

definition cpu_dirs :: "collect_options \<Rightarrow> host \<Rightarrow> (u64 \<times> string) list" where
  "cpu_dirs options h = (let root = sys_path options ''/devices/system/cpu''
     in sort (cpu_dirs_loop root (list_dir h root)))"

lemma set_cpu_dirs_loop:
  "(i, p) \<in> set (cpu_dirs_loop root ns) \<longleftrightarrow> (\<exists>n \<in> set ns. cpu_dir_id n = Some i \<and> p = join_path root n)"
  by (induction ns) (auto split: option.split)

lemma rooted_cpu_dirs: "(i, p) \<in> set (cpu_dirs opts h) \<Longrightarrow> rooted opts p"
  by (auto simp: cpu_dirs_def Let_def set_cpu_dirs_loop)

lemma cpu_dirs_view: "same_file_view opts h h' \<Longrightarrow> cpu_dirs opts h = cpu_dirs opts h'"
  by (simp add: cpu_dirs_def view_answers [of opts h h'])

lemma cpu_dirs_u32: "(i, p) \<in> set (cpu_dirs opts h) \<Longrightarrow> i \<le> u32_max"
  by (auto simp: cpu_dirs_def Let_def set_cpu_dirs_loop cpu_dir_id_def split: if_splits option.splits)

text \<open>The CPUs come in numeric order, whatever the order of their names.\<close>

lemma sorted_cpu_dirs: "sorted (map fst (cpu_dirs opts h))"
proof -
  have "sorted xs \<Longrightarrow> sorted (map fst xs)" for xs :: "(u64 \<times> string) list"
    by (induction xs) (auto simp: less_eq_prod_def less_le)
  then show ?thesis by (simp add: cpu_dirs_def Let_def)
qed

text \<open>Their numbers are those of the directory names; no name gives two of them.\<close>

lemma cpu_dirs_ids:
  "fst ` set (cpu_dirs opts h) =
     {i. Some i \<in> cpu_dir_id ` set (list_dir h (sys_path opts ''/devices/system/cpu''))}"
proof -
  let ?root = "sys_path opts ''/devices/system/cpu''"
  have "i \<in> fst ` set (cpu_dirs_loop ?root ns) \<longleftrightarrow> Some i \<in> cpu_dir_id ` set ns" for i ns
  proof -
    have "i \<in> fst ` set (cpu_dirs_loop ?root ns) \<longleftrightarrow> (\<exists>p. (i, p) \<in> set (cpu_dirs_loop ?root ns))" by force
    also have "\<dots> \<longleftrightarrow> Some i \<in> cpu_dir_id ` set ns" by (simp add: set_cpu_dirs_loop image_iff) metis
    finally show ?thesis .
  qed
  then show ?thesis by (auto simp: cpu_dirs_def Let_def)
qed

lemma length_cpu_dirs: "length (cpu_dirs opts h) \<le> length (list_dir h (sys_path opts ''/devices/system/cpu''))"
proof -
  have "length (cpu_dirs_loop root ns) \<le> length ns" for root ns
    by (induction ns) (auto split: option.split)
  then show ?thesis by (simp add: cpu_dirs_def Let_def)
qed

section \<open>The CPU flags\<close>

text \<open>
  \<open>CpuFlagResult\<close> of \<open>src/src/perf.cc\<close> and \<open>CpuFlags\<close> of \<open>src/src/virtualization.cc\<close>: the words of
  the first of some keys that the first block of /proc/cpuinfo has, and whether that key was
  \<open>flags\<close>. The two functions that fill it differ in their keys only.
\<close>

record cpu_flag_result =
  flag_status :: status
  flag_words :: "string set"
  flag_x86 :: bool

fun first_flag_key :: "kv_map \<Rightarrow> string list \<Rightarrow> cpu_flag_result" where
  "first_flag_key blk [] = \<lparr>flag_status = not_found, flag_words = {}, flag_x86 = False\<rparr>"
| "first_flag_key blk (key # keys) = (case map_value blk key of
       Some v \<Rightarrow> \<lparr>flag_status = ok, flag_words = word_set v, flag_x86 = (key = ''flags'')\<rparr>
     | None \<Rightarrow> first_flag_key blk keys)"

definition flags_from_cpuinfo :: "string list \<Rightarrow> collect_options \<Rightarrow> host \<Rightarrow> cpu_flag_result" where
  "flags_from_cpuinfo keys options h =
     (let cpuinfo = read_file h (proc_path options ''/cpuinfo'')
      in if rr_status cpuinfo \<noteq> ok
         then \<lparr>flag_status = rr_status cpuinfo, flag_words = {}, flag_x86 = False\<rparr>
         else let blocks = parse_colon_blocks (rr_value cpuinfo)
           in if blocks = [] then \<lparr>flag_status = parse_error, flag_words = {}, flag_x86 = False\<rparr>
              else first_flag_key (hd blocks) keys)"

lemma flags_view:
  "same_file_view opts h h' \<Longrightarrow> flags_from_cpuinfo keys opts h = flags_from_cpuinfo keys opts h'"
  by (simp add: flags_from_cpuinfo_def literal_name view_reads_proc [of opts h h'])

lemma first_flag_key_failed:
  "flag_status (first_flag_key b ks) \<noteq> ok \<Longrightarrow>
   flag_words (first_flag_key b ks) = {} \<and> \<not> flag_x86 (first_flag_key b ks)"
  by (induction ks) (auto split: option.splits)

text \<open>Without a status \<open>ok\<close> there are no flags.\<close>

lemma flags_failed:
  "flag_status (flags_from_cpuinfo ks opts h) \<noteq> ok \<Longrightarrow>
   flag_words (flags_from_cpuinfo ks opts h) = {} \<and> \<not> flag_x86 (flags_from_cpuinfo ks opts h)"
  by (auto simp: flags_from_cpuinfo_def Let_def first_flag_key_failed split: if_splits)

end
