(* ===== verification/Collect_Cpu.thy ===== *)
theory Collect_Cpu
  imports Probing
begin

text \<open>
  \<open>src/src/cpu.cc\<close>, in its POSIX branch (\<open>Windows_Build\<close> has the other):
  the first block of /proc/cpuinfo describes the processor, /sys/devices/system/cpu its topology,
  and the counts of sockets, cores and threads are computed from both.
\<close>

definition arch_from_machine :: "string \<Rightarrow> arch_type" where
  "arch_from_machine mach =
     (if mach = ''x86_64'' \<or> mach = ''amd64'' then Arch_x86_64
      else if mach = ''i386'' \<or> mach = ''i486'' \<or> mach = ''i586'' \<or> mach = ''i686'' then Arch_x86
      else if mach = ''armv7l'' \<or> mach = ''armv8l'' \<or> starts_with mach ''armv'' then Arch_arm
      else if mach = ''aarch64'' \<or> mach = ''arm64'' then Arch_aarch64
      else if mach = ''riscv32'' then Arch_riscv32
      else if mach = ''riscv64'' then Arch_riscv64
      else if mach = ''ppc64'' \<or> mach = ''ppc64le'' then Arch_ppc64
      else if mach = ''s390x'' then Arch_s390x
      else Arch_unknown)"

definition u32_from_text :: "string \<Rightarrow> u32 option" where
  "u32_from_text txt = (case parse_u64 txt of
       None \<Rightarrow> None
     | Some v \<Rightarrow> if v > u32_max then None else Some (ucast v))"

definition u32_from_map :: "kv_map \<Rightarrow> string \<Rightarrow> u32 option" where
  "u32_from_map blk key = (case map_value blk key of None \<Rightarrow> None | Some v \<Rightarrow> u32_from_text v)"

text \<open>The loop over the words of \<open>address sizes\<close>; a number is remembered for the word after it.\<close>

record address_scan =
  last_number :: u64
  have_number :: bool
  phys_bits :: "u64 option"
  virt_bits :: "u64 option"

definition address_word :: "address_scan \<Rightarrow> string \<Rightarrow> address_scan" where
  "address_word s word = (case parse_u64 word of
       Some parsed \<Rightarrow> s\<lparr>last_number := parsed, have_number := True\<rparr>
     | None \<Rightarrow>
         if have_number s \<and> starts_with word ''physical'' then s\<lparr>phys_bits := Some (last_number s)\<rparr>
         else if have_number s \<and> starts_with word ''virtual'' then s\<lparr>virt_bits := Some (last_number s)\<rparr>
         else s)"

definition found_or_parse_error :: "u64 option \<Rightarrow> u64_field" where
  "found_or_parse_error found = (case found of None \<Rightarrow> unavailable parse_error | Some v \<Rightarrow> field_value v)"

definition parse_address_sizes :: "kv_map \<Rightarrow> u64_field \<times> u64_field" where
  "parse_address_sizes blk = (case map_value blk ''address sizes'' of
       None \<Rightarrow> (unavailable not_found, unavailable not_found)
     | Some txt \<Rightarrow>
         (let s = foldl address_word
                \<lparr>last_number = 0, have_number = False, phys_bits = None, virt_bits = None\<rparr>
                (split_words txt)
          in (found_or_parse_error (phys_bits s), found_or_parse_error (virt_bits s))))"

fun first_flags_loop :: "kv_map \<Rightarrow> string list \<Rightarrow> string" where
  "first_flags_loop blk [] = []"
| "first_flags_loop blk (key # keys) = (case map_value blk key of
       Some v \<Rightarrow> v
     | None \<Rightarrow> first_flags_loop blk keys)"

definition first_flags :: "kv_map \<Rightarrow> string" where
  "first_flags blk = first_flags_loop blk [''flags'', ''Features'', ''isa'']"

fun first_nonempty_loop :: "host \<Rightarrow> string list \<Rightarrow> string_field" where
  "first_nonempty_loop h [] = unavailable not_found"
| "first_nonempty_loop h (path # paths) = (let field = read_string_field h path True
     in if valid field \<and> val field \<noteq> [] then field else first_nonempty_loop h paths)"

definition first_existing_hypervisor_vendor :: "collect_options \<Rightarrow> host \<Rightarrow> string_field" where
  "first_existing_hypervisor_vendor options h = first_nonempty_loop h
     [sys_path options ''/hypervisor/type'',
      sys_path options ''/class/dmi/id/product_name'',
      sys_path options ''/class/dmi/id/sys_vendor'']"

definition add_processor :: "(u64, kv_map) std_map \<Rightarrow> kv_map \<Rightarrow> (u64, kv_map) std_map" where
  "add_processor by_id blk = (case map_value blk ''processor'' of
       None \<Rightarrow> by_id
     | Some processor \<Rightarrow> (case parse_u64 processor of
           None \<Rightarrow> by_id
         | Some i \<Rightarrow> AList.update i blk by_id))"

definition blocks_by_processor :: "kv_map list \<Rightarrow> (u64, kv_map) std_map" where
  "blocks_by_processor blocks = foldl add_processor [] blocks"

definition cpuinfo_entry :: "kv_map \<Rightarrow> cpu_topology_entry option" where
  "cpuinfo_entry blk = (case u32_from_map blk ''processor'' of
       None \<Rightarrow> None
     | Some processor \<Rightarrow>
         (let entry = new_cpu_topology_entry\<lparr>topo_logical_id := field_value processor\<rparr>;
              entry = (case u32_from_map blk ''core id'' of
                  Some core \<Rightarrow> entry\<lparr>topo_core_id := field_value core\<rparr> | None \<Rightarrow> entry);
              entry = (case u32_from_map blk ''physical id'' of
                  Some package \<Rightarrow> entry\<lparr>topo_package_id := field_value package\<rparr> | None \<Rightarrow> entry)
          in Some entry))"

definition add_cpuinfo_topology :: "kv_map list \<Rightarrow> cpu_topology_entry list \<Rightarrow> cpu_topology_entry list" where
  "add_cpuinfo_topology blocks entries = entries @ List.map_filter cpuinfo_entry blocks"

section \<open>Topology\<close>

fun numa_node_loop :: "string list \<Rightarrow> u32_field \<Rightarrow> u32_field" where
  "numa_node_loop [] node_field = node_field"
| "numa_node_loop (child # children) node_field =
     (if \<not> starts_with child ''node'' then numa_node_loop children node_field
      else (case parse_u64 (drop 4 child) of
          Some node \<Rightarrow> if node \<le> u32_max then field_value (ucast node)
                       else numa_node_loop children node_field
        | None \<Rightarrow> numa_node_loop children node_field))"

definition fill_from_block :: "kv_map \<Rightarrow> cpu_topology_entry \<Rightarrow> cpu_topology_entry" where
  "fill_from_block blk entry =
     (let entry = (if \<not> valid (topo_core_id entry)
            then (case u32_from_map blk ''core id'' of
                Some core \<Rightarrow> entry\<lparr>topo_core_id := field_value core\<rparr> | None \<Rightarrow> entry)
            else entry)
      in if \<not> valid (topo_package_id entry)
         then (case u32_from_map blk ''physical id'' of
             Some package \<Rightarrow> entry\<lparr>topo_package_id := field_value package\<rparr> | None \<Rightarrow> entry)
         else entry)"

definition sysfs_entry :: "host \<Rightarrow> u64 \<times> string \<Rightarrow> cpu_topology_entry" where
  "sysfs_entry h cpu =
     (let topology_dir = join_path (snd cpu) ''topology'';
          entry = new_cpu_topology_entry\<lparr>
            topo_logical_id := field_value (ucast (fst cpu)),
            topo_core_id := read_u32_field h (join_path topology_dir ''core_id''),
            topo_package_id := read_u32_field h (join_path topology_dir ''physical_package_id''),
            topo_thread_siblings_mask := read_string_field h (join_path topology_dir ''thread_siblings'') True,
            topo_core_siblings_mask := read_string_field h (join_path topology_dir ''core_siblings'') True\<rparr>
      in entry\<lparr>topo_numa_node := numa_node_loop (list_dir h (snd cpu)) (topo_numa_node entry)\<rparr>)"

definition topology_entry :: "host \<Rightarrow> (u64, kv_map) std_map \<Rightarrow> u64 \<times> string \<Rightarrow> cpu_topology_entry" where
  "topology_entry h cpuinfo_by_id cpu =
     (let entry = sysfs_entry h cpu
      in (case map_of cpuinfo_by_id (fst cpu) of
            None \<Rightarrow> entry
          | Some blk \<Rightarrow> fill_from_block blk entry))"

definition cpu_topology_list :: "collect_options \<Rightarrow> host \<Rightarrow> kv_map list \<Rightarrow> cpu_topology_entry list" where
  "cpu_topology_list options h blocks =
     (let topology = map (topology_entry h (blocks_by_processor blocks)) (cpu_dirs options h)
      in if topology = [] \<and> blocks \<noteq> [] then add_cpuinfo_topology blocks topology else topology)"

text \<open>
  The three containers of the counting loop. \<open>cores_by_package[package].insert(core)\<close> and
  \<open>threads_by_core[{package, core}]++\<close> start from an empty set and from 0.
\<close>

record topology_counts =
  packages :: "u32 set"
  cores_by_package :: "(u32, u32 set) std_map"
  threads_by_core :: "(u32 \<times> u32, u64) std_map"

definition no_counts :: topology_counts where
  "no_counts = \<lparr>packages = {}, cores_by_package = [], threads_by_core = []\<rparr>"

definition count_entry :: "topology_counts \<Rightarrow> cpu_topology_entry \<Rightarrow> topology_counts" where
  "count_entry c entry =
     (if \<not> valid (topo_package_id entry) \<or> \<not> valid (topo_core_id entry) then c
      else let package = val (topo_package_id entry);
               core = val (topo_core_id entry);
               cores = (case map_of (cores_by_package c) package of None \<Rightarrow> {} | Some s \<Rightarrow> s);
               threads = (case map_of (threads_by_core c) (package, core) of None \<Rightarrow> 0 | Some n \<Rightarrow> n)
        in \<lparr>packages = insert package (packages c),
            cores_by_package = AList.update package (insert core cores) (cores_by_package c),
            threads_by_core = AList.update (package, core) (threads + 1) (threads_by_core c)\<rparr>)"

definition count_topology :: "cpu_topology_entry list \<Rightarrow> topology_counts" where
  "count_topology entries = foldl count_entry no_counts entries"

definition max_cores :: "(u32, u32 set) std_map \<Rightarrow> u64" where
  "max_cores m = foldl (\<lambda>best item. max best (word_of_nat (Finite_Set.card (snd item)))) 0 m"

definition max_threads :: "(u32 \<times> u32, u64) std_map \<Rightarrow> u64" where
  "max_threads m = foldl (\<lambda>best item. max best (snd item)) 0 m"

definition sockets_field :: "topology_counts \<Rightarrow> u64_field" where
  "sockets_field c = (if packages c \<noteq> {} then field_value (word_of_nat (Finite_Set.card (packages c)))
     else unavailable not_found)"

definition cores_field :: "topology_counts \<Rightarrow> u64_field \<Rightarrow> u64_field" where
  "cores_field c cpu_cores =
     (if valid cpu_cores then cpu_cores
      else if cores_by_package c \<noteq> [] then field_value (max_cores (cores_by_package c))
      else unavailable not_found)"

definition threads_field :: "topology_counts \<Rightarrow> u64_field \<Rightarrow> u64_field \<Rightarrow> u64_field" where
  "threads_field c cpu_cores siblings =
     (if valid siblings \<and> valid cpu_cores \<and> val cpu_cores \<noteq> 0
      then field_value (val siblings div val cpu_cores)
      else if threads_by_core c \<noteq> [] then field_value (max_threads (threads_by_core c))
      else unavailable not_found)"

section \<open>The collector\<close>

definition machine_fields :: "host \<Rightarrow> cpu_info \<Rightarrow> cpu_info" where
  "machine_fields h info = (case host_uname h of
       Some uts \<Rightarrow> info\<lparr>cpu_arch_name := field_value (machine uts), cpu_arch := arch_from_machine (machine uts)\<rparr>
     | None \<Rightarrow> info\<lparr>cpu_arch_name := unavailable internal_error\<rparr>)"

text \<open>
  A count that sysfs does not give is taken from the blocks of cpuinfo, then from
  \<open>std::thread::hardware_concurrency\<close>.
\<close>

definition cpu_count_field :: "host \<Rightarrow> kv_map list \<Rightarrow> u64_field \<Rightarrow> u64_field" where
  "cpu_count_field h blocks f =
     (let f = (if \<not> valid f \<and> blocks \<noteq> [] then field_value (word_of_nat (length blocks)) else f)
      in if \<not> valid f \<and> host_hw_threads h \<noteq> 0 then field_value (ucast (host_hw_threads h)) else f)"

definition virtualized_field :: "read_result \<Rightarrow> kv_map \<Rightarrow> bool_field" where
  "virtualized_field cpuinfo blk = (let flags = word_set (first_flags blk)
     in if flags \<noteq> {} then field_value (''hypervisor'' \<in> flags)
        else unavailable (if rr_status cpuinfo = ok then not_found else rr_status cpuinfo))"

definition cpu_hypervisor_vendor_field :: "collect_options \<Rightarrow> host \<Rightarrow> kv_map \<Rightarrow> bool_field \<Rightarrow> string_field" where
  "cpu_hypervisor_vendor_field options h blk virtualized =
     (let hypervisor_vendor = string_from_map blk [''Hypervisor vendor'']
      in if valid hypervisor_vendor then hypervisor_vendor
         else if valid virtualized \<and> val virtualized then first_existing_hypervisor_vendor options h
         else unavailable not_found)"

text \<open>Everything after the name of the machine, which is the only part that depends on the build.\<close>

definition cpu_file_fields :: "collect_options \<Rightarrow> host \<Rightarrow> cpu_info \<Rightarrow> cpu_info" where
  "cpu_file_fields options h info =
     (let cpuinfo = read_file h (proc_path options ''/cpuinfo'');
          blocks = (if rr_status cpuinfo = ok then parse_colon_blocks (rr_value cpuinfo) else []);
          blk = (if blocks = [] then [] else hd blocks);
          name = string_from_map blk [''model name'', ''Processor'', ''cpu''];
          bits = parse_address_sizes blk;
          topology = cpu_topology_list options h blocks;
          counts = count_topology topology;
          cpu_cores = u64_from_map blk [''cpu cores''];
          siblings = u64_from_map blk [''siblings''];
          virtualized = virtualized_field cpuinfo blk
      in info\<lparr>
           cpu_vendor := string_from_map blk [''vendor_id'', ''CPU implementer'', ''uarch''],
           cpu_model_name := name,
           cpu_brand := name,
           cpu_family := u64_from_map blk [''cpu family'', ''CPU architecture''],
           cpu_model := u64_from_map blk [''model'', ''CPU part''],
           cpu_stepping := u64_from_map blk [''stepping'', ''CPU revision''],
           cpu_microcode := string_from_map blk [''microcode''],
           cpu_physical_address_bits := fst bits,
           cpu_virtual_address_bits := snd bits,
           cpu_present_cpu_count := cpu_count_field h blocks
             (read_cpu_list_count_field h (sys_path options ''/devices/system/cpu/present'')),
           cpu_online_cpu_count := cpu_count_field h blocks
             (read_cpu_list_count_field h (sys_path options ''/devices/system/cpu/online'')),
           cpu_possible_cpu_count := cpu_count_field h blocks
             (read_cpu_list_count_field h (sys_path options ''/devices/system/cpu/possible'')),
           cpu_topology := topology,
           cpu_sockets := sockets_field counts,
           cpu_cores_per_socket := cores_field counts cpu_cores,
           cpu_threads_per_core := threads_field counts cpu_cores siblings,
           cpu_is_virtualized := virtualized,
           cpu_hypervisor_vendor := cpu_hypervisor_vendor_field options h blk virtualized\<rparr>)"

definition collect_cpu :: "collect_options \<Rightarrow> host \<Rightarrow> cpu_info" where
  "collect_cpu options h =
     (let info = (new_cpu_info (host_stale_arch h))\<lparr>cpu_arch := Arch_unknown\<rparr>
      in cpu_file_fields options h (machine_fields h info))"

section \<open>The contract\<close>

lemma honest_cpu_fields [honest_intros, simp]:
  "honest (found_or_parse_error x)" "honest (fst (parse_address_sizes blk))"
  "honest (snd (parse_address_sizes blk))" "honest (sockets_field c)"
  "honest (virtualized_field r blk)"
  "honest f \<Longrightarrow> honest (cores_field c f)" "honest (threads_field c f g)"
  "honest f \<Longrightarrow> honest (cpu_count_field h bs f)" "honest node_field \<Longrightarrow> honest (numa_node_loop ns node_field)"
proof -
  show "honest (found_or_parse_error x)" for x
    by (simp add: found_or_parse_error_def split: option.split)
  then show "honest (fst (parse_address_sizes blk))" "honest (snd (parse_address_sizes blk))"
    by (auto simp: parse_address_sizes_def Let_def split: option.split)
  show "honest node_field \<Longrightarrow> honest (numa_node_loop ns node_field)"
    by (induction ns) (auto split: option.split)
qed (auto simp: sockets_field_def virtualized_field_def cores_field_def threads_field_def
    cpu_count_field_def Let_def)

lemma honest_first_nonempty [honest_intros]: "honest (first_nonempty_loop h ps)"
  by (induction ps) (simp_all add: Let_def string_reader.honest_read)

lemma honest_cpu_hypervisor [honest_intros, simp]:
  "honest (cpu_hypervisor_vendor_field opts h blk f)"
  by (auto simp: cpu_hypervisor_vendor_field_def first_existing_hypervisor_vendor_def
      honest_first_nonempty Let_def simp del: first_nonempty_loop.simps string_from_map.simps)

lemma fill_from_block_honest:
  "all_honest (cpu_topology_entry_fields e) \<Longrightarrow> all_honest (cpu_topology_entry_fields (fill_from_block b e))"
  by (simp add: fill_from_block_def Let_def cpu_topology_entry_fields_def split: option.split)

lemma topology_entry_honest: "all_honest (cpu_topology_entry_fields (topology_entry h m cpu))"
proof -
  have "all_honest (cpu_topology_entry_fields (sysfs_entry h cpu))"
    by (simp add: sysfs_entry_def Let_def cpu_topology_entry_fields_def new_cpu_topology_entry_def)
  then show ?thesis by (simp add: topology_entry_def Let_def fill_from_block_honest split: option.split)
qed

lemma cpuinfo_entry_honest: "cpuinfo_entry b = Some e \<Longrightarrow> all_honest (cpu_topology_entry_fields e)"
  by (auto simp: cpuinfo_entry_def cpu_topology_entry_fields_def new_cpu_topology_entry_def Let_def
      split: option.splits)

lemma topology_list_honest:
  "e \<in> set (cpu_topology_list opts h bs) \<Longrightarrow> all_honest (cpu_topology_entry_fields e)"
  by (auto simp: cpu_topology_list_def add_cpuinfo_topology_def Let_def set_map_filter
      topology_entry_honest dest: cpuinfo_entry_honest split: if_splits)

definition all_cpu_fields :: "cpu_info \<Rightarrow> (string \<times> any_field) list" where
  "all_cpu_fields i = cpu_info_fields i @ concat (map cpu_topology_entry_fields (cpu_topology i))"

lemma machine_fields_view:
  "same_view opts h h' \<Longrightarrow> machine_fields h i = machine_fields h' i"
proof -
  assume "same_view opts h h'"
  then have e: "map_option (nodename_update (\<lambda>n. if include_sensitive opts then n else [])) (host_uname h) =
     map_option (nodename_update (\<lambda>n. if include_sensitive opts then n else [])) (host_uname h')"
    by (simp add: same_view_def)
  have "map_option machine (host_uname h) = map_option machine (host_uname h')"
    using arg_cong [OF e, of "map_option machine"] by (simp add: option.map_comp comp_def)
  then show ?thesis
    by (auto simp: machine_fields_def split: option.splits)
qed

lemma topology_list_view:
  "same_file_view opts h h' \<Longrightarrow> cpu_topology_list opts h bs = cpu_topology_list opts h' bs"
proof -
  assume v: "same_file_view opts h h'"
  have "topology_entry h m cpu = topology_entry h' m cpu" if "cpu \<in> set (cpu_dirs opts h)" for cpu m
  proof -
    have "rooted opts (snd cpu)" using rooted_cpu_dirs [of "fst cpu" "snd cpu"] that by simp
    then show ?thesis
      by (simp add: topology_entry_def sysfs_entry_def literal_name view_reads_join [OF v] view_answers [OF v])
  qed
  then have "map (topology_entry h m) (cpu_dirs opts h) = map (topology_entry h' m) (cpu_dirs opts h')" for m
    using cpu_dirs_view [OF v] by (simp cong: map_cong)
  then show ?thesis by (simp add: cpu_topology_list_def)
qed

lemma cpu_vendor_view:
  "same_file_view opts h h' \<Longrightarrow>
   cpu_hypervisor_vendor_field opts h b f = cpu_hypervisor_vendor_field opts h' b f"
  by (simp add: cpu_hypervisor_vendor_field_def first_existing_hypervisor_vendor_def Let_def literal_name
      view_reads_sys [of opts h h'])

text \<open>\<open>collect_cpu\<close> initialises the architecture, so nothing of the stale storage is left.\<close>

lemma stale_arch_overwritten: "(new_cpu_info a)\<lparr>cpu_arch := b\<rparr> = new_cpu_info b"
  by (simp add: new_cpu_info_def)

lemma cpu_parts_any_selection:
  "cpu_topology_list (opts\<lparr>categories := c\<rparr>) = cpu_topology_list opts"
  "cpu_hypervisor_vendor_field (opts\<lparr>categories := c\<rparr>) = cpu_hypervisor_vendor_field opts"
  by (intro ext, simp add: cpu_topology_list_def cpu_dirs_def cpu_hypervisor_vendor_field_def
      first_existing_hypervisor_vendor_def Let_def del: first_nonempty_loop.simps)+

lemma cpu_file_fields_view:
  assumes s: "same_view opts h h'"
  shows "cpu_file_fields opts h = cpu_file_fields opts h'"
proof -
  have v: "same_file_view opts h h'" using s by (rule same_viewD)
  have hw: "host_hw_threads h = host_hw_threads h'" using s by (simp add: same_view_def)
  then have count: "cpu_count_field h = cpu_count_field h'" by (intro ext) (simp add: cpu_count_field_def)
  have info: "read_file h (proc_path opts ''/cpuinfo'') = read_file h' (proc_path opts ''/cpuinfo'')"
    by (simp add: literal_name view_reads_proc [OF v])
  have lists: "read_cpu_list_count_field h (sys_path opts p) = read_cpu_list_count_field h' (sys_path opts p)"
    if "p \<in> {''/devices/system/cpu/present'', ''/devices/system/cpu/online'', ''/devices/system/cpu/possible''}" for p
    using that by (auto simp: literal_name view_reads_sys [OF v])
  show ?thesis
    unfolding fun_eq_iff cpu_file_fields_def Let_def
    by (simp only: count info lists insert_iff simp_thms topology_list_view [OF v] cpu_vendor_view [OF v])
qed

lemma cpu_file_fields_any_selection: "cpu_file_fields (opts\<lparr>categories := c\<rparr>) h = cpu_file_fields opts h"
  by (simp only: fun_eq_iff cpu_file_fields_def cpu_parts_any_selection paths_ignore_categories simp_thms)

lemma cpu_file_fields_honest:
  assumes "all_honest (cpu_info_fields info)"
  shows "all_honest (all_cpu_fields (cpu_file_fields opts h info))"
proof -
  have "all_honest (concat (map cpu_topology_entry_fields (cpu_topology_list opts h bs)))" for bs
    by (auto dest: topology_list_honest)
  with assms show ?thesis
    by (simp add: all_cpu_fields_def cpu_file_fields_def Let_def cpu_info_fields_def
        cpu_list_reader.honest_read del: u64_from_map.simps string_from_map.simps)
qed

interpretation cpu: collector collect_cpu all_cpu_fields
proof
  fix opts h h'
  assume s: "same_view opts h h'"
  show "collect_cpu opts h = collect_cpu opts h'"
    by (simp only: collect_cpu_def Let_def stale_arch_overwritten cpu_file_fields_view [OF s]
        machine_fields_view [OF s])
next
  fix opts h
  show "all_honest (all_cpu_fields (collect_cpu opts h))"
    unfolding collect_cpu_def Let_def
    by (rule cpu_file_fields_honest)
      (simp add: machine_fields_def cpu_info_fields_def new_cpu_info_def split: option.split)
next
  fix opts :: collect_options and c h
  show "collect_cpu (opts\<lparr>categories := c\<rparr>) h = collect_cpu opts h"
    by (simp only: collect_cpu_def cpu_file_fields_any_selection)
qed

section \<open>What the counts count\<close>

text \<open>
  The places of a topology: the pairs of package and core of the entries that have both. The loop
  sees nothing else of an entry.
\<close>

definition places :: "cpu_topology_entry list \<Rightarrow> (u32 \<times> u32) list" where
  "places es = map (\<lambda>e. (val (topo_package_id e), val (topo_core_id e)))
     (filter (\<lambda>e. valid (topo_package_id e) \<and> valid (topo_core_id e)) es)"

definition count_place :: "topology_counts \<Rightarrow> u32 \<times> u32 \<Rightarrow> topology_counts" where
  "count_place c pc =
     (let cores = (case map_of (cores_by_package c) (fst pc) of None \<Rightarrow> {} | Some s \<Rightarrow> s);
          threads = (case map_of (threads_by_core c) pc of None \<Rightarrow> 0 | Some n \<Rightarrow> n)
      in \<lparr>packages = insert (fst pc) (packages c),
          cores_by_package = AList.update (fst pc) (insert (snd pc) cores) (cores_by_package c),
          threads_by_core = AList.update pc (threads + 1) (threads_by_core c)\<rparr>)"

lemma count_topology_places: "count_topology es = foldl count_place no_counts (places es)"
proof -
  have "foldl count_entry c es = foldl count_place c (places es)" for c
    by (induction es arbitrary: c) (simp_all add: places_def count_entry_def count_place_def Let_def)
  then show ?thesis by (simp add: count_topology_def)
qed

definition cores_in :: "(u32 \<times> u32) list \<Rightarrow> u32 \<Rightarrow> u32 set" where
  "cores_in ps p = {c. (p, c) \<in> set ps}"

definition counts_ok :: "topology_counts \<Rightarrow> (u32 \<times> u32) list \<Rightarrow> bool" where
  "counts_ok c ps \<longleftrightarrow> packages c = fst ` set ps \<and>
     distinct (map fst (cores_by_package c)) \<and> distinct (map fst (threads_by_core c)) \<and>
     (\<forall>p. map_of (cores_by_package c) p = (if p \<in> fst ` set ps then Some (cores_in ps p) else None)) \<and>
     (\<forall>pc. map_of (threads_by_core c) pc =
        (if pc \<in> set ps then Some (word_of_nat (count_list ps pc)) else None))"

lemma cores_in_snoc: "cores_in (ps @ [pc]) p = (if p = fst pc then insert (snd pc) (cores_in ps p) else cores_in ps p)"
  by (cases pc) (auto simp: cores_in_def)

lemma counts_ok_fold: "counts_ok (foldl count_place no_counts ps) ps"
proof (induction ps rule: rev_induct)
  case Nil
  show ?case by (simp add: counts_ok_def no_counts_def)
next
  case (snoc pc ps)
  define c where "c = foldl count_place no_counts ps"
  have ok: "counts_ok c ps" using snoc by (simp add: c_def)
  have none: "fst pc \<notin> fst ` set ps \<Longrightarrow> cores_in ps (fst pc) = {}" by (auto simp: cores_in_def intro: rev_image_eqI)
  have cm: "map_of (cores_by_package c) p = (if p \<in> fst ` set ps then Some (cores_in ps p) else None)" for p
    using ok unfolding counts_ok_def by blast
  have tm: "map_of (threads_by_core c) q = (if q \<in> set ps then Some (word_of_nat (count_list ps q)) else None)" for q
    using ok unfolding counts_ok_def by blast
  have zero: "pc \<notin> set ps \<Longrightarrow> count_list ps pc = 0" by (simp add: count_list_0_iff)
  have "counts_ok (count_place c pc) (ps @ [pc])"
    unfolding counts_ok_def
  proof (intro conjI allI)
    show "packages (count_place c pc) = fst ` set (ps @ [pc])"
      using ok by (auto simp: counts_ok_def count_place_def Let_def)
    show "distinct (map fst (cores_by_package (count_place c pc)))"
      "distinct (map fst (threads_by_core (count_place c pc)))"
      using ok by (simp_all add: counts_ok_def count_place_def Let_def distinct_update)
  next
    fix p
    show "map_of (cores_by_package (count_place c pc)) p =
        (if p \<in> fst ` set (ps @ [pc]) then Some (cores_in (ps @ [pc]) p) else None)"
      using none by (auto simp: count_place_def Let_def update_conv' cores_in_snoc cm)
  next
    fix q
    show "map_of (threads_by_core (count_place c pc)) q =
        (if q \<in> set (ps @ [pc]) then Some (word_of_nat (count_list (ps @ [pc]) q)) else None)"
      using zero by (auto simp: count_place_def Let_def update_conv' count_list_append tm)
  qed
  then show ?case by (simp add: c_def)
qed

lemma counts_ok_topology: "counts_ok (count_topology es) (places es)"
  by (simp add: count_topology_places counts_ok_fold)

lemma card_u32: "Finite_Set.card (A :: u32 set) < 18446744073709551616"
proof -
  have "Finite_Set.card A \<le> Finite_Set.card (UNIV :: u32 set)" by (rule card_mono) simp_all
  then show ?thesis by (simp add: card_word)
qed

text \<open>The running maximum of a loop is the maximum of the list.\<close>

lemma foldl_max:
  "foldl (\<lambda>best x. max best (f x)) b xs = Max (insert b (f ` set xs))" for b :: "'a::linorder"
proof (induction xs arbitrary: b)
  case (Cons x xs)
  have "Max (insert b (f ` set (x # xs))) = Max (insert b (insert (f x) (f ` set xs)))" by simp
  also have "\<dots> = Max (insert (max b (f x)) (f ` set xs))"
    by (cases "xs = []") (simp_all add: max.assoc)
  finally show ?case using Cons by simp
qed simp

lemma max_hom: "mono f \<Longrightarrow> finite A \<Longrightarrow> A \<noteq> {} \<Longrightarrow> f (Max A) = Max (f ` A)"
  for f :: "'a::linorder \<Rightarrow> 'b::linorder"
  by (rule mono_Max_commute)

lemma mono_unat: "mono (unat :: u64 \<Rightarrow> nat)"
  by (simp add: mono_def word_le_nat_alt)

text \<open>Sockets: the number of different packages.\<close>

lemma sockets_counted:
  "sockets_field (count_topology es) =
     (if places es = [] then unavailable not_found
      else field_value (word_of_nat (Finite_Set.card (fst ` set (places es))))) \<and>
   unat (val (sockets_field (count_topology es))) = Finite_Set.card (fst ` set (places es))"
  using counts_ok_topology [of es] card_u32 [of "fst ` set (places es)"]
  by (simp add: sockets_field_def counts_ok_def unat_word_of_nat_small default_word_def)

lemma map_graph:
  assumes "distinct (map fst m)" "\<And>k. map_of m k = (if k \<in> K then Some (g k) else None)"
  shows "set m = (\<lambda>k. (k, g k)) ` K"
proof -
  have "(k, v) \<in> set m \<longleftrightarrow> k \<in> K \<and> v = g k" for k v
    using assms(2) [of k] by (auto simp flip: map_of_eq_Some_iff [OF assms(1)])
  then show ?thesis by auto
qed

lemma count_graphs:
  "set (cores_by_package (count_topology es)) = (\<lambda>p. (p, cores_in (places es) p)) ` fst ` set (places es)"
  "set (threads_by_core (count_topology es)) =
     (\<lambda>p. (p, word_of_nat (count_list (places es) p))) ` set (places es)"
proof -
  let ?c = "count_topology es" and ?ps = "places es"
  have cores: "distinct (map fst (cores_by_package ?c))"
    "\<And>p. map_of (cores_by_package ?c) p = (if p \<in> fst ` set ?ps then Some (cores_in ?ps p) else None)"
    and threads: "distinct (map fst (threads_by_core ?c))"
    "\<And>p. map_of (threads_by_core ?c) p = (if p \<in> set ?ps then Some (word_of_nat (count_list ?ps p)) else None)"
    using counts_ok_topology [of es] unfolding counts_ok_def by blast+
  show "set (cores_by_package ?c) = (\<lambda>p. (p, cores_in ?ps p)) ` fst ` set ?ps"
    by (rule map_graph [OF cores])
  show "set (threads_by_core ?c) = (\<lambda>p. (p, word_of_nat (count_list ?ps p))) ` set ?ps"
    by (rule map_graph [OF threads])
qed

text \<open>Cores per socket: the largest number of different cores in one package.\<close>

lemma cores_counted:
  assumes "\<not> valid f"
  shows "unat (val (cores_field (count_topology es) f)) =
    Max (insert 0 ((\<lambda>p. Finite_Set.card (cores_in (places es) p)) ` fst ` set (places es)))"
proof -
  let ?m = "cores_by_package (count_topology es)" and ?ps = "places es"
  note graph = count_graphs(1) [of es]
  then have "insert 0 ((\<lambda>i. word_of_nat (Finite_Set.card (snd i)) :: u64) ` set ?m) =
      insert 0 ((\<lambda>p. word_of_nat (Finite_Set.card (cores_in ?ps p))) ` fst ` set ?ps)"
    by (simp add: image_image)
  then have "unat (max_cores ?m) =
      Max (unat ` insert 0 ((\<lambda>p. word_of_nat (Finite_Set.card (cores_in ?ps p)) :: u64) ` fst ` set ?ps))"
    unfolding max_cores_def foldl_max by (subst max_hom [OF mono_unat]) simp_all
  also have "\<dots> = Max (insert 0 ((\<lambda>p. Finite_Set.card (cores_in ?ps p)) ` fst ` set ?ps))"
    using card_u32 by (simp add: image_image unat_word_of_nat_small)
  finally have m: "unat (max_cores ?m) = \<dots>" .
  show ?thesis
  proof (cases "?m = []")
    case True
    then have "set ?ps = {}" using graph by simp
    then show ?thesis using assms True by (simp add: cores_field_def default_word_def)
  next
    case False
    then show ?thesis using assms m by (simp add: cores_field_def)
  qed
qed

text \<open>Threads per core: the largest number of entries at one place.\<close>

lemma threads_counted:
  assumes "\<not> (valid g \<and> valid f \<and> val f \<noteq> 0)" "length es < 18446744073709551616"
  shows "unat (val (threads_field (count_topology es) f g)) =
    Max (insert 0 (count_list (places es) ` set (places es)))"
proof -
  let ?m = "threads_by_core (count_topology es)" and ?ps = "places es"
  have "count_list ?ps p \<le> length ?ps" for p by (rule count_le_length)
  moreover have "length ?ps \<le> length es" by (simp add: places_def)
  ultimately have small: "count_list ?ps p < 18446744073709551616" for p
    using assms(2) by (meson le_less_trans)
  note graph = count_graphs(2) [of es]
  then have "insert 0 (snd ` set ?m) = insert 0 ((\<lambda>p. word_of_nat (count_list ?ps p) :: u64) ` set ?ps)"
    by (simp add: image_image)
  then have "unat (max_threads ?m) =
      Max (unat ` insert 0 ((\<lambda>p. word_of_nat (count_list ?ps p) :: u64) ` set ?ps))"
    unfolding max_threads_def foldl_max by (subst max_hom [OF mono_unat]) simp_all
  also have "\<dots> = Max (insert 0 (count_list ?ps ` set ?ps))"
    using small by (simp add: image_image unat_word_of_nat_small)
  finally have m: "unat (max_threads ?m) = \<dots>" .
  show ?thesis
  proof (cases "?m = []")
    case True
    then have "set ?ps = {}" using graph by simp
    then show ?thesis using assms(1) True by (simp add: threads_field_def default_word_def)
  next
    case False
    then show ?thesis using assms(1) m by (auto simp: threads_field_def)
  qed
qed

text \<open>When a count is answered at all.\<close>

lemma counts_empty:
  "cores_by_package (count_topology es) = [] \<longleftrightarrow> places es = []"
  "threads_by_core (count_topology es) = [] \<longleftrightarrow> places es = []"
  unfolding set_empty [of "cores_by_package _", symmetric] set_empty [of "threads_by_core _", symmetric]
    count_graphs by simp_all

lemma counts_answered:
  "\<not> valid f \<Longrightarrow> valid (cores_field (count_topology es) f) \<longleftrightarrow> places es \<noteq> []"
  "\<not> (valid g \<and> valid f \<and> val f \<noteq> 0) \<Longrightarrow>
     valid (threads_field (count_topology es) f g) \<longleftrightarrow> places es \<noteq> []"
  by (simp_all add: cores_field_def threads_field_def counts_empty)

text \<open>The block that describes the processor, empty when /proc/cpuinfo has none or can not be read.\<close>

definition cpuinfo_blocks :: "collect_options \<Rightarrow> host \<Rightarrow> kv_map list" where
  "cpuinfo_blocks opts h = (let cpuinfo = read_file h (proc_path opts ''/cpuinfo'')
     in if rr_status cpuinfo = ok then parse_colon_blocks (rr_value cpuinfo) else [])"

definition first_cpuinfo_block :: "collect_options \<Rightarrow> host \<Rightarrow> kv_map" where
  "first_cpuinfo_block opts h = (case cpuinfo_blocks opts h of [] \<Rightarrow> [] | b # bs \<Rightarrow> b)"

lemma collect_cpu_counts:
  "cpu_topology (collect_cpu opts h) = cpu_topology_list opts h (cpuinfo_blocks opts h)"
  "cpu_sockets (collect_cpu opts h) = sockets_field (count_topology (cpu_topology (collect_cpu opts h)))"
  "cpu_cores_per_socket (collect_cpu opts h) = cores_field
     (count_topology (cpu_topology (collect_cpu opts h))) (u64_from_map (first_cpuinfo_block opts h) [''cpu cores''])"
  "cpu_threads_per_core (collect_cpu opts h) = threads_field
     (count_topology (cpu_topology (collect_cpu opts h))) (u64_from_map (first_cpuinfo_block opts h) [''cpu cores''])
     (u64_from_map (first_cpuinfo_block opts h) [''siblings''])"
proof -
  have "(if cpuinfo_blocks opts h = [] then [] else hd (cpuinfo_blocks opts h)) = first_cpuinfo_block opts h"
    by (simp add: first_cpuinfo_block_def split: list.split)
  note blk = this [unfolded cpuinfo_blocks_def Let_def]
  show "cpu_topology (collect_cpu opts h) = cpu_topology_list opts h (cpuinfo_blocks opts h)"
    "cpu_sockets (collect_cpu opts h) = sockets_field (count_topology (cpu_topology (collect_cpu opts h)))"
    "cpu_cores_per_socket (collect_cpu opts h) = cores_field
     (count_topology (cpu_topology (collect_cpu opts h))) (u64_from_map (first_cpuinfo_block opts h) [''cpu cores''])"
    "cpu_threads_per_core (collect_cpu opts h) = threads_field
     (count_topology (cpu_topology (collect_cpu opts h))) (u64_from_map (first_cpuinfo_block opts h) [''cpu cores''])
     (u64_from_map (first_cpuinfo_block opts h) [''siblings''])"
    by (simp_all add: collect_cpu_def cpu_file_fields_def Let_def cpuinfo_blocks_def blk
        del: u64_from_map.simps)
qed

text \<open>
  A place comes from sysfs where sysfs gives it: in the entry of a CPU directory a readable core or
  package number is the one that is reported.
\<close>

definition entry_of_dir :: "host \<Rightarrow> u64 \<times> string \<Rightarrow> cpu_topology_entry \<Rightarrow> bool" where
  "entry_of_dir h cpu e \<longleftrightarrow>
     (let dir = join_path (snd cpu) ''topology'';
          core = read_u32_field h (join_path dir ''core_id'');
          package = read_u32_field h (join_path dir ''physical_package_id'')
      in topo_logical_id e = field_value (ucast (fst cpu)) \<and>
         (valid core \<longrightarrow> topo_core_id e = core) \<and> (valid package \<longrightarrow> topo_package_id e = package))"

lemma topology_entry_of_dir: "entry_of_dir h cpu (topology_entry h m cpu)"
proof -
  have "entry_of_dir h cpu (sysfs_entry h cpu)" by (simp add: entry_of_dir_def sysfs_entry_def Let_def)
  moreover have "entry_of_dir h cpu e \<Longrightarrow> entry_of_dir h cpu (fill_from_block b e)" for b e
    by (auto simp: entry_of_dir_def fill_from_block_def Let_def split: option.split)
  ultimately show ?thesis by (simp add: topology_entry_def Let_def split: option.split)
qed

lemma topology_of_dirs:
  "cpu_dirs opts h \<noteq> [] \<Longrightarrow>
   list_all2 (entry_of_dir h) (cpu_dirs opts h) (cpu_topology (collect_cpu opts h))"
  by (simp add: collect_cpu_counts(1) cpu_topology_list_def Let_def list_all2_map2
      topology_entry_of_dir list.rel_refl_strong)

section \<open>Address sizes\<close>

text \<open>A line as the kernel prints it is read back.\<close>

lemma split_words_printed:
  "w \<noteq> [] \<Longrightarrow> \<forall>c \<in> set w. \<not> isspace c \<Longrightarrow> split_words (w @ CHR '' '' # r) = w # split_words r"
proof -
  assume w: "w \<noteq> []" "\<forall>c \<in> set w. \<not> isspace c"
  have sp: "isspace (CHR '' '')" by (simp add: isspace_def)
  have blank: "split_words (CHR '' '' # r) = split_words r"
    by (subst (1 2) split_words.simps) (simp add: extract_word_def sp)
  have "dropWhile isspace (w @ CHR '' '' # r) = w @ CHR '' '' # r"
    using w by (intro dropWhile_hd) (cases w; simp)
  then have "extract_word (w @ CHR '' '' # r) = Some (w, CHR '' '' # r)"
    using w sp by (simp add: extract_word_def takeWhile_append_stop dropWhile_append_stop)
  then show ?thesis by (subst split_words.simps) (simp add: blank)
qed

lemma parse_address_sizes_printed:
  assumes "map_value blk ''address sizes'' =
    Some (to_string_u64 p @ '' bits physical, '' @ to_string_u64 v @ '' bits virtual'')"
  shows "parse_address_sizes blk = (field_value p, field_value v)"
proof -
  have vis: "to_string_u64 n \<noteq> []" "\<forall>c \<in> set (to_string_u64 n). \<not> isspace c" for n
    using u64_codec.show_visible by blast+
  have words: "split_words (w @ CHR '' '' # r) = w # split_words r"
    if "w \<in> {''bits'', ''physical,''}" for w r
    using that by (intro split_words_printed) (auto simp: isspace_def)
  have last: "split_words ''virtual'' = [''virtual'']"
    by (subst split_words.simps) (simp add: extract_word_def isspace_def split_words_blank)
  have "split_words (to_string_u64 p @ '' bits physical, '' @ to_string_u64 v @ '' bits virtual'') =
      [to_string_u64 p, ''bits'', ''physical,'', to_string_u64 v, ''bits'', ''virtual'']"
    using split_words_printed [OF vis] words [of "''bits''"] words [of "''physical,''"] last by simp
  moreover have "parse_u64 ''bits'' = None" "parse_u64 ''physical,'' = None" "parse_u64 ''virtual'' = None"
    by code_simp+
  ultimately show ?thesis
    by (simp add: parse_address_sizes_def assms address_word_def u64_codec.parse_show
        found_or_parse_error_def starts_with_def)
qed

section \<open>The order of the topology\<close>

text \<open>With CPU directories the entries come in the order of the CPU numbers.\<close>

lemma topology_logical_ids:
  assumes "cpu_dirs opts h \<noteq> []"
  shows "map topo_logical_id (cpu_topology_list opts h bs) =
    map (\<lambda>cpu. field_value (ucast (fst cpu))) (cpu_dirs opts h)"
proof -
  have "topo_logical_id (fill_from_block b e) = topo_logical_id e" for b e
    by (simp add: fill_from_block_def Let_def split: option.split)
  then have "topo_logical_id (topology_entry h m cpu) = field_value (ucast (fst cpu))" for m cpu
    by (simp add: topology_entry_def sysfs_entry_def Let_def split: option.split)
  then show ?thesis using assms by (simp add: cpu_topology_list_def Let_def comp_def)
qed

end
