(* ===== verification/Collect_Isa.thy ===== *)
theory Collect_Isa
  imports View
begin

text \<open>
  \<open>src/src/isa.cc\<close>: the feature flags of the first block of /proc/cpuinfo. Which of the three
  families of flags is looked at depends on the key that the block has.
\<close>

datatype feature_family = Family_x86 | Family_arm | Family_riscv | Family_unknown

record feature_source =
  source_raw :: string
  source_family :: feature_family

definition find_feature_source :: "kv_map \<Rightarrow> feature_source" where
  "find_feature_source blk = (case map_value blk ''flags'' of
       Some v \<Rightarrow> \<lparr>source_raw = v, source_family = Family_x86\<rparr>
     | None \<Rightarrow> (case map_value blk ''Features'' of
           Some v \<Rightarrow> \<lparr>source_raw = v, source_family = Family_arm\<rparr>
         | None \<Rightarrow> (case map_value blk ''isa'' of
               Some v \<Rightarrow> \<lparr>source_raw = v, source_family = Family_riscv\<rparr>
             | None \<Rightarrow> \<lparr>source_raw = [], source_family = Family_unknown\<rparr>)))"

fun any_flag :: "string set \<Rightarrow> string list \<Rightarrow> bool_field" where
  "any_flag flags [] = field_value False"
| "any_flag flags (name # names) = (if name \<in> flags then field_value True else any_flag flags names)"

definition mark_feature_fields :: "isa_features \<Rightarrow> status \<Rightarrow> isa_features" where
  "mark_feature_fields features st = features\<lparr>
     x86_fpu := unavailable st, x86_mmx := unavailable st, x86_sse := unavailable st,
     x86_sse2 := unavailable st, x86_sse3 := unavailable st, x86_ssse3 := unavailable st,
     x86_sse41 := unavailable st, x86_sse42 := unavailable st, x86_avx := unavailable st,
     x86_avx2 := unavailable st, x86_avx512f := unavailable st, x86_avx512dq := unavailable st,
     x86_avx512cd := unavailable st, x86_avx512bw := unavailable st,
     x86_avx512vl := unavailable st, x86_aes := unavailable st, x86_sha := unavailable st,
     x86_pclmulqdq := unavailable st, x86_rdrand := unavailable st, x86_rdseed := unavailable st,
     x86_xsave := unavailable st, x86_xsaveopt := unavailable st, x86_xsavec := unavailable st,
     x86_vmx := unavailable st, x86_ept := unavailable st, x86_svm := unavailable st,
     x86_npt := unavailable st, x86_tsc := unavailable st, x86_constant_tsc := unavailable st,
     x86_nonstop_tsc := unavailable st, x86_rdtscp := unavailable st, arm_neon := unavailable st,
     arm_asimd := unavailable st, arm_sve := unavailable st, arm_sve2 := unavailable st,
     arm_aes := unavailable st, arm_sha1 := unavailable st, arm_sha2 := unavailable st,
     arm_crc32 := unavailable st, arm_pauth := unavailable st, riscv_i := unavailable st,
     riscv_m := unavailable st, riscv_a := unavailable st, riscv_f := unavailable st,
     riscv_d := unavailable st, riscv_c := unavailable st, riscv_v := unavailable st,
     riscv_h := unavailable st\<rparr>"

definition riscv_has_extension :: "string \<Rightarrow> char \<Rightarrow> bool" where
  "riscv_has_extension isa extension = (let lower = map tolower isa
     in case (case find_str ''rv32'' lower of None \<Rightarrow> find_str ''rv64'' lower | Some i \<Rightarrow> Some i) of
          None \<Rightarrow> False
        | Some found \<Rightarrow>
            (let start = found + 4;
                 base = (case find_char (CHR ''_'') (drop start lower) of
                     None \<Rightarrow> drop start lower
                   | Some n \<Rightarrow> substr lower start n);
                 implied_by_g = (find_char (CHR ''g'') base \<noteq> None \<and>
                   (extension = CHR ''i'' \<or> extension = CHR ''m'' \<or> extension = CHR ''a'' \<or>
                    extension = CHR ''f'' \<or> extension = CHR ''d''))
             in implied_by_g \<or> find_char extension base \<noteq> None \<or>
                find_str [CHR ''_'', extension] lower \<noteq> None))"

text \<open>The three blocks of assignments of \<open>collect_isa\<close>.\<close>

definition x86_fields :: "string set \<Rightarrow> isa_features \<Rightarrow> isa_features" where
  "x86_fields flags features = features\<lparr>
     x86_fpu := bool_from_flag flags ''fpu'', x86_mmx := bool_from_flag flags ''mmx'',
     x86_sse := bool_from_flag flags ''sse'', x86_sse2 := bool_from_flag flags ''sse2'',
     x86_sse3 := any_flag flags [''sse3'', ''pni''], x86_ssse3 := bool_from_flag flags ''ssse3'',
     x86_sse41 := any_flag flags [''sse4_1'', ''sse4.1''],
     x86_sse42 := any_flag flags [''sse4_2'', ''sse4.2''],
     x86_avx := bool_from_flag flags ''avx'', x86_avx2 := bool_from_flag flags ''avx2'',
     x86_avx512f := bool_from_flag flags ''avx512f'',
     x86_avx512dq := bool_from_flag flags ''avx512dq'',
     x86_avx512cd := bool_from_flag flags ''avx512cd'',
     x86_avx512bw := bool_from_flag flags ''avx512bw'',
     x86_avx512vl := bool_from_flag flags ''avx512vl'', x86_aes := bool_from_flag flags ''aes'',
     x86_sha := any_flag flags [''sha'', ''sha_ni''],
     x86_pclmulqdq := bool_from_flag flags ''pclmulqdq'',
     x86_rdrand := bool_from_flag flags ''rdrand'',
     x86_rdseed := bool_from_flag flags ''rdseed'', x86_xsave := bool_from_flag flags ''xsave'',
     x86_xsaveopt := bool_from_flag flags ''xsaveopt'',
     x86_xsavec := bool_from_flag flags ''xsavec'', x86_vmx := bool_from_flag flags ''vmx'',
     x86_ept := bool_from_flag flags ''ept'', x86_svm := bool_from_flag flags ''svm'',
     x86_npt := bool_from_flag flags ''npt'', x86_tsc := bool_from_flag flags ''tsc'',
     x86_constant_tsc := bool_from_flag flags ''constant_tsc'',
     x86_nonstop_tsc := bool_from_flag flags ''nonstop_tsc'',
     x86_rdtscp := bool_from_flag flags ''rdtscp''\<rparr>"

definition arm_fields :: "string set \<Rightarrow> isa_features \<Rightarrow> isa_features" where
  "arm_fields flags features = features\<lparr>
     arm_neon := any_flag flags [''neon'', ''asimd''],
     arm_asimd := bool_from_flag flags ''asimd'', arm_sve := bool_from_flag flags ''sve'',
     arm_sve2 := bool_from_flag flags ''sve2'', arm_aes := bool_from_flag flags ''aes'',
     arm_sha1 := bool_from_flag flags ''sha1'', arm_sha2 := bool_from_flag flags ''sha2'',
     arm_crc32 := bool_from_flag flags ''crc32'',
     arm_pauth := any_flag flags [''pauth'', ''paca'', ''pacg'']\<rparr>"

definition riscv_fields :: "string \<Rightarrow> isa_features \<Rightarrow> isa_features" where
  "riscv_fields raw features = features\<lparr>
     riscv_i := field_value (riscv_has_extension raw (CHR ''i'')),
     riscv_m := field_value (riscv_has_extension raw (CHR ''m'')),
     riscv_a := field_value (riscv_has_extension raw (CHR ''a'')),
     riscv_f := field_value (riscv_has_extension raw (CHR ''f'')),
     riscv_d := field_value (riscv_has_extension raw (CHR ''d'')),
     riscv_c := field_value (riscv_has_extension raw (CHR ''c'')),
     riscv_v := field_value (riscv_has_extension raw (CHR ''v'')),
     riscv_h := field_value (riscv_has_extension raw (CHR ''h''))\<rparr>"

definition collect_isa :: "collect_options \<Rightarrow> host \<Rightarrow> isa_features" where
  "collect_isa options h =
     (let cpuinfo = read_file h (proc_path options ''/cpuinfo'')
      in if rr_status cpuinfo \<noteq> ok
         then (mark_feature_fields new_isa_features (rr_status cpuinfo))
                \<lparr>raw_flags := unavailable (rr_status cpuinfo)\<rparr>
         else let blocks = parse_colon_blocks (rr_value cpuinfo)
           in if blocks = []
              then (mark_feature_fields new_isa_features parse_error)\<lparr>raw_flags := unavailable parse_error\<rparr>
              else let source = find_feature_source (hd blocks)
                in if source_raw source = []
                   then (mark_feature_fields new_isa_features not_found)\<lparr>raw_flags := unavailable not_found\<rparr>
                   else let features = new_isa_features\<lparr>raw_flags := field_value (source_raw source)\<rparr>;
                            features = mark_feature_fields features unsupported;
                            flags = word_set (source_raw source)
                     in (case source_family source of
                           Family_x86 \<Rightarrow> x86_fields flags features
                         | Family_arm \<Rightarrow> arm_fields flags features
                         | Family_riscv \<Rightarrow> riscv_fields (source_raw source) features
                         | Family_unknown \<Rightarrow> features))"

section \<open>The contract\<close>

lemma any_flag_eq [simp]: "any_flag flags names = field_value (\<exists>n \<in> set names. n \<in> flags)"
  by (induction names) auto

lemma mark_honest:
  "st \<noteq> ok \<Longrightarrow> honest (raw_flags f) \<Longrightarrow> all_honest (isa_features_fields (mark_feature_fields f st))"
  by (simp add: mark_feature_fields_def isa_features_fields_def)

lemma x86_honest: "all_honest (isa_features_fields f) \<Longrightarrow> all_honest (isa_features_fields (x86_fields flags f))"
  by (simp add: x86_fields_def isa_features_fields_def)

lemma arm_honest: "all_honest (isa_features_fields f) \<Longrightarrow> all_honest (isa_features_fields (arm_fields flags f))"
  by (simp add: arm_fields_def isa_features_fields_def)

lemma riscv_honest: "all_honest (isa_features_fields f) \<Longrightarrow> all_honest (isa_features_fields (riscv_fields raw f))"
  by (simp add: riscv_fields_def isa_features_fields_def)

lemma raw_flags_honest:
  "all_honest (isa_features_fields f) \<Longrightarrow> honest x \<Longrightarrow> all_honest (isa_features_fields (f\<lparr>raw_flags := x\<rparr>))"
  by (simp add: isa_features_fields_def)

lemma collect_isa_honest: "all_honest (isa_features_fields (collect_isa opts h))"
  by (auto simp: collect_isa_def Let_def new_isa_features_def
      intro!: raw_flags_honest mark_honest x86_honest arm_honest riscv_honest
      split: feature_family.split)

interpretation isa: collector collect_isa isa_features_fields
proof
  fix opts h h'
  assume "same_view opts h h'"
  then have v: "same_file_view opts h h'" by (rule same_viewD)
  show "collect_isa opts h = collect_isa opts h'"
    by (simp add: collect_isa_def literal_name view_reads_proc [OF v])
next
  fix opts :: collect_options and c h
  show "collect_isa (opts\<lparr>categories := c\<rparr>) h = collect_isa opts h"
    by (simp add: collect_isa_def)
qed (rule collect_isa_honest)

section \<open>What the flags say\<close>

text \<open>
  Flags of a family are answered only when the block belongs to that family; the others stay
  \<open>unsupported\<close>.
\<close>

fun family_prefix :: "feature_family \<Rightarrow> string" where
  "family_prefix Family_x86 = ''x86_''"
| "family_prefix Family_arm = ''arm_''"
| "family_prefix Family_riscv = ''riscv_''"
| "family_prefix Family_unknown = ''?''"

definition answered_for :: "feature_family \<Rightarrow> string \<times> any_field \<Rightarrow> bool" where
  "answered_for fam e = (case snd e of
       Bool_field f \<Rightarrow> if starts_with (fst e) (family_prefix fam) then valid f
                       else f = unavailable unsupported
     | _ \<Rightarrow> True)"

lemma isa_table_bools:
  "list_all P (isa_features_fields f) \<longleftrightarrow> list_all P (butlast (isa_features_fields f)) \<and> P (''raw_flags'', String_field (raw_flags f))"
  by (simp add: isa_features_fields_def)

lemma marked_unsupported:
  "g = mark_feature_fields f unsupported \<Longrightarrow>
   list_all (\<lambda>e. snd e = Bool_field (unavailable unsupported)) (butlast (isa_features_fields g))"
  by (simp add: mark_feature_fields_def isa_features_fields_def)

lemma family_answers:
  "list_all (answered_for Family_x86) (isa_features_fields (x86_fields flags (mark_feature_fields f unsupported)))"
  "list_all (answered_for Family_arm) (isa_features_fields (arm_fields flags (mark_feature_fields f unsupported)))"
  "list_all (answered_for Family_riscv) (isa_features_fields (riscv_fields raw (mark_feature_fields f unsupported)))"
  by (simp_all add: answered_for_def isa_features_fields_def x86_fields_def arm_fields_def
      riscv_fields_def mark_feature_fields_def starts_with_def bool_from_flag_def)

lemma feature_source_family:
  "source_raw (find_feature_source b) \<noteq> [] \<Longrightarrow> source_family (find_feature_source b) \<noteq> Family_unknown"
  by (auto simp: find_feature_source_def split: option.splits)

lemma collect_isa_answers:
  assumes "read_file h (proc_path opts ''/cpuinfo'') = \<lparr>rr_status = ok, rr_value = txt\<rparr>"
    and "parse_colon_blocks txt = b # bs" and "source_raw (find_feature_source b) \<noteq> []"
  shows "list_all (answered_for (source_family (find_feature_source b))) (isa_features_fields (collect_isa opts h))"
  using assms family_answers feature_source_family [of b]
  by (cases "source_family (find_feature_source b)") (simp_all add: collect_isa_def Let_def)

section \<open>RISC-V extensions\<close>

lemma sublist_after:
  "c \<notin> set a \<Longrightarrow> sublist (c # x) (a @ b) \<longleftrightarrow> sublist (c # x) b"
  by (induction a) (auto simp: sublist_Cons_right)

lemma find_str_start: "find_str p (p @ r) = Some 0"
  by (simp add: find_str.simps [of p])

text \<open>
  In a string \<open>rv32...\<close> or \<open>rv64...\<close> in lower case, an extension is there when its letter stands
  before the first underscore, when G stands there and covers it, or when a name after an
  underscore starts with it.
\<close>

lemma riscv_has_extension_iff:
  assumes w: "w = ''rv32'' \<or> w = ''rv64'' \<and> \<not> sublist ''rv32'' (w @ base @ rest)"
    and low: "map tolower (w @ base @ rest) = w @ base @ rest"
    and base: "CHR ''_'' \<notin> set base" and rest: "rest = [] \<or> hd rest = CHR ''_''"
  shows "riscv_has_extension (w @ base @ rest) c \<longleftrightarrow>
    c \<in> set base \<or> (CHR ''g'' \<in> set base \<and> c \<in> set ''imafd'') \<or> sublist [CHR ''_'', c] rest"
proof -
  let ?s = "w @ base @ rest"
  have len: "length w = 4" and us: "CHR ''_'' \<notin> set (w @ base)" using w base by auto
  have start: "(case find_str ''rv32'' ?s of None \<Rightarrow> find_str ''rv64'' ?s | Some i \<Rightarrow> Some i) = Some 0"
  proof (cases "w = ''rv32''")
    case True
    then show ?thesis using find_str_start [of w "base @ rest"] by simp
  next
    case False
    then have "find_str ''rv32'' ?s = None" "w = ''rv64''"
      using w find_str_iff_sublist [of "''rv32''" ?s] by auto
    then show ?thesis using find_str_start [of w "base @ rest"] by simp
  qed
  have d: "drop (0 + 4) ?s = base @ rest" using len by simp
  have b: "(case find_char (CHR ''_'') (drop (0 + 4) ?s) of None \<Rightarrow> drop (0 + 4) ?s
      | Some n \<Rightarrow> substr ?s (0 + 4) n) = base"
  proof (cases rest)
    case Nil
    then have "find_char (CHR ''_'') (drop (0 + 4) ?s) = None" using base by (simp add: len find_char_None)
    then show ?thesis by (simp only: option.case d) (simp add: Nil)
  next
    case (Cons u r)
    then have "find_char (CHR ''_'') (drop (0 + 4) ?s) = Some (length base)"
      using rest find_char_append [OF base, of r] by (simp add: len)
    then show ?thesis by (simp only: option.case substr_def d) simp
  qed
  have "find_str [CHR ''_'', c] ?s \<noteq> None \<longleftrightarrow> sublist [CHR ''_'', c] rest"
    using sublist_after [OF us, of "[c]" rest] by (simp only: find_str_iff_sublist append_assoc)
  then show ?thesis
    by (simp only: riscv_has_extension_def Let_def low start option.case b find_char_None not_not) auto
qed

end
