(* ===== verification/Collect_Cache.thy ===== *)
theory Collect_Cache
  imports Probing
begin

text \<open>
  \<open>src/src/cache.cc\<close>: the caches of every CPU, each of them reported once. Two directories describe
  the same cache when they agree on level, type, size and the list of CPUs that share it.
\<close>

definition cache_type_from_string :: "string \<Rightarrow> cache_type" where
  "cache_type_from_string v = (let v = map tolower v
     in if v = ''data'' then Cache_data
        else if v = ''instruction'' then Cache_instruction
        else if v = ''unified'' then Cache_unified
        else Cache_unknown)"

definition cache_key :: "cache_info \<Rightarrow> string" where
  "cache_key cache =
     (if valid (cache_level cache) then to_string_u32 (val (cache_level cache)) else ''?'')
     @ ''|'' @ to_string_cache (cache_kind cache)
     @ ''|'' @ (if valid (cache_size cache) then to_string_u64 (val (cache_size cache)) else ''?'')
     @ ''|'' @ (if valid (cache_shared_cpu_list cache) then val (cache_shared_cpu_list cache) else ''?'')
     @ (if \<not> valid (cache_shared_cpu_list cache) \<and> valid (cache_cpu_id cache)
        then ''|cpu='' @ to_string_u32 (val (cache_cpu_id cache)) else [])"

definition read_cache :: "host \<Rightarrow> u64 \<Rightarrow> string \<Rightarrow> cache_info" where
  "read_cache h cpu path =
     (let cache = new_cache_info\<lparr>
            cache_cpu_id := field_value (ucast cpu),
            cache_level := read_u32_field h (join_path path ''level''),
            cache_size := read_size_bytes_field h (join_path path ''size''),
            cache_line_size := read_u64_field h (join_path path ''coherency_line_size'') 1,
            cache_associativity := read_u64_field h (join_path path ''ways_of_associativity'') 1,
            cache_sets := read_u64_field h (join_path path ''number_of_sets'') 1,
            cache_shared_cpu_list := read_string_field h (join_path path ''shared_cpu_list'') True\<rparr>;
          type = read_string_field h (join_path path ''type'') True
      in if valid type then cache\<lparr>cache_kind := cache_type_from_string (val type)\<rparr> else cache)"

text \<open>The state of the loops: the set \<open>seen\<close> and the entries so far.\<close>

definition add_cache :: "string set \<times> cache_info list \<Rightarrow> cache_info \<Rightarrow> string set \<times> cache_info list" where
  "add_cache st cache = (case st of (seen, entries) \<Rightarrow>
     (let key = cache_key cache
      in if key \<notin> seen then (insert key seen, entries @ [cache]) else (seen, entries)))"

definition cpu_caches :: "host \<Rightarrow> string set \<times> cache_info list \<Rightarrow> u64 \<times> string \<Rightarrow> string set \<times> cache_info list" where
  "cpu_caches h st cpu =
     (let cache_root = join_path (snd cpu) ''cache''
      in foldl (\<lambda>st index. if \<not> starts_with index ''index'' then st
                           else add_cache st (read_cache h (fst cpu) (join_path cache_root index)))
           st (list_dir h cache_root))"

definition collect_cache :: "collect_options \<Rightarrow> host \<Rightarrow> cache_info list" where
  "collect_cache options h = snd (foldl (cpu_caches h) ({}, []) (cpu_dirs options h))"

section \<open>All cache directories, and what is kept of them\<close>

definition caches_of_cpu :: "host \<Rightarrow> u64 \<times> string \<Rightarrow> cache_info list" where
  "caches_of_cpu h cpu = (let cache_root = join_path (snd cpu) ''cache''
     in map (\<lambda>index. read_cache h (fst cpu) (join_path cache_root index))
          (filter (\<lambda>index. starts_with index ''index'') (list_dir h cache_root)))"

definition all_caches :: "collect_options \<Rightarrow> host \<Rightarrow> cache_info list" where
  "all_caches options h = concat (map (caches_of_cpu h) (cpu_dirs options h))"

lemma cpu_caches_eq: "cpu_caches h st cpu = foldl add_cache st (caches_of_cpu h cpu)"
proof -
  have "foldl (\<lambda>st index. if \<not> starts_with index ''index'' then st else add_cache st (f index)) st ns =
      foldl add_cache st (map f (filter (\<lambda>index. starts_with index ''index'') ns))" for f ns
    by (induction ns arbitrary: st) simp_all
  then show ?thesis by (simp add: cpu_caches_def caches_of_cpu_def Let_def)
qed

lemma collect_cache_eq: "collect_cache opts h = snd (foldl add_cache ({}, []) (all_caches opts h))"
proof -
  have "foldl (cpu_caches h) st cpus = foldl add_cache st (concat (map (caches_of_cpu h) cpus))" for st cpus
    by (induction cpus arbitrary: st) (simp_all add: cpu_caches_eq)
  then show ?thesis by (simp add: collect_cache_def all_caches_def)
qed

lemma add_cache_fold:
  assumes "seen = set (map cache_key es)" "distinct (map cache_key es)"
  shows "\<exists>ks. foldl add_cache (seen, es) cs = (set (map cache_key (es @ ks)), es @ ks) \<and>
     distinct (map cache_key (es @ ks)) \<and> subseq ks cs \<and>
     cache_key ` set (es @ ks) = cache_key ` (set es \<union> set cs)"
  using assms
proof (induction cs arbitrary: seen es)
  case (Cons c cs)
  show ?case
  proof (cases "cache_key c \<in> seen")
    case True
    obtain ks where "foldl add_cache (seen, es) cs = (set (map cache_key (es @ ks)), es @ ks)"
      "distinct (map cache_key (es @ ks))" "subseq ks cs"
      "cache_key ` set (es @ ks) = cache_key ` (set es \<union> set cs)"
      using Cons.IH [OF Cons.prems] by blast
    moreover have "add_cache (seen, es) c = (seen, es)" using True by (simp add: add_cache_def Let_def)
    moreover have "cache_key c \<in> cache_key ` (set es \<union> set cs)" using True Cons.prems(1) by auto
    ultimately show ?thesis
      by (intro exI [of _ ks]) (simp only: foldl_Cons, auto)
  next
    case False
    have "distinct (map cache_key (es @ [c]))" "insert (cache_key c) seen = set (map cache_key (es @ [c]))"
      using False Cons.prems by auto
    from Cons.IH [OF this(2) this(1)] obtain ks where
      "foldl add_cache (insert (cache_key c) seen, es @ [c]) cs =
         (set (map cache_key ((es @ [c]) @ ks)), (es @ [c]) @ ks)"
      "distinct (map cache_key ((es @ [c]) @ ks))" "subseq ks cs"
      "cache_key ` set ((es @ [c]) @ ks) = cache_key ` (set (es @ [c]) \<union> set cs)"
      by blast
    moreover have "add_cache (seen, es) c = (insert (cache_key c) seen, es @ [c])"
      using False by (simp add: add_cache_def Let_def)
    ultimately show ?thesis
      by (intro exI [of _ "c # ks"]) (simp only: foldl_Cons, auto)
  qed
qed simp

text \<open>Nothing is reported twice, nothing is lost, and the order of the directories is kept.\<close>

lemma collect_cache_dedupe:
  "distinct (map cache_key (collect_cache opts h)) \<and>
   cache_key ` set (collect_cache opts h) = cache_key ` set (all_caches opts h) \<and>
   subseq (collect_cache opts h) (all_caches opts h)"
  using add_cache_fold [of "{}" "[]" "all_caches opts h"] by (auto simp: collect_cache_eq)

section \<open>The contract\<close>

lemma read_cache_view:
  "same_file_view opts h h' \<Longrightarrow> rooted opts p \<Longrightarrow> read_cache h i p = read_cache h' i p"
  by (simp add: read_cache_def Let_def literal_name view_reads_join [of opts h h'])

lemma read_cache_honest [honest_intros]: "all_honest (cache_info_fields (read_cache h i p))"
  by (simp add: read_cache_def Let_def cache_info_fields_def new_cache_info_def)

lemma all_caches_view: "same_file_view opts h h' \<Longrightarrow> all_caches opts h = all_caches opts h'"
proof -
  assume v: "same_file_view opts h h'"
  have "caches_of_cpu h cpu = caches_of_cpu h' cpu" if "cpu \<in> set (cpu_dirs opts h)" for cpu
  proof -
    have "rooted opts (snd cpu)" using rooted_cpu_dirs [of "fst cpu" "snd cpu"] that by simp
    then show ?thesis unfolding caches_of_cpu_def Let_def
      by (intro map_listing_cong [OF v]) (simp_all add: read_cache_view [OF v])
  qed
  then show ?thesis using cpu_dirs_view [OF v] by (simp add: all_caches_def cong: map_cong)
qed

interpretation cache: collector collect_cache "\<lambda>cs. concat (map cache_info_fields cs)"
proof
  fix opts h h'
  assume "same_view opts h h'"
  then have v: "same_file_view opts h h'" by (rule same_viewD)
  show "collect_cache opts h = collect_cache opts h'"
    by (simp add: collect_cache_eq all_caches_view [OF v])
next
  fix opts h
  have "set (collect_cache opts h) \<subseteq> set (all_caches opts h)"
    using collect_cache_dedupe [of opts h] by (auto dest: subseq_set)
  moreover have "\<forall>c \<in> set (all_caches opts h). all_honest (cache_info_fields c)"
    by (auto simp: all_caches_def caches_of_cpu_def Let_def read_cache_honest)
  ultimately show "all_honest (concat (map cache_info_fields (collect_cache opts h)))" by auto
next
  fix opts :: collect_options and c h
  show "collect_cache (opts\<lparr>categories := c\<rparr>) h = collect_cache opts h"
    by (simp add: collect_cache_def cpu_dirs_def)
qed

end
