(* ===== verification/Collect_Memory.thy ===== *)
theory Collect_Memory
  imports View
begin

text \<open>
  \<open>src/src/memory.cc\<close>, in its POSIX branch (\<open>Windows_Build\<close> has the
  other): /proc/meminfo, the page size, transparent huge pages and the NUMA nodes with their own
  meminfo files.
\<close>

definition meminfo_line :: "(string, u64) std_map \<Rightarrow> string \<Rightarrow> (string, u64) std_map" where
  "meminfo_line values line = (case find_char (CHR '':'') line of
       None \<Rightarrow> values
     | Some colon \<Rightarrow>
         (let key = trim (substr line 0 colon)
          in case extract_word (drop (colon + 1) line) of
               None \<Rightarrow> values
             | Some (number, rest) \<Rightarrow>
                 (case parse_u64 number of
                    None \<Rightarrow> values
                  | Some v \<Rightarrow> AList.update key v values)))"

definition parse_meminfo_values :: "string \<Rightarrow> (string, u64) std_map" where
  "parse_meminfo_values txt = foldl meminfo_line [] (lines_by (CHR 0x0A) txt)"

definition meminfo_field :: "(string, u64) std_map \<Rightarrow> string \<Rightarrow> u64_field" where
  "meminfo_field values key = (case map_of values key of
       None \<Rightarrow> unavailable not_found
     | Some v \<Rightarrow> field_value v)"

text \<open>\<open>value.find(']', pos)\<close> counts from the start of the string.\<close>

definition find_char_from :: "char \<Rightarrow> string \<Rightarrow> nat \<Rightarrow> nat option" where
  "find_char_from c s pos = map_option (\<lambda>n. pos + n) (find_char c (drop pos s))"

definition transparent_hugepages_enabled :: "collect_options \<Rightarrow> host \<Rightarrow> bool_field" where
  "transparent_hugepages_enabled options h =
     (let result = read_first_line h (sys_path options ''/kernel/mm/transparent_hugepage/enabled'')
      in if rr_status result \<noteq> ok then unavailable (rr_status result)
         else let v = rr_value result;
                  open_pos = find_char (CHR ''['') v;
                  close = find_char_from (CHR '']'') v (case open_pos of None \<Rightarrow> 0 | Some n \<Rightarrow> n)
           in (case (open_pos, close) of
                 (Some op, Some cl) \<Rightarrow>
                   if cl > op + 1 then field_value (substr v (op + 1) (cl - op - 1) \<noteq> ''never'')
                   else field_value (find_str ''never'' v = None)
               | _ \<Rightarrow> field_value (find_str ''never'' v = None)))"

definition numa_node :: "host \<Rightarrow> string \<Rightarrow> string \<Rightarrow> numa_node_info option" where
  "numa_node h root name =
     (if \<not> starts_with name ''node'' then None
      else (case parse_u64 (drop 4 name) of
          None \<Rightarrow> None
        | Some node_id \<Rightarrow>
            if node_id > u32_max then None
            else let node_path = join_path root name;
                     node = new_numa_node_info\<lparr>
                       numa_node_id := field_value (ucast node_id),
                       numa_cpu_list := read_string_field h (join_path node_path ''cpulist'') True\<rparr>;
                     meminfo = read_file h (join_path node_path ''meminfo'')
              in Some (if rr_status meminfo = ok
                   then let values = parse_meminfo_values (rr_value meminfo)
                     in node\<lparr>
                          numa_total_kb := meminfo_field values (''Node '' @ to_string_u64 node_id @ '' MemTotal''),
                          numa_free_kb := meminfo_field values (''Node '' @ to_string_u64 node_id @ '' MemFree'')\<rparr>
                   else node\<lparr>
                          numa_total_kb := unavailable (rr_status meminfo),
                          numa_free_kb := unavailable (rr_status meminfo)\<rparr>)))"

definition collect_numa_nodes :: "collect_options \<Rightarrow> host \<Rightarrow> numa_node_info list" where
  "collect_numa_nodes options h = (let root = sys_path options ''/devices/system/node''
     in List.map_filter (numa_node h root) (list_dir h root))"

definition meminfo_fields :: "collect_options \<Rightarrow> host \<Rightarrow> memory_info \<Rightarrow> memory_info" where
  "meminfo_fields options h info =
     (let meminfo = read_file h (proc_path options ''/meminfo'');
          values = parse_meminfo_values (rr_value meminfo);
          field = (\<lambda>key. if rr_status meminfo = ok then meminfo_field values key
                         else unavailable (rr_status meminfo))
      in info\<lparr>
           mem_total_kb := field ''MemTotal'',
           mem_free_kb := field ''MemFree'',
           mem_available_kb := field ''MemAvailable'',
           mem_buffers_kb := field ''Buffers'',
           mem_cached_kb := field ''Cached'',
           mem_swap_total_kb := field ''SwapTotal'',
           mem_swap_free_kb := field ''SwapFree'',
           mem_hugepage_size_kb := field ''Hugepagesize'',
           mem_hugepages_total := field ''HugePages_Total'',
           mem_hugepages_free := field ''HugePages_Free''\<rparr>)"

text \<open>What every build fills in at the end.\<close>

definition sysfs_memory_fields :: "collect_options \<Rightarrow> host \<Rightarrow> memory_info \<Rightarrow> memory_info" where
  "sysfs_memory_fields options h info = info\<lparr>
     mem_transparent_hugepages_enabled := transparent_hugepages_enabled options h,
     mem_numa_nodes := collect_numa_nodes options h\<rparr>"

definition collect_memory :: "collect_options \<Rightarrow> host \<Rightarrow> memory_info" where
  "collect_memory options h = sysfs_memory_fields options h ((meminfo_fields options h new_memory_info)\<lparr>
     mem_page_size_bytes := (if sint (host_page_size h) > 0 then field_value (host_page_size h)
                             else unavailable not_found)\<rparr>)"

section \<open>The contract\<close>

lemma honest_meminfo_field [honest_intros, simp]: "honest (meminfo_field m k)"
  by (simp add: meminfo_field_def split: option.split)

lemma honest_hugepages [honest_intros, simp]: "honest (transparent_hugepages_enabled opts h)"
  by (auto simp: transparent_hugepages_enabled_def Let_def split: option.split)

lemma numa_node_honest: "numa_node h root n = Some i \<Longrightarrow> all_honest (numa_node_info_fields i)"
  by (auto simp: numa_node_def numa_node_info_fields_def new_numa_node_info_def Let_def
      split: if_splits option.splits)

lemma numa_node_view:
  "same_file_view opts h h' \<Longrightarrow> rooted opts root \<Longrightarrow> numa_node h root n = numa_node h' root n"
  by (simp add: numa_node_def Let_def literal_name view_reads_join [of opts h h'] split: option.split)

definition all_memory_fields :: "memory_info \<Rightarrow> (string \<times> any_field) list" where
  "all_memory_fields i = memory_info_fields i @ concat (map numa_node_info_fields (mem_numa_nodes i))"

lemma memory_parts_view:
  assumes v: "same_file_view opts h h'"
  shows "meminfo_fields opts h = meminfo_fields opts h'"
    and "sysfs_memory_fields opts h = sysfs_memory_fields opts h'"
proof -
  have "numa_node h (sys_path opts d) = numa_node h' (sys_path opts d)" for d
    by (intro ext) (simp add: numa_node_view [OF v])
  then show "sysfs_memory_fields opts h = sysfs_memory_fields opts h'"
    by (intro ext) (simp add: sysfs_memory_fields_def collect_numa_nodes_def
        transparent_hugepages_enabled_def Let_def literal_name view_reads_sys [OF v] view_answers [OF v])
qed (intro ext, simp add: meminfo_fields_def Let_def literal_name view_reads_proc [OF v])

lemma memory_parts_any_selection:
  "meminfo_fields (opts\<lparr>categories := c\<rparr>) h = meminfo_fields opts h"
  "sysfs_memory_fields (opts\<lparr>categories := c\<rparr>) h = sysfs_memory_fields opts h"
  by (simp_all add: fun_eq_iff sysfs_memory_fields_def collect_numa_nodes_def
      transparent_hugepages_enabled_def meminfo_fields_def)

interpretation memory: collector collect_memory all_memory_fields
proof
  fix opts h h'
  assume s: "same_view opts h h'"
  then have v: "same_file_view opts h h'" by (rule same_viewD)
  have "host_page_size h = host_page_size h'" using s by (simp add: same_view_def)
  then show "collect_memory opts h = collect_memory opts h'"
    by (simp add: collect_memory_def memory_parts_view [OF v])
next
  fix opts h
  show "all_honest (all_memory_fields (collect_memory opts h))"
    by (auto simp: all_memory_fields_def collect_memory_def sysfs_memory_fields_def meminfo_fields_def memory_info_fields_def
        new_memory_info_def collect_numa_nodes_def Let_def set_map_filter dest: numa_node_honest)
next
  fix opts :: collect_options and c h
  show "collect_memory (opts\<lparr>categories := c\<rparr>) h = collect_memory opts h"
    by (simp add: collect_memory_def memory_parts_any_selection)
qed

section \<open>Reading back a meminfo file\<close>

definition show_meminfo :: "string \<times> u64 \<Rightarrow> string" where
  "show_meminfo e = fst e @ '':       '' @ to_string_u64 (snd e) @ '' kB''"

definition meminfo_printable :: "string \<times> u64 \<Rightarrow> bool" where
  "meminfo_printable e \<longleftrightarrow> trim (fst e) = fst e \<and> CHR '':'' \<notin> set (fst e) \<and> CHR 0x0A \<notin> set (fst e)"

lemma meminfo_line_show:
  assumes "meminfo_printable (k, v)"
  shows "meminfo_line m (show_meminfo (k, v)) = AList.update k v m"
proof -
  let ?n = "to_string_u64 v" and ?l = "show_meminfo (k, v)"
  have k: "trim k = k" "CHR '':'' \<notin> set k" using assms by (simp_all add: meminfo_printable_def)
  have vis: "?n \<noteq> []" "\<forall>c \<in> set ?n. \<not> isspace c" using u64_codec.show_visible by blast+
  have f: "find_char (CHR '':'') ?l = Some (length k)"
    using find_char_append [OF k(2)] by (simp add: show_meminfo_def)
  have d: "drop (length k + 1) ?l = ''       '' @ ?n @ '' kB''" by (simp add: show_meminfo_def)
  have "dropWhile isspace (''       '' @ ?n @ '' kB'') = ?n @ '' kB''"
    using vis by (cases ?n) (simp_all add: isspace_def)
  moreover have "takeWhile (\<lambda>c. \<not> isspace c) (?n @ '' kB'') = ?n"
    using vis by (simp add: takeWhile_append_stop isspace_def)
  ultimately have "\<exists>r. extract_word (drop (length k + 1) ?l) = Some (?n, r)"
    using vis(1) unfolding d by (simp add: extract_word_def)
  moreover have "trim (substr ?l 0 (length k)) = k" using k(1) by (simp add: show_meminfo_def substr_def)
  ultimately show ?thesis by (auto simp: meminfo_line_def f u64_codec.parse_show)
qed

text \<open>
  A meminfo file is read back as the entries it prints, and the last entry of a name decides.
\<close>

lemma parse_meminfo_show:
  assumes "\<forall>e \<in> set es. meminfo_printable e"
  shows "parse_meminfo_values (concat (map (\<lambda>e. show_meminfo e @ [CHR 0x0A]) es)) =
    foldl (\<lambda>m (k, v). AList.update k v m) [] es"
proof -
  have nl: "meminfo_printable e \<Longrightarrow> CHR 0x0A \<notin> set (show_meminfo e)" for e
    using u64_codec.show_no_newline by (auto simp: meminfo_printable_def show_meminfo_def)
  have "foldl meminfo_line m (lines_by (CHR 0x0A) (concat (map (\<lambda>e. show_meminfo e @ [CHR 0x0A]) es))) =
      foldl (\<lambda>m (k, v). AList.update k v m) m es" for m
    using assms
  proof (induction es arbitrary: m)
    case (Cons e es)
    obtain k v where e: "e = (k, v)" by (cases e)
    show ?case using Cons lines_by_Cons [OF nl [of e]] meminfo_line_show [of k v] by (simp add: e)
  qed simp
  then show ?thesis by (simp add: parse_meminfo_values_def)
qed

lemma meminfo_field_show:
  assumes "\<forall>e \<in> set es. meminfo_printable e"
  shows "meminfo_field (parse_meminfo_values (concat (map (\<lambda>e. show_meminfo e @ [CHR 0x0A]) es))) k =
    (case map_of (rev es) k of None \<Rightarrow> unavailable not_found | Some v \<Rightarrow> field_value v)"
  using std_map.lookup_puts [of "[]" es k]
  by (simp add: meminfo_field_def parse_meminfo_show [OF assms] split: option.split)

section \<open>Transparent huge pages\<close>

text \<open>The selected mode stands between brackets.\<close>

lemma hugepages_selected:
  assumes "CHR ''['' \<notin> set a" "CHR '']'' \<notin> set s" "s \<noteq> []"
    "read_first_line h (sys_path opts ''/kernel/mm/transparent_hugepage/enabled'') =
       \<lparr>rr_status = ok, rr_value = a @ ''['' @ s @ '']'' @ b\<rparr>"
  shows "transparent_hugepages_enabled opts h = field_value (s \<noteq> ''never'')"
proof -
  have op: "find_char (CHR ''['') (a @ ''['' @ s @ '']'' @ b) = Some (length a)"
    using find_char_append [OF assms(1)] by simp
  have "CHR '']'' \<notin> set (CHR ''['' # s)" using assms(2) by simp
  then have "find_char (CHR '']'') (CHR ''['' # s @ CHR '']'' # b) = Some (Suc (length s))"
    using find_char_append [of "CHR '']''" "CHR ''['' # s" b] by simp
  then have "find_char_from (CHR '']'') (a @ ''['' @ s @ '']'' @ b) (length a) = Some (length a + Suc (length s))"
    by (simp add: find_char_from_def)
  with op show ?thesis using assms(3)
    by (simp add: transparent_hugepages_enabled_def assms(4) substr_def)
qed

end
