(* ===== verification/Collect_Pci.thy ===== *)
theory Collect_Pci
  imports View
begin

text \<open>
  \<open>src/src/pci.cc\<close>: one \<open>PciDeviceInfo\<close> for each directory below /bus/pci/devices.
\<close>

definition pci_device :: "host \<Rightarrow> string \<Rightarrow> string \<Rightarrow> pci_device_info" where
  "pci_device h root address = (let path = join_path root address;
       resource = join_path path ''resource''
     in new_pci_device_info\<lparr>
          pci_pci_address := field_value address,
          pci_vendor_id := read_string_field h (join_path path ''vendor'') True,
          pci_device_id := read_string_field h (join_path path ''device'') True,
          pci_subsystem_vendor_id := read_string_field h (join_path path ''subsystem_vendor'') True,
          pci_subsystem_device_id := read_string_field h (join_path path ''subsystem_device'') True,
          pci_class_id := read_string_field h (join_path path ''class'') True,
          pci_driver := read_symlink_basename_field h (join_path path ''driver''),
          pci_numa_node := read_i64_field h (join_path path ''numa_node''),
          pci_iommu_group := read_symlink_basename_field h (join_path path ''iommu_group''),
          pci_resource_path := (if path_exists h resource then field_value resource
                                else unavailable not_found)\<rparr>)"

definition collect_pci :: "collect_options \<Rightarrow> host \<Rightarrow> pci_device_info list" where
  "collect_pci options h = (let root = sys_path options ''/bus/pci/devices''
     in map (pci_device h root)
          (filter (\<lambda>address. path_is_dir h (join_path root address)) (list_dir h root)))"

lemma pci_device_view:
  "same_file_view opts h h' \<Longrightarrow> rooted opts root \<Longrightarrow> pci_device h root n = pci_device h' root n"
  by (simp add: pci_device_def Let_def literal_name view_reads_join [of opts h h']
      view_answers [of opts h h'])

lemma pci_device_honest [honest_intros]: "all_honest (pci_device_info_fields (pci_device h root n))"
  by (simp add: pci_device_def Let_def pci_device_info_fields_def new_pci_device_info_def)

interpretation pci: collector collect_pci "\<lambda>ds. concat (map pci_device_info_fields ds)"
proof
  fix opts h h'
  assume "same_view opts h h'"
  then have v: "same_file_view opts h h'" by (rule same_viewD)
  show "collect_pci opts h = collect_pci opts h'"
    unfolding collect_pci_def Let_def
    by (rule map_listing_cong [OF v]) (simp_all add: pci_device_view [OF v] view_answers [OF v])
next
  fix opts :: collect_options and c h
  show "collect_pci (opts\<lparr>categories := c\<rparr>) h = collect_pci opts h"
    by (simp add: collect_pci_def)
qed (auto simp: collect_pci_def Let_def pci_device_honest)

lemma addresses_collect_pci:
  "map (\<lambda>d. val (pci_pci_address d)) (collect_pci opts h) =
   filter (\<lambda>a. path_is_dir h (join_path (sys_path opts ''/bus/pci/devices'') a))
     (list_dir h (sys_path opts ''/bus/pci/devices''))"
  by (simp add: collect_pci_def pci_device_def Let_def comp_def)

text \<open>The addresses are reported in order and once each.\<close>

lemma sorted_addresses_pci: "sorted (map (\<lambda>d. val (pci_pci_address d)) (collect_pci opts h))"
  by (simp add: addresses_collect_pci sorted_wrt_filter)

lemma distinct_addresses_pci:
  "posix_host h \<Longrightarrow> distinct (map (\<lambda>d. val (pci_pci_address d)) (collect_pci opts h))"
  by (simp add: addresses_collect_pci distinct_list_dir)

end
