(* ===== verification/Collect_Gpu.thy ===== *)
theory Collect_Gpu
  imports Probing
begin

text \<open>
  \<open>src/src/gpu.cc\<close>: the DRM cards with the PCI devices behind them, then the display controllers on
  the PCI bus that no card has claimed.
\<close>

definition vendor_from_id :: "string_field \<Rightarrow> gpu_vendor" where
  "vendor_from_id vendor_id =
     (if \<not> valid vendor_id then Gpu_unknown
      else if val vendor_id = ''0x8086'' then Gpu_intel
      else if val vendor_id = ''0x1002'' \<or> val vendor_id = ''0x1022'' then Gpu_amd
      else if val vendor_id = ''0x10de'' then Gpu_nvidia
      else Gpu_unknown)"

definition is_display_class :: "string_field \<Rightarrow> bool" where
  "is_display_class class_id \<longleftrightarrow> valid class_id \<and> starts_with (val class_id) ''0x03''"

definition add_render_node :: "collect_options \<Rightarrow> host \<Rightarrow> string \<Rightarrow> kv_map \<Rightarrow> string \<Rightarrow> kv_map" where
  "add_render_node options h drm_root nodes name =
     (if \<not> starts_with name ''renderD'' then nodes
      else (case read_symlink_target h (join_path drm_root (name @ ''/device'')) of
          None \<Rightarrow> nodes
        | Some target \<Rightarrow> AList.update (basename target) (dev_path options (''/dri/'' @ name)) nodes))"

definition render_nodes_by_pci :: "collect_options \<Rightarrow> host \<Rightarrow> kv_map" where
  "render_nodes_by_pci options h = (let drm_root = sys_path options ''/class/drm''
     in foldl (add_render_node options h drm_root) [] (list_dir h drm_root))"

fun first_u64_loop :: "host \<Rightarrow> status \<Rightarrow> string list \<Rightarrow> u64_field" where
  "first_u64_loop h last_status [] = unavailable last_status"
| "first_u64_loop h last_status (path # paths) = (let v = read_u64_field h path 1
     in if valid v then v
        else first_u64_loop h (if field_status v \<noteq> not_found then field_status v else last_status) paths)"

definition first_u64_file :: "host \<Rightarrow> string list \<Rightarrow> u64_field" where
  "first_u64_file h paths = first_u64_loop h not_found paths"

definition hwmon_step :: "host \<Rightarrow> string \<Rightarrow> gpu_info \<Rightarrow> string \<Rightarrow> gpu_info" where
  "hwmon_step h hwmon_root gpu hwmon =
     (let path = join_path hwmon_root hwmon;
          gpu = (if \<not> valid (gpu_temp_millidegree_c gpu)
             then gpu\<lparr>gpu_temp_millidegree_c := read_u64_field h (join_path path ''temp1_input'') 1\<rparr>
             else gpu)
      in if \<not> valid (gpu_power_mw gpu)
         then (let power_uw = read_u64_field h (join_path path ''power1_average'') 1
           in if valid power_uw then gpu\<lparr>gpu_power_mw := field_value (val power_uw div 1000)\<rparr> else gpu)
         else gpu)"

definition fill_hwmon_fields :: "host \<Rightarrow> string \<Rightarrow> gpu_info \<Rightarrow> gpu_info" where
  "fill_hwmon_fields h pci_path gpu = (let hwmon_root = join_path pci_path ''hwmon''
     in foldl (hwmon_step h hwmon_root) gpu (list_dir h hwmon_root))"

definition gpu_from_pci :: "host \<Rightarrow> string \<Rightarrow> string \<Rightarrow> kv_map \<Rightarrow> gpu_info" where
  "gpu_from_pci h pci_address pci_path render_nodes =
     (let gpu = new_gpu_info\<lparr>
            gpu_pci_address := field_value pci_address,
            gpu_vendor_id := read_string_field h (join_path pci_path ''vendor'') True,
            gpu_device_id := read_string_field h (join_path pci_path ''device'') True,
            gpu_driver := read_symlink_basename_field h (join_path pci_path ''driver'')\<rparr>;
          gpu = gpu\<lparr>gpu_vendor := vendor_from_id (gpu_vendor_id gpu)\<rparr>;
          gpu = (if valid (gpu_vendor_id gpu) \<and> valid (gpu_device_id gpu)
             then gpu\<lparr>gpu_name := field_value (val (gpu_vendor_id gpu) @ '':'' @ val (gpu_device_id gpu))\<rparr>
             else gpu\<lparr>gpu_name := field_value pci_address\<rparr>);
          gpu = (case map_of render_nodes pci_address of
               Some render \<Rightarrow> gpu\<lparr>gpu_render_node := field_value render\<rparr>
             | None \<Rightarrow> gpu);
          gpu = gpu\<lparr>gpu_vram_total_bytes := first_u64_file h
             [join_path pci_path ''mem_info_vram_total'', join_path pci_path ''mem_info_vis_vram_total'']\<rparr>;
          gpu = gpu\<lparr>gpu_vram_used_bytes := first_u64_file h
             [join_path pci_path ''mem_info_vram_used'', join_path pci_path ''mem_info_vis_vram_used'']\<rparr>;
          gpu = fill_hwmon_fields h pci_path gpu
      in gpu\<lparr>
           gpu_cuda_available := (if gpu_vendor gpu = Gpu_nvidia then unavailable unsupported
                                  else field_value False),
           gpu_cuda_compute_capability := unavailable unsupported\<rparr>)"

text \<open>One turn of the loop over the cards; the state is the set \<open>seen\<close> and the entries.\<close>

definition card_step :: "collect_options \<Rightarrow> host \<Rightarrow> kv_map \<Rightarrow> string set \<times> gpu_info list \<Rightarrow> string \<Rightarrow>
    string set \<times> gpu_info list" where
  "card_step options h render_nodes st entry = (case st of (seen, entries) \<Rightarrow>
     (if \<not> starts_with entry ''card'' \<or> find_char (CHR ''-'') entry \<noteq> None then (seen, entries)
      else (case read_symlink_target h (join_path (sys_path options ''/class/drm'') (entry @ ''/device'')) of
          None \<Rightarrow> (seen, entries)
        | Some target \<Rightarrow>
            (let pci_address = basename target
             in if pci_address \<in> seen then (seen, entries)
                else let pci_path = join_path (sys_path options ''/bus/pci/devices'') pci_address;
                         gpu = (gpu_from_pci h pci_address pci_path render_nodes)
                           \<lparr>gpu_drm_card := field_value (dev_path options (''/dri/'' @ entry))\<rparr>
                  in (insert pci_address seen, entries @ [gpu])))))"

definition collect_gpu :: "collect_options \<Rightarrow> host \<Rightarrow> gpu_info list" where
  "collect_gpu options h =
     (let drm_root = sys_path options ''/class/drm'';
          pci_root = sys_path options ''/bus/pci/devices'';
          render_nodes = render_nodes_by_pci options h;
          (seen, entries) = foldl (card_step options h render_nodes) ({}, []) (list_dir h drm_root)
      in entries @ map (\<lambda>address. gpu_from_pci h address (join_path pci_root address) render_nodes)
           (filter (\<lambda>address. address \<notin> seen \<and>
                is_display_class (read_string_field h (join_path (join_path pci_root address) ''class'') True))
              (list_dir h pci_root)))"

section \<open>The contract\<close>

interpretation u64_loop: candidate_loop first_u64_loop "\<lambda>h p. read_u64_field h p 1" "\<lambda>v. v"
proof unfold_locales
  fix h st p ps
  have "valid (read_u64_field h p 1) \<Longrightarrow> field_value (val (read_u64_field h p 1)) = read_u64_field h p 1"
    using u64_reader.honest_read [of h p 1]
    by (cases "read_u64_field h p 1") (simp add: honest_def field_value_def no_field_def)
  then show "first_u64_loop h st (p # ps) =
    (if valid (read_u64_field h p 1) then field_value (val (read_u64_field h p 1))
     else first_u64_loop h (next_status st (field_status (read_u64_field h p 1))) ps)"
    by (simp add: Let_def next_status_def)
qed simp_all

lemma honest_first_u64 [honest_intros, simp]: "honest (first_u64_file h ps)"
  by (simp add: first_u64_file_def u64_loop.probe_honest)

lemma first_u64_view:
  "same_file_view opts h h' \<Longrightarrow> rooted opts d \<Longrightarrow>
   \<forall>n \<in> set ns. n \<noteq> [] \<and> \<not> sensitive_name (file_name (CHR ''/'' # n)) \<Longrightarrow>
   first_u64_file h (map (join_path d) ns) = first_u64_file h' (map (join_path d) ns)"
  unfolding first_u64_file_def
  by (rule u64_loop.probe_cong) (auto simp: view_reads_join [of opts h h'])

lemma hwmon_step_honest:
  "all_honest (gpu_info_fields g) \<Longrightarrow> all_honest (gpu_info_fields (hwmon_step h d g n))"
  by (simp add: hwmon_step_def Let_def gpu_info_fields_def)

lemma fill_hwmon_honest:
  "all_honest (gpu_info_fields g) \<Longrightarrow> all_honest (gpu_info_fields (fill_hwmon_fields h p g))"
proof -
  have "all_honest (gpu_info_fields g) \<Longrightarrow>
    all_honest (gpu_info_fields (foldl (hwmon_step h d) g ns))" for d ns g
    by (induction ns arbitrary: g) (simp_all add: hwmon_step_honest)
  then show "all_honest (gpu_info_fields g) \<Longrightarrow> ?thesis" by (simp add: fill_hwmon_fields_def Let_def)
qed

lemma fill_hwmon_view:
  "same_file_view opts h h' \<Longrightarrow> rooted opts p \<Longrightarrow> fill_hwmon_fields h p = fill_hwmon_fields h' p"
proof -
  assume v: "same_file_view opts h h'" and r: "rooted opts p"
  have "hwmon_step h (join_path p ''hwmon'') = hwmon_step h' (join_path p ''hwmon'')"
    by (intro ext) (simp add: hwmon_step_def Let_def literal_name r view_reads_join [OF v])
  then show ?thesis
    by (intro ext) (simp add: fill_hwmon_fields_def Let_def r view_answers [OF v])
qed

text \<open>The sensors change the two sensor fields only.\<close>

lemma fill_hwmon_keeps [simp]:
  "gpu_pci_address (fill_hwmon_fields h p g) = gpu_pci_address g"
  "gpu_vendor (fill_hwmon_fields h p g) = gpu_vendor g"
  "gpu_drm_card (fill_hwmon_fields h p g) = gpu_drm_card g"
proof -
  have "gpu_pci_address (foldl (hwmon_step h d) g ns) = gpu_pci_address g \<and>
    gpu_vendor (foldl (hwmon_step h d) g ns) = gpu_vendor g \<and>
    gpu_drm_card (foldl (hwmon_step h d) g ns) = gpu_drm_card g" for d ns
    by (induction ns arbitrary: g) (simp_all add: hwmon_step_def Let_def)
  then show "gpu_pci_address (fill_hwmon_fields h p g) = gpu_pci_address g"
    "gpu_vendor (fill_hwmon_fields h p g) = gpu_vendor g"
    "gpu_drm_card (fill_hwmon_fields h p g) = gpu_drm_card g"
    by (simp_all add: fill_hwmon_fields_def Let_def)
qed

lemma gpu_from_pci_honest: "all_honest (gpu_info_fields (gpu_from_pci h a p m))"
proof -
  have final: "all_honest (gpu_info_fields g) \<Longrightarrow> honest c \<Longrightarrow> honest d \<Longrightarrow>
      all_honest (gpu_info_fields (g\<lparr>gpu_cuda_available := c, gpu_cuda_compute_capability := d\<rparr>))" for g c d
    by (simp add: gpu_info_fields_def)
  show ?thesis
    unfolding gpu_from_pci_def Let_def
    by (intro final fill_hwmon_honest)
      (simp_all add: gpu_info_fields_def new_gpu_info_def split: option.split)
qed

lemma gpu_from_pci_view:
  "same_file_view opts h h' \<Longrightarrow> rooted opts p \<Longrightarrow> gpu_from_pci h a p m = gpu_from_pci h' a p m"
proof -
  assume v: "same_file_view opts h h'" and r: "rooted opts p"
  have "first_u64_file h [join_path p ''mem_info_vram_total'', join_path p ''mem_info_vis_vram_total''] =
      first_u64_file h' [join_path p ''mem_info_vram_total'', join_path p ''mem_info_vis_vram_total'']"
    "first_u64_file h [join_path p ''mem_info_vram_used'', join_path p ''mem_info_vis_vram_used''] =
      first_u64_file h' [join_path p ''mem_info_vram_used'', join_path p ''mem_info_vis_vram_used'']"
    using first_u64_view [OF v r, of "[_, _]"] by (simp_all add: literal_name)
  then show ?thesis
    by (simp add: gpu_from_pci_def literal_name r view_reads_join [OF v] view_answers [OF v]
        fill_hwmon_view [OF v r])
qed

lemma render_nodes_view:
  "same_file_view opts h h' \<Longrightarrow> render_nodes_by_pci opts h = render_nodes_by_pci opts h'"
proof -
  assume v: "same_file_view opts h h'"
  have "add_render_node opts h (sys_path opts d) = add_render_node opts h' (sys_path opts d)" for d
    by (intro ext) (simp add: add_render_node_def view_answers [OF v])
  then show ?thesis by (simp add: render_nodes_by_pci_def view_answers [OF v])
qed

lemma card_step_view: "same_file_view opts h h' \<Longrightarrow> card_step opts h m = card_step opts h' m"
  by (intro ext) (simp add: card_step_def Let_def view_answers [of opts h h'] gpu_from_pci_view [of opts h h']
      split: option.split prod.split)

lemma drm_card_honest:
  "all_honest (gpu_info_fields g) \<Longrightarrow> all_honest (gpu_info_fields (g\<lparr>gpu_drm_card := field_value c\<rparr>))"
  by (simp add: gpu_info_fields_def)

text \<open>The state of the loop over the cards: the addresses seen are those of the entries.\<close>

definition cards_inv :: "string set \<times> gpu_info list \<Rightarrow> bool" where
  "cards_inv st \<longleftrightarrow> fst st = set (map (\<lambda>g. val (gpu_pci_address g)) (snd st)) \<and>
     distinct (map (\<lambda>g. val (gpu_pci_address g)) (snd st)) \<and>
     (\<forall>g \<in> set (snd st). all_honest (gpu_info_fields g) \<and>
        gpu_pci_address g = field_value (val (gpu_pci_address g)))"

lemma gpu_from_pci_address [simp]: "gpu_pci_address (gpu_from_pci h a p m) = field_value a"
  by (simp add: gpu_from_pci_def Let_def split: option.split)

lemma card_step_inv: "cards_inv st \<Longrightarrow> cards_inv (card_step opts h m st c)"
  by (cases st) (auto simp: cards_inv_def card_step_def Let_def gpu_from_pci_honest drm_card_honest
      split: option.split)

lemma cards_fold_inv: "cards_inv st \<Longrightarrow> cards_inv (foldl (card_step opts h m) st cs)"
  by (induction cs arbitrary: st) (simp_all add: card_step_inv)

definition unclaimed :: "collect_options \<Rightarrow> host \<Rightarrow> string set \<Rightarrow> string list" where
  "unclaimed options h seen = filter (\<lambda>a. a \<notin> seen \<and> is_display_class (read_string_field h
     (join_path (join_path (sys_path options ''/bus/pci/devices'') a) ''class'') True))
     (list_dir h (sys_path options ''/bus/pci/devices''))"

lemma collect_gpu_parts:
  obtains seen entries where "cards_inv (seen, entries)"
    "collect_gpu opts h = entries @ map (\<lambda>a. gpu_from_pci h a
       (join_path (sys_path opts ''/bus/pci/devices'') a) (render_nodes_by_pci opts h)) (unclaimed opts h seen)"
proof -
  let ?cards = "foldl (card_step opts h (render_nodes_by_pci opts h)) ({}, [])
      (list_dir h (sys_path opts ''/class/drm''))"
  obtain seen entries where st: "?cards = (seen, entries)" by fastforce
  have "cards_inv ?cards" by (rule cards_fold_inv) (simp add: cards_inv_def)
  then show thesis
    by (intro that [of seen entries]) (simp_all add: st collect_gpu_def unclaimed_def Let_def)
qed

lemma gpu_parts_any_selection:
  "render_nodes_by_pci (opts\<lparr>categories := c\<rparr>) h = render_nodes_by_pci opts h"
  "card_step (opts\<lparr>categories := c\<rparr>) h m = card_step opts h m"
proof -
  have "add_render_node (opts\<lparr>categories := c\<rparr>) h d = add_render_node opts h d" for d
    by (intro ext) (simp add: add_render_node_def split: option.split)
  then show "render_nodes_by_pci (opts\<lparr>categories := c\<rparr>) h = render_nodes_by_pci opts h"
    by (simp add: render_nodes_by_pci_def)
  show "card_step (opts\<lparr>categories := c\<rparr>) h m = card_step opts h m"
    by (intro ext) (simp add: card_step_def Let_def split: option.split prod.split)
qed

interpretation gpu: collector collect_gpu "\<lambda>gs. concat (map gpu_info_fields gs)"
proof
  fix opts h h'
  assume "same_view opts h h'"
  then have v: "same_file_view opts h h'" by (rule same_viewD)
  show "collect_gpu opts h = collect_gpu opts h'"
    by (simp add: collect_gpu_def Let_def render_nodes_view [OF v] card_step_view [OF v] literal_name
        view_answers [OF v] view_reads_join [OF v] gpu_from_pci_view [OF v] split: prod.split)
next
  fix opts h
  show "all_honest (concat (map gpu_info_fields (collect_gpu opts h)))"
    by (rule collect_gpu_parts [of opts h]) (auto simp: cards_inv_def gpu_from_pci_honest)
next
  fix opts :: collect_options and c h
  show "collect_gpu (opts\<lparr>categories := c\<rparr>) h = collect_gpu opts h"
    by (simp add: collect_gpu_def gpu_parts_any_selection)
qed

section \<open>Every display device once\<close>

lemma distinct_gpu_addresses:
  assumes "posix_host h"
  shows "distinct (map (\<lambda>g. val (gpu_pci_address g)) (collect_gpu opts h))"
proof -
  obtain seen entries where "cards_inv (seen, entries)"
    "collect_gpu opts h = entries @ map (\<lambda>a. gpu_from_pci h a
       (join_path (sys_path opts ''/bus/pci/devices'') a) (render_nodes_by_pci opts h)) (unclaimed opts h seen)"
    by (rule collect_gpu_parts)
  then show ?thesis
    using distinct_list_dir [OF assms] by (auto simp: cards_inv_def comp_def unclaimed_def)
qed

lemma gpu_display_complete:
  assumes "a \<in> set (list_dir h (sys_path opts ''/bus/pci/devices''))"
    and "is_display_class (read_string_field h
      (join_path (join_path (sys_path opts ''/bus/pci/devices'') a) ''class'') True)"
  shows "\<exists>g \<in> set (collect_gpu opts h). gpu_pci_address g = field_value a"
proof -
  obtain seen entries where inv: "cards_inv (seen, entries)"
    and eq: "collect_gpu opts h = entries @ map (\<lambda>a. gpu_from_pci h a
       (join_path (sys_path opts ''/bus/pci/devices'') a) (render_nodes_by_pci opts h)) (unclaimed opts h seen)"
    by (rule collect_gpu_parts)
  show ?thesis
  proof (cases "a \<in> seen")
    case True
    with inv show ?thesis by (fastforce simp: cards_inv_def eq)
  next
    case False
    then have "a \<in> set (unclaimed opts h seen)" using assms by (simp add: unclaimed_def)
    then show ?thesis by (auto simp: eq intro!: bexI image_eqI)
  qed
qed

end
