(* ===== verification/Collect_Perf.thy ===== *)
theory Collect_Perf
  imports Probing
begin

text \<open>
  \<open>src/src/perf.cc\<close>, in its Linux branch (\<open>Windows_Build\<close> has the other):
  the paranoia level, the hardware counters and the time stamp counter flags. A counter is probed
  with \<open>perf_event_open\<close> only when the options allow it.
\<close>

definition read_cpu_flags :: "collect_options \<Rightarrow> host \<Rightarrow> cpu_flag_result" where
  "read_cpu_flags options h = flags_from_cpuinfo [''flags'', ''Features'', ''isa''] options h"

definition read_perf_event_paranoid :: "collect_options \<Rightarrow> host \<Rightarrow> i64_field" where
  "read_perf_event_paranoid options h =
     (let result = read_first_line h (proc_path options ''/sys/kernel/perf_event_paranoid'')
      in if rr_status result \<noteq> ok then unavailable (rr_status result)
         else (case parse_i64 (rr_value result) of
             None \<Rightarrow> unavailable parse_error
           | Some v \<Rightarrow> field_value v))"

definition flag_field :: "cpu_flag_result \<Rightarrow> string \<Rightarrow> bool_field" where
  "flag_field result name = (if flag_status result \<noteq> ok then unavailable (flag_status result)
     else bool_from_flag (flag_words result) name)"

fun any_flag_loop :: "string set \<Rightarrow> string list \<Rightarrow> bool_field" where
  "any_flag_loop flags [] = field_value False"
| "any_flag_loop flags (name # names) =
     (if name \<in> flags then field_value True else any_flag_loop flags names)"

definition any_flag_field :: "cpu_flag_result \<Rightarrow> string list \<Rightarrow> bool_field" where
  "any_flag_field result names = (if flag_status result \<noteq> ok then unavailable (flag_status result)
     else any_flag_loop (flag_words result) names)"

definition probe_hardware_counter :: "host \<Rightarrow> hw_counter \<Rightarrow> bool \<Rightarrow> bool_field" where
  "probe_hardware_counter h config allow_probe =
     (if \<not> allow_probe then unavailable unsupported
      else (case host_perf_open h config of
          None \<Rightarrow> field_value True
        | Some err \<Rightarrow>
            if err = EACCES \<or> err = EPERM then unavailable perm_denied
            else if err = ENODEV \<or> err = ENOENT \<or> err = EOPNOTSUPP \<or> err = EINVAL then field_value False
            else unavailable internal_error))"

definition fill_hardware_counter_availability ::
    "host \<Rightarrow> perf_counter_availability \<Rightarrow> bool \<Rightarrow> perf_counter_availability" where
  "fill_hardware_counter_availability h counters allow_probe = counters\<lparr>
     avail_cpu_cycles := probe_hardware_counter h Hw_cpu_cycles allow_probe,
     avail_instructions := probe_hardware_counter h Hw_instructions allow_probe,
     avail_cache_references := probe_hardware_counter h Hw_cache_references allow_probe,
     avail_cache_misses := probe_hardware_counter h Hw_cache_misses allow_probe,
     avail_branch_instructions := probe_hardware_counter h Hw_branch_instructions allow_probe,
     avail_branch_misses := probe_hardware_counter h Hw_branch_misses allow_probe,
     avail_bus_cycles := probe_hardware_counter h Hw_bus_cycles allow_probe,
     avail_ref_cpu_cycles := probe_hardware_counter h Hw_ref_cpu_cycles allow_probe\<rparr>"

definition tsc_fields :: "collect_options \<Rightarrow> host \<Rightarrow> perf_counter_info \<Rightarrow> perf_counter_info" where
  "tsc_fields options h info =
     (let flags = read_cpu_flags options h
      in if flag_status flags = ok \<and> \<not> flag_x86 flags
         then info\<lparr>
           perf_rdtsc_available := unavailable unsupported,
           perf_rdtscp_available := unavailable unsupported,
           perf_invariant_tsc := unavailable unsupported\<rparr>
         else info\<lparr>
           perf_rdtsc_available := flag_field flags ''tsc'',
           perf_rdtscp_available := flag_field flags ''rdtscp'',
           perf_invariant_tsc := any_flag_field flags [''constant_tsc'', ''nonstop_tsc'']\<rparr>)"

definition collect_perf :: "collect_options \<Rightarrow> host \<Rightarrow> perf_counter_info" where
  "collect_perf options h = tsc_fields options h (new_perf_counter_info\<lparr>
     perf_event_paranoid := read_perf_event_paranoid options h,
     perf_available := fill_hardware_counter_availability h
       (perf_available new_perf_counter_info) (allow_perf_open options)\<rparr>)"

section \<open>The contract\<close>

lemma any_flag_loop_eq [simp]: "any_flag_loop flags names = field_value (\<exists>n \<in> set names. n \<in> flags)"
  by (induction names) auto

lemma honest_perf_fields [honest_intros, simp]:
  "honest (read_perf_event_paranoid opts h)" "honest (flag_field r n)" "honest (any_flag_field r ns)"
  "honest (probe_hardware_counter h c allow)"
  by (auto simp: read_perf_event_paranoid_def flag_field_def any_flag_field_def
      probe_hardware_counter_def Let_def split: option.split)

lemma probe_view:
  "same_view opts h h' \<Longrightarrow>
   probe_hardware_counter h c (allow_perf_open opts) = probe_hardware_counter h' c (allow_perf_open opts)"
  by (simp add: same_view_def probe_hardware_counter_def)

lemma tsc_fields_view:
  "same_file_view opts h h' \<Longrightarrow> tsc_fields opts h = tsc_fields opts h'"
  by (intro ext) (simp add: tsc_fields_def read_cpu_flags_def flags_view [of opts h h'])

lemma paranoid_view:
  "same_file_view opts h h' \<Longrightarrow> read_perf_event_paranoid opts h = read_perf_event_paranoid opts h'"
  by (simp add: read_perf_event_paranoid_def literal_name view_reads_proc [of opts h h'])

lemma perf_parts_any_selection:
  "tsc_fields (opts\<lparr>categories := c\<rparr>) h = tsc_fields opts h"
  "read_perf_event_paranoid (opts\<lparr>categories := c\<rparr>) h = read_perf_event_paranoid opts h"
  by (simp_all add: fun_eq_iff tsc_fields_def read_cpu_flags_def flags_from_cpuinfo_def
      read_perf_event_paranoid_def)

interpretation perf: collector collect_perf perf_counter_info_fields
proof
  fix opts h h'
  assume s: "same_view opts h h'"
  then have v: "same_file_view opts h h'" by (rule same_viewD)
  show "collect_perf opts h = collect_perf opts h'"
    by (simp add: collect_perf_def tsc_fields_view [OF v] paranoid_view [OF v]
        fill_hardware_counter_availability_def probe_view [OF s])
next
  fix opts :: collect_options and c h
  show "collect_perf (opts\<lparr>categories := c\<rparr>) h = collect_perf opts h"
    by (simp add: collect_perf_def perf_parts_any_selection)
qed (simp add: collect_perf_def tsc_fields_def fill_hardware_counter_availability_def Let_def
      perf_counter_info_fields_def perf_counter_availability_fields_def new_perf_counter_info_def)

text \<open>Without the permission nothing is probed: every counter is \<open>unsupported\<close>.\<close>

lemma counters_opt_in:
  "\<not> allow_perf_open opts \<Longrightarrow>
   (k, f) \<in> set (perf_counter_availability_fields (perf_available (collect_perf opts h))) \<Longrightarrow>
   f = Bool_field (unavailable unsupported)"
  by (auto simp: collect_perf_def tsc_fields_def fill_hardware_counter_availability_def Let_def
      perf_counter_availability_fields_def probe_hardware_counter_def)

end
