(* ===== verification/Collect_Block.thy ===== *)
theory Collect_Block
  imports View
begin

text \<open>
  \<open>src/src/block.cc\<close>: one \<open>BlockDeviceInfo\<close> for each directory below /block that is not a loop
  or RAM device. The file's \<open>read_bool_number\<close> is word for word the one of \<open>src/src/net.cc\<close>,
  whose model uses it too.
\<close>

definition is_pseudo_block_device :: "string \<Rightarrow> bool" where
  "is_pseudo_block_device name \<longleftrightarrow> starts_with name ''loop'' \<or> starts_with name ''ram''"

definition read_bool_number :: "host \<Rightarrow> string \<Rightarrow> bool_field" where
  "read_bool_number h path = (let value = read_u64_field h path 1
     in if \<not> valid value then unavailable (field_status value)
        else field_value (val value \<noteq> 0))"

definition block_device :: "collect_options \<Rightarrow> host \<Rightarrow> string \<Rightarrow> string \<Rightarrow> block_device_info" where
  "block_device options h root name = (let path = join_path root name
     in new_block_device_info\<lparr>
          block_name := field_value name,
          block_path := field_value (dev_path options (''/'' @ name)),
          block_model := read_string_field h (join_path path ''device/model'') True,
          block_vendor := read_string_field h (join_path path ''device/vendor'') True,
          block_rotational := read_bool_number h (join_path path ''queue/rotational''),
          block_size_bytes := read_u64_field h (join_path path ''size'') 512,
          block_logical_block_size := read_u64_field h (join_path path ''queue/logical_block_size'') 1,
          block_physical_block_size := read_u64_field h (join_path path ''queue/physical_block_size'') 1,
          block_scheduler := read_string_field h (join_path path ''queue/scheduler'') True\<rparr>)"

definition collect_block :: "collect_options \<Rightarrow> host \<Rightarrow> block_device_info list" where
  "collect_block options h = (let root = sys_path options ''/block''
     in map (block_device options h root)
          (filter (\<lambda>name. path_is_dir h (join_path root name))
            (filter (\<lambda>name. \<not> is_pseudo_block_device name) (list_dir h root))))"

lemma honest_read_bool_number [honest_intros, simp]: "honest (read_bool_number h p)"
  using u64_reader.honest_read [of h p 1] by (simp add: read_bool_number_def Let_def honest_def)

lemma read_bool_number_view:
  "same_file_view opts h h' \<Longrightarrow> rooted opts p \<Longrightarrow> n \<noteq> [] \<Longrightarrow> \<not> sensitive_name (file_name (CHR ''/'' # n)) \<Longrightarrow>
   read_bool_number h (join_path p n) = read_bool_number h' (join_path p n)"
  by (simp add: read_bool_number_def view_reads_join [of opts h h'])

lemma block_device_view:
  "same_file_view opts h h' \<Longrightarrow> rooted opts root \<Longrightarrow>
   block_device opts h root n = block_device opts h' root n"
  by (simp add: block_device_def Let_def literal_name view_reads_join [of opts h h']
      read_bool_number_view [of opts h h'])

lemma block_device_honest [honest_intros]:
  "all_honest (block_device_info_fields (block_device opts h root n))"
  by (simp add: block_device_def Let_def block_device_info_fields_def new_block_device_info_def)

lemma block_device_any_selection: "block_device (opts\<lparr>categories := c\<rparr>) h root = block_device opts h root"
  by (intro ext) (simp add: block_device_def)

interpretation block: collector collect_block "\<lambda>bs. concat (map block_device_info_fields bs)"
proof
  fix opts h h'
  assume "same_view opts h h'"
  then have v: "same_file_view opts h h'" by (rule same_viewD)
  show "collect_block opts h = collect_block opts h'"
    unfolding collect_block_def Let_def filter_filter
    by (rule map_listing_cong [OF v]) (simp_all add: block_device_view [OF v] view_answers [OF v])
next
  fix opts :: collect_options and c h
  show "collect_block (opts\<lparr>categories := c\<rparr>) h = collect_block opts h"
    by (simp add: collect_block_def block_device_any_selection)
qed (auto simp: collect_block_def Let_def block_device_honest)

lemma names_collect_block:
  "map (\<lambda>b. val (block_name b)) (collect_block opts h) =
   filter (\<lambda>n. \<not> is_pseudo_block_device n \<and> path_is_dir h (join_path (sys_path opts ''/block'') n))
     (list_dir h (sys_path opts ''/block''))"
  by (simp add: collect_block_def block_device_def Let_def comp_def conj_commute)

end
