(* ===== verification/Collect_Net.thy ===== *)
theory Collect_Net
  imports Collect_Block
begin

text \<open>
  \<open>src/src/net.cc\<close>, in its POSIX branch (\<open>Windows_Build\<close> has the other):
  the interfaces below /class/net with the addresses that \<open>getifaddrs\<close> reports for the
  running host. \<open>read_bool_number\<close> has the same text as in
  \<open>src/src/block.cc\<close>.
\<close>

record interface_addresses =
  addr_ipv4 :: "string list"
  addr_ipv6 :: "string list"

type_synonym address_map = "(string, interface_addresses) std_map"

fun join_values :: "string list \<Rightarrow> string" where
  "join_values [] = []"
| "join_values [v] = v"
| "join_values (v # w # vs) = v @ '','' @ join_values (w # vs)"

text \<open>\<open>addresses[name]\<close> creates an empty entry for a name that is new.\<close>

definition addresses_at :: "address_map \<Rightarrow> string \<Rightarrow> interface_addresses" where
  "addresses_at addresses name = (case map_of addresses name of
       None \<Rightarrow> \<lparr>addr_ipv4 = [], addr_ipv6 = []\<rparr>
     | Some a \<Rightarrow> a)"

definition add_address :: "address_map \<Rightarrow> string \<times> if_addr \<Rightarrow> address_map" where
  "add_address addresses iface = (case iface of (name, addr) \<Rightarrow>
     (case addr of
        No_addr \<Rightarrow> addresses
      | Inet (Some text) \<Rightarrow>
          (let a = addresses_at addresses name
           in AList.update name (a\<lparr>addr_ipv4 := addr_ipv4 a @ [text]\<rparr>) addresses)
      | Inet None \<Rightarrow> addresses
      | Inet6 (Some text) \<Rightarrow>
          (let a = addresses_at addresses name
           in AList.update name (a\<lparr>addr_ipv6 := addr_ipv6 a @ [text]\<rparr>) addresses)
      | Inet6 None \<Rightarrow> addresses
      | Other_family \<Rightarrow> addresses))"

definition collect_addresses :: "collect_options \<Rightarrow> host \<Rightarrow> address_map" where
  "collect_addresses options h =
     (if sysfs_root options \<noteq> ''/sys'' then []
      else (case host_ifaddrs h of
          None \<Rightarrow> []
        | Some interfaces \<Rightarrow> foldl add_address [] interfaces))"

definition read_speed_mbps :: "host \<Rightarrow> string \<Rightarrow> u64_field" where
  "read_speed_mbps h path = (let value = read_i64_field h path
     in if \<not> valid value then unavailable (field_status value)
        else if sint (val value) < 0 then unavailable not_found
        else field_value (val value))"

definition net_interface :: "collect_options \<Rightarrow> host \<Rightarrow> address_map \<Rightarrow> string \<Rightarrow> string \<Rightarrow> net_interface_info" where
  "net_interface options h addresses root name =
     (let path = join_path root name;
          iface = new_net_interface_info\<lparr>
            net_name := field_value name,
            net_mac_address := read_string_field h (join_path path ''address'') True,
            net_mtu := read_u64_field h (join_path path ''mtu'') 1,
            net_speed_mbps := read_speed_mbps h (join_path path ''speed''),
            net_duplex := read_string_field h (join_path path ''duplex'') True,
            net_carrier := read_bool_number h (join_path path ''carrier''),
            net_driver := read_symlink_basename_field h (join_path path ''device/driver'')\<rparr>;
          iface = (case map_of addresses name of
              Some found \<Rightarrow> iface\<lparr>
                net_ipv4_addresses := field_value (join_values (addr_ipv4 found)),
                net_ipv6_addresses := field_value (join_values (addr_ipv6 found))\<rparr>
            | None \<Rightarrow> iface\<lparr>
                net_ipv4_addresses := unavailable not_found,
                net_ipv6_addresses := unavailable not_found\<rparr>)
      in if \<not> include_sensitive options
         then iface\<lparr>
           net_mac_address := unavailable redacted,
           net_ipv4_addresses := unavailable redacted,
           net_ipv6_addresses := unavailable redacted\<rparr>
         else iface)"

definition net_interfaces :: "collect_options \<Rightarrow> host \<Rightarrow> address_map \<Rightarrow> net_interface_info list" where
  "net_interfaces options h addresses =
     (let root = sys_path options ''/class/net''
      in map (net_interface options h addresses root)
           (filter (\<lambda>name. path_is_dir h (join_path root name)) (list_dir h root)))"

definition collect_net :: "collect_options \<Rightarrow> host \<Rightarrow> net_interface_info list" where
  "collect_net options h = net_interfaces options h (collect_addresses options h)"

section \<open>The contract\<close>

lemma honest_speed [honest_intros, simp]: "honest (read_speed_mbps h p)"
  using i64_reader.honest_read [of h p] by (simp add: read_speed_mbps_def Let_def honest_def)

lemma speed_view:
  "same_file_view opts h h' \<Longrightarrow> rooted opts p \<Longrightarrow>
   read_speed_mbps h (join_path p ''speed'') = read_speed_mbps h' (join_path p ''speed'')"
  by (simp add: read_speed_mbps_def literal_name view_reads_join [of opts h h'])

lemma net_interface_honest:
  "all_honest (net_interface_info_fields (net_interface opts h addresses root n))"
  by (simp add: net_interface_def Let_def net_interface_info_fields_def new_net_interface_info_def
      split: option.split)

lemma net_interface_view:
  assumes v: "same_file_view opts h h'" and r: "rooted opts root" and s: "include_sensitive opts \<Longrightarrow> a = a'"
  shows "net_interface opts h a root n = net_interface opts h' a' root n"
proof (cases "include_sensitive opts")
  case True
  have "read_string_field h (join_path (join_path root n) ''address'') t =
      read_string_field h' (join_path (join_path root n) ''address'') t" for t
    by (rule view_reads(3) [OF v]) (simp_all add: r True)
  with True s show ?thesis
    by (simp add: net_interface_def Let_def literal_name r view_reads_join [OF v] view_answers [OF v]
        speed_view [OF v] read_bool_number_view [OF v] split: option.split)
next
  case False
  then show ?thesis
    by (simp add: net_interface_def Let_def literal_name r view_reads_join [OF v] view_answers [OF v]
        speed_view [OF v] read_bool_number_view [OF v] split: option.split)
qed

lemma net_any_selection:
  "net_interface (opts\<lparr>categories := c\<rparr>) h a root = net_interface opts h a root"
  "collect_addresses (opts\<lparr>categories := c\<rparr>) h = collect_addresses opts h"
  by (intro ext, simp add: net_interface_def) (simp add: collect_addresses_def)

lemma net_interfaces_view:
  assumes v: "same_file_view opts h h'" and a: "include_sensitive opts \<Longrightarrow> a = a'"
  shows "net_interfaces opts h a = net_interfaces opts h' a'"
  unfolding net_interfaces_def Let_def
  by (intro map_listing_cong [OF v]) (simp_all add: net_interface_view [OF v _ a] view_answers [OF v])

lemma net_interfaces_any_selection:
  "net_interfaces (opts\<lparr>categories := c\<rparr>) h a = net_interfaces opts h a"
  by (simp add: net_interfaces_def net_any_selection)

lemma net_interfaces_honest:
  "all_honest (concat (map net_interface_info_fields (net_interfaces opts h a)))"
  by (auto simp: net_interfaces_def Let_def net_interface_honest)

interpretation net: collector collect_net "\<lambda>ns. concat (map net_interface_info_fields ns)"
proof
  fix opts h h'
  assume s: "same_view opts h h'"
  then have v: "same_file_view opts h h'" by (rule same_viewD)
  have "include_sensitive opts \<Longrightarrow> collect_addresses opts h = collect_addresses opts h'"
    using s by (simp add: same_view_def collect_addresses_def)
  then show "collect_net opts h = collect_net opts h'"
    unfolding collect_net_def by (rule net_interfaces_view [OF v])
next
  fix opts :: collect_options and c h
  show "collect_net (opts\<lparr>categories := c\<rparr>) h = collect_net opts h"
    by (simp add: collect_net_def net_interfaces_any_selection collect_addresses_def)
qed (simp only: collect_net_def net_interfaces_honest)

lemma net_interfaces_redact:
  "\<not> include_sensitive opts \<Longrightarrow> n \<in> set (net_interfaces opts h a) \<Longrightarrow>
   net_mac_address n = unavailable redacted \<and> net_ipv4_addresses n = unavailable redacted \<and>
   net_ipv6_addresses n = unavailable redacted"
  by (auto simp: net_interfaces_def net_interface_def Let_def)

lemma collect_net_redacts:
  "\<not> include_sensitive opts \<Longrightarrow> n \<in> set (collect_net opts h) \<Longrightarrow>
   net_mac_address n = unavailable redacted \<and> net_ipv4_addresses n = unavailable redacted \<and>
   net_ipv6_addresses n = unavailable redacted"
  unfolding collect_net_def by (rule net_interfaces_redact)

lemma net_interface_name [simp]: "net_name (net_interface opts h addresses root n) = field_value n"
  by (simp add: net_interface_def Let_def split: option.split)

lemma names_collect_net:
  "map (\<lambda>i. val (net_name i)) (collect_net opts h) =
   filter (\<lambda>n. path_is_dir h (join_path (sys_path opts ''/class/net'') n))
     (list_dir h (sys_path opts ''/class/net''))"
  by (simp add: collect_net_def net_interfaces_def Let_def comp_def)

section \<open>The addresses of an interface\<close>

text \<open>The addresses of a name come in the order in which the system lists them.\<close>

definition ipv4_of :: "string \<Rightarrow> (string \<times> if_addr) list \<Rightarrow> string list" where
  "ipv4_of name ifs = List.map_filter (\<lambda>(n, a). if n = name then (case a of Inet t \<Rightarrow> t | _ \<Rightarrow> None) else None) ifs"

definition ipv6_of :: "string \<Rightarrow> (string \<times> if_addr) list \<Rightarrow> string list" where
  "ipv6_of name ifs = List.map_filter (\<lambda>(n, a). if n = name then (case a of Inet6 t \<Rightarrow> t | _ \<Rightarrow> None) else None) ifs"

lemma addresses_at_update:
  "addresses_at (AList.update n a m) k = (if k = n then a else addresses_at m k)"
  by (simp add: addresses_at_def update_conv')

lemma add_address_at:
  "addr_ipv4 (addresses_at (add_address m i) k) = addr_ipv4 (addresses_at m k) @ ipv4_of k [i]"
  "addr_ipv6 (addresses_at (add_address m i) k) = addr_ipv6 (addresses_at m k) @ ipv6_of k [i]"
  by (auto simp: add_address_def addresses_at_update ipv4_of_def ipv6_of_def map_filter_simps Let_def
      split: prod.split if_addr.split option.split)

lemma address_lists_Cons:
  "ipv4_of k (i # is) = ipv4_of k [i] @ ipv4_of k is" "ipv6_of k (i # is) = ipv6_of k [i] @ ipv6_of k is"
  by (simp_all add: ipv4_of_def ipv6_of_def map_filter_simps split: option.split)

lemma add_addresses_at:
  "addr_ipv4 (addresses_at (foldl add_address m is) k) = addr_ipv4 (addresses_at m k) @ ipv4_of k is"
  "addr_ipv6 (addresses_at (foldl add_address m is) k) = addr_ipv6 (addresses_at m k) @ ipv6_of k is"
proof (induction "is" arbitrary: m)
  case (Cons i "is")
  case 1 show ?case using Cons.IH(1) [of "add_address m i"]
    by (simp add: add_address_at address_lists_Cons [of k i "is"])
  case 2 show ?case using Cons.IH(2) [of "add_address m i"]
    by (simp add: add_address_at address_lists_Cons [of k i "is"])
qed (simp_all add: ipv4_of_def ipv6_of_def map_filter_simps)

lemma add_address_unknown:
  "map_of (add_address m i) k = None \<longleftrightarrow> map_of m k = None \<and> ipv4_of k [i] = [] \<and> ipv6_of k [i] = []"
  by (auto simp: add_address_def update_conv' ipv4_of_def ipv6_of_def map_filter_simps Let_def
      split: prod.split if_addr.split option.split)

lemma add_addresses_unknown:
  "map_of (foldl add_address m is) k = None \<longleftrightarrow> map_of m k = None \<and> ipv4_of k is = [] \<and> ipv6_of k is = []"
proof (induction "is" arbitrary: m)
  case (Cons i "is")
  show ?case using Cons.IH [of "add_address m i"] address_lists_Cons [of k i "is"]
    by (auto simp: add_address_unknown)
qed (simp add: ipv4_of_def ipv6_of_def map_filter_simps)

lemma interface_addresses_listed:
  assumes "sysfs_root opts = ''/sys''" "include_sensitive opts" "host_ifaddrs h = Some ifs"
    and "n \<in> set (collect_net opts h)"
  shows "net_ipv4_addresses n =
      (if ipv4_of (val (net_name n)) ifs = [] \<and> ipv6_of (val (net_name n)) ifs = [] then unavailable not_found
       else field_value (join_values (ipv4_of (val (net_name n)) ifs)))"
    and "net_ipv6_addresses n =
      (if ipv4_of (val (net_name n)) ifs = [] \<and> ipv6_of (val (net_name n)) ifs = [] then unavailable not_found
       else field_value (join_values (ipv6_of (val (net_name n)) ifs)))"
proof -
  let ?m = "foldl add_address [] ifs"
  obtain name where n: "n = net_interface opts h ?m (sys_path opts ''/class/net'') name"
    using assms by (auto simp: collect_net_def net_interfaces_def collect_addresses_def Let_def)
  have name: "val (net_name n) = name"
    by (simp add: n net_interface_def Let_def assms(2) split: option.split)
  have "map_of ?m name = None \<longleftrightarrow> ipv4_of name ifs = [] \<and> ipv6_of name ifs = []"
    using add_addresses_unknown [of "[]" ifs name] by simp
  moreover have "addr_ipv4 a = ipv4_of name ifs" "addr_ipv6 a = ipv6_of name ifs" if "map_of ?m name = Some a" for a
    using add_addresses_at [of "[]" ifs name] that by (simp_all add: addresses_at_def)
  ultimately show "net_ipv4_addresses n =
      (if ipv4_of (val (net_name n)) ifs = [] \<and> ipv6_of (val (net_name n)) ifs = [] then unavailable not_found
       else field_value (join_values (ipv4_of (val (net_name n)) ifs)))"
    "net_ipv6_addresses n =
      (if ipv4_of (val (net_name n)) ifs = [] \<and> ipv6_of (val (net_name n)) ifs = [] then unavailable not_found
       else field_value (join_values (ipv6_of (val (net_name n)) ifs)))"
    unfolding name by (auto simp: n net_interface_def Let_def assms(2) split: option.split)
qed

text \<open>A negative speed means that there is no link.\<close>

lemma read_speed_cases:
  assumes "read_first_line h p = \<lparr>rr_status = ok, rr_value = line\<rparr>" "parse_i64 line = Some v"
  shows "read_speed_mbps h p = (if sint v < 0 then unavailable not_found else field_value v) \<and>
    (0 \<le> sint v \<longrightarrow> int (unat v) = sint v)"
proof -
  have "sint v = uint v - 2 ^ 64 * of_bool (bit (uint v) 63)"
    using signed_take_bit_eq_take_bit_minus [of 63 "uint v"] uint_lt2p [of v]
    by (simp add: sint_uint take_bit_int_eq_self)
  then have "0 \<le> sint v \<Longrightarrow> int (unat v) = sint v"
    using uint_lt2p [of v] by (cases "bit (uint v) 63") simp_all
  then show ?thesis using assms by (simp add: read_speed_mbps_def read_i64_field_def)
qed

end
