(* ===== verification/Collect_Thermal.thy ===== *)
theory Collect_Thermal
  imports View
begin

text \<open>
  \<open>src/src/thermal.cc\<close>: one \<open>ThermalZoneInfo\<close> for each entry of /class/thermal whose name starts
  with \<open>thermal_zone\<close>.
\<close>

definition thermal_zone :: "host \<Rightarrow> string \<Rightarrow> string \<Rightarrow> thermal_zone_info" where
  "thermal_zone h root name = (let path = join_path root name
     in new_thermal_zone_info\<lparr>
          zone_name := field_value name,
          zone_type := read_string_field h (join_path path ''type'') True,
          zone_temp := read_string_field h (join_path path ''temp'') True\<rparr>)"

definition collect_thermal :: "collect_options \<Rightarrow> host \<Rightarrow> thermal_zone_info list" where
  "collect_thermal options h = (let root = sys_path options ''/class/thermal''
     in map (thermal_zone h root)
          (filter (\<lambda>name. starts_with name ''thermal_zone'') (list_dir h root)))"

lemma thermal_zone_view:
  "same_file_view opts h h' \<Longrightarrow> rooted opts root \<Longrightarrow> thermal_zone h root n = thermal_zone h' root n"
  by (simp add: thermal_zone_def Let_def literal_name view_reads_join [of opts h h'])

lemma thermal_zone_honest [honest_intros]: "all_honest (thermal_zone_info_fields (thermal_zone h root n))"
  by (simp add: thermal_zone_def Let_def thermal_zone_info_fields_def new_thermal_zone_info_def)

interpretation thermal: collector collect_thermal "\<lambda>zs. concat (map thermal_zone_info_fields zs)"
proof
  fix opts h h'
  assume "same_view opts h h'"
  then have v: "same_file_view opts h h'" by (rule same_viewD)
  show "collect_thermal opts h = collect_thermal opts h'"
    unfolding collect_thermal_def Let_def
    by (rule map_listing_cong [OF v]) (simp_all add: thermal_zone_view [OF v])
next
  fix opts :: collect_options and c h
  show "collect_thermal (opts\<lparr>categories := c\<rparr>) h = collect_thermal opts h"
    by (simp add: collect_thermal_def)
qed (auto simp: collect_thermal_def Let_def thermal_zone_honest)

lemma names_collect_thermal:
  "map (\<lambda>z. val (zone_name z)) (collect_thermal opts h) =
   filter (\<lambda>n. starts_with n ''thermal_zone'') (list_dir h (sys_path opts ''/class/thermal''))"
  by (simp add: collect_thermal_def thermal_zone_def Let_def comp_def)

end
