(* ===== verification/Collect_Power.thy ===== *)
theory Collect_Power
  imports Probing
begin

text \<open>
  \<open>src/src/power.cc\<close>: the power supplies and the frequencies of the first CPU. The loop over the
  supplies keeps the struct under construction and three flags.
\<close>

fun read_khz_loop :: "host \<Rightarrow> status \<Rightarrow> string list \<Rightarrow> u64_field" where
  "read_khz_loop h last_status [] = unavailable last_status"
| "read_khz_loop h last_status (path # paths) = (let khz = read_u64_field h path 1
     in if valid khz then field_value (val khz div 1000)
        else read_khz_loop h (if field_status khz \<noteq> not_found then field_status khz else last_status) paths)"

definition read_khz_as_mhz :: "host \<Rightarrow> string list \<Rightarrow> u64_field" where
  "read_khz_as_mhz h paths = read_khz_loop h not_found paths"

definition is_mains_type :: "string \<Rightarrow> bool" where
  "is_mains_type type \<longleftrightarrow> type = ''Mains'' \<or> type = ''AC'' \<or> type = ''USB'' \<or> type = ''USB_C''"

record supply_scan =
  scan_info :: power_info
  saw_battery :: bool
  saw_mains :: bool
  any_mains_online :: bool

definition scan_battery :: "host \<Rightarrow> string \<Rightarrow> power_info \<Rightarrow> power_info" where
  "scan_battery h path info =
     (let info = (if \<not> valid (power_battery_status info)
            then info\<lparr>power_battery_status := read_string_field h (join_path path ''status'') True\<rparr>
            else info)
      in if \<not> valid (power_battery_capacity_percent info)
         then info\<lparr>power_battery_capacity_percent := read_u64_field h (join_path path ''capacity'') 1\<rparr>
         else info)"

definition scan_supply :: "host \<Rightarrow> string \<Rightarrow> supply_scan \<Rightarrow> string \<Rightarrow> supply_scan" where
  "scan_supply h root s name =
     (let path = join_path root name;
          type = read_string_field h (join_path path ''type'') True
      in if \<not> valid type then s
         else if val type = ''Battery''
           then s\<lparr>saw_battery := True, scan_info := scan_battery h path (scan_info s)\<rparr>
         else if is_mains_type (val type)
           then (let online = read_u64_field h (join_path path ''online'') 1
             in s\<lparr>saw_mains := True,
                  any_mains_online := any_mains_online s \<or> valid online \<and> val online \<noteq> 0\<rparr>)
         else s)"

definition on_battery_field :: "supply_scan \<Rightarrow> bool_field" where
  "on_battery_field s =
     (if saw_battery s then
        if saw_mains s then field_value (\<not> any_mains_online s)
        else if valid (power_battery_status (scan_info s))
          then field_value (val (power_battery_status (scan_info s)) = ''Discharging'')
        else unavailable not_found
      else if saw_mains s then field_value False
      else unavailable not_found)"

definition collect_power :: "collect_options \<Rightarrow> host \<Rightarrow> power_info" where
  "collect_power options h =
     (let root = sys_path options ''/class/power_supply'';
          s = foldl (scan_supply h root)
                \<lparr>scan_info = new_power_info, saw_battery = False, saw_mains = False,
                 any_mains_online = False\<rparr>
                (list_dir h root);
          cpufreq = sys_path options ''/devices/system/cpu/cpu0/cpufreq''
      in (scan_info s)\<lparr>
           power_on_battery := on_battery_field s,
           power_cpu_governor := read_string_field h (join_path cpufreq ''scaling_governor'') True,
           power_cpu_current_freq_mhz := read_khz_as_mhz h
             [join_path cpufreq ''scaling_cur_freq'', join_path cpufreq ''cpuinfo_cur_freq''],
           power_cpu_min_freq_mhz := read_khz_as_mhz h
             [join_path cpufreq ''scaling_min_freq'', join_path cpufreq ''cpuinfo_min_freq''],
           power_cpu_max_freq_mhz := read_khz_as_mhz h
             [join_path cpufreq ''scaling_max_freq'', join_path cpufreq ''cpuinfo_max_freq'']\<rparr>)"

interpretation khz_loop: candidate_loop read_khz_loop "\<lambda>h p. read_u64_field h p 1" "\<lambda>khz. khz div 1000"
  by unfold_locales (simp_all add: Let_def next_status_def)

lemma honest_khz [honest_intros, simp]: "honest (read_khz_as_mhz h ps)"
  by (simp add: read_khz_as_mhz_def khz_loop.probe_honest)

lemma khz_view:
  "same_file_view opts h h' \<Longrightarrow> rooted opts d \<Longrightarrow>
   \<forall>n \<in> set ns. n \<noteq> [] \<and> \<not> sensitive_name (file_name (CHR ''/'' # n)) \<Longrightarrow>
   read_khz_as_mhz h (map (join_path d) ns) = read_khz_as_mhz h' (map (join_path d) ns)"
  unfolding read_khz_as_mhz_def
  by (rule khz_loop.probe_cong) (auto simp: view_reads_join [of opts h h'])

lemma scan_supply_view:
  "same_file_view opts h h' \<Longrightarrow> rooted opts root \<Longrightarrow> scan_supply h root s n = scan_supply h' root s n"
  by (simp add: scan_supply_def scan_battery_def Let_def literal_name view_reads_join [of opts h h'])

definition scan_honest :: "supply_scan \<Rightarrow> bool" where
  "scan_honest s \<longleftrightarrow> all_honest (power_info_fields (scan_info s))"

lemma scan_supply_honest: "scan_honest s \<Longrightarrow> scan_honest (scan_supply h root s n)"
  by (simp add: scan_honest_def scan_supply_def scan_battery_def Let_def power_info_fields_def)

lemma scan_fold_honest: "scan_honest s \<Longrightarrow> scan_honest (foldl (scan_supply h root) s ns)"
  by (induction ns arbitrary: s) (simp_all add: scan_supply_honest)

lemma honest_on_battery [honest_intros, simp]: "honest (on_battery_field s)"
  by (simp add: on_battery_field_def)

interpretation power: collector collect_power power_info_fields
proof
  fix opts h h'
  assume "same_view opts h h'"
  then have v: "same_file_view opts h h'" by (rule same_viewD)
  have "scan_supply h (sys_path opts d) = scan_supply h' (sys_path opts d)" for d
    by (intro ext) (simp add: scan_supply_view [OF v])
  then show "collect_power opts h = collect_power opts h'"
    using khz_view [OF v, of _ "[_, _]"]
    by (simp add: collect_power_def Let_def literal_name view_reads_join [OF v] view_answers [OF v])
next
  fix opts h
  have "scan_honest \<lparr>scan_info = new_power_info, saw_battery = False, saw_mains = False, any_mains_online = False\<rparr>"
    by (simp add: scan_honest_def power_info_fields_def new_power_info_def)
  from scan_fold_honest [OF this] show "all_honest (power_info_fields (collect_power opts h))"
    by (simp add: collect_power_def Let_def scan_honest_def power_info_fields_def)
next
  fix opts :: collect_options and c h
  show "collect_power (opts\<lparr>categories := c\<rparr>) h = collect_power opts h"
    by (simp add: collect_power_def)
qed

section \<open>The decision about the battery\<close>

text \<open>What the scan has found out, in terms of the listing.\<close>

definition supply_type :: "host \<Rightarrow> string \<Rightarrow> string \<Rightarrow> string option" where
  "supply_type h root name =
     (let type = read_string_field h (join_path (join_path root name) ''type'') True
      in if valid type then Some (val type) else None)"

definition is_battery :: "host \<Rightarrow> string \<Rightarrow> string \<Rightarrow> bool" where
  "is_battery h root name \<longleftrightarrow> supply_type h root name = Some ''Battery''"

definition is_mains :: "host \<Rightarrow> string \<Rightarrow> string \<Rightarrow> bool" where
  "is_mains h root name \<longleftrightarrow> (\<exists>t. supply_type h root name = Some t \<and> is_mains_type t)"

definition mains_online :: "host \<Rightarrow> string \<Rightarrow> string \<Rightarrow> bool" where
  "mains_online h root name \<longleftrightarrow> is_mains h root name \<and>
     (let online = read_u64_field h (join_path (join_path root name) ''online'') 1
      in valid online \<and> val online \<noteq> 0)"

lemma battery_not_mains: "\<not> is_mains_type ''Battery''"
  by (simp add: is_mains_type_def)

lemma scan_flags:
  "saw_battery (foldl (scan_supply h root) s ns) \<longleftrightarrow> saw_battery s \<or> (\<exists>n \<in> set ns. is_battery h root n)"
  "saw_mains (foldl (scan_supply h root) s ns) \<longleftrightarrow> saw_mains s \<or> (\<exists>n \<in> set ns. is_mains h root n)"
  "any_mains_online (foldl (scan_supply h root) s ns) \<longleftrightarrow>
     any_mains_online s \<or> (\<exists>n \<in> set ns. mains_online h root n)"
proof -
  have step: "saw_battery (scan_supply h root s n) \<longleftrightarrow> saw_battery s \<or> is_battery h root n"
    "saw_mains (scan_supply h root s n) \<longleftrightarrow> saw_mains s \<or> is_mains h root n"
    "any_mains_online (scan_supply h root s n) \<longleftrightarrow> any_mains_online s \<or> mains_online h root n" for s n
    using battery_not_mains
    by (auto simp: scan_supply_def is_battery_def is_mains_def mains_online_def supply_type_def Let_def)
  show "saw_battery (foldl (scan_supply h root) s ns) \<longleftrightarrow> saw_battery s \<or> (\<exists>n \<in> set ns. is_battery h root n)"
    by (induction ns arbitrary: s) (auto simp: step)
  show "saw_mains (foldl (scan_supply h root) s ns) \<longleftrightarrow> saw_mains s \<or> (\<exists>n \<in> set ns. is_mains h root n)"
    by (induction ns arbitrary: s) (auto simp: step)
  show "any_mains_online (foldl (scan_supply h root) s ns) \<longleftrightarrow>
     any_mains_online s \<or> (\<exists>n \<in> set ns. mains_online h root n)"
    by (induction ns arbitrary: s) (auto simp: step)
qed

text \<open>
  A reading that the scan takes from every battery until one is valid: the first valid one, or the
  last one that was tried.
\<close>

definition battery_readings :: "host \<Rightarrow> string \<Rightarrow> (string \<Rightarrow> 'a field) \<Rightarrow> string list \<Rightarrow> 'a field list" where
  "battery_readings h root reading names =
     map (\<lambda>name. reading (join_path root name)) (filter (is_battery h root) names)"

definition first_valid :: "'a field \<Rightarrow> 'a field list \<Rightarrow> 'a field" where
  "first_valid f fs = (case List.find valid fs of Some g \<Rightarrow> g | None \<Rightarrow> last (f # fs))"

lemma first_valid_Cons: "first_valid f (g # fs) = (if valid g then g else first_valid g fs)"
  by (simp add: first_valid_def split: option.split)

lemma first_valid_found: "List.find valid fs = Some g \<Longrightarrow> first_valid f fs = g"
  by (simp add: first_valid_def)

lemma first_valid_valid: "\<not> valid f \<Longrightarrow> valid (first_valid f fs) \<longleftrightarrow> List.find valid fs \<noteq> None"
  by (induction fs arbitrary: f) (simp_all add: first_valid_Cons first_valid_def [of _ "[]"])

lemma no_field_invalid: "\<not> valid no_field"
  by (simp add: no_field_def)

lemma scan_reading:
  assumes "\<And>s n. field_of (scan_info (scan_supply h root s n)) =
    (if is_battery h root n \<and> \<not> valid (field_of (scan_info s)) then reading (join_path root n)
     else field_of (scan_info s))"
  shows "field_of (scan_info (foldl (scan_supply h root) s ns)) =
    (if valid (field_of (scan_info s)) then field_of (scan_info s)
     else first_valid (field_of (scan_info s)) (battery_readings h root reading ns))"
  by (induction ns arbitrary: s)
    (auto simp: assms battery_readings_def first_valid_Cons first_valid_def [of _ "[]"])

lemma battery_fields:
  assumes "root = sys_path opts ''/class/power_supply''" "names = list_dir h root"
  shows "power_battery_status (collect_power opts h) =
      first_valid no_field (battery_readings h root (\<lambda>p. read_string_field h (join_path p ''status'') True) names)"
    and "power_battery_capacity_percent (collect_power opts h) =
      first_valid no_field (battery_readings h root (\<lambda>p. read_u64_field h (join_path p ''capacity'') 1) names)"
proof -
  have "power_battery_status (scan_info (scan_supply h root s n)) =
      (if is_battery h root n \<and> \<not> valid (power_battery_status (scan_info s))
       then read_string_field h (join_path (join_path root n) ''status'') True
       else power_battery_status (scan_info s))" for s n
    by (simp add: scan_supply_def scan_battery_def is_battery_def supply_type_def Let_def)
  note st = scan_reading [where field_of = power_battery_status, OF this]
  have "power_battery_capacity_percent (scan_info (scan_supply h root s n)) =
      (if is_battery h root n \<and> \<not> valid (power_battery_capacity_percent (scan_info s))
       then read_u64_field h (join_path (join_path root n) ''capacity'') 1
       else power_battery_capacity_percent (scan_info s))" for s n
    by (simp add: scan_supply_def scan_battery_def is_battery_def supply_type_def Let_def)
  note cap = scan_reading [where field_of = power_battery_capacity_percent, OF this]
  show "power_battery_status (collect_power opts h) =
      first_valid no_field (battery_readings h root (\<lambda>p. read_string_field h (join_path p ''status'') True) names)"
    and "power_battery_capacity_percent (collect_power opts h) =
      first_valid no_field (battery_readings h root (\<lambda>p. read_u64_field h (join_path p ''capacity'') 1) names)"
    unfolding assms by (simp_all add: collect_power_def Let_def st [unfolded assms] cap [unfolded assms]
        new_power_info_def no_field_invalid)
qed

text \<open>The decision: mains supplies come first, then the first battery with a valid status.\<close>

lemma on_battery_cases:
  assumes "root = sys_path opts ''/class/power_supply''" "names = list_dir h root"
  shows "power_on_battery (collect_power opts h) =
    (if list_ex (is_mains h root) names
     then field_value (list_ex (is_battery h root) names \<and> \<not> list_ex (mains_online h root) names)
     else case List.find valid (battery_readings h root (\<lambda>p. read_string_field h (join_path p ''status'') True) names) of
         Some status \<Rightarrow> field_value (val status = ''Discharging'')
       | None \<Rightarrow> unavailable not_found)"
proof -
  let ?fs = "battery_readings h root (\<lambda>p. read_string_field h (join_path p ''status'') True) names"
  let ?s = "first_valid no_field ?fs"
  note found = first_valid_valid [OF no_field_invalid, of ?fs] first_valid_found [of ?fs _ no_field]
  have "?fs \<noteq> [] \<Longrightarrow> list_ex (is_battery h root) names"
    by (auto simp: battery_readings_def filter_empty_conv list_ex_iff)
  then have some: "List.find valid ?fs = Some f \<Longrightarrow> list_ex (is_battery h root) names" for f by fastforce
  have "power_on_battery (collect_power opts h) =
    (if list_ex (is_battery h root) names then
       if list_ex (is_mains h root) names then field_value (\<not> list_ex (mains_online h root) names)
       else if valid ?s then field_value (val ?s = ''Discharging'') else unavailable not_found
     else if list_ex (is_mains h root) names then field_value False else unavailable not_found)"
    using battery_fields(1) [OF assms]
    by (simp add: collect_power_def Let_def on_battery_field_def scan_flags list_ex_iff assms)
  then show ?thesis using found some by (auto split: option.split)
qed

end
