(* ===== verification/Collect_Virt.thy ===== *)
theory Collect_Virt
  imports Probing
begin

text \<open>
  \<open>src/src/virtualization.cc\<close>, in its POSIX branch (\<open>Windows_Build\<close> has
  the other): hypervisor detection, /dev/kvm, the virtualization flags of the CPU and the IOMMU
  groups.
\<close>

definition contains_virtualization_hint :: "string \<Rightarrow> bool" where
  "contains_virtualization_hint v = (let lower = lower_copy v
     in list_ex (\<lambda>hint. find_str hint lower \<noteq> None)
          [''kvm'', ''qemu'', ''vmware'', ''virtualbox'', ''hyper-v'', ''hyperv'',
           ''xen'', ''bochs'', ''parallels'', ''bhyve'', ''wsl''])"

definition cpu_flags :: "collect_options \<Rightarrow> host \<Rightarrow> cpu_flag_result" where
  "cpu_flags options h = flags_from_cpuinfo [''flags'', ''Features''] options h"

fun hinted_vendor_loop :: "host \<Rightarrow> string list \<Rightarrow> string_field" where
  "hinted_vendor_loop h [] = unavailable not_found"
| "hinted_vendor_loop h (path # paths) = (let v = read_string_field h path True
     in if valid v \<and> contains_virtualization_hint (val v) then v else hinted_vendor_loop h paths)"

definition detected_hypervisor_vendor :: "collect_options \<Rightarrow> host \<Rightarrow> string_field" where
  "detected_hypervisor_vendor options h = hinted_vendor_loop h
     [sys_path options ''/hypervisor/type'',
      sys_path options ''/class/dmi/id/product_name'',
      sys_path options ''/class/dmi/id/sys_vendor'']"

definition iommu_present :: "collect_options \<Rightarrow> host \<Rightarrow> bool_field" where
  "iommu_present options h = (let root = sys_path options ''/kernel/iommu_groups''
     in if \<not> path_is_dir h root then unavailable not_found
        else field_value (list_ex (\<lambda>name. parse_u64 name \<noteq> None) (list_dir h root)))"

text \<open>\<open>kvm_state\<close> is what the build puts into \<open>kvm_available\<close>, given whether /dev/kvm exists and its path.\<close>

definition virtualization_fields ::
    "collect_options \<Rightarrow> host \<Rightarrow> (bool \<Rightarrow> string \<Rightarrow> bool_field) \<Rightarrow> virtualization_info" where
  "virtualization_fields options h kvm_state =
     (let flags = cpu_flags options h;
          cpu_hypervisor = (''hypervisor'' \<in> flag_words flags);
          vendor = detected_hypervisor_vendor options h;
          kvm = dev_path options ''/kvm'';
          kvm_exists = path_exists h kvm;
          info = new_virtualization_info\<lparr>
            virt_running_under_hypervisor :=
              (if flag_status flags = ok \<or> valid vendor
               then field_value (cpu_hypervisor \<or> valid vendor)
               else unavailable (flag_status flags)),
            virt_hypervisor_vendor := vendor,
            virt_dev_kvm_exists := field_value kvm_exists,
            virt_kvm_available := kvm_state kvm_exists kvm\<rparr>;
          info = (if flag_status flags = ok \<and> flag_x86 flags
             then info\<lparr>
               virt_intel_vmx_available := bool_from_flag (flag_words flags) ''vmx'',
               virt_amd_svm_available := bool_from_flag (flag_words flags) ''svm''\<rparr>
             else if flag_status flags = ok
             then info\<lparr>
               virt_intel_vmx_available := unavailable unsupported,
               virt_amd_svm_available := unavailable unsupported\<rparr>
             else info\<lparr>
               virt_intel_vmx_available := unavailable (flag_status flags),
               virt_amd_svm_available := unavailable (flag_status flags)\<rparr>)
      in info\<lparr>virt_iommu_present := iommu_present options h\<rparr>)"

definition collect_virtualization :: "collect_options \<Rightarrow> host \<Rightarrow> virtualization_info" where
  "collect_virtualization options h = virtualization_fields options h
     (\<lambda>kvm_exists kvm. field_value (kvm_exists \<and> host_access_rw h kvm))"

section \<open>The contract\<close>

lemma honest_hinted_vendor: "honest (hinted_vendor_loop h ps)"
  by (induction ps) (simp_all add: Let_def string_reader.honest_read)

lemma honest_detected_vendor [honest_intros, simp]: "honest (detected_hypervisor_vendor opts h)"
  by (simp add: detected_hypervisor_vendor_def honest_hinted_vendor del: hinted_vendor_loop.simps)

lemma honest_iommu [honest_intros, simp]: "honest (iommu_present opts h)"
  by (simp add: iommu_present_def Let_def)

lemma virtualization_fields_view:
  assumes v: "same_file_view opts h h'"
    and k: "\<And>e. k e (dev_path opts ''/kvm'') = k' e (dev_path opts ''/kvm'')"
  shows "virtualization_fields opts h k = virtualization_fields opts h' k'"
proof -
  have "detected_hypervisor_vendor opts h = detected_hypervisor_vendor opts h'"
    by (simp add: detected_hypervisor_vendor_def Let_def literal_name view_reads_sys [OF v])
  moreover have "iommu_present opts h = iommu_present opts h'"
    by (simp add: iommu_present_def Let_def view_answers [OF v])
  moreover have "cpu_flags opts h = cpu_flags opts h'"
    by (simp add: cpu_flags_def flags_view [OF v])
  ultimately show ?thesis
    by (simp add: virtualization_fields_def k view_answers [OF v])
qed

lemma virtualization_fields_any_selection:
  "virtualization_fields (opts\<lparr>categories := c\<rparr>) h = virtualization_fields opts h"
  by (intro ext) (simp add: virtualization_fields_def cpu_flags_def flags_from_cpuinfo_def
      detected_hypervisor_vendor_def iommu_present_def del: hinted_vendor_loop.simps)

lemma virtualization_fields_honest:
  "(\<And>e p. honest (kvm_state e p)) \<Longrightarrow>
   all_honest (virtualization_info_fields (virtualization_fields opts h kvm_state))"
  by (auto simp: virtualization_fields_def Let_def virtualization_info_fields_def new_virtualization_info_def)

interpretation virtualization: collector collect_virtualization virtualization_info_fields
proof
  fix opts h h'
  assume "same_view opts h h'"
  then have v: "same_file_view opts h h'" by (rule same_viewD)
  show "collect_virtualization opts h = collect_virtualization opts h'"
    unfolding collect_virtualization_def
    by (rule virtualization_fields_view [OF v]) (simp add: view_answers [OF v])
next
  fix opts :: collect_options and c h
  show "collect_virtualization (opts\<lparr>categories := c\<rparr>) h = collect_virtualization opts h"
    by (simp add: collect_virtualization_def virtualization_fields_any_selection)
qed (simp add: collect_virtualization_def virtualization_fields_honest [simplified])

section \<open>What is detected\<close>

text \<open>The vendor that is reported contains one of the hints.\<close>

lemma hinted_vendor_valid:
  "valid (hinted_vendor_loop h ps) \<Longrightarrow> contains_virtualization_hint (val (hinted_vendor_loop h ps))"
  by (induction ps) (auto simp: Let_def)

lemma hinted_vendor_loop_first:
  "hinted_vendor_loop h ps =
     (case List.find (\<lambda>p. valid (read_string_field h p True) \<and>
         contains_virtualization_hint (val (read_string_field h p True))) ps of
        None \<Rightarrow> unavailable not_found
      | Some p \<Rightarrow> read_string_field h p True)"
  by (induction ps) (simp_all add: Let_def)

lemma detected_vendor_hint:
  "valid (detected_hypervisor_vendor opts h) \<Longrightarrow>
   contains_virtualization_hint (val (detected_hypervisor_vendor opts h))"
  unfolding detected_hypervisor_vendor_def by (rule hinted_vendor_valid)

lemma running_under_hypervisor_iff:
  "virt_running_under_hypervisor (collect_virtualization opts h) = field_value True \<longleftrightarrow>
   ''hypervisor'' \<in> flag_words (cpu_flags opts h) \<or> valid (virt_hypervisor_vendor (collect_virtualization opts h))"
  using flags_failed [of "[''flags'', ''Features'']" opts h]
  by (auto simp: collect_virtualization_def virtualization_fields_def cpu_flags_def Let_def)

lemma kvm_available_exists:
  "virt_kvm_available (collect_virtualization opts h) = field_value True \<Longrightarrow>
   virt_dev_kvm_exists (collect_virtualization opts h) = field_value True"
  by (simp add: collect_virtualization_def virtualization_fields_def Let_def split: if_splits)

end
