(* ===== verification/Collect_Platform.thy ===== *)
theory Collect_Platform
  imports View
begin

text \<open>
  \<open>src/src/platform.cc\<close>: the DMI strings of /class/dmi/id and the firmware state. The loop of
  \<open>collect_secure_boot\<close> leaves at the first name that starts with \<open>SecureBoot-\<close>, whatever it finds
  there.
\<close>

fun secure_boot_loop :: "host \<Rightarrow> string \<Rightarrow> string list \<Rightarrow> bool_field" where
  "secure_boot_loop h efivars [] = unavailable not_found"
| "secure_boot_loop h efivars (name # names) =
     (if \<not> starts_with name ''SecureBoot-'' then secure_boot_loop h efivars names
      else let value = read_file h (join_path efivars name)
        in if rr_status value \<noteq> ok then unavailable (rr_status value)
           else if length (rr_value value) \<ge> 5
             then field_value (of_char (rr_value value ! 4) \<noteq> (0 :: nat))
           else unavailable parse_error)"

definition collect_secure_boot :: "collect_options \<Rightarrow> host \<Rightarrow> bool_field" where
  "collect_secure_boot options h = (let efivars = sys_path options ''/firmware/efi/efivars''
     in secure_boot_loop h efivars (list_dir h efivars))"

definition collect_platform :: "collect_options \<Rightarrow> host \<Rightarrow> platform_info" where
  "collect_platform options h = (let dmi = sys_path options ''/class/dmi/id'';
       uefi = path_is_dir h (sys_path options ''/firmware/efi'')
     in new_platform_info\<lparr>
          plat_system_vendor := read_string_field h (join_path dmi ''sys_vendor'') True,
          plat_product_name := read_string_field h (join_path dmi ''product_name'') True,
          plat_product_version := read_string_field h (join_path dmi ''product_version'') True,
          plat_board_vendor := read_string_field h (join_path dmi ''board_vendor'') True,
          plat_board_name := read_string_field h (join_path dmi ''board_name'') True,
          plat_bios_vendor := read_string_field h (join_path dmi ''bios_vendor'') True,
          plat_bios_version := read_string_field h (join_path dmi ''bios_version'') True,
          plat_bios_date := read_string_field h (join_path dmi ''bios_date'') True,
          plat_uefi := field_value uefi,
          plat_secure_boot := (if uefi then collect_secure_boot options h
                               else unavailable not_found)\<rparr>)"

lemma honest_secure_boot_loop [honest_intros, simp]: "honest (secure_boot_loop h d ns)"
  by (induction ns) (auto simp: Let_def)

lemma honest_secure_boot [honest_intros, simp]: "honest (collect_secure_boot opts h)"
  by (simp add: collect_secure_boot_def Let_def)

lemma secure_boot_name: "starts_with n ''SecureBoot-'' \<Longrightarrow> \<not> sensitive_name n"
  by (auto simp: starts_with_def sensitive_name_def)

lemma secure_boot_loop_view:
  assumes v: "same_file_view opts h h'" and r: "rooted opts d"
    and ns: "\<forall>n \<in> set ns. n \<noteq> [] \<and> CHR ''/'' \<notin> set n"
  shows "secure_boot_loop h d ns = secure_boot_loop h' d ns"
  using ns
proof (induction ns)
  case (Cons n ns)
  have "starts_with n ''SecureBoot-'' \<Longrightarrow> read_file h (join_path d n) = read_file h' (join_path d n)"
    using Cons.prems by (intro view_reads(1) [OF v]) (simp_all add: r file_name_literal secure_boot_name)
  with Cons show ?case by (simp add: Let_def)
qed simp

lemma secure_boot_view:
  assumes v: "same_file_view opts h h'" and p: "posix_host h"
  shows "collect_secure_boot opts h = collect_secure_boot opts h'"
proof -
  have "\<forall>n \<in> set (list_dir h (sys_path opts ''/firmware/efi/efivars'')). n \<noteq> [] \<and> CHR ''/'' \<notin> set n"
    using listed_name [OF p] by blast
  then show ?thesis
    using secure_boot_loop_view [OF v] view_answers(4) [OF v]
    by (simp add: collect_secure_boot_def)
qed

interpretation platform: collector collect_platform platform_info_fields
proof
  fix opts h h'
  assume "same_view opts h h'" and p: "posix_host h"
  then have v: "same_file_view opts h h'" by (blast dest: same_viewD)
  show "collect_platform opts h = collect_platform opts h'"
    by (simp add: collect_platform_def Let_def literal_name view_reads_join [OF v]
        view_answers [OF v] secure_boot_view [OF v p])
next
  fix opts :: collect_options and c h
  show "collect_platform (opts\<lparr>categories := c\<rparr>) h = collect_platform opts h"
    by (simp add: collect_platform_def collect_secure_boot_def Let_def)
qed (simp add: collect_platform_def Let_def platform_info_fields_def new_platform_info_def)

text \<open>
  What the secure boot field says: the first matching variable decides, its fifth byte is the
  state after the four bytes of attributes.
\<close>

lemma secure_boot_loop_first:
  "secure_boot_loop h d ns =
     (case List.find (\<lambda>n. starts_with n ''SecureBoot-'') ns of
        None \<Rightarrow> unavailable not_found
      | Some n \<Rightarrow>
          (let value = read_file h (join_path d n)
           in if rr_status value \<noteq> ok then unavailable (rr_status value)
              else if length (rr_value value) < 5 then unavailable parse_error
              else field_value (rr_value value ! 4 \<noteq> CHR 0x00)))"
proof -
  have byte: "(of_char c :: nat) = 0 \<longleftrightarrow> c = CHR 0x00" for c
    using of_char_eq_iff [of c "CHR 0x00", where 'a = nat] by simp
  show ?thesis by (induction ns) (auto simp: Let_def byte)
qed

end
