(* ===== verification/Collector.thy ===== *)
theory Collector
  imports Collect_Os Collect_Cpu Collect_Isa Collect_Cache Collect_Memory Collect_Pci Collect_Gpu
    Collect_Perf Collect_Block Collect_Net Collect_Thermal Collect_Power Collect_Virt Collect_Platform
begin

text \<open>
  \<open>src/src/core.cc\<close>: the class \<open>Collector\<close>, which holds the options and runs the collectors of the
  selected categories, and the free functions on top of it.
\<close>

record collector_object =
  its_options :: collect_options

definition make_collector :: "collect_options \<Rightarrow> collector_object" where
  "make_collector options = \<lparr>its_options = options\<rparr>"

definition get_options :: "collector_object \<Rightarrow> collect_options" where
  "get_options self = its_options self"

definition set_options :: "collector_object \<Rightarrow> collect_options \<Rightarrow> collector_object" where
  "set_options self options = self\<lparr>its_options := options\<rparr>"

text \<open>\<open>if (has_category(options_.categories, category)) { info.x = ...; }\<close>\<close>

definition when_selected :: "collector_object \<Rightarrow> collect_category \<Rightarrow> (system_info \<Rightarrow> system_info) \<Rightarrow>
    system_info \<Rightarrow> system_info" where
  "when_selected self category assign info =
     (if has_category (categories (its_options self)) category then assign info else info)"

definition collect :: "collector_object \<Rightarrow> host \<Rightarrow> system_info" where
  "collect self h =
     (let info = new_system_info (host_stale_arch h);
          info = when_selected self cat_os (\<lambda>info. info\<lparr>sys_os_info := collect_os (its_options self) h\<rparr>) info;
          info = when_selected self cat_cpu (\<lambda>info. info\<lparr>sys_cpu_info := collect_cpu (its_options self) h\<rparr>) info;
          info = when_selected self cat_isa (\<lambda>info. info\<lparr>sys_isa_features := collect_isa (its_options self) h\<rparr>) info;
          info = when_selected self cat_cache (\<lambda>info. info\<lparr>sys_cache_list := collect_cache (its_options self) h\<rparr>) info;
          info = when_selected self cat_memory (\<lambda>info. info\<lparr>sys_memory_info := collect_memory (its_options self) h\<rparr>) info;
          info = when_selected self cat_pci (\<lambda>info. info\<lparr>sys_pci_devices := collect_pci (its_options self) h\<rparr>) info;
          info = when_selected self cat_gpu (\<lambda>info. info\<lparr>sys_gpu_list := collect_gpu (its_options self) h\<rparr>) info;
          info = when_selected self cat_perf (\<lambda>info. info\<lparr>sys_perf_info := collect_perf (its_options self) h\<rparr>) info;
          info = when_selected self cat_block (\<lambda>info. info\<lparr>sys_block_devices := collect_block (its_options self) h\<rparr>) info;
          info = when_selected self cat_net (\<lambda>info. info\<lparr>sys_net_interfaces := collect_net (its_options self) h\<rparr>) info;
          info = when_selected self cat_thermal (\<lambda>info. info\<lparr>sys_thermal_info := collect_thermal (its_options self) h\<rparr>) info;
          info = when_selected self cat_power (\<lambda>info. info\<lparr>sys_power_info := collect_power (its_options self) h\<rparr>) info;
          info = when_selected self cat_virtualization (\<lambda>info. info\<lparr>sys_virtualization_info := collect_virtualization (its_options self) h\<rparr>) info;
          info = when_selected self cat_platform (\<lambda>info. info\<lparr>sys_platform_info := collect_platform (its_options self) h\<rparr>) info
      in info)"

definition collect_system :: "collect_options \<Rightarrow> host \<Rightarrow> system_info" where
  "collect_system options h = collect (make_collector options) h"

definition collect_system_default :: "host \<Rightarrow> system_info" where
  "collect_system_default h = collect (make_collector default_options) h"

definition collect_report :: "collect_options \<Rightarrow> host \<Rightarrow> report" where
  "collect_report options h = \<lparr>report_categories = categories options,
     report_system = collect (make_collector options) h\<rparr>"

definition collect_report_default :: "host \<Rightarrow> report" where
  "collect_report_default h = collect_report default_options h"

text \<open>The free functions \<open>collect_os()\<close> to \<open>collect_platform()\<close>, on a \<open>Collector\<close> with default options.\<close>

definition default_os :: "host \<Rightarrow> os_info" where
  "default_os h = collect_os (its_options (make_collector default_options)) h"

definition default_cpu :: "host \<Rightarrow> cpu_info" where
  "default_cpu h = collect_cpu (its_options (make_collector default_options)) h"

definition default_isa :: "host \<Rightarrow> isa_features" where
  "default_isa h = collect_isa (its_options (make_collector default_options)) h"

definition default_cache :: "host \<Rightarrow> cache_info list" where
  "default_cache h = collect_cache (its_options (make_collector default_options)) h"

definition default_memory :: "host \<Rightarrow> memory_info" where
  "default_memory h = collect_memory (its_options (make_collector default_options)) h"

definition default_pci :: "host \<Rightarrow> pci_device_info list" where
  "default_pci h = collect_pci (its_options (make_collector default_options)) h"

definition default_gpu :: "host \<Rightarrow> gpu_info list" where
  "default_gpu h = collect_gpu (its_options (make_collector default_options)) h"

definition default_perf :: "host \<Rightarrow> perf_counter_info" where
  "default_perf h = collect_perf (its_options (make_collector default_options)) h"

definition default_block :: "host \<Rightarrow> block_device_info list" where
  "default_block h = collect_block (its_options (make_collector default_options)) h"

definition default_net :: "host \<Rightarrow> net_interface_info list" where
  "default_net h = collect_net (its_options (make_collector default_options)) h"

definition default_thermal :: "host \<Rightarrow> thermal_zone_info list" where
  "default_thermal h = collect_thermal (its_options (make_collector default_options)) h"

definition default_power :: "host \<Rightarrow> power_info" where
  "default_power h = collect_power (its_options (make_collector default_options)) h"

definition default_virtualization :: "host \<Rightarrow> virtualization_info" where
  "default_virtualization h = collect_virtualization (its_options (make_collector default_options)) h"

definition default_platform :: "host \<Rightarrow> platform_info" where
  "default_platform h = collect_platform (its_options (make_collector default_options)) h"

section \<open>What collect fills in\<close>

lemma when_selected_field:
  "when_selected self c (\<lambda>i. i\<lparr>sys_os_info := v0\<rparr>) i = i\<lparr>sys_os_info :=
     if has_category (categories (its_options self)) c then v0 else sys_os_info i\<rparr>"
  "when_selected self c (\<lambda>i. i\<lparr>sys_cpu_info := v1\<rparr>) i = i\<lparr>sys_cpu_info :=
     if has_category (categories (its_options self)) c then v1 else sys_cpu_info i\<rparr>"
  "when_selected self c (\<lambda>i. i\<lparr>sys_isa_features := v2\<rparr>) i = i\<lparr>sys_isa_features :=
     if has_category (categories (its_options self)) c then v2 else sys_isa_features i\<rparr>"
  "when_selected self c (\<lambda>i. i\<lparr>sys_cache_list := v3\<rparr>) i = i\<lparr>sys_cache_list :=
     if has_category (categories (its_options self)) c then v3 else sys_cache_list i\<rparr>"
  "when_selected self c (\<lambda>i. i\<lparr>sys_memory_info := v4\<rparr>) i = i\<lparr>sys_memory_info :=
     if has_category (categories (its_options self)) c then v4 else sys_memory_info i\<rparr>"
  "when_selected self c (\<lambda>i. i\<lparr>sys_pci_devices := v5\<rparr>) i = i\<lparr>sys_pci_devices :=
     if has_category (categories (its_options self)) c then v5 else sys_pci_devices i\<rparr>"
  "when_selected self c (\<lambda>i. i\<lparr>sys_gpu_list := v6\<rparr>) i = i\<lparr>sys_gpu_list :=
     if has_category (categories (its_options self)) c then v6 else sys_gpu_list i\<rparr>"
  "when_selected self c (\<lambda>i. i\<lparr>sys_perf_info := v7\<rparr>) i = i\<lparr>sys_perf_info :=
     if has_category (categories (its_options self)) c then v7 else sys_perf_info i\<rparr>"
  "when_selected self c (\<lambda>i. i\<lparr>sys_block_devices := v8\<rparr>) i = i\<lparr>sys_block_devices :=
     if has_category (categories (its_options self)) c then v8 else sys_block_devices i\<rparr>"
  "when_selected self c (\<lambda>i. i\<lparr>sys_net_interfaces := v9\<rparr>) i = i\<lparr>sys_net_interfaces :=
     if has_category (categories (its_options self)) c then v9 else sys_net_interfaces i\<rparr>"
  "when_selected self c (\<lambda>i. i\<lparr>sys_thermal_info := v10\<rparr>) i = i\<lparr>sys_thermal_info :=
     if has_category (categories (its_options self)) c then v10 else sys_thermal_info i\<rparr>"
  "when_selected self c (\<lambda>i. i\<lparr>sys_power_info := v11\<rparr>) i = i\<lparr>sys_power_info :=
     if has_category (categories (its_options self)) c then v11 else sys_power_info i\<rparr>"
  "when_selected self c (\<lambda>i. i\<lparr>sys_virtualization_info := v12\<rparr>) i = i\<lparr>sys_virtualization_info :=
     if has_category (categories (its_options self)) c then v12 else sys_virtualization_info i\<rparr>"
  "when_selected self c (\<lambda>i. i\<lparr>sys_platform_info := v13\<rparr>) i = i\<lparr>sys_platform_info :=
     if has_category (categories (its_options self)) c then v13 else sys_platform_info i\<rparr>"
  by (simp_all add: when_selected_def)

text \<open>A selected category is what its collector returns, any other is left default-initialised.\<close>

lemma collect_eq:
  "collect self h = \<lparr>
     sys_os_info = (if has_category (categories (its_options self)) cat_os
       then collect_os (its_options self) h else new_os_info),
     sys_cpu_info = (if has_category (categories (its_options self)) cat_cpu
       then collect_cpu (its_options self) h else new_cpu_info (host_stale_arch h)),
     sys_isa_features = (if has_category (categories (its_options self)) cat_isa
       then collect_isa (its_options self) h else new_isa_features),
     sys_cache_list = (if has_category (categories (its_options self)) cat_cache
       then collect_cache (its_options self) h else []),
     sys_memory_info = (if has_category (categories (its_options self)) cat_memory
       then collect_memory (its_options self) h else new_memory_info),
     sys_pci_devices = (if has_category (categories (its_options self)) cat_pci
       then collect_pci (its_options self) h else []),
     sys_gpu_list = (if has_category (categories (its_options self)) cat_gpu
       then collect_gpu (its_options self) h else []),
     sys_perf_info = (if has_category (categories (its_options self)) cat_perf
       then collect_perf (its_options self) h else new_perf_counter_info),
     sys_block_devices = (if has_category (categories (its_options self)) cat_block
       then collect_block (its_options self) h else []),
     sys_net_interfaces = (if has_category (categories (its_options self)) cat_net
       then collect_net (its_options self) h else []),
     sys_thermal_info = (if has_category (categories (its_options self)) cat_thermal
       then collect_thermal (its_options self) h else []),
     sys_power_info = (if has_category (categories (its_options self)) cat_power
       then collect_power (its_options self) h else new_power_info),
     sys_virtualization_info = (if has_category (categories (its_options self)) cat_virtualization
       then collect_virtualization (its_options self) h else new_virtualization_info),
     sys_platform_info = (if has_category (categories (its_options self)) cat_platform
       then collect_platform (its_options self) h else new_platform_info)\<rparr>"
  by (simp only: collect_def Let_def when_selected_field new_system_info_def system_info.simps)

lemma collect_options_of_report [simp]:
  "report_categories (collect_report opts h) = categories opts"
  "report_system (collect_report opts h) = collect (make_collector opts) h"
  "its_options (make_collector opts) = opts"
  by (simp_all add: collect_report_def make_collector_def)

lemma set_options_collect: "collect (set_options self opts) h = collect_system opts h"
  by (simp add: collect_eq collect_system_def set_options_def make_collector_def)

section \<open>Honest fields\<close>

definition system_fields :: "system_info \<Rightarrow> (string \<times> any_field) list" where
  "system_fields i =
     os_info_fields (sys_os_info i) @
     all_cpu_fields (sys_cpu_info i) @
     isa_features_fields (sys_isa_features i) @
     concat (map cache_info_fields (sys_cache_list i)) @
     all_memory_fields (sys_memory_info i) @
     concat (map pci_device_info_fields (sys_pci_devices i)) @
     concat (map gpu_info_fields (sys_gpu_list i)) @
     perf_counter_info_fields (sys_perf_info i) @
     concat (map block_device_info_fields (sys_block_devices i)) @
     concat (map net_interface_info_fields (sys_net_interfaces i)) @
     concat (map thermal_zone_info_fields (sys_thermal_info i)) @
     power_info_fields (sys_power_info i) @
     virtualization_info_fields (sys_virtualization_info i) @
     platform_info_fields (sys_platform_info i)"

lemmas collectors_honest = os.honest cpu.honest isa.honest cache.honest memory.honest pci.honest
  gpu.honest perf.honest block.honest net.honest thermal.honest power.honest virtualization.honest
  platform.honest

text \<open>The default-initialised structs are honest too.\<close>

lemma new_structs_honest:
  "all_honest (os_info_fields new_os_info)" "all_honest (all_cpu_fields (new_cpu_info a))"
  "all_honest (isa_features_fields new_isa_features)" "all_honest (all_memory_fields new_memory_info)"
  "all_honest (perf_counter_info_fields new_perf_counter_info)" "all_honest (power_info_fields new_power_info)"
  "all_honest (virtualization_info_fields new_virtualization_info)"
  "all_honest (platform_info_fields new_platform_info)"
  by (simp_all add: os_info_fields_def new_os_info_def all_cpu_fields_def cpu_info_fields_def
      new_cpu_info_def isa_features_fields_def new_isa_features_def all_memory_fields_def
      memory_info_fields_def new_memory_info_def perf_counter_info_fields_def new_perf_counter_info_def
      perf_counter_availability_fields_def new_perf_counter_availability_def power_info_fields_def
      new_power_info_def virtualization_info_fields_def new_virtualization_info_def
      platform_info_fields_def new_platform_info_def)

lemma collect_honest: "all_honest (system_fields (collect self h))"
  unfolding system_fields_def all_honest_simps(3)
  by (intro conjI; simp only: collect_eq system_info.simps; split if_split;
      simp add: collectors_honest [simplified] new_structs_honest)

section \<open>What a report depends on\<close>

lemmas collectors_view = os.view cpu.view isa.view cache.view memory.view pci.view gpu.view perf.view
  block.view net.view thermal.view power.view virtualization.view platform.view

text \<open>
  Two hosts with the same view give the same result, up to the uninitialised architecture of a
  CPU struct that was not collected.
\<close>

lemma collect_view:
  assumes "same_view (its_options self) h h'" "posix_host h"
  shows "collect self h = (collect self h')\<lparr>sys_cpu_info := sys_cpu_info (collect self h)\<rparr>"
  unfolding collect_eq system_info.simps collectors_view [OF assms] by (rule refl)

lemma collect_view_cpu:
  assumes "same_view (its_options self) h h'" "posix_host h"
    and "has_category (categories (its_options self)) cat_cpu"
  shows "collect self h = collect self h'"
  unfolding collect_eq collectors_view [OF assms(1,2)] by (simp only: assms(3) if_True)

section \<open>The selection decides what is collected, not how\<close>

lemmas collectors_any_selection = os.any_selection cpu.any_selection isa.any_selection
  cache.any_selection memory.any_selection pci.any_selection gpu.any_selection perf.any_selection
  block.any_selection net.any_selection thermal.any_selection power.any_selection
  virtualization.any_selection platform.any_selection

lemma selected_parts:
  "has_category A cat_os \<Longrightarrow>
     sys_os_info (collect (make_collector (opts\<lparr>categories := A\<rparr>)) h) = collect_os opts h"
  "has_category A cat_cpu \<Longrightarrow>
     sys_cpu_info (collect (make_collector (opts\<lparr>categories := A\<rparr>)) h) = collect_cpu opts h"
  "has_category A cat_isa \<Longrightarrow>
     sys_isa_features (collect (make_collector (opts\<lparr>categories := A\<rparr>)) h) = collect_isa opts h"
  "has_category A cat_cache \<Longrightarrow>
     sys_cache_list (collect (make_collector (opts\<lparr>categories := A\<rparr>)) h) = collect_cache opts h"
  "has_category A cat_memory \<Longrightarrow>
     sys_memory_info (collect (make_collector (opts\<lparr>categories := A\<rparr>)) h) = collect_memory opts h"
  "has_category A cat_pci \<Longrightarrow>
     sys_pci_devices (collect (make_collector (opts\<lparr>categories := A\<rparr>)) h) = collect_pci opts h"
  "has_category A cat_gpu \<Longrightarrow>
     sys_gpu_list (collect (make_collector (opts\<lparr>categories := A\<rparr>)) h) = collect_gpu opts h"
  "has_category A cat_perf \<Longrightarrow>
     sys_perf_info (collect (make_collector (opts\<lparr>categories := A\<rparr>)) h) = collect_perf opts h"
  "has_category A cat_block \<Longrightarrow>
     sys_block_devices (collect (make_collector (opts\<lparr>categories := A\<rparr>)) h) = collect_block opts h"
  "has_category A cat_net \<Longrightarrow>
     sys_net_interfaces (collect (make_collector (opts\<lparr>categories := A\<rparr>)) h) = collect_net opts h"
  "has_category A cat_thermal \<Longrightarrow>
     sys_thermal_info (collect (make_collector (opts\<lparr>categories := A\<rparr>)) h) = collect_thermal opts h"
  "has_category A cat_power \<Longrightarrow>
     sys_power_info (collect (make_collector (opts\<lparr>categories := A\<rparr>)) h) = collect_power opts h"
  "has_category A cat_virtualization \<Longrightarrow>
     sys_virtualization_info (collect (make_collector (opts\<lparr>categories := A\<rparr>)) h) = collect_virtualization opts h"
  "has_category A cat_platform \<Longrightarrow>
     sys_platform_info (collect (make_collector (opts\<lparr>categories := A\<rparr>)) h) = collect_platform opts h"
  by (simp_all only: collect_eq collect_options_of_report collectors_any_selection system_info.simps
      collect_options.simps collect_options.update_convs if_True) simp_all

section \<open>The free functions\<close>

text \<open>With default options every category is selected: the parts are those of the free functions.\<close>

lemmas default_functions_def = default_os_def default_cpu_def default_isa_def default_cache_def default_memory_def default_pci_def default_gpu_def default_perf_def
  default_block_def default_net_def default_thermal_def default_power_def default_virtualization_def default_platform_def

lemma default_selects_all:
  "list_all (has_category cat_all) [cat_os, cat_cpu, cat_isa, cat_cache, cat_memory, cat_pci, cat_gpu, cat_perf,
     cat_block, cat_net, cat_thermal, cat_power, cat_virtualization, cat_platform]"
  by (simp add: has_category_all cat_os_def cat_cpu_def cat_isa_def cat_cache_def cat_memory_def cat_pci_def cat_gpu_def cat_perf_def cat_block_def cat_net_def cat_thermal_def cat_power_def cat_virtualization_def cat_platform_def)

lemma collect_system_default_parts:
  "collect_system_default h = \<lparr>
     sys_os_info = default_os h,
     sys_cpu_info = default_cpu h,
     sys_isa_features = default_isa h,
     sys_cache_list = default_cache h,
     sys_memory_info = default_memory h,
     sys_pci_devices = default_pci h,
     sys_gpu_list = default_gpu h,
     sys_perf_info = default_perf h,
     sys_block_devices = default_block h,
     sys_net_interfaces = default_net h,
     sys_thermal_info = default_thermal h,
     sys_power_info = default_power h,
     sys_virtualization_info = default_virtualization h,
     sys_platform_info = default_platform h\<rparr>"
  using default_selects_all
  by (simp only: collect_system_default_def collect_eq default_functions_def list.pred_inject simp_thms
      collect_options_of_report default_options_def collect_options.simps if_True)

end
