(* ===== verification/Cli.thy ===== *)
theory Cli
  imports Json_Report Collector
begin

text \<open>
  The command line program \<open>src/tools/archspec-inspect.cc\<close>. A run is a function from the arguments
  after \<open>argv[0]\<close> and the host to the exit code and what was written to the two streams.
\<close>

section \<open>Output\<close>

definition newline :: string where
  "newline = [CHR 0x0A]"

text \<open>\<open>std::cout << field.value()\<close>; a \<open>bool\<close> is printed as a number.\<close>

fun value_text :: "any_field \<Rightarrow> string" where
  "value_text (String_field f) = val f"
| "value_text (Bool_field f) = (if val f then ''1'' else ''0'')"
| "value_text (U32_field f) = to_string_u32 (val f)"
| "value_text (U64_field f) = to_string_u64 (val f)"
| "value_text (I64_field f) = to_string_i64 (val f)"

definition print_field :: "string \<Rightarrow> any_field \<Rightarrow> string" where
  "print_field label f = ''  '' @ label @ '': '' @
     (if any_valid f then value_text f
      else ''unavailable ('' @ status_code (any_status f) @ '')'') @ newline"

definition text_os :: "os_info \<Rightarrow> string" where
  "text_os i = newline @ ''OS'' @ newline @
     print_field ''kernel'' (String_field (os_kernel_name i)) @
     print_field ''kernel release'' (String_field (os_kernel_release i)) @
     print_field ''distribution'' (String_field (os_distro_name i)) @
     print_field ''hostname'' (String_field (os_hostname i))"

definition text_cpu :: "cpu_info \<Rightarrow> string" where
  "text_cpu i = newline @ ''CPU'' @ newline @
     ''  architecture: '' @ to_string_arch (cpu_arch i) @ newline @
     print_field ''model'' (String_field (cpu_model_name i)) @
     print_field ''online CPUs'' (U64_field (cpu_online_cpu_count i)) @
     print_field ''sockets'' (U64_field (cpu_sockets i)) @
     print_field ''cores per socket'' (U64_field (cpu_cores_per_socket i)) @
     print_field ''threads per core'' (U64_field (cpu_threads_per_core i))"

definition text_memory :: "memory_info \<Rightarrow> string" where
  "text_memory i = newline @ ''Memory'' @ newline @
     print_field ''total KiB'' (U64_field (mem_total_kb i)) @
     print_field ''available KiB'' (U64_field (mem_available_kb i)) @
     print_field ''NUMA nodes'' (U64_field (field_value (word_of_nat (length (mem_numa_nodes i)))))"

definition count_entries :: "system_info \<Rightarrow> (collect_category \<times> string \<times> nat) list" where
  "count_entries info = [
     (cat_cache, ''cache entries'', length (sys_cache_list info)),
     (cat_pci, ''PCI devices'', length (sys_pci_devices info)),
     (cat_gpu, ''GPUs'', length (sys_gpu_list info)),
     (cat_block, ''block devices'', length (sys_block_devices info)),
     (cat_net, ''network interfaces'', length (sys_net_interfaces info)),
     (cat_thermal, ''thermal zones'', length (sys_thermal_info info))]"

definition text_counts :: "collect_category \<Rightarrow> (collect_category \<times> string \<times> nat) list \<Rightarrow> string" where
  "text_counts cats entries = concat (map (\<lambda>(category, label, n).
     if has_category cats category then newline @ label @ '': '' @ dec n @ newline else []) entries)"

definition print_text :: "report \<Rightarrow> string" where
  "print_text r = (let info = report_system r; cats = report_categories r
     in ''ArchSpec Inspect '' @ lib_version @ newline @
        (if has_category cats cat_os then text_os (sys_os_info info) else []) @
        (if has_category cats cat_cpu then text_cpu (sys_cpu_info info) else []) @
        (if has_category cats cat_memory then text_memory (sys_memory_info info) else []) @
        text_counts cats (count_entries info))"

fun names_loop :: "bool \<Rightarrow> string list \<Rightarrow> string" where
  "names_loop fst_item [] = []"
| "names_loop fst_item (name # names) =
     (if \<not> fst_item then '','' else []) @ [CHR 0x22] @ name @ [CHR 0x22] @ names_loop False names"

text \<open>The machine-readable contract, written as one literal by hand in the source.\<close>

definition quoted :: "string \<Rightarrow> string" where
  "quoted s = [CHR 0x22] @ s @ [CHR 0x22]"

definition print_capabilities :: string where
  "print_capabilities =
     ''{'' @ quoted ''name'' @ '':'' @ quoted ''archspec-inspect'' @ '','' @
     quoted ''version'' @ '':'' @ quoted lib_version @ '','' @
     quoted ''report_schema_version'' @ '':'' @ quoted report_schema_version @ '','' @
     quoted ''formats'' @ '':['' @ quoted ''text'' @ '','' @ quoted ''json'' @ ''],'' @
     quoted ''categories'' @ '':['' @ names_loop True (map snd category_table) @ ''],'' @
     quoted ''safe_by_default'' @ '':true,'' @ quoted ''supports_redaction'' @ '':true}'' @ newline"

definition help_text :: string where
  "help_text = concat (map (\<lambda>line. line @ newline) [
     ''archspec-inspect '' @ lib_version,
     ''Collect a safe, structured description of the local system.'',
     [],
     ''Usage: archspec-inspect [options]'',
     [],
     ''  --format text|json       Output format (default: text)'',
     ''  --json                   Alias for --format json'',
     ''  --categories LIST        Comma-separated categories or '' @ [CHR 0x27] @ ''all'' @ [CHR 0x27],
     ''  --include-sensitive      Include hostname, command line, and addresses'',
     ''  --redact                 Hide sensitive fields (the default)'',
     ''  --allow-perf             Permit perf_event_open capability probes'',
     ''  --allow-slow             Permit opt-in slow probes'',
     ''  --allow-vendor-libs      Permit opt-in vendor library probes'',
     ''  --procfs-root PATH       Read Linux procfs data below PATH'',
     ''  --sysfs-root PATH        Read Linux sysfs data below PATH'',
     ''  --etc-root PATH          Read operating-system metadata below PATH'',
     ''  --dev-root PATH          Resolve device paths below PATH'',
     ''  --capabilities           Print the machine-readable CLI contract'',
     ''  --version                Print the program version'',
     ''  --help                   Show this help'',
     [],
     ''Categories: os,cpu,isa,cache,memory,pci,gpu,perf,block,net,thermal,power,virtualization,platform''])"

section \<open>Arguments\<close>

definition find_category :: "string \<Rightarrow> collect_category option" where
  "find_category name = map_option fst (List.find (\<lambda>e. snd e = name) category_table)"

text \<open>The loop over the names of a list; an error message or the union of the bits.\<close>

fun add_names :: "collect_category \<Rightarrow> string list \<Rightarrow> string + collect_category" where
  "add_names selected [] = Inr selected"
| "add_names selected (name # names) = (case find_category name of
       Some c \<Rightarrow> add_names (cat_or selected c) names
     | None \<Rightarrow> Inl (''unknown category '' @ [CHR 0x27] @ name @ [CHR 0x27]))"

definition parse_categories :: "string \<Rightarrow> string + collect_category" where
  "parse_categories txt =
     (if txt = ''all'' then Inr cat_all
      else if txt = ''none'' \<or> txt = [] then Inl ''category list must contain at least one category''
      else add_names cat_none (lines_by (CHR '','') txt))"

text \<open>
  What the loop over the arguments ends with: the process returns, with its exit code and what it
  has written to standard output and standard error, or a report is to be collected.
\<close>

datatype parsed = Return nat string string | Run collect_options string

text \<open>One turn of the loop: a return, or \<open>continue\<close> with the arguments that are left.\<close>

datatype turn = Stop nat string string | Continue collect_options string "string list"

definition cli_error :: "string \<Rightarrow> turn" where
  "cli_error msg = Stop 2 [] (''archspec-inspect: '' @ msg @ newline)"

text \<open>The failing branch of \<open>take_value\<close>; the other one takes the head of the remaining arguments.\<close>

definition missing_value :: "string \<Rightarrow> turn" where
  "missing_value option_name = cli_error (option_name @ '' requires a value'')"

text \<open>The root that an option names, as an update of the options.\<close>

definition root_option :: "string \<Rightarrow> (string \<Rightarrow> collect_options \<Rightarrow> collect_options) option" where
  "root_option argument =
     (if argument = ''--dev-root'' then Some (\<lambda>v r. r\<lparr>dev_root := v\<rparr>)
      else if argument = ''--etc-root'' then Some (\<lambda>v r. r\<lparr>etc_root := v\<rparr>)
      else if argument = ''--sysfs-root'' then Some (\<lambda>v r. r\<lparr>sysfs_root := v\<rparr>)
      else if argument = ''--procfs-root'' then Some (\<lambda>v r. r\<lparr>procfs_root := v\<rparr>)
      else None)"

definition argument_turn :: "collect_options \<Rightarrow> string \<Rightarrow> string \<Rightarrow> string list \<Rightarrow> turn" where
  "argument_turn options format argument args =
     (if argument = ''--help'' \<or> argument = ''-h'' then Stop 0 help_text []
      else if argument = ''--version'' then Stop 0 (''archspec-inspect '' @ lib_version @ newline) []
      else if argument = ''--capabilities'' then Stop 0 print_capabilities []
      else if argument = ''--json'' then Continue options ''json'' args
      else if argument = ''--redact'' then Continue (options\<lparr>include_sensitive := False\<rparr>) format args
      else if argument = ''--include-sensitive''
        then Continue (options\<lparr>include_sensitive := True\<rparr>) format args
      else if argument = ''--allow-perf'' then Continue (options\<lparr>allow_perf_open := True\<rparr>) format args
      else if argument = ''--allow-slow'' then Continue (options\<lparr>allow_slow_probes := True\<rparr>) format args
      else if argument = ''--allow-vendor-libs''
        then Continue (options\<lparr>allow_vendor_libraries := True\<rparr>) format args
      else if argument = ''--format'' then
        (if args = [] then missing_value argument
         else if hd args \<noteq> ''text'' \<and> hd args \<noteq> ''json''
           then cli_error (''unknown format '' @ [CHR 0x27] @ hd args @ [CHR 0x27])
         else Continue options (hd args) (tl args))
      else if argument = ''--categories'' then
        (if args = [] then missing_value argument
         else (case parse_categories (hd args) of
             Inl err \<Rightarrow> cli_error err
           | Inr cats \<Rightarrow> Continue (options\<lparr>categories := cats\<rparr>) format (tl args)))
      else (case root_option argument of
          Some set_root \<Rightarrow>
            if args = [] then missing_value argument
            else Continue (set_root (hd args) options) format (tl args)
        | None \<Rightarrow> cli_error
            (''unknown option '' @ [CHR 0x27] @ argument @ [CHR 0x27] @ '' (try --help)'')))"

lemma turn_consumes: "argument_turn q f a args = Continue q' f' rest \<Longrightarrow> suffix rest args"
  by (auto simp: argument_turn_def cli_error_def missing_value_def suffix_tl split: if_splits option.splits sum.splits)

lemma turn_shorter: "argument_turn q f a args = Continue q' f' rest \<Longrightarrow> length rest < Suc (length args)"
  using suffix_length_le [OF turn_consumes] by (simp add: less_Suc_eq_le)

function parse_args :: "collect_options \<Rightarrow> string \<Rightarrow> string list \<Rightarrow> parsed" where
  "parse_args options format [] = Run options format"
| "parse_args options format (argument # args) = (case argument_turn options format argument args of
       Stop code out err \<Rightarrow> Return code out err
     | Continue options' format' rest \<Rightarrow> parse_args options' format' rest)"
  by pat_completeness auto
termination
  by (relation "measure (\<lambda>(_, _, args). length args)") (auto dest: turn_shorter)

declare parse_args.simps(2) [simp del]

definition cli_options :: collect_options where
  "cli_options = default_options\<lparr>include_sensitive := False\<rparr>"

definition main_program :: "string list \<Rightarrow> host \<Rightarrow> nat \<times> string \<times> string" where
  "main_program args h = (case parse_args cli_options ''text'' args of
       Return code out err \<Rightarrow> (code, out, err)
     | Run options format \<Rightarrow>
         (let r = collect_report options h
          in (0, if format = ''json'' then to_json_report r @ newline else print_text r, [])))"

section \<open>Privacy of the defaults\<close>

lemma root_option_keeps:
  "root_option a = Some f \<Longrightarrow> include_sensitive (f v opts) = include_sensitive opts \<and>
     allow_perf_open (f v opts) = allow_perf_open opts \<and> categories (f v opts) = categories opts"
  by (auto simp: root_option_def split: if_splits)

text \<open>What one turn keeps, all turns keep.\<close>

lemma parse_args_invariant:
  assumes turn: "\<And>q f a args q' f' rest. argument_turn q f a args = Continue q' f' rest \<Longrightarrow> a \<in> A \<Longrightarrow> I q f \<Longrightarrow> I q' f'"
    and "parse_args opts fmt args = Run opts' fmt'" "set args \<subseteq> A" "I opts fmt"
  shows "I opts' fmt'"
  using assms(2-4)
proof (induction opts fmt args rule: parse_args.induct)
  case (2 opts fmt a args)
  then obtain o1 f1 rest where t: "argument_turn opts fmt a args = Continue o1 f1 rest"
    and r: "parse_args o1 f1 rest = Run opts' fmt'"
    by (auto simp: parse_args.simps(2) split: turn.splits dest: sym)
  have "set rest \<subseteq> A" using 2(3) set_mono_suffix [OF turn_consumes [OF t]] by auto
  with 2 t r turn [OF t] show ?case by auto
qed simp

text \<open>Only the flag itself turns a permission on, wherever it stands.\<close>

lemma parse_args_sensitive:
  "parse_args opts fmt args = Run opts' fmt' \<Longrightarrow> \<not> include_sensitive opts \<Longrightarrow>
   ''--include-sensitive'' \<notin> set args \<Longrightarrow> \<not> include_sensitive opts'"
  by (rule parse_args_invariant [where A = "- {''--include-sensitive''}" and I = "\<lambda>q f. \<not> include_sensitive q"])
    (auto simp: argument_turn_def cli_error_def missing_value_def root_option_keeps split: if_splits option.splits sum.splits)

lemma parse_args_perf:
  "parse_args opts fmt args = Run opts' fmt' \<Longrightarrow> \<not> allow_perf_open opts \<Longrightarrow>
   ''--allow-perf'' \<notin> set args \<Longrightarrow> \<not> allow_perf_open opts'"
  by (rule parse_args_invariant [where A = "- {''--allow-perf''}" and I = "\<lambda>q f. \<not> allow_perf_open q"])
    (auto simp: argument_turn_def cli_error_def missing_value_def root_option_keeps split: if_splits option.splits sum.splits)

lemma parse_args_format:
  "parse_args opts fmt args = Run opts' fmt' \<Longrightarrow> fmt \<in> {''text'', ''json''} \<Longrightarrow> fmt' \<in> {''text'', ''json''}"
  by (rule parse_args_invariant [where A = UNIV and I = "\<lambda>q f. f \<in> {''text'', ''json''}"])
    (auto simp: argument_turn_def cli_error_def missing_value_def split: if_splits option.splits sum.splits)

section \<open>Arguments after arguments\<close>

text \<open>What has been understood is not changed by what follows.\<close>

definition add_later :: "string list \<Rightarrow> turn \<Rightarrow> turn" where
  "add_later later t = (case t of Stop code out err \<Rightarrow> Stop code out err
     | Continue q f rest \<Rightarrow> Continue q f (rest @ later))"

lemma add_later_simps:
  "add_later later (Continue q f rest) = Continue q f (rest @ later)"
  "add_later later (cli_error msg) = cli_error msg"
  "add_later later (Stop code out err) = Stop code out err"
  "add_later later (case r of Inl e \<Rightarrow> g e | Inr v \<Rightarrow> k v) =
     (case r of Inl e \<Rightarrow> add_later later (g e) | Inr v \<Rightarrow> add_later later (k v))"
  "add_later later (case x of None \<Rightarrow> t | Some y \<Rightarrow> u y) =
     (case x of None \<Rightarrow> add_later later t | Some y \<Rightarrow> add_later later (u y))"
  by (simp_all add: add_later_def cli_error_def split: sum.split option.split)

lemma turn_append_args:
  "args \<noteq> [] \<Longrightarrow> argument_turn q f a (args @ later) = add_later later (argument_turn q f a args)"
  by (simp only: argument_turn_def if_distrib [of "add_later later"] add_later_simps
      append_is_Nil_conv hd_append2 tl_append2 simp_thms if_False)

definition takes_value :: "string \<Rightarrow> bool" where
  "takes_value a \<longleftrightarrow> a = ''--format'' \<or> a = ''--categories'' \<or> root_option a \<noteq> None"

lemma turn_without_value:
  "\<not> takes_value a \<Longrightarrow> argument_turn q f a later = add_later later (argument_turn q f a [])"
  by (simp only: argument_turn_def if_distrib [of "add_later later"] add_later_simps takes_value_def
      append_Nil if_False simp_thms de_Morgan_disj option.case)

lemma turn_value_missing: "takes_value a \<Longrightarrow> argument_turn q f a [] \<noteq> Continue q' f' rest"
  by (auto simp: takes_value_def argument_turn_def cli_error_def missing_value_def root_option_def
      split: if_split_asm)

lemma turn_append:
  assumes "argument_turn q f a args = Continue q' f' rest"
  shows "argument_turn q f a (args @ later) = Continue q' f' (rest @ later)"
proof (cases "args = []")
  case True
  then show ?thesis using assms turn_value_missing [of a q f q' f' rest] turn_without_value [of a q f later]
    by (cases "takes_value a") (simp_all add: add_later_simps)
next
  case False
  then show ?thesis using turn_append_args [OF False] assms by (simp add: add_later_simps)
qed

lemma parse_args_append:
  "parse_args q f args = Run q' f' \<Longrightarrow> parse_args q f (args @ later) = parse_args q' f' later"
proof (induction q f args rule: parse_args.induct)
  case (2 q f a args)
  then obtain q1 f1 rest where t: "argument_turn q f a args = Continue q1 f1 rest"
    and r: "parse_args q1 f1 rest = Run q' f'"
    by (auto simp: parse_args.simps(2) split: turn.splits)
  then show ?case using 2(1) [OF t r] by (simp add: parse_args.simps(2) turn_append [OF t])
qed simp

section \<open>Exit codes\<close>

definition failed_cleanly :: "parsed \<Rightarrow> bool" where
  "failed_cleanly p = (case p of
       Run q f \<Rightarrow> True
     | Return code out err \<Rightarrow> (code = 0 \<and> out \<noteq> [] \<and> err = []) \<or>
         (code = 2 \<and> out = [] \<and> prefix ''archspec-inspect: '' err))"

lemma turn_failed_cleanly: "argument_turn q f a args = Stop code out err \<Longrightarrow> failed_cleanly (Return code out err)"
  by (auto simp: argument_turn_def failed_cleanly_def cli_error_def missing_value_def help_text_def
      print_capabilities_def newline_def split: if_splits option.splits sum.splits)

lemma parse_args_failed_cleanly: "failed_cleanly (parse_args opts fmt args)"
proof (induction opts fmt args rule: parse_args.induct)
  case (2 opts fmt a args)
  then show ?case using turn_failed_cleanly [of opts fmt a args]
    by (auto simp: parse_args.simps(2) split: turn.split)
qed (simp add: failed_cleanly_def)

section \<open>Category lists\<close>

lemma category_bits: "map fst category_table = map (\<lambda>n. push_bit n 1) [0..<14]"
  by (simp add: category_table_def category_defs upt_rec)

lemma distinct_category_names: "distinct (map snd category_table)"
  by (simp add: category_table_def)

lemma bit_category: "k < 64 \<Longrightarrow> bit (push_bit m 1 :: collect_category) k \<longleftrightarrow> m = k"
  by (auto simp: bit_simps)

text \<open>Different categories do not overlap.\<close>

lemma has_category_single:
  "c \<in> fst ` set category_table \<Longrightarrow> d \<in> fst ` set category_table \<Longrightarrow> has_category c d \<longleftrightarrow> c = d"
proof -
  assume "c \<in> fst ` set category_table" "d \<in> fst ` set category_table"
  then have "c \<in> set (map fst category_table)" "d \<in> set (map fst category_table)" by simp_all
  then obtain m n where mn: "m < 14" "c = push_bit m 1" "n < 14" "d = push_bit n 1"
    unfolding category_bits by auto
  have "has_category c d \<longleftrightarrow> bit c n" using mn by (simp only: has_category_bit)
  moreover have "bit c n \<longleftrightarrow> m = n" "bit d n" unfolding mn using mn by (simp_all only: bit_category)
  ultimately show ?thesis using mn by blast
qed

lemma find_pair:
  "distinct (map snd t) \<Longrightarrow> map_option fst (List.find (\<lambda>e. snd e = n) t) = Some c \<longleftrightarrow> (c, n) \<in> set t"
  by (induction t) (auto simp: rev_image_eqI)

lemma find_category_iff: "find_category n = Some c \<longleftrightarrow> (c, n) \<in> set category_table"
  unfolding find_category_def by (rule find_pair) (rule distinct_category_names)

lemma find_category_None: "find_category n = None \<longleftrightarrow> n \<notin> snd ` set category_table"
  using find_category_iff [of n] by (cases "find_category n") force+

lemma category_unique:
  "(c, n) \<in> set category_table \<Longrightarrow> (c, m) \<in> set category_table \<Longrightarrow> m = n"
proof -
  have "inj_on (\<lambda>n. push_bit n (1 :: collect_category)) {0..<14}"
  proof (rule inj_onI)
    fix i j assume ij: "i \<in> {0..<14}" "j \<in> {0..<14}" "push_bit i (1 :: collect_category) = push_bit j 1"
    then have i: "i < 64" by simp
    have "bit (push_bit i 1 :: collect_category) i" using bit_category [OF i, of i] by blast
    then have "bit (push_bit j 1 :: collect_category) i" by (simp only: ij(3))
    then show "i = j" using bit_category [OF i, of j] by blast
  qed
  then have "distinct (map fst category_table)" unfolding category_bits distinct_map by simp
  then show "(c, n) \<in> set category_table \<Longrightarrow> (c, m) \<in> set category_table \<Longrightarrow> m = n"
    by (meson eq_key_imp_eq_value)
qed

text \<open>A list of known names selects exactly those; any other list is an error.\<close>

lemma add_names_known:
  "(\<exists>cats. add_names sel names = Inr cats) \<longleftrightarrow> set names \<subseteq> snd ` set category_table"
proof (induction names arbitrary: sel)
  case (Cons n names)
  show ?case
  proof (cases "find_category n")
    case None
    then have "n \<notin> snd ` set category_table" using find_category_None [of n] by blast
    with None show ?thesis by simp
  next
    case (Some c)
    then have "n \<in> snd ` set category_table" using find_category_None [of n] by simp
    then show ?thesis using Some Cons by simp
  qed
qed simp

lemma add_names_selects:
  "add_names sel names = Inr cats \<Longrightarrow> (c, n) \<in> set category_table \<Longrightarrow>
   has_category cats c \<longleftrightarrow> has_category sel c \<or> n \<in> set names"
proof (induction names arbitrary: sel)
  case (Cons m names)
  then obtain d where d: "find_category m = Some d" "add_names (cat_or sel d) names = Inr cats"
    by (auto split: option.splits)
  then have dm: "(d, m) \<in> set category_table" by (simp add: find_category_iff)
  have "has_category d c \<longleftrightarrow> m = n"
    using has_category_single [of d c] dm Cons.prems(2) category_unique find_category_iff
    by (metis d(1) fst_conv image_eqI option.inject)
  then show ?case using Cons.IH [OF d(2) Cons.prems(2)] by (auto simp: has_category_or)
qed simp

text \<open>The names that a list of one name accepts.\<close>

lemma parse_single_category:
  assumes "CHR '','' \<notin> set n" "n \<noteq> ''all''"
  shows "(\<exists>cats. parse_categories n = Inr cats) \<longleftrightarrow> n \<in> snd ` set category_table"
proof (cases "n = [] \<or> n = ''none''")
  case True
  then have "n \<notin> snd ` set category_table" by (auto simp: category_table_def)
  with True assms(2) show ?thesis by (auto simp: parse_categories_def)
next
  case False
  then have "parse_categories n = add_names cat_none [n]"
    using assms lines_by_last [of "CHR '',''" n] by (simp add: parse_categories_def)
  then show ?thesis using add_names_known [of cat_none "[n]"] by simp
qed

section \<open>The contract of the command line\<close>

definition capability_formats :: "string list" where
  "capability_formats = [''text'', ''json'']"

definition capabilities_value :: json where
  "capabilities_value = JObj [
     (''name'', JStr ''archspec-inspect''), (''version'', JStr lib_version),
     (''report_schema_version'', JStr report_schema_version),
     (''formats'', JArr (map JStr capability_formats)),
     (''categories'', JArr (map JStr (map snd category_table))),
     (''safe_by_default'', JBool True), (''supports_redaction'', JBool True)]"

lemma print_capabilities_value: "print_capabilities = render capabilities_value @ newline"
  by code_simp

text \<open>The contract is printed wherever the option stands among understood arguments.\<close>

lemma capabilities_anywhere:
  "parse_args cli_options ''text'' args = Run q f \<Longrightarrow>
   main_program (args @ ''--capabilities'' # later) h = (0, render capabilities_value @ newline, [])"
  by (simp add: main_program_def parse_args_append parse_args.simps(2) argument_turn_def
      print_capabilities_value)

lemma format_accepted:
  "(\<exists>q f. parse_args opts fmt [''--format'', n] = Run q f) \<longleftrightarrow> n \<in> set capability_formats"
  by (auto simp: parse_args.simps(2) argument_turn_def cli_error_def capability_formats_def)

lemma category_accepted:
  "(\<exists>q f. parse_args opts fmt [''--categories'', n] = Run q f) \<longleftrightarrow> (\<exists>cats. parse_categories n = Inr cats)"
  by (auto simp: parse_args.simps(2) argument_turn_def cli_error_def split: sum.split)

lemma redact_last:
  "parse_args cli_options ''text'' args = Run q f \<Longrightarrow>
   parse_args cli_options ''text'' (args @ [''--redact'']) = Run (q\<lparr>include_sensitive := False\<rparr>) f"
  by (simp add: parse_args_append parse_args.simps(2) argument_turn_def)

end
