(* ===== verification/Privacy.thy ===== *)
theory Privacy
  imports Cli
begin

text \<open>
  What the outputs reveal. Reports and printed texts of two hosts with the same view are equal, so
  whatever the options hide, and whatever lies outside the four roots, has no influence on any
  output. The second part states which sections a report has and that a section does not depend
  on what else is selected.
\<close>

section \<open>Reports\<close>

lemma report_value_no_cpu:
  "\<not> has_category cats cat_cpu \<Longrightarrow>
   report_value \<lparr>report_categories = cats, report_system = info\<lparr>sys_cpu_info := c\<rparr>\<rparr> =
   report_value \<lparr>report_categories = cats, report_system = info\<rparr>"
  by (simp add: report_value_def data_members_no_cpu)

lemma print_text_no_cpu:
  "\<not> has_category cats cat_cpu \<Longrightarrow>
   print_text \<lparr>report_categories = cats, report_system = info\<lparr>sys_cpu_info := c\<rparr>\<rparr> =
   print_text \<lparr>report_categories = cats, report_system = info\<rparr>"
  by (cases info) (simp add: print_text_def count_entries_def Let_def)

text \<open>Reports whose systems differ at most in a CPU section that is not selected.\<close>

lemma outputs_without_cpu:
  assumes "i = i'\<lparr>sys_cpu_info := sys_cpu_info i\<rparr>" "has_category cats cat_cpu \<Longrightarrow> i = i'"
  shows "to_json_report \<lparr>report_categories = cats, report_system = i\<rparr> =
      to_json_report \<lparr>report_categories = cats, report_system = i'\<rparr>"
    and "print_text \<lparr>report_categories = cats, report_system = i\<rparr> =
      print_text \<lparr>report_categories = cats, report_system = i'\<rparr>"
proof -
  have "report_value \<lparr>report_categories = cats, report_system = i\<rparr> =
        report_value \<lparr>report_categories = cats, report_system = i'\<rparr> \<and>
      print_text \<lparr>report_categories = cats, report_system = i\<rparr> =
        print_text \<lparr>report_categories = cats, report_system = i'\<rparr>"
  proof (cases "has_category cats cat_cpu")
    case False
    then show ?thesis
      using report_value_no_cpu [of cats "sys_cpu_info i" i'] print_text_no_cpu [of cats "sys_cpu_info i" i']
      unfolding assms(1) [symmetric] by blast
  qed (use assms(2) in simp)
  then show "to_json_report \<lparr>report_categories = cats, report_system = i\<rparr> =
      to_json_report \<lparr>report_categories = cats, report_system = i'\<rparr>"
    and "print_text \<lparr>report_categories = cats, report_system = i\<rparr> =
      print_text \<lparr>report_categories = cats, report_system = i'\<rparr>"
    unfolding report_json.encode_eq_iff by blast+
qed

lemma report_view:
  assumes "same_view opts h h'" "posix_host h"
  shows "to_json_report (collect_report opts h) = to_json_report (collect_report opts h')"
    and "print_text (collect_report opts h) = print_text (collect_report opts h')"
proof -
  let ?c = "make_collector opts"
  have v: "same_view (its_options ?c) h h'" using assms(1) by simp
  have "has_category (categories opts) cat_cpu \<Longrightarrow> collect ?c h = collect ?c h'"
    by (rule collect_view_cpu [OF v assms(2)]) simp
  note out = outputs_without_cpu [OF collect_view [OF v assms(2)] this]
  show "to_json_report (collect_report opts h) = to_json_report (collect_report opts h')"
    and "print_text (collect_report opts h) = print_text (collect_report opts h')"
    unfolding collect_report_def by (rule out(1), assumption) (rule out(2), assumption)
qed

text \<open>Two hosts that differ at most in what every redacted collection hides.\<close>

definition differ_in_hidden :: "host \<Rightarrow> host \<Rightarrow> bool" where
  "differ_in_hidden h h' \<longleftrightarrow> (\<forall>opts. \<not> include_sensitive opts \<longrightarrow> same_view opts h h')"

lemma main_program_view:
  assumes "differ_in_hidden h h'" "posix_host h" "''--include-sensitive'' \<notin> set args"
  shows "main_program args h = main_program args h'"
proof (cases "parse_args cli_options ''text'' args")
  case (Run opts fmt)
  have "\<not> include_sensitive opts"
    by (rule parse_args_sensitive [OF Run _ assms(3)]) (simp add: cli_options_def)
  then have "same_view opts h h'" using assms(1) by (simp add: differ_in_hidden_def)
  then show ?thesis using report_view [OF _ assms(2)] Run by (simp add: main_program_def Let_def)
qed (simp add: main_program_def)

section \<open>Sections\<close>

lemma section_names: "map (\<lambda>e. (fst e, fst (snd e))) (section_table info) = category_table"
  by (simp add: section_table_def category_table_def)

lemma distinct_section_names: "distinct (map fst (map snd (section_table info)))"
proof -
  have "map fst (map snd (section_table info)) = map snd category_table"
    unfolding section_names [of info, symmetric] by (simp add: comp_def)
  then show ?thesis using distinct_category_names by simp
qed

lemma option_if_eqI: "(\<And>j. x = Some j \<longleftrightarrow> P \<and> y = Some j) \<Longrightarrow> x = (if P then y else None)"
  by (cases x; cases y) auto

text \<open>Looking up a section: it is there when its category is selected.\<close>

lemma data_members_lookup:
  assumes "(c, n) \<in> set category_table"
  shows "map_of (data_members r) n =
    (if has_category (report_categories r) c then map_of (map snd (section_table (report_system r))) n else None)"
proof -
  let ?t = "section_table (report_system r)" and ?P = "\<lambda>e. has_category (report_categories r) (fst e)"
  have keys: "distinct (map fst (map snd ?t))" by (rule distinct_section_names)
  have "distinct (map fst (map snd (filter ?P ?t)))"
    using keys by (simp add: distinct_map_filter)
  then have sel: "map_of (data_members r) n = Some j \<longleftrightarrow> (\<exists>d. (d, n, j) \<in> set ?t \<and> has_category (report_categories r) d)" for j
    unfolding data_members_def by (simp only: map_of_eq_Some_iff) force
  have all: "map_of (map snd ?t) n = Some j \<longleftrightarrow> (\<exists>d. (d, n, j) \<in> set ?t)" for j
    using keys by (simp only: map_of_eq_Some_iff) force
  have same: "d = c" if "(d, n, j) \<in> set ?t" for d j
  proof -
    have "(d, n) \<in> set category_table"
      using that unfolding section_names [of "report_system r", symmetric] by force
    then show ?thesis using assms find_category_iff by (metis option.inject)
  qed
  have "(\<exists>d. (d, n, j) \<in> set ?t \<and> has_category (report_categories r) d) \<longleftrightarrow>
      has_category (report_categories r) c \<and> (\<exists>d. (d, n, j) \<in> set ?t)" for j
    using same by metis
  then have "map_of (data_members r) n = Some j \<longleftrightarrow>
      has_category (report_categories r) c \<and> map_of (map snd ?t) n = Some j" for j
    by (simp only: sel all)
  then show ?thesis by (rule option_if_eqI)
qed

lemma section_found:
  assumes "(c, n) \<in> set category_table"
  shows "map_of (map snd (section_table info)) n \<noteq> None"
proof -
  have "n \<in> fst ` set (map snd (section_table info))"
    using assms unfolding section_names [of info, symmetric] by force
  then show ?thesis unfolding map_of_eq_None_iff by simp
qed

text \<open>The section of a selected category is the same whatever else is selected.\<close>

lemma section_any_selection:
  assumes "(c, n) \<in> set category_table" "has_category A c" "has_category B c"
  shows "map_of (map snd (section_table (collect (make_collector (opts\<lparr>categories := A\<rparr>)) h))) n =
    map_of (map snd (section_table (collect (make_collector (opts\<lparr>categories := B\<rparr>)) h))) n"
  using assms(1) unfolding category_table_def list.set insert_iff prod.inject empty_iff
  by (elim disjE conjE; simp only: section_table_def list.map snd_conv map_of.simps fun_upd_apply
      simp_thms if_True; use assms(2,3) in \<open>simp add: selected_parts\<close>)

text \<open>A section of a report, as a function of the options.\<close>

lemma report_section:
  assumes "(c, n) \<in> set category_table"
  shows "map_of (data_members (collect_report opts h)) n =
    (if has_category (categories opts) c
     then map_of (map snd (section_table (collect (make_collector opts) h))) n else None)"
  unfolding data_members_lookup [OF assms] collect_options_of_report by (rule refl)

end
