(* ===== verification/Windows_Build.thy ===== *)
theory Windows_Build
  imports Privacy
begin

text \<open>
  The program as it is compiled for Windows: the branches \<open>#if defined(_WIN32)\<close> of \<open>src/src/os.cc\<close>,
  \<open>src/src/cpu.cc\<close>, \<open>src/src/memory.cc\<close>, \<open>src/src/net.cc\<close>, \<open>src/src/perf.cc\<close> and
  \<open>src/src/virtualization.cc\<close>, over the answers of the Windows API. The other collectors and all
  helpers are the same code in every build. The contract of the collectors holds here as well.
\<close>

section \<open>The answers of the Windows API\<close>

text \<open>The processor architecture of \<open>GetNativeSystemInfo\<close>, and the target of the compiler's macros.\<close>

datatype processor_architecture =
    Processor_amd64 | Processor_intel | Processor_arm | Processor_arm64 | Processor_other

datatype compiler_target = Target_x64 | Target_ix86 | Target_arm64 | Target_arm | Target_other

text \<open>
  \<open>win_memory\<close> is what \<open>GlobalMemoryStatusEx\<close> stores in \<open>ullTotalPhys\<close> and \<open>ullAvailPhys\<close>, \<open>None\<close>
  when it fails; \<open>win_computer_name\<close> is \<open>None\<close> when \<open>GetComputerNameA\<close> fails.
\<close>

record windows_api =
  win_target :: compiler_target
  win_processor :: processor_architecture
  win_computer_name :: "string option"
  win_page_size :: u32
  win_memory :: "(u64 \<times> u64) option"

section \<open>The collectors\<close>

fun processor_name :: "processor_architecture \<Rightarrow> string" where
  "processor_name Processor_amd64 = ''x86_64''"
| "processor_name Processor_intel = ''x86''"
| "processor_name Processor_arm = ''arm''"
| "processor_name Processor_arm64 = ''aarch64''"
| "processor_name Processor_other = ''unknown''"

fun target_machine :: "compiler_target \<Rightarrow> string" where
  "target_machine Target_x64 = ''x86_64''"
| "target_machine Target_ix86 = ''x86''"
| "target_machine Target_arm64 = ''aarch64''"
| "target_machine Target_arm = ''arm''"
| "target_machine Target_other = ''unknown''"

definition windows_os_fields :: "windows_api \<Rightarrow> os_info \<Rightarrow> os_info" where
  "windows_os_fields w info = info\<lparr>
     os_kernel_name := field_value ''Windows'',
     os_kernel_release := unavailable unsupported,
     os_kernel_version := unavailable unsupported,
     os_machine := field_value (processor_name (win_processor w)),
     os_hostname := (case win_computer_name w of
         Some name \<Rightarrow> field_value name
       | None \<Rightarrow> unavailable internal_error),
     os_page_size := field_value (ucast (win_page_size w))\<rparr>"

definition windows_distro_fields :: "collect_options \<Rightarrow> host \<Rightarrow> os_info \<Rightarrow> os_info" where
  "windows_distro_fields options h info = (let os_release = read_file h (etc_path options ''/os-release'')
     in if rr_status os_release \<noteq> ok then info\<lparr>
            os_distro_name := field_value ''Windows'',
            os_distro_version := unavailable unsupported,
            os_distro_id := field_value ''windows''\<rparr>
        else let values = parse_os_release (rr_value os_release) in info\<lparr>
            os_distro_name := os_release_field values [''PRETTY_NAME'', ''NAME''],
            os_distro_version := os_release_field values [''VERSION_ID'', ''VERSION''],
            os_distro_id := os_release_field values [''ID'']\<rparr>)"

definition windows_collect_os :: "windows_api \<Rightarrow> collect_options \<Rightarrow> host \<Rightarrow> os_info" where
  "windows_collect_os w options h =
     windows_distro_fields options h (os_common_fields options h (windows_os_fields w new_os_info))"

definition windows_machine_fields :: "windows_api \<Rightarrow> cpu_info \<Rightarrow> cpu_info" where
  "windows_machine_fields w info = (let mach = target_machine (win_target w)
     in info\<lparr>cpu_arch_name := field_value mach, cpu_arch := arch_from_machine mach\<rparr>)"

definition windows_collect_cpu :: "windows_api \<Rightarrow> collect_options \<Rightarrow> host \<Rightarrow> cpu_info" where
  "windows_collect_cpu w options h =
     (let info = (new_cpu_info (host_stale_arch h))\<lparr>cpu_arch := Arch_unknown\<rparr>
      in cpu_file_fields options h (windows_machine_fields w info))"

definition windows_memory_fields :: "windows_api \<Rightarrow> memory_info \<Rightarrow> memory_info" where
  "windows_memory_fields w info =
     (let info = info\<lparr>mem_page_size_bytes := field_value (ucast (win_page_size w))\<rparr>
      in if valid (mem_total_kb info) then info
         else (case win_memory w of
             Some (phys, avail) \<Rightarrow> info\<lparr>
               mem_total_kb := field_value (phys div 1024),
               mem_available_kb := field_value (avail div 1024)\<rparr>
           | None \<Rightarrow> info))"

definition windows_collect_memory :: "windows_api \<Rightarrow> collect_options \<Rightarrow> host \<Rightarrow> memory_info" where
  "windows_collect_memory w options h =
     sysfs_memory_fields options h (windows_memory_fields w (meminfo_fields options h new_memory_info))"

text \<open>\<open>collect_addresses\<close> returns an empty map.\<close>

definition windows_collect_net :: "collect_options \<Rightarrow> host \<Rightarrow> net_interface_info list" where
  "windows_collect_net options h = net_interfaces options h []"

text \<open>Without \<open>perf_event_open\<close> the eight counters are \<open>unsupported\<close>.\<close>

definition no_hardware_counters :: "perf_counter_availability \<Rightarrow> perf_counter_availability" where
  "no_hardware_counters counters = counters\<lparr>
     avail_cpu_cycles := unavailable unsupported, avail_instructions := unavailable unsupported,
     avail_cache_references := unavailable unsupported, avail_cache_misses := unavailable unsupported,
     avail_branch_instructions := unavailable unsupported, avail_branch_misses := unavailable unsupported,
     avail_bus_cycles := unavailable unsupported, avail_ref_cpu_cycles := unavailable unsupported\<rparr>"

definition windows_collect_perf :: "collect_options \<Rightarrow> host \<Rightarrow> perf_counter_info" where
  "windows_collect_perf options h = tsc_fields options h (new_perf_counter_info\<lparr>
     perf_event_paranoid := read_perf_event_paranoid options h,
     perf_available := no_hardware_counters (perf_available new_perf_counter_info)\<rparr>)"

definition windows_collect_virtualization :: "collect_options \<Rightarrow> host \<Rightarrow> virtualization_info" where
  "windows_collect_virtualization options h =
     virtualization_fields options h (\<lambda>kvm_exists kvm. unavailable unsupported)"

section \<open>collect\<close>

definition windows_collect :: "windows_api \<Rightarrow> collector_object \<Rightarrow> host \<Rightarrow> system_info" where
  "windows_collect w self h =
     (let info = new_system_info (host_stale_arch h);
          info = when_selected self cat_os (\<lambda>info. info\<lparr>sys_os_info := windows_collect_os w (its_options self) h\<rparr>) info;
          info = when_selected self cat_cpu (\<lambda>info. info\<lparr>sys_cpu_info := windows_collect_cpu w (its_options self) h\<rparr>) info;
          info = when_selected self cat_isa (\<lambda>info. info\<lparr>sys_isa_features := collect_isa (its_options self) h\<rparr>) info;
          info = when_selected self cat_cache (\<lambda>info. info\<lparr>sys_cache_list := collect_cache (its_options self) h\<rparr>) info;
          info = when_selected self cat_memory (\<lambda>info. info\<lparr>sys_memory_info := windows_collect_memory w (its_options self) h\<rparr>) info;
          info = when_selected self cat_pci (\<lambda>info. info\<lparr>sys_pci_devices := collect_pci (its_options self) h\<rparr>) info;
          info = when_selected self cat_gpu (\<lambda>info. info\<lparr>sys_gpu_list := collect_gpu (its_options self) h\<rparr>) info;
          info = when_selected self cat_perf (\<lambda>info. info\<lparr>sys_perf_info := windows_collect_perf (its_options self) h\<rparr>) info;
          info = when_selected self cat_block (\<lambda>info. info\<lparr>sys_block_devices := collect_block (its_options self) h\<rparr>) info;
          info = when_selected self cat_net (\<lambda>info. info\<lparr>sys_net_interfaces := windows_collect_net (its_options self) h\<rparr>) info;
          info = when_selected self cat_thermal (\<lambda>info. info\<lparr>sys_thermal_info := collect_thermal (its_options self) h\<rparr>) info;
          info = when_selected self cat_power (\<lambda>info. info\<lparr>sys_power_info := collect_power (its_options self) h\<rparr>) info;
          info = when_selected self cat_virtualization (\<lambda>info. info\<lparr>sys_virtualization_info := windows_collect_virtualization (its_options self) h\<rparr>) info;
          info = when_selected self cat_platform (\<lambda>info. info\<lparr>sys_platform_info := collect_platform (its_options self) h\<rparr>) info
      in info)"

definition windows_collect_report :: "windows_api \<Rightarrow> collect_options \<Rightarrow> host \<Rightarrow> report" where
  "windows_collect_report w options h = \<lparr>report_categories = categories options,
     report_system = windows_collect w (make_collector options) h\<rparr>"

section \<open>The contract\<close>

text \<open>
  With \<open>include_sensitive\<close> off the computer name is hidden; everything else the Windows API answers
  may show.
\<close>

definition same_windows_view :: "collect_options \<Rightarrow> windows_api \<Rightarrow> windows_api \<Rightarrow> bool" where
  "same_windows_view options w w' \<longleftrightarrow>
     (if include_sensitive options then w = w'
      else w\<lparr>win_computer_name := None\<rparr> = w'\<lparr>win_computer_name := None\<rparr>)"

lemma same_windows_viewD:
  assumes "same_windows_view opts w w'"
  shows "win_target w = win_target w'" "win_processor w = win_processor w'"
    "win_page_size w = win_page_size w'" "win_memory w = win_memory w'"
    "include_sensitive opts \<Longrightarrow> w = w'"
  using assms by (cases w; cases w'; simp add: same_windows_view_def split: if_splits)+

lemma same_windows_view_refl [simp]: "same_windows_view opts w w"
  by (simp add: same_windows_view_def)

lemma os_hidden_hostname:
  "\<not> include_sensitive opts \<Longrightarrow>
   os_common_fields opts h info = os_common_fields opts h (info\<lparr>os_hostname := unavailable redacted\<rparr>)"
  by (cases info) (simp add: os_common_fields_def Let_def)

lemma os_common_view:
  assumes "same_view opts h h'"
  shows "os_common_fields opts h = os_common_fields opts h'"
proof -
  have "include_sensitive opts \<Longrightarrow>
      read_string_field h (proc_path opts ''/cmdline'') t = read_string_field h' (proc_path opts ''/cmdline'') t" for t
    by (rule view_reads(3) [OF same_viewD [OF assms]]) simp_all
  moreover have "host_pointer_bytes h = host_pointer_bytes h'" "host_little_endian h = host_little_endian h'"
    using assms by (simp_all add: same_view_def)
  ultimately show ?thesis by (intro ext) (simp add: os_common_fields_def Let_def)
qed

lemma windows_os_view:
  assumes "same_windows_view opts w w'" "same_view opts h h'"
  shows "windows_collect_os w opts h = windows_collect_os w' opts h'"
proof -
  have dist: "windows_distro_fields opts h = windows_distro_fields opts h'"
    by (intro ext) (simp add: windows_distro_fields_def Let_def literal_name
        view_reads_etc [OF same_viewD [OF assms(2)]])
  have "os_common_fields opts h' (windows_os_fields w new_os_info) =
      os_common_fields opts h' (windows_os_fields w' new_os_info)"
  proof (cases "include_sensitive opts")
    case True
    then show ?thesis using same_windows_viewD(5) [OF assms(1)] by simp
  next
    case False
    then show ?thesis
      by (subst (1 2) os_hidden_hostname)
        (simp_all add: windows_os_fields_def same_windows_viewD [OF assms(1)])
  qed
  then show ?thesis by (simp add: windows_collect_os_def dist os_common_view [OF assms(2)])
qed

lemma windows_cpu_view:
  "same_windows_view opts w w' \<Longrightarrow> same_view opts h h' \<Longrightarrow>
   windows_collect_cpu w opts h = windows_collect_cpu w' opts h'"
  by (simp only: windows_collect_cpu_def windows_machine_fields_def Let_def stale_arch_overwritten
      same_windows_viewD cpu_file_fields_view)

lemma windows_memory_fields_eq:
  "same_windows_view opts w w' \<Longrightarrow> windows_memory_fields w = windows_memory_fields w'"
  by (simp only: fun_eq_iff windows_memory_fields_def Let_def same_windows_viewD simp_thms)

lemma windows_memory_view:
  "same_windows_view opts w w' \<Longrightarrow> same_view opts h h' \<Longrightarrow>
   windows_collect_memory w opts h = windows_collect_memory w' opts h'"
  by (simp only: windows_collect_memory_def windows_memory_fields_eq memory_parts_view [OF same_viewD])

interpretation windows_os: collector "windows_collect_os w" os_info_fields for w
proof
  fix opts :: collect_options and c h
  show "windows_collect_os w (opts\<lparr>categories := c\<rparr>) h = windows_collect_os w opts h"
    by (simp add: windows_collect_os_def os_common_any_selection windows_distro_fields_def)
next
  fix opts h
  show "all_honest (os_info_fields (windows_collect_os w opts h))"
    by (auto simp: windows_collect_os_def os_common_fields_def windows_os_fields_def
      windows_distro_fields_def Let_def os_info_fields_def new_os_info_def split: option.split)
qed (simp add: windows_os_view)

interpretation windows_cpu: collector "windows_collect_cpu w" all_cpu_fields for w
proof
  fix opts h
  show "all_honest (all_cpu_fields (windows_collect_cpu w opts h))"
    unfolding windows_collect_cpu_def Let_def
    by (rule cpu_file_fields_honest)
      (simp add: windows_machine_fields_def cpu_info_fields_def new_cpu_info_def Let_def)
next
  fix opts h h'
  assume "same_view opts h h'"
  then show "windows_collect_cpu w opts h = windows_collect_cpu w opts h'"
    by (rule windows_cpu_view [OF same_windows_view_refl])
qed (simp add: windows_collect_cpu_def cpu_file_fields_any_selection)

interpretation windows_memory: collector "windows_collect_memory w" all_memory_fields for w
proof
  fix opts h
  show "all_honest (all_memory_fields (windows_collect_memory w opts h))"
    by (auto simp: all_memory_fields_def windows_collect_memory_def sysfs_memory_fields_def
        windows_memory_fields_def meminfo_fields_def memory_info_fields_def new_memory_info_def
        collect_numa_nodes_def Let_def set_map_filter dest: numa_node_honest split: option.split)
next
  fix opts h h'
  assume "same_view opts h h'"
  then show "windows_collect_memory w opts h = windows_collect_memory w opts h'"
    by (rule windows_memory_view [OF same_windows_view_refl])
qed (simp add: windows_collect_memory_def memory_parts_any_selection)

interpretation windows_net: collector windows_collect_net "\<lambda>ns. concat (map net_interface_info_fields ns)"
  by unfold_locales (simp_all only: windows_collect_net_def net_interfaces_honest
      net_interfaces_any_selection net_interfaces_view [OF same_viewD refl])

interpretation windows_perf: collector windows_collect_perf perf_counter_info_fields
proof
  fix opts h
  show "all_honest (perf_counter_info_fields (windows_collect_perf opts h))"
    by (simp add: windows_collect_perf_def tsc_fields_def no_hardware_counters_def Let_def
        perf_counter_info_fields_def perf_counter_availability_fields_def new_perf_counter_info_def)
qed (simp_all add: windows_collect_perf_def tsc_fields_view [OF same_viewD] paranoid_view [OF same_viewD]
      perf_parts_any_selection)

interpretation windows_virtualization:
  collector windows_collect_virtualization virtualization_info_fields
proof
  fix opts h h'
  assume "same_view opts h h'"
  then show "windows_collect_virtualization opts h = windows_collect_virtualization opts h'"
    unfolding windows_collect_virtualization_def
    by (intro virtualization_fields_view) (simp_all add: same_viewD)
qed (simp_all add: windows_collect_virtualization_def virtualization_fields_any_selection
      virtualization_fields_honest [simplified])

section \<open>The whole collection\<close>

lemma windows_collect_eq:
  "windows_collect w self h = (collect self h)\<lparr>
     sys_os_info := (if has_category (categories (its_options self)) cat_os
       then windows_collect_os w (its_options self) h else new_os_info),
     sys_cpu_info := (if has_category (categories (its_options self)) cat_cpu
       then windows_collect_cpu w (its_options self) h else new_cpu_info (host_stale_arch h)),
     sys_memory_info := (if has_category (categories (its_options self)) cat_memory
       then windows_collect_memory w (its_options self) h else new_memory_info),
     sys_perf_info := (if has_category (categories (its_options self)) cat_perf
       then windows_collect_perf (its_options self) h else new_perf_counter_info),
     sys_net_interfaces := (if has_category (categories (its_options self)) cat_net
       then windows_collect_net (its_options self) h else []),
     sys_virtualization_info := (if has_category (categories (its_options self)) cat_virtualization
       then windows_collect_virtualization (its_options self) h else new_virtualization_info)\<rparr>"
  by (simp only: windows_collect_def Let_def when_selected_field new_system_info_def system_info.simps
      collect_eq)

lemmas windows_honest = windows_os.honest windows_cpu.honest windows_memory.honest windows_net.honest
  windows_perf.honest windows_virtualization.honest collectors_honest

lemma windows_collect_honest: "all_honest (system_fields (windows_collect w self h))"
  unfolding system_fields_def all_honest_simps(3)
  by (intro conjI; simp only: windows_collect_eq collect_eq system_info.simps; split if_split;
      simp add: windows_honest [simplified] new_structs_honest)

lemmas windows_view = windows_net.view windows_perf.view windows_virtualization.view

lemma windows_collect_view:
  assumes "same_windows_view (its_options self) w w'" "same_view (its_options self) h h'" "posix_host h"
  shows "windows_collect w self h =
      (windows_collect w' self h')\<lparr>sys_cpu_info := sys_cpu_info (windows_collect w self h)\<rparr>"
    and "has_category (categories (its_options self)) cat_cpu \<Longrightarrow>
      windows_collect w self h = windows_collect w' self h'"
  unfolding windows_collect_eq windows_os_view [OF assms(1,2)] windows_cpu_view [OF assms(1,2)]
    windows_memory_view [OF assms(1,2)] windows_view [OF assms(2,3)] collect_eq system_info.simps
    system_info.update_convs collectors_view [OF assms(2,3)]
  by (rule refl) (simp only: if_True)

lemma windows_report_view:
  assumes "same_windows_view opts w w'" "same_view opts h h'" "posix_host h"
  shows "to_json_report (windows_collect_report w opts h) = to_json_report (windows_collect_report w' opts h')"
    and "print_text (windows_collect_report w opts h) = print_text (windows_collect_report w' opts h')"
proof -
  let ?c = "make_collector opts"
  have v: "same_windows_view (its_options ?c) w w'" "same_view (its_options ?c) h h'" using assms by simp_all
  have "has_category (categories opts) cat_cpu \<Longrightarrow> windows_collect w ?c h = windows_collect w' ?c h'"
    by (rule windows_collect_view(2) [OF v assms(3)]) simp
  note out = outputs_without_cpu [OF windows_collect_view(1) [OF v assms(3)] this]
  show "to_json_report (windows_collect_report w opts h) = to_json_report (windows_collect_report w' opts h')"
    and "print_text (windows_collect_report w opts h) = print_text (windows_collect_report w' opts h')"
    unfolding windows_collect_report_def by (rule out(1), assumption) (rule out(2), assumption)
qed

lemma windows_redacts:
  assumes "\<not> include_sensitive opts"
  shows "os_hostname (windows_collect_os w opts h) = unavailable redacted"
    and "os_cmdline (windows_collect_os w opts h) = unavailable redacted"
    and "n \<in> set (windows_collect_net opts h) \<Longrightarrow> net_mac_address n = unavailable redacted \<and>
      net_ipv4_addresses n = unavailable redacted \<and> net_ipv6_addresses n = unavailable redacted"
  using assms net_interfaces_redact [OF assms, of n h "[]"]
  by (simp_all add: windows_collect_os_def windows_distro_fields_def os_common_fields_def
      windows_collect_net_def Let_def)

text \<open>The names for the 32-bit targets are none that \<open>arch_from_machine\<close> knows.\<close>

lemma cpu_file_fields_arch [simp]: "cpu_arch (cpu_file_fields opts h info) = cpu_arch info"
  by (simp add: cpu_file_fields_def Let_def)

lemma windows_arch:
  "cpu_arch (windows_collect_cpu w opts h) = (case win_target w of
       Target_x64 \<Rightarrow> Arch_x86_64 | Target_arm64 \<Rightarrow> Arch_aarch64 | _ \<Rightarrow> Arch_unknown)"
  by (simp add: windows_collect_cpu_def windows_machine_fields_def arch_from_machine_def starts_with_def
      Let_def split: compiler_target.split)

end
