(* ===== verification/Utf8.thy ===== *)
theory Utf8
  imports Json_Spec
begin

text \<open>
  The text encoding of RFC 3629, as an automaton over bytes. The C API of Python builds a string from
  the bytes of a report only when they are UTF-8. The theory shows when a JSON text is: exactly when
  all its strings are, because everything else that the writer of \<open>src/src/json.cc\<close> adds is ASCII.
\<close>

section \<open>The automaton\<close>

text \<open>
  A state lists, for each byte that the current character still needs, the range it must lie in.
  Between characters the list is empty.
\<close>

type_synonym utf8_state = "(nat \<times> nat) list"

definition utf8_tail :: "nat \<times> nat" where
  "utf8_tail = (0x80, 0xBF)"

text \<open>The table of RFC 3629: no overlong forms, no surrogates, nothing above U+10FFFF.\<close>

definition utf8_lead :: "nat \<Rightarrow> utf8_state option" where
  "utf8_lead b =
     (if b < 0x80 then Some []
      else if 0xC2 \<le> b \<and> b \<le> 0xDF then Some [utf8_tail]
      else if b = 0xE0 then Some [(0xA0, 0xBF), utf8_tail]
      else if b = 0xED then Some [(0x80, 0x9F), utf8_tail]
      else if 0xE1 \<le> b \<and> b \<le> 0xEF then Some [utf8_tail, utf8_tail]
      else if b = 0xF0 then Some [(0x90, 0xBF), utf8_tail, utf8_tail]
      else if 0xF1 \<le> b \<and> b \<le> 0xF3 then Some [utf8_tail, utf8_tail, utf8_tail]
      else if b = 0xF4 then Some [(0x80, 0x8F), utf8_tail, utf8_tail]
      else None)"

fun utf8_next :: "utf8_state \<Rightarrow> char \<Rightarrow> utf8_state option" where
  "utf8_next [] c = utf8_lead (of_char c)"
| "utf8_next ((lo, hi) # st) c = (if lo \<le> of_char c \<and> of_char c \<le> hi then Some st else None)"

fun utf8_run :: "utf8_state \<Rightarrow> string \<Rightarrow> utf8_state option" where
  "utf8_run st [] = Some st"
| "utf8_run st (c # s) = (case utf8_next st c of None \<Rightarrow> None | Some st' \<Rightarrow> utf8_run st' s)"

definition utf8_text :: "string \<Rightarrow> bool" where
  "utf8_text s \<longleftrightarrow> utf8_run [] s = Some []"

definition ascii :: "char \<Rightarrow> bool" where
  "ascii c \<longleftrightarrow> of_char c < (0x80 :: nat)"

lemma utf8_run_append:
  "utf8_run st (s @ t) = (case utf8_run st s of None \<Rightarrow> None | Some st' \<Rightarrow> utf8_run st' t)"
  by (induction st s rule: utf8_run.induct) (simp_all split: option.split)

lemma ascii_run: "list_all ascii s \<Longrightarrow> utf8_run [] (s @ r) = utf8_run [] r"
  by (induction s) (simp_all add: ascii_def utf8_lead_def)

text \<open>The states that are reached: inside a character no ASCII byte is possible.\<close>

definition high_only :: "utf8_state \<Rightarrow> bool" where
  "high_only st \<longleftrightarrow> (\<forall>r \<in> set st. 0x80 \<le> fst r)"

lemma option_if_Some:
  assumes "(if b then Some x else y) = Some z" "b \<Longrightarrow> x = z \<Longrightarrow> P" "\<not> b \<Longrightarrow> y = Some z \<Longrightarrow> P"
  shows P
  using assms by (cases b) simp_all

lemma high_only_lead: "utf8_lead b = Some st \<Longrightarrow> high_only st"
  unfolding utf8_lead_def utf8_tail_def by (elim option_if_Some) (auto simp: high_only_def)

lemma high_only_next: "high_only st \<Longrightarrow> utf8_next st c = Some st' \<Longrightarrow> high_only st'"
proof (cases st)
  case (Cons r rest)
  moreover assume "high_only st" "utf8_next st c = Some st'"
  ultimately show ?thesis by (cases r) (simp add: high_only_def split: if_split_asm)
qed (simp add: high_only_lead)

lemma high_only_run: "high_only st \<Longrightarrow> utf8_run st s = Some st' \<Longrightarrow> high_only st'"
  by (induction st s rule: utf8_run.induct) (auto split: option.splits dest: high_only_next)

lemma ascii_inside: "high_only st \<Longrightarrow> st \<noteq> [] \<Longrightarrow> ascii c \<Longrightarrow> utf8_next st c = None"
  by (cases st rule: list.exhaust; cases "hd st") (simp_all add: high_only_def ascii_def)

section \<open>JSON texts\<close>

text \<open>An escape is ASCII and stands for an ASCII character; every other byte is written as it is.\<close>

lemma escape_char_cases: "escape_char c = [c] \<or> ascii c \<and> escape_char c \<noteq> [] \<and> list_all ascii (escape_char c)"
proof -
  have "n < 16 \<Longrightarrow> ascii (hex_digit n)" for n
    by (simp add: hex_digit_def ascii_def of_char_of)
  then have "list_all ascii (hex4 n)" for n by (simp add: hex4_def) (simp add: ascii_def)
  moreover have "of_char c < (32 :: nat) \<Longrightarrow> ascii c" by (simp add: ascii_def)
  ultimately show ?thesis unfolding escape_char_def by (simp add: ascii_def)
qed

lemma utf8_escape_char: "high_only st \<Longrightarrow> utf8_run st (escape_char c @ r) = utf8_run st (c # r)"
proof -
  assume st: "high_only st"
  consider "escape_char c = [c]" | x xs where "escape_char c = x # xs" "list_all ascii (x # xs)" "ascii c"
    using escape_char_cases [of c] by (cases "escape_char c") auto
  then show ?thesis
  proof cases
    case 2
    show ?thesis
    proof (cases "st = []")
      case True
      then show ?thesis using 2 ascii_run [of "x # xs" r] ascii_run [of "[c]" r] by simp
    next
      case False
      then show ?thesis using 2 ascii_inside [OF st False] by simp
    qed
  qed simp
qed

lemma utf8_escape_json: "high_only st \<Longrightarrow> utf8_run st (escape_json s @ r) = utf8_run st (s @ r)"
  unfolding escape_json_concat
proof (induction s arbitrary: st)
  case (Cons c s)
  have "utf8_run st (escape_char c @ concat (map escape_char s) @ r) =
      utf8_run st (c # concat (map escape_char s) @ r)"
    by (rule utf8_escape_char [OF Cons.prems])
  then show ?case using Cons high_only_next [of st c] by (simp split: option.split)
qed simp

text \<open>A text after which no character is open, when it is UTF-8 at all.\<close>

definition closes :: "string \<Rightarrow> bool \<Rightarrow> bool" where
  "closes s fine \<longleftrightarrow> utf8_run [] s = (if fine then Some [] else None)"

lemma closes_append: "closes s p \<Longrightarrow> closes t q \<Longrightarrow> closes (s @ t) (p \<and> q)"
  by (simp add: closes_def utf8_run_append)

lemma closes_ascii: "list_all ascii s \<Longrightarrow> closes s True"
  using ascii_run [of s "[]"] by (simp add: closes_def)

lemma closes_text: "closes s p \<Longrightarrow> utf8_text s \<longleftrightarrow> p"
  by (simp add: closes_def utf8_text_def)

lemma closes_json_string: "closes (json_string s) (utf8_text s)"
proof -
  have q: "ascii (CHR 0x22)" by (simp add: ascii_def)
  have "utf8_run [] (json_string s) = utf8_run [] (s @ [CHR 0x22])"
    using ascii_run [of "[CHR 0x22]" "escape_json s @ [CHR 0x22]"] q utf8_escape_json [of "[]" s "[CHR 0x22]"]
    by (simp add: json_string_def high_only_def)
  also have "\<dots> = (if utf8_text s then Some [] else None)"
  proof (cases "utf8_run [] s")
    case (Some st)
    then have "high_only st" using high_only_run [of "[]" s st] by (simp add: high_only_def)
    then show ?thesis using Some q ascii_inside [of st "CHR 0x22"] ascii_run [of "[CHR 0x22]" "[]"]
      by (cases "st = []") (simp_all add: utf8_run_append utf8_text_def)
  qed (simp add: utf8_run_append utf8_text_def)
  finally show ?thesis by (simp add: closes_def)
qed

lemma closes_commas:
  "(\<And>x. x \<in> set xs \<Longrightarrow> closes (f x) (p x)) \<Longrightarrow> closes (commas (map f xs)) (\<forall>x \<in> set xs. p x)"
proof (induction xs)
  case (Cons x xs)
  have "closes ('','' @ commas (map f xs)) (True \<and> (\<forall>x \<in> set xs. p x))"
    by (rule closes_append) (simp_all add: closes_ascii ascii_def Cons)
  then have "closes (f x @ '','' @ commas (map f xs)) (p x \<and> True \<and> (\<forall>x \<in> set xs. p x))"
    by (intro closes_append [of "f x"] Cons.prems) simp_all
  then show ?case using Cons.prems [of x] by (simp add: commas_Cons)
qed (simp add: closes_def)

text \<open>The strings of a value, the names of the members included.\<close>

primrec json_strings :: "json \<Rightarrow> string list" where
  "json_strings JNull = []"
| "json_strings (JBool b) = []"
| "json_strings (JNum i) = []"
| "json_strings (JStr s) = [s]"
| "json_strings (JArr js) = concat (map json_strings js)"
| "json_strings (JObj ms) = concat (map (\<lambda>m. fst m # snd m) (map (map_prod id json_strings) ms))"

lemma ascii_dec: "list_all ascii (dec n)"
proof -
  have "is_digit_in 10 c \<Longrightarrow> ascii c" for c
    by (auto simp: is_digit_in_def digit_value_def ascii_def Let_def split: if_splits)
  then show ?thesis using dec_digits [of _ n] by (auto simp: list_all_iff)
qed

lemma closes_render: "closes (render j) (list_all utf8_text (json_strings j))"
proof (induction j)
  case (JNum i)
  show ?case by (auto intro!: closes_ascii simp: show_int_def ascii_dec) (simp add: ascii_def)
next
  case (JStr s)
  show ?case using closes_json_string [of s] by simp
next
  case (JArr js)
  have "closes (commas (map render js)) (\<forall>j \<in> set js. list_all utf8_text (json_strings j))"
    by (rule closes_commas) (rule JArr)
  then have "closes (''['' @ commas (map render js) @ '']'')
      (True \<and> (\<forall>j \<in> set js. list_all utf8_text (json_strings j)) \<and> True)"
    by (intro closes_append closes_ascii) (simp_all add: ascii_def)
  then show ?case by (simp add: list_all_iff)
next
  case (JObj ms)
  have member: "closes (show_member (map_prod id render m))
      (utf8_text (fst m) \<and> True \<and> list_all utf8_text (json_strings (snd m)))" if "m \<in> set ms" for m
    unfolding show_member_def using JObj [of m "snd m"] that
    by (intro closes_append closes_ascii) (simp_all add: closes_json_string ascii_def prod_set_defs)
  have "closes (commas (map (\<lambda>m. show_member (map_prod id render m)) ms))
      (\<forall>m \<in> set ms. utf8_text (fst m) \<and> True \<and> list_all utf8_text (json_strings (snd m)))"
    by (rule closes_commas) (rule member)
  then have "closes (''{'' @ commas (map (\<lambda>m. show_member (map_prod id render m)) ms) @ ''}'')
      (True \<and> (\<forall>m \<in> set ms. utf8_text (fst m) \<and> True \<and> list_all utf8_text (json_strings (snd m))) \<and> True)"
    by (intro closes_append closes_ascii) (simp_all add: ascii_def)
  then show ?case by (simp add: list_all_iff comp_def ball_Un)
qed (simp_all add: closes_ascii json_bool_def ascii_def)

lemma utf8_render: "utf8_text (render j) \<longleftrightarrow> list_all utf8_text (json_strings j)"
  by (rule closes_text [OF closes_render])

end
