(* ===== verification/Python_Args.thy ===== *)
theory Python_Args
  imports Cli Utf8
begin

text \<open>
  The Python module \<open>src/python/archspec_inspect/_native.cc\<close>: how \<open>collect_json\<close> turns its arguments
  into options. The interpreter is not code of the repository; what its C API tells the module of an
  argument is the data of \<open>py_value\<close>, and a raised exception is a \<open>py_error\<close>.
\<close>

section \<open>Arguments and exceptions\<close>

text \<open>\<open>PyUnicode_AsUTF8\<close> gives the bytes of a string, or fails for lone surrogates.\<close>

datatype py_text = Utf8 string | Not_encodable

datatype py_item = Item_text py_text | Item_other

text \<open>An iterable yields some items and then ends, or raises when the flag is set.\<close>

datatype py_value = Py_None | Py_text py_text | Py_iterable "py_item list" bool | Py_other

text \<open>
  The C API raises \<open>Encode_error\<close> for a string with lone surrogates and \<open>Decode_error\<close> for bytes that
  are not UTF-8; \<open>Runtime_error\<close> stands for an exception of C++.
\<close>

datatype py_error =
    Value_error string | Type_error string | Encode_error | Decode_error | Iteration_error
  | Runtime_error string

section \<open>Categories\<close>

definition add_category :: "string \<Rightarrow> collect_category \<Rightarrow> collect_category option" where
  "add_category name cats = (case find_category name of
       Some c \<Rightarrow> Some (cat_or cats c)
     | None \<Rightarrow> None)"

definition parse_category_name :: "string \<Rightarrow> collect_category \<Rightarrow> py_error + collect_category" where
  "parse_category_name name cats =
     (if name = [] then Inl (Value_error ''category names must not be empty'')
      else if name = ''all'' then Inr cat_all
      else (case add_category name cats of
          Some cats' \<Rightarrow> Inr cats'
        | None \<Rightarrow> Inl (Value_error (''unknown category '' @ [CHR 0x27] @ name @ [CHR 0x27]))))"

text \<open>
  The pieces between the commas, in the order of the loop: unlike \<open>std::getline\<close> the loop also
  visits an empty piece at the end.
\<close>

function split_commas :: "string \<Rightarrow> string list" where
  "split_commas s = takeWhile (\<lambda>c. c \<noteq> CHR '','') s #
     (if CHR '','' \<in> set s then split_commas (tl (dropWhile (\<lambda>c. c \<noteq> CHR '','') s)) else [])"
  by pat_completeness auto
termination
proof (relation "measure length")
  fix s :: string
  assume "CHR '','' \<in> set s"
  then obtain a b where "s = a @ CHR '','' # b" "CHR '','' \<notin> set a" by (meson split_list_first)
  then show "(tl (dropWhile (\<lambda>c. c \<noteq> CHR '','') s), s) \<in> measure length"
    by (simp add: dropWhile_until)
qed simp

declare split_commas.simps [simp del]

fun parse_names :: "collect_category \<Rightarrow> string list \<Rightarrow> py_error + collect_category" where
  "parse_names cats [] = Inr cats"
| "parse_names cats (name # names) = (case parse_category_name name cats of
       Inl err \<Rightarrow> Inl err
     | Inr cats' \<Rightarrow> parse_names cats' names)"

fun parse_items :: "collect_category \<Rightarrow> py_item list \<Rightarrow> py_error + collect_category" where
  "parse_items cats [] = Inr cats"
| "parse_items cats (Item_other # items) = Inl (Type_error ''each category must be a string'')"
| "parse_items cats (Item_text Not_encodable # items) = Inl Encode_error"
| "parse_items cats (Item_text (Utf8 name) # items) = (case parse_category_name (c_str name) cats of
       Inl err \<Rightarrow> Inl err
     | Inr cats' \<Rightarrow> parse_items cats' items)"

definition native_parse_categories :: "py_value \<Rightarrow> py_error + collect_category" where
  "native_parse_categories v = (case v of
       Py_None \<Rightarrow> Inr cat_all
     | Py_text Not_encodable \<Rightarrow> Inl Encode_error
     | Py_text (Utf8 txt) \<Rightarrow> parse_names cat_none (split_commas (c_str txt))
     | Py_other \<Rightarrow> Inl (Type_error ''categories must be a string, iterable of strings, or None'')
     | Py_iterable items raises \<Rightarrow> (case parse_items cat_none items of
           Inl err \<Rightarrow> Inl err
         | Inr cats \<Rightarrow>
             if raises then Inl Iteration_error
             else if cats = cat_none then Inl (Value_error ''categories must not be empty'')
             else Inr cats))"

definition assign_root :: "py_value \<Rightarrow> string \<Rightarrow> string \<Rightarrow> py_error + string" where
  "assign_root v argument destination = (case v of
       Py_None \<Rightarrow> Inr destination
     | Py_text (Utf8 txt) \<Rightarrow> Inr (c_str txt)
     | Py_text Not_encodable \<Rightarrow> Inl Encode_error
     | Py_iterable items raises \<Rightarrow> Inl (Type_error (argument @ '' must be a string or None''))
     | Py_other \<Rightarrow> Inl (Type_error (argument @ '' must be a string or None'')))"

section \<open>collect\_json\<close>

record py_args =
  py_categories :: py_value
  py_include_sensitive :: bool
  py_allow_perf_open :: bool
  py_allow_slow_probes :: bool
  py_allow_vendor_libraries :: bool
  py_procfs_root :: py_value
  py_sysfs_root :: py_value
  py_etc_root :: py_value
  py_dev_root :: py_value

text \<open>The values of the parameters before \<open>PyArg_ParseTupleAndKeywords\<close>.\<close>

definition default_py_args :: py_args where
  "default_py_args = \<lparr>py_categories = Py_None, py_include_sensitive = False,
     py_allow_perf_open = False, py_allow_slow_probes = False, py_allow_vendor_libraries = False,
     py_procfs_root = Py_None, py_sysfs_root = Py_None, py_etc_root = Py_None, py_dev_root = Py_None\<rparr>"

definition bind_result :: "py_error + 'a \<Rightarrow> ('a \<Rightarrow> py_error + 'b) \<Rightarrow> py_error + 'b" where
  "bind_result r f = (case r of Inl err \<Rightarrow> Inl err | Inr v \<Rightarrow> f v)"

definition py_options :: "py_args \<Rightarrow> py_error + collect_options" where
  "py_options a =
     (let options = default_options in
      bind_result (native_parse_categories (py_categories a)) (\<lambda>cats.
      bind_result (assign_root (py_procfs_root a) ''procfs_root'' (procfs_root options)) (\<lambda>proc.
      bind_result (assign_root (py_sysfs_root a) ''sysfs_root'' (sysfs_root options)) (\<lambda>sys.
      bind_result (assign_root (py_etc_root a) ''etc_root'' (etc_root options)) (\<lambda>etc.
      bind_result (assign_root (py_dev_root a) ''dev_root'' (dev_root options)) (\<lambda>dev.
      Inr (options\<lparr>categories := cats, procfs_root := proc, sysfs_root := sys, etc_root := etc,
        dev_root := dev,
        include_sensitive := py_include_sensitive a,
        allow_perf_open := py_allow_perf_open a,
        allow_slow_probes := py_allow_slow_probes a,
        allow_vendor_libraries := py_allow_vendor_libraries a\<rparr>)))))))"

text \<open>
  \<open>PyUnicode_FromStringAndSize\<close> reads its bytes as UTF-8 and raises \<open>UnicodeDecodeError\<close> when they
  are not. A string it returns is given by its UTF-8 bytes.
\<close>

definition unicode_from_bytes :: "string \<Rightarrow> py_error + string" where
  "unicode_from_bytes bytes = (if utf8_text bytes then Inr bytes else Inl Decode_error)"

text \<open>
  The string that \<open>collect_json\<close> returns, or the exception it raises, when the collection itself does
  not throw (\<open>Python_References\<close> follows the exceptions of C++).
\<close>

definition collect_json :: "py_args \<Rightarrow> host \<Rightarrow> py_error + string" where
  "collect_json a h = bind_result (py_options a) (\<lambda>options.
     unicode_from_bytes (to_json_report (collect_report options h)))"

text \<open>The function \<open>version\<close> of the module.\<close>

definition native_version :: string where
  "native_version = lib_version"

section \<open>The options that are used\<close>

lemma bind_result_Inr: "bind_result r f = Inr v \<longleftrightarrow> (\<exists>x. r = Inr x \<and> f x = Inr v)"
  by (cases r) (simp_all add: bind_result_def)

lemma py_options_flags:
  "py_options a = Inr opts \<Longrightarrow> include_sensitive opts = py_include_sensitive a \<and>
     allow_perf_open opts = py_allow_perf_open a"
  by (auto simp: py_options_def bind_result_Inr)

lemma py_options_default: "py_options default_py_args = Inr cli_options"
  by (simp add: py_options_def default_py_args_def bind_result_def native_parse_categories_def
      assign_root_def cli_options_def default_options_def)

text \<open>A report is returned exactly when all its strings are UTF-8.\<close>

lemma collect_json_decodes:
  "py_options a = Inr opts \<Longrightarrow> collect_json a h =
    (if list_all utf8_text (json_strings (report_value (collect_report opts h)))
     then Inr (to_json_report (collect_report opts h)) else Inl Decode_error)"
  by (simp add: collect_json_def bind_result_def unicode_from_bytes_def report_json.encode_render
      utf8_render)

section \<open>Agreement with the command line\<close>

lemma split_commas_single: "CHR '','' \<notin> set s \<Longrightarrow> split_commas s = [s]"
  by (subst split_commas.simps) (simp add: takeWhile_without)

lemma split_commas_Cons: "CHR '','' \<notin> set s \<Longrightarrow> split_commas (s @ CHR '','' # r) = s # split_commas r"
  by (subst split_commas.simps) (simp add: takeWhile_until dropWhile_until)

lemma split_commas_join:
  "ns \<noteq> [] \<Longrightarrow> \<forall>n \<in> set ns. CHR '','' \<notin> set n \<Longrightarrow> split_commas (commas ns) = ns"
  by (induction ns rule: commas.induct) (simp_all add: split_commas_single split_commas_Cons)

lemma lines_by_join:
  "\<forall>n \<in> set ns. n \<noteq> [] \<and> CHR '','' \<notin> set n \<Longrightarrow> lines_by (CHR '','') (commas ns) = ns"
  by (induction ns rule: commas.induct) (simp_all add: lines_by_last lines_by_Cons)

lemma category_names:
  "(c, n) \<in> set category_table \<Longrightarrow> n \<noteq> [] \<and> CHR '','' \<notin> set n \<and> CHR 0x00 \<notin> set n \<and>
     n \<noteq> ''all'' \<and> n \<noteq> ''none''"
  by (auto simp: category_table_def)

text \<open>On known names the two loops do the same.\<close>

lemma parse_names_add_names:
  "set ns \<subseteq> snd ` set category_table \<Longrightarrow> add_names sel ns = Inr cats \<longleftrightarrow> parse_names sel ns = Inr cats"
proof (induction ns arbitrary: sel)
  case (Cons n ns)
  then obtain c where c: "(c, n) \<in> set category_table" by auto
  then have "find_category n = Some c" by (simp add: find_category_iff)
  then show ?case using Cons category_names [OF c]
    by (simp add: parse_category_name_def add_category_def)
qed simp

lemma commas_special:
  assumes "ns \<noteq> []" "set ns \<subseteq> snd ` set category_table"
  shows "commas ns \<notin> {''all'', ''none'', []}" "CHR 0x00 \<notin> set (commas ns)"
proof -
  have n: "n \<noteq> [] \<and> CHR '','' \<notin> set n \<and> CHR 0x00 \<notin> set n \<and> n \<noteq> ''all'' \<and> n \<noteq> ''none''"
    if "n \<in> set ns" for n using assms(2) that category_names by fastforce
  have "split_commas (commas ns) = ns" using n assms(1) by (intro split_commas_join) auto
  moreover have "split_commas s = [s]" if "s \<in> {''all'', ''none'', []}" for s
    using that by (intro split_commas_single) auto
  ultimately show "commas ns \<notin> {''all'', ''none'', []}" using n by (metis insert_iff list.set_intros(1) singletonD)
  have "set (commas ms) \<subseteq> insert (CHR '','') (\<Union> (set ` set ms))" for ms
    by (induction ms rule: commas.induct) auto
  then show "CHR 0x00 \<notin> set (commas ns)" using n by fastforce
qed

lemma cli_python_agree:
  assumes "ns \<noteq> []" "set ns \<subseteq> snd ` set category_table"
  shows "parse_categories (commas ns) = Inr cats \<longleftrightarrow>
    native_parse_categories (Py_text (Utf8 (commas ns))) = Inr cats"
proof -
  have n: "\<forall>n \<in> set ns. n \<noteq> [] \<and> CHR '','' \<notin> set n" using assms(2) category_names by fastforce
  have "parse_categories (commas ns) = add_names cat_none ns"
    using commas_special(1) [OF assms] lines_by_join [OF n] by (simp add: parse_categories_def)
  moreover have "native_parse_categories (Py_text (Utf8 (commas ns))) = parse_names cat_none ns"
    using c_str_id [OF commas_special(2) [OF assms]] split_commas_join [OF assms(1)] n
    by (simp add: native_parse_categories_def)
  ultimately show ?thesis using parse_names_add_names [OF assms(2)] by simp
qed

end
