(* ===== verification/Python_References.thy ===== *)
theory Python_References
  imports Python_Args
begin

text \<open>
  The obligations of \<open>src/python/archspec_inspect/_native.cc\<close> towards the interpreter: every new
  reference is released once and not used afterwards, and the C API is called only while the global
  interpreter lock is held. The code of \<open>parse_categories\<close> and \<open>collect_json\<close> is followed once more,
  with the calls that matter as a list of events.
\<close>

section \<open>References\<close>

text \<open>
  The new references of \<open>parse_categories\<close>: the iterator and the item of each turn of its loop. Two
  turns may hand out the same object; the references are different.
\<close>

datatype py_reference = Iterator_ref | Item_ref nat

datatype py_event = Acquire py_reference | Access py_reference | Release py_reference

text \<open>
  The turn number \<open>i\<close> of the loop. \<open>PyIter_Next\<close> uses the iterator; \<open>PyUnicode_Check\<close>,
  \<open>PyUnicode_AsUTF8\<close> and the reading of the characters in \<open>parse_category_name\<close> use the item.
\<close>

fun consume_items ::
    "nat \<Rightarrow> collect_category \<Rightarrow> py_item list \<Rightarrow> py_event list \<times> (py_error + collect_category)" where
  "consume_items i cats [] = ([Access Iterator_ref], Inr cats)"
| "consume_items i cats (Item_other # items) =
     ([Access Iterator_ref, Acquire (Item_ref i), Access (Item_ref i),
       Release (Item_ref i), Release Iterator_ref],
      Inl (Type_error ''each category must be a string''))"
| "consume_items i cats (Item_text Not_encodable # items) =
     ([Access Iterator_ref, Acquire (Item_ref i), Access (Item_ref i), Access (Item_ref i),
       Release (Item_ref i), Release Iterator_ref],
      Inl Encode_error)"
| "consume_items i cats (Item_text (Utf8 name) # items) =
     (let turn = [Access Iterator_ref, Acquire (Item_ref i), Access (Item_ref i), Access (Item_ref i),
            Access (Item_ref i)]
      in (case parse_category_name (c_str name) cats of
            Inl err \<Rightarrow> (turn @ [Release (Item_ref i), Release Iterator_ref], Inl err)
          | Inr cats' \<Rightarrow>
              (let rest = consume_items (Suc i) cats' items
               in (turn @ [Release (Item_ref i)] @ fst rest, snd rest))))"

definition traced_parse_categories :: "py_value \<Rightarrow> py_event list \<times> (py_error + collect_category)" where
  "traced_parse_categories v = (case v of
       Py_None \<Rightarrow> ([], Inr cat_all)
     | Py_text Not_encodable \<Rightarrow> ([], Inl Encode_error)
     | Py_text (Utf8 txt) \<Rightarrow> ([], parse_names cat_none (split_commas (c_str txt)))
     | Py_other \<Rightarrow> ([], Inl (Type_error ''categories must be a string, iterable of strings, or None''))
     | Py_iterable items raises \<Rightarrow>
         (let loop = consume_items 0 cat_none items
          in (case snd loop of
                Inl err \<Rightarrow> (Acquire Iterator_ref # fst loop, Inl err)
              | Inr cats \<Rightarrow>
                  (Acquire Iterator_ref # fst loop @ [Release Iterator_ref],
                   if raises then Inl Iteration_error
                   else if cats = cat_none then Inl (Value_error ''categories must not be empty'')
                   else Inr cats))))"

text \<open>
  What a list of events does to the references that are held: \<open>None\<close> when a reference that is not
  held is used or released, or one that is held is handed out again.
\<close>

fun held_after :: "py_reference set \<Rightarrow> py_event list \<Rightarrow> py_reference set option" where
  "held_after held [] = Some held"
| "held_after held (Acquire r # es) = (if r \<in> held then None else held_after (insert r held) es)"
| "held_after held (Access r # es) = (if r \<in> held then held_after held es else None)"
| "held_after held (Release r # es) = (if r \<in> held then held_after (held - {r}) es else None)"

lemma held_after_append:
  "held_after held (xs @ ys) = (case held_after held xs of None \<Rightarrow> None | Some held' \<Rightarrow> held_after held' ys)"
  by (induction held xs rule: held_after.induct) auto

lemma item_released [simp]:
  "{Item_ref i, Iterator_ref} - {Item_ref i} = {Iterator_ref}"
  "{Iterator_ref, Item_ref i} - {Item_ref i} = {Iterator_ref}"
  by auto

text \<open>A loop that starts with the iterator held keeps it on success and has released it on failure.\<close>

lemma consume_items_held:
  "held_after {Iterator_ref} (fst (consume_items i cats items)) =
     Some (case snd (consume_items i cats items) of Inl err \<Rightarrow> {} | Inr cats' \<Rightarrow> {Iterator_ref})"
proof (induction i cats items rule: consume_items.induct)
  case (4 i cats name items)
  then show ?case
    by (cases "parse_category_name (c_str name) cats") (simp_all add: Let_def)
qed simp_all

lemma consume_items_result: "snd (consume_items i cats items) = parse_items cats items"
  by (induction i cats items rule: consume_items.induct) (simp_all add: Let_def split: sum.split)

lemma references_balanced: "held_after {} (fst (traced_parse_categories v)) = Some {}"
proof (cases v)
  case (Py_text t)
  then show ?thesis by (cases t) (simp_all add: traced_parse_categories_def)
next
  case (Py_iterable items raises)
  then show ?thesis using consume_items_held [of 0 cat_none items]
    by (auto simp: traced_parse_categories_def Let_def held_after_append split: sum.split)
qed (simp_all add: traced_parse_categories_def)

lemma traced_result: "snd (traced_parse_categories v) = native_parse_categories v"
  by (auto simp: traced_parse_categories_def native_parse_categories_def consume_items_result Let_def
      split: py_value.split py_text.split sum.split)

section \<open>The interpreter lock\<close>

text \<open>
  \<open>collect_json\<close> releases the lock while it collects. What the collection and the serialisation end
  with is a parameter: the text, or an exception that is (\<open>Throws\<close>) or is not (\<open>Throws_other\<close>) a
  \<open>std::exception\<close>, for instance \<open>std::bad_alloc\<close>.
\<close>

datatype 'a collection_outcome = Collected 'a | Throws string | Throws_other

datatype lock_event = Save_thread | Restore_thread | Api_call

text \<open>
  The exception leaves the block between \<open>Py_BEGIN_ALLOW_THREADS\<close> and \<open>Py_END_ALLOW_THREADS\<close>, so
  the second macro does not run before the handler.
\<close>

definition traced_collect :: "string collection_outcome \<Rightarrow> lock_event list \<times> (py_error + string)" where
  "traced_collect outcome = (case outcome of
       Collected result \<Rightarrow> ([Save_thread, Restore_thread, Api_call], unicode_from_bytes result)
     | Throws what \<Rightarrow> ([Save_thread, Api_call], Inl (Runtime_error what))
     | Throws_other \<Rightarrow> ([Save_thread, Api_call], Inl (Runtime_error ''archspec collection failed'')))"

text \<open>Without an exception this is the result of \<open>collect_json\<close>.\<close>

lemma traced_collect_result:
  "collect_json a h = bind_result (py_options a) (\<lambda>options.
     snd (traced_collect (Collected (to_json_report (collect_report options h)))))"
  by (simp add: collect_json_def traced_collect_def)

text \<open>The C API may be called and the thread state be saved with the lock held only.\<close>

fun lock_respected :: "bool \<Rightarrow> lock_event list \<Rightarrow> bool" where
  "lock_respected locked [] = locked"
| "lock_respected locked (Save_thread # es) = (locked \<and> lock_respected False es)"
| "lock_respected locked (Restore_thread # es) = (\<not> locked \<and> lock_respected True es)"
| "lock_respected locked (Api_call # es) = (locked \<and> lock_respected locked es)"

lemma lock_respected_iff:
  "lock_respected True (fst (traced_collect outcome)) \<longleftrightarrow> (\<exists>result. outcome = Collected result)"
  by (cases outcome) (simp_all add: traced_collect_def)

end
