(* ===== verification/Summary_Example.thy ===== *)
theory Summary_Example
  imports Privacy
begin

text \<open>
  The example program \<open>src/examples/summary.cc\<close>: \<open>main\<close> from its arguments and the host to its exit
  code and standard output. It collects three categories with the default options.
\<close>

definition summary_field :: "string \<Rightarrow> any_field \<Rightarrow> string" where
  "summary_field label field = label @ '': '' @
     (if any_valid field then value_text field
      else ''unavailable ('' @ to_string_status (any_status field) @ '')'') @ newline"

definition summary_os :: "os_info \<Rightarrow> string" where
  "summary_os i = ''OS'' @ newline @
     summary_field ''  Kernel name'' (String_field (os_kernel_name i)) @
     summary_field ''  Kernel release'' (String_field (os_kernel_release i)) @
     summary_field ''  Kernel version'' (String_field (os_kernel_version i)) @
     summary_field ''  Machine'' (String_field (os_machine i)) @
     summary_field ''  Hostname'' (String_field (os_hostname i)) @
     summary_field ''  Distro'' (String_field (os_distro_name i)) @
     summary_field ''  Distro version'' (String_field (os_distro_version i)) @
     summary_field ''  Page size'' (U64_field (os_page_size i)) @
     summary_field ''  Word size'' (U64_field (os_word_size i)) @
     summary_field ''  Endianness'' (String_field (os_endianness i))"

definition summary_cpu :: "cpu_info \<Rightarrow> string" where
  "summary_cpu i = newline @ ''CPU'' @ newline @
     ''  Architecture enum: '' @ to_string_arch (cpu_arch i) @ newline @
     summary_field ''  Architecture name'' (String_field (cpu_arch_name i)) @
     summary_field ''  Vendor'' (String_field (cpu_vendor i)) @
     summary_field ''  Brand'' (String_field (cpu_brand i)) @
     summary_field ''  Model name'' (String_field (cpu_model_name i)) @
     summary_field ''  Present CPUs'' (U64_field (cpu_present_cpu_count i)) @
     summary_field ''  Online CPUs'' (U64_field (cpu_online_cpu_count i)) @
     summary_field ''  Possible CPUs'' (U64_field (cpu_possible_cpu_count i)) @
     summary_field ''  Physical address bits'' (U64_field (cpu_physical_address_bits i)) @
     summary_field ''  Virtual address bits'' (U64_field (cpu_virtual_address_bits i)) @
     summary_field ''  Virtualized'' (Bool_field (cpu_is_virtualized i))"

definition summary_memory :: "memory_info \<Rightarrow> string" where
  "summary_memory i = newline @ ''Memory'' @ newline @
     summary_field ''  Total KiB'' (U64_field (mem_total_kb i)) @
     summary_field ''  Free KiB'' (U64_field (mem_free_kb i)) @
     summary_field ''  Available KiB'' (U64_field (mem_available_kb i)) @
     summary_field ''  Buffers KiB'' (U64_field (mem_buffers_kb i)) @
     summary_field ''  Cached KiB'' (U64_field (mem_cached_kb i)) @
     summary_field ''  Swap total KiB'' (U64_field (mem_swap_total_kb i)) @
     summary_field ''  Swap free KiB'' (U64_field (mem_swap_free_kb i)) @
     summary_field ''  Page size bytes'' (U64_field (mem_page_size_bytes i)) @
     summary_field ''  Hugepage size KiB'' (U64_field (mem_hugepage_size_kb i))"

definition print_summary :: "system_info \<Rightarrow> string" where
  "print_summary info = ''ArchSpec Summary'' @ newline @ ''================'' @ newline @ newline @
     summary_os (sys_os_info info) @ summary_cpu (sys_cpu_info info) @
     summary_memory (sys_memory_info info)"

definition summary_options :: collect_options where
  "summary_options = default_options\<lparr>categories := cat_or (cat_or cat_os cat_cpu) cat_memory\<rparr>"

text \<open>The arguments come without the name of the program.\<close>

definition summary_main :: "string list \<Rightarrow> host \<Rightarrow> nat \<times> string" where
  "summary_main args h = (let info = collect_system summary_options h
     in if args \<noteq> [] \<and> hd args = ''--json'' then (0, to_json_system info @ newline)
        else (0, print_summary info))"

section \<open>What the example shows\<close>

lemma summary_selects:
  "has_category (categories summary_options) cat_os" "has_category (categories summary_options) cat_cpu"
  "has_category (categories summary_options) cat_memory"
  by (simp_all add: summary_options_def has_category_or) (simp_all add: has_category_def cat_and_def
      cat_os_def cat_cpu_def cat_memory_def)

text \<open>The summary shows the host name exactly as the options, which are the defaults, allow.\<close>

lemma summary_view:
  assumes "same_view summary_options h h'" "posix_host h"
  shows "summary_main args h = summary_main args h'"
proof -
  have "collect (make_collector summary_options) h = collect (make_collector summary_options) h'"
    by (rule collect_view_cpu) (simp_all add: assms summary_selects)
  then show ?thesis by (simp add: summary_main_def collect_system_def)
qed

text \<open>The three sections are those of the collectors.\<close>

lemma summary_text:
  assumes "args = [] \<or> hd args \<noteq> ''--json''"
  shows "summary_main args h = (0, ''ArchSpec Summary'' @ newline @ ''================'' @ newline @ newline @
     summary_os (collect_os summary_options h) @ summary_cpu (collect_cpu summary_options h) @
     summary_memory (collect_memory summary_options h))"
proof -
  have "summary_main args h = (0, print_summary (collect (make_collector summary_options) h))"
    using assms unfolding summary_main_def collect_system_def Let_def by (metis prod.inject)
  then show ?thesis
    by (simp only: print_summary_def collect_eq collect_options_of_report summary_selects if_True
        system_info.simps)
qed

end
