(* ===== verification/Spec2Isabelle.thy ===== *)
theory Spec2Isabelle
  imports Windows_Build Python_References Summary_Example
begin

text \<open>
  \<^bold>\<open>archspec-inspect\<close> collects facts about a machine (operating system, CPU, caches, memory, devices,
  sensors, firmware) from procfs, sysfs and a few system calls, and prints them as JSON or text. The
  library is \<open>src/include/aview.hh\<close> and \<open>src/src\<close>; \<open>src/tools/archspec-inspect.cc\<close> is the command line
  program and \<open>src/python/archspec_inspect/_native.cc\<close> the Python module on top of it. This development
  models all of this code and proves what it promises to its users.

  \<^bold>\<open>How the parts interact.\<close> Every fact is a \<open>Field\<close>: a value with a flag and a status. A \<open>Collector\<close>
  holds \<open>CollectOptions\<close> (categories, the four roots /proc, /sys, /etc and /dev, and the permissions)
  and calls one \<open>collect_x\<close> per selected category; each of them reads files with the helpers of
  \<open>src/src/internal.hh\<close> and fills a struct of fields. \<open>to_json\<close> and \<open>print_text\<close> turn the result into
  output. The two front ends translate arguments into options.

  \<^bold>\<open>The operating system\<close> is no code of the repository. It is the parameter \<open>host\<close>, a record of the
  answers to the calls the program makes (\<open>Host\<close>; for Windows also \<open>windows_api\<close>): what opening a file
  yields, whether a path exists, the entries of a directory, \<open>uname\<close>, \<open>getifaddrs\<close> and so on, for a
  snapshot that does not change during a collection. Nothing is assumed of it, except in properties
  with the hypothesis \<open>posix_host\<close>: the names in a directory are distinct and have no slash.

  \<^bold>\<open>The theories\<close>, in the order of the code:
  \<^item> \<open>Prelude\<close>: machine types (a \<open>std::uint64_t\<close> is a 64-bit word; a \<open>std::int64_t\<close> the same bits
    read with \<open>sint\<close>), the collections of simplification rules, shared facts.
  \<^item> \<open>Text\<close>, \<open>Numerals\<close>, \<open>Cpu_List\<close>, \<open>Key_Values\<close>, \<open>Host\<close>, \<open>Probing\<close>: \<open>src/src/internal.hh\<close> and the
    helpers that several sources repeat. A \<open>std::map\<close> is an association list under the contract
    \<open>dictionary\<close>; a printer and a parser of numbers that fit together are a \<open>number_codec\<close>; a function
    that reads a field from a file is a \<open>field_reader\<close>; a loop over candidate files is a
    \<open>candidate_loop\<close>. \<open>strtoull\<close> and \<open>strtoll\<close> are written after the C standard.
  \<^item> \<open>Status_Field\<close>, \<open>Records\<close>: \<open>src/include/aview.hh\<close> with the name functions of \<open>src/src/core.cc\<close>; one
    record per struct with its default-initialised value and the list of its fields.
  \<^item> \<open>View\<close>: the contract \<open>collector\<close> of all collectors. A collector returns equal results on hosts
    with the same view (\<open>same_view\<close>: alike below the four roots, except for what the options hide), its
    fields are honest (valid exactly when the status is \<open>ok\<close>), and it ignores the selection.
  \<^item> \<open>Collect_Os\<close> ... \<open>Collect_Platform\<close>: the fourteen collectors, one theory per source file, each with
    an interpretation of \<open>collector\<close> and the lemmas on what it reports.
  \<^item> \<open>Collector\<close>: \<open>src/src/core.cc\<close>, class \<open>Collector\<close>, \<open>collect_system\<close>, \<open>collect_report\<close> and the free
    functions. \<open>collect_eq\<close> says which collector fills which part, and the contracts of the collectors
    add up to \<open>collect_honest\<close>, \<open>collect_view\<close> and \<open>selected_parts\<close>.
  \<^item> \<open>Json_Writer\<close>, \<open>Json_Spec\<close>, \<open>Json_Report\<close>: \<open>src/src/json.cc\<close>. The writer is modelled with its stream
    and its flag; the specification is a decoder written from RFC 8259 alone. A serialiser is a
    \<open>json_encoder\<close>: its text is the compact text of an abstract JSON value, which the decoder reads
    back. Every \<open>to_json\<close> of the source interprets this contract. \<open>Utf8\<close>: an acceptor of UTF-8 after
    RFC 3629; a JSON text is UTF-8 exactly when all its strings are.
  \<^item> \<open>Cli\<close>: \<open>src/tools/archspec-inspect.cc\<close>; \<open>main\<close> is a function from the arguments and the host to
    the exit code and both outputs. \<open>Privacy\<close>: what reports and runs depend on, and the sections of a
    report. \<open>Python_Args\<close>, \<open>Python_References\<close>: the Python module, its results and its obligations
    towards the interpreter. \<open>Summary_Example\<close>: \<open>src/examples/summary.cc\<close>.
  \<^item> \<open>Windows_Build\<close>: the \<open>_WIN32\<close> branches and the contract for them.

  \<^bold>\<open>The properties\<close> C1 to C40 of this theory follow from the lemmas of the components: privacy (C1 to
  C4), the JSON reports and their sections (C5 to C8), numbers and CPU lists (C9 to C12), files and
  their errors (C13 to C15), the text formats of the kernel (C16 to C19), devices, caches and topology
  (C20 to C25), processor features and counters (C26 to C28), power, firmware, network and
  virtualization (C29 to C33), the front ends (C34 to C39) and JSON strings (C40). The witness of a
  property with hypotheses applies it to one of the hosts of the first section.

  \<^bold>\<open>Termination and bounds.\<close> All loops of the program are structural recursions or have a termination
  proof. Only the decoder of the specification counts its steps: \<open>decode s\<close> has \<open>2 * length s + 2\<close> of
  them, and \<open>Json_Spec\<close> proves that every printed value is decoded within this bound. Sizes, counts
  and identifiers are words of the width of the source, so the guards against overflow are part of
  the model; the length of a string or list is a natural number.

  \<^bold>\<open>Not modelled.\<close> The module tables and \<open>PyArg_ParseTupleAndKeywords\<close> of the Python module, since they
  only pass data to the C API; exceptions for lack of memory, except for what
  \<open>collect_json\<close> does with them (\<open>traced_collect\<close>); whether \<open>perf_event_open\<close> was called, as opposed
  to what it answered; the prefix 0b, which the newest C standard allows for base 0; changes
  of the files during a collection; the Python wrapper, tests, build files and documents.
\<close>

section \<open>Hosts for the examples\<close>

text \<open>A host on which every call fails, and one whose hidden data is a given text.\<close>

definition quiet_host :: host where
  "quiet_host = \<lparr>host_open = (\<lambda>p. Not_open), host_exists = (\<lambda>p. (False, Some ENOENT)),
     host_is_dir = (\<lambda>p. False), host_dir = (\<lambda>p. None), host_symlink = (\<lambda>p. None),
     host_access_rw = (\<lambda>p. False), host_uname = None, host_page_size = 4096,
     host_pointer_bytes = 8, host_little_endian = True, host_hw_threads = 2,
     host_perf_open = (\<lambda>c. Some EACCES), host_ifaddrs = None, host_stale_arch = Arch_unknown\<rparr>"

definition secret_host :: "string \<Rightarrow> host" where
  "secret_host s = quiet_host\<lparr>
     host_open := (\<lambda>p. if p = ''/proc/cmdline'' \<or> p = ''/sys/class/net/eth0/address'' then Opened s False
                       else Not_open),
     host_is_dir := (\<lambda>p. p = ''/sys/class/net/eth0''),
     host_dir := (\<lambda>p. if p = ''/sys/class/net'' then Some [''eth0''] else None),
     host_uname := Some \<lparr>sysname = ''Linux'', nodename = s, release = ''6.1'', version = ''1'', machine = ''x86_64''\<rparr>,
     host_ifaddrs := Some [(''eth0'', Inet (Some s))]\<rparr>"

text \<open>A Windows machine with a given computer name.\<close>

definition windows_named :: "string \<Rightarrow> windows_api" where
  "windows_named s = \<lparr>win_target = Target_x64, win_processor = Processor_amd64,
     win_computer_name = Some s, win_page_size = 4096, win_memory = Some (17179869184, 8589934592)\<rparr>"

text \<open>A host with one file.\<close>

definition file_host :: "string \<Rightarrow> string \<Rightarrow> host" where
  "file_host path content = quiet_host\<lparr>
     host_open := (\<lambda>p. if p = path then Opened content False else Not_open)\<rparr>"

text \<open>A host with a display controller on the PCI bus, and one with two CPUs on one core.\<close>

definition gpu_host :: host where
  "gpu_host = quiet_host\<lparr>
     host_open := (\<lambda>p. if p = ''/sys/bus/pci/devices/0000:01:00.0/class''
                       then Opened (''0x030000'' @ [CHR 0x0A]) False else Not_open),
     host_dir := (\<lambda>p. if p = ''/sys/bus/pci/devices'' then Some [''0000:01:00.0'', ''0000:00:00.0''] else None)\<rparr>"

definition cpu_host :: host where
  "cpu_host = quiet_host\<lparr>
     host_open := (\<lambda>p. if p \<in> {''/sys/devices/system/cpu/cpu0/topology/core_id'',
                             ''/sys/devices/system/cpu/cpu0/topology/physical_package_id'',
                             ''/sys/devices/system/cpu/cpu1/topology/core_id'',
                             ''/sys/devices/system/cpu/cpu1/topology/physical_package_id''}
                       then Opened (''0'' @ [CHR 0x0A]) False else Not_open),
     host_dir := (\<lambda>p. if p = ''/sys/devices/system/cpu'' then Some [''cpu1'', ''cpu0'', ''cpufreq''] else None)\<rparr>"

lemma quiet_posix: "posix_host quiet_host"
  by (simp add: posix_host_def quiet_host_def)

lemma secret_posix: "posix_host (secret_host s)"
  by (simp add: posix_host_def secret_host_def quiet_host_def)

lemma gpu_posix: "posix_host gpu_host"
  by (simp add: posix_host_def gpu_host_def quiet_host_def)

lemma secret_view: "\<not> include_sensitive opts \<Longrightarrow> same_view opts (secret_host s) (secret_host t)"
  by (auto simp: same_view_def same_file_view_def secret_host_def quiet_host_def sensitive_name_def
      file_name_def)

lemma file_host_read: "read_file (file_host p s) p = \<lparr>rr_status = ok, rr_value = s\<rparr>"
  by (rule read_file_opened [of _ _ _ False]) (simp add: file_host_def)

lemma file_host_line:
  "CHR 0x0A \<notin> set l \<Longrightarrow> read_first_line (file_host p (l @ [CHR 0x0A])) p = \<lparr>rr_status = ok, rr_value = l\<rparr>"
  by (rule read_first_line_line [of _ _ _ "[]" False]) (simp_all add: file_host_def)

lemma cpuinfo_host_read:
  "read_file (file_host ''/proc/cpuinfo'' s) (proc_path cli_options ''/cpuinfo'') = \<lparr>rr_status = ok, rr_value = s\<rparr>"
proof -
  have "proc_path cli_options ''/cpuinfo'' = ''/proc/cpuinfo''" by code_simp
  then show ?thesis by (simp add: file_host_read)
qed

section \<open>Privacy\<close>

text \<open>
  C1. What the options hide has no influence on a report: on two hosts that answer alike below the
  four roots, except for the hidden files, the host name, the interface addresses and the counters
  that may not be probed, the JSON reports are equal byte for byte.
\<close>

theorem report_reveals_nothing_hidden:
  assumes "same_view opts h h'" "posix_host h"
  shows "to_json_report (collect_report opts h) = to_json_report (collect_report opts h')"
  by (rule report_view(1) [OF assms])

theorem report_reveals_nothing_hidden_witness:
  "to_json_report (collect_report cli_options (secret_host ''alice'')) =
   to_json_report (collect_report cli_options (secret_host ''bob''))"
  by (rule report_reveals_nothing_hidden [OF secret_view secret_posix]) (simp add: cli_options_def)

text \<open>
  C2. The command line program redacts by default: without the flag \<open>--include-sensitive\<close> among its
  arguments, its exit code and both its outputs, in either format, are the same on hosts that
  differ in hidden data only.
\<close>

theorem command_line_redacts_by_default:
  assumes "differ_in_hidden h h'" "posix_host h" "''--include-sensitive'' \<notin> set args"
  shows "main_program args h = main_program args h'"
  by (rule main_program_view [OF assms])

theorem command_line_redacts_by_default_witness:
  "main_program [''--json'', ''--categories'', ''os,net''] (secret_host ''alice'') =
   main_program [''--json'', ''--categories'', ''os,net''] (secret_host ''bob'')"
  by (rule command_line_redacts_by_default)
    (simp_all add: differ_in_hidden_def secret_view secret_posix)

text \<open>
  C3. Without \<open>include_sensitive\<close> the host name, the kernel command line and the hardware and IP
  addresses of every interface carry the status \<open>redacted\<close> and no value.
\<close>

theorem sensitive_fields_redacted:
  assumes "\<not> include_sensitive opts"
  shows "os_hostname (collect_os opts h) = unavailable redacted \<and>
    os_cmdline (collect_os opts h) = unavailable redacted \<and>
    (\<forall>n \<in> set (collect_net opts h). net_mac_address n = unavailable redacted \<and>
       net_ipv4_addresses n = unavailable redacted \<and> net_ipv6_addresses n = unavailable redacted)"
  using collect_os_redacts [OF assms] collect_net_redacts [OF assms] by blast

theorem sensitive_fields_redacted_witness:
  "os_hostname (collect_os cli_options (secret_host ''bob'')) = unavailable redacted"
  using sensitive_fields_redacted [of cli_options "secret_host ''bob''"] by (simp add: cli_options_def)

text \<open>
  C4. The Windows build keeps the same promise: hosts that answer alike to what it may use, with
  the same answers of the Windows API except for a computer name that the options hide, give the
  same JSON report, and every field of the collection is valid exactly when its status is \<open>ok\<close>.
\<close>

theorem windows_report_reveals_nothing_hidden:
  assumes "same_windows_view opts w w'" "same_view opts h h'" "posix_host h"
  shows "to_json_report (windows_collect_report w opts h) = to_json_report (windows_collect_report w' opts h') \<and>
    all_honest (system_fields (windows_collect w (make_collector opts) h))"
  using windows_report_view(1) [OF assms] windows_collect_honest by blast

theorem windows_report_reveals_nothing_hidden_witness:
  "to_json_report (windows_collect_report (windows_named ''ALICE'') cli_options (secret_host ''alice'')) =
   to_json_report (windows_collect_report (windows_named ''BOB'') cli_options (secret_host ''bob''))"
proof -
  have "same_windows_view cli_options (windows_named ''ALICE'') (windows_named ''BOB'')"
    by (simp add: same_windows_view_def windows_named_def cli_options_def)
  moreover have "same_view cli_options (secret_host ''alice'') (secret_host ''bob'')"
    by (rule secret_view) (simp add: cli_options_def)
  ultimately show ?thesis using windows_report_reveals_nothing_hidden secret_posix by blast
qed

section \<open>Reports\<close>

text \<open>
  C5. Every report is a JSON text, and decoding it gives back the version of the schema, the
  producer, and for each selected category its section under its name; the list of collected
  categories names exactly these sections, in the same order.
\<close>

theorem report_decodes:
  "\<exists>sections. decode (to_json_report r) = Some (JObj [
       (''schema_version'', JStr ''1.0.0''),
       (''producer'', JObj [(''name'', JStr ''archspec-inspect''), (''version'', JStr ''0.2.0'')]),
       (''collected_categories'', JArr (map (\<lambda>s. JStr (fst s)) sections)),
       (''data'', JObj sections)]) \<and>
     sections = data_members r"
  using report_json.decode_encode [of r] data_keys [of r, symmetric]
  by (simp add: report_value_def report_schema_version_def lib_version_def comp_def)

text \<open>
  C6. The text of a whole system, with all fourteen parts, decodes to the value of those parts, so
  two systems with the same text have the same values.
\<close>

theorem system_json_decodes:
  "decode (to_json_system info) = Some (system_value info) \<and>
   (to_json_system info = to_json_system info' \<longleftrightarrow> system_value info = system_value info')"
  using system_json.decode_encode system_json.encode_eq_iff by blast

text \<open>
  C7. A field is valid exactly when its status is \<open>ok\<close>, for every field of every struct and list
  that a collection delivers, whatever the host answers.
\<close>

theorem every_field_honest:
  "list_all (\<lambda>(k, f). any_valid f = (any_status f = ok)) (system_fields (collect_system opts h))"
proof -
  have "any_honest f \<Longrightarrow> any_valid f = (any_status f = ok)" for f
    by (cases f) (simp_all add: honest_def)
  then show ?thesis
    using collect_honest [of "make_collector opts" h]
    by (auto simp: collect_system_def all_honest_def list_all_iff)
qed

text \<open>
  C8. Selecting more or fewer categories never changes a section: a category that is selected has
  a section, which is the same whatever else is selected, and one that is not selected has none.
\<close>

theorem sections_do_not_depend_on_selection:
  assumes "(c, n) \<in> set category_table" "has_category A c"
  shows "map_of (data_members (collect_report (opts\<lparr>categories := A\<rparr>) h)) n \<noteq> None \<and>
    map_of (data_members (collect_report (opts\<lparr>categories := B\<rparr>) h)) n =
      (if has_category B c then map_of (data_members (collect_report (opts\<lparr>categories := A\<rparr>) h)) n else None)"
proof -
  have "categories (opts\<lparr>categories := X\<rparr>) = X" for X by simp
  then show ?thesis
    using section_found [OF assms(1)] section_any_selection [OF assms, of B opts h] assms(2)
    unfolding report_section [OF assms(1)] by presburger
qed

theorem sections_do_not_depend_on_selection_witness:
  "map_of (data_members (collect_report (default_options\<lparr>categories := cat_or cat_os cat_cpu\<rparr>) quiet_host)) ''os'' =
   map_of (data_members (collect_report (default_options\<lparr>categories := cat_os\<rparr>) quiet_host)) ''os''"
proof -
  have "(cat_os, ''os'') \<in> set category_table" "has_category cat_os cat_os"
    "has_category (cat_or cat_os cat_cpu) cat_os"
    by (simp_all add: category_table_def has_category_or) (simp_all add: cat_os_def has_category_def cat_and_def)
  from sections_do_not_depend_on_selection [OF this(1,2), of default_options quiet_host "cat_or cat_os cat_cpu"] this(3)
  show ?thesis by simp
qed

section \<open>Numbers\<close>

text \<open>
  C9. \<open>parse_u64\<close> accepts exactly the texts that, between white space, are a decimal, octal (leading
  0) or hexadecimal (leading 0x) numeral with an optional plus sign and a value below \<open>2^64\<close>, and
  returns that value. The text has no NUL.
\<close>

theorem parse_u64_accepts:
  assumes "CHR 0x00 \<notin> set s"
  shows "parse_u64 s = Some v \<longleftrightarrow> u64_text (trim s) (unat v)"
  by (rule parse_u64_iff [OF assms])

theorem parse_u64_accepts_witness: "parse_u64 '' 0x1F '' = Some 31"
proof -
  have "numeral_text ''0x1F'' 31"
    using numeral_text.hex [of "''1F''" "CHR ''x''"]
    by (simp add: is_digit_in_def digit_value_def digits_to_nat_def)
  moreover have "trim '' 0x1F '' = ''0x1F''" by code_simp
  ultimately have "u64_text (trim '' 0x1F '') (unat (31 :: u64))" by (auto simp: u64_text_def)
  then show ?thesis using parse_u64_accepts [of "'' 0x1F ''" 31] by simp
qed

text \<open>
  C10. \<open>parse_i64\<close> accepts exactly the numerals with an optional sign whose value lies between
  \<open>-2^63\<close> and \<open>2^63 - 1\<close>, and returns that value.
\<close>

theorem parse_i64_accepts:
  assumes "CHR 0x00 \<notin> set s"
  shows "parse_i64 s = Some v \<longleftrightarrow> i64_text (trim s) (sint v)"
  by (rule parse_i64_iff [OF assms])

theorem parse_i64_accepts_witness: "parse_i64 ''-12'' = Some (- 12)"
proof -
  have "numeral_text ''12'' 12"
    using numeral_text.decimal [of "''12''"]
    by (simp add: is_digit_in_def digit_value_def digits_to_nat_def)
  moreover have "trim ''-12'' = ''-12''" by code_simp
  moreover have "sint (- 12 :: i64) = - 12" by simp
  ultimately have "i64_text (trim ''-12'') (sint (- 12 :: i64))" by (fastforce simp: i64_text_def)
  then show ?thesis using parse_i64_accepts [of "''-12''" "- 12"] by simp
qed

text \<open>
  C11. \<open>parse_size_bytes\<close> multiplies decimal digits with the factor that their suffix names, in
  either case; a product that does not fit into 64 bits is refused, never wrapped around.
\<close>

theorem size_exact:
  assumes "trim s = ds @ rest" "CHR 0x00 \<notin> set s" "ds \<noteq> []" "list_all (is_digit_in 10) ds"
    "rest = [] \<or> \<not> is_digit_in 10 (hd rest)" "size_multiplier (map tolower (trim rest)) = Some m"
  shows "if digits_to_nat 10 ds * unat m \<le> 18446744073709551615
    then \<exists>w. parse_size_bytes s = Some w \<and> unat w = digits_to_nat 10 ds * unat m
    else parse_size_bytes s = None"
  using parse_size_scaled [OF assms] unat_word_of_nat_small [where 'a = 64 and n = "digits_to_nat 10 ds * unat m"]
  by (simp del: of_nat_mult)

theorem size_exact_witness: "\<exists>w. parse_size_bytes ''512K'' = Some w \<and> unat w = 524288"
proof -
  have s: "trim ''512K'' = ''512'' @ ''K''" by code_simp
  have d: "list_all (is_digit_in 10) ''512''" "\<not> is_digit_in 10 (hd ''K'')" by code_simp+
  have m: "size_multiplier (map tolower (trim ''K'')) = Some 1024" by code_simp
  have n: "digits_to_nat 10 ''512'' = 512" by code_simp
  show ?thesis using size_exact [OF s _ _ d(1) _ m] d(2) by (simp add: n)
qed

text \<open>
  C12. The count of a kernel CPU list is the number of CPUs it names, for lists of numbers and
  ranges that do not overlap; a reversed range makes the whole list invalid.
\<close>

theorem cpu_list_counts_cpus:
  assumes "items \<noteq> []" "disjoint_items items" "sum_list (map item_count items) \<le> 18446744073709551615"
  shows "if list_all item_ok items
    then \<exists>n. cpu_list_count (show_items items) = Some n \<and> unat n = card (\<Union>i \<in> set items. item_cpus i)
    else cpu_list_count (show_items items) = None"
  using cpu_list_count_items [OF assms(1)] card_items [OF _ assms(2)] assms(3)
  by (simp add: list_all_iff unat_word_of_nat_small)

theorem cpu_list_counts_cpus_witness:
  "\<exists>n. cpu_list_count (show_items [Cpus 0 3, Cpu 8]) = Some n \<and>
     unat n = card (\<Union>i \<in> set [Cpus 0 3, Cpu 8]. item_cpus i)"
  using cpu_list_counts_cpus [of "[Cpus 0 3, Cpu 8]"] by simp

section \<open>Files\<close>

text \<open>
  C13. A numeric field that is read with a factor (the sectors of a disk with 512) holds the exact
  product, or is a parse error when that does not fit into 64 bits.
\<close>

theorem scaled_field_exact:
  assumes "read_first_line h p = \<lparr>rr_status = ok, rr_value = line\<rparr>" "parse_u64 line = Some v" "m \<noteq> 0"
  shows "if unat v * unat m \<le> 18446744073709551615
    then \<exists>w. read_u64_field h p m = field_value w \<and> unat w = unat v * unat m
    else read_u64_field h p m = unavailable parse_error"
  by (rule read_u64_scaled [OF assms])

theorem scaled_field_exact_witness:
  "\<exists>w. read_u64_field (file_host ''/sys/block/sda/size'' (''1000'' @ [CHR 0x0A])) ''/sys/block/sda/size'' 512 =
     field_value w \<and> unat w = 512000"
proof -
  let ?h = "file_host ''/sys/block/sda/size'' (''1000'' @ [CHR 0x0A])"
  have "read_first_line ?h ''/sys/block/sda/size'' = \<lparr>rr_status = ok, rr_value = ''1000''\<rparr>"
    by (rule file_host_line) simp
  moreover have "to_string_u64 1000 = ''1000''" by code_simp
  then have "parse_u64 ''1000'' = Some 1000" using u64_codec.parse_padded [of "[]" "[]" 1000] by simp
  ultimately show ?thesis using scaled_field_exact [of ?h "''/sys/block/sda/size''" "''1000''" 1000 512] by simp
qed

text \<open>
  C14. A file that can not be opened is never reported as \<open>ok\<close> and never as a value: it is
  \<open>not_found\<close> when it does not exist, \<open>perm_denied\<close> when it exists or may not be looked up, and an
  internal error otherwise. All functions that open a file agree on the status: the two that return
  text and the six that return a field.
\<close>

theorem missing_file_statuses:
  assumes "host_open h p = Not_open"
  shows "read_file h p = \<lparr>rr_status = status_for_path_error h p, rr_value = []\<rparr> \<and>
    read_first_line h p = \<lparr>rr_status = status_for_path_error h p, rr_value = []\<rparr> \<and>
    read_string_field h p t = unavailable (status_for_path_error h p) \<and>
    read_u32_field h p = unavailable (status_for_path_error h p) \<and>
    read_u64_field h p m = unavailable (status_for_path_error h p) \<and>
    read_i64_field h p = unavailable (status_for_path_error h p) \<and>
    read_size_bytes_field h p = unavailable (status_for_path_error h p) \<and>
    read_cpu_list_count_field h p = unavailable (status_for_path_error h p) \<and>
    status_for_path_error h p =
      (if fst (host_exists h p) \<or> snd (host_exists h p) \<in> {Some EACCES, Some EPERM} then perm_denied
       else if snd (host_exists h p) \<in> {None, Some ENOENT, Some ENOTDIR} then not_found
       else internal_error)"
proof -
  have "status_for_path_error h p =
      (if fst (host_exists h p) \<or> snd (host_exists h p) \<in> {Some EACCES, Some EPERM} then perm_denied
       else if snd (host_exists h p) \<in> {None, Some ENOENT, Some ENOTDIR} then not_found
       else internal_error)"
    by (cases "host_exists h p") (auto simp: status_for_path_error_def)
  moreover have "read_file h p = \<lparr>rr_status = status_for_path_error h p, rr_value = []\<rparr>"
    "read_first_line h p = \<lparr>rr_status = status_for_path_error h p, rr_value = []\<rparr>"
    using assms by (simp_all add: read_file_def read_first_line_def)
  ultimately show ?thesis
    by (intro conjI string_reader.missing_file [OF assms] u32_reader.missing_file [OF assms]
        u64_reader.missing_file [OF assms] i64_reader.missing_file [OF assms]
        size_reader.missing_file [OF assms] cpu_list_reader.missing_file [OF assms])
qed

theorem missing_file_statuses_witness:
  "read_u32_field quiet_host ''/sys/x'' = unavailable not_found"
  using missing_file_statuses [of quiet_host "''/sys/x''" True 1] by (simp add: quiet_host_def)

text \<open>
  C15. \<open>read_file\<close> and \<open>read_first_line\<close> treat an error while reading differently: a file that opens
  is delivered by \<open>read_file\<close> with the status \<open>ok\<close> and whatever bytes came before the error, while
  \<open>read_first_line\<close> reports an internal error when the error hits the first line.
\<close>

theorem read_errors:
  assumes "host_open h p = Opened content True" "CHR 0x0A \<notin> set content"
  shows "read_file h p = \<lparr>rr_status = ok, rr_value = content\<rparr> \<and>
    read_first_line h p = \<lparr>rr_status = internal_error, rr_value = []\<rparr>"
  using assms read_file_opened [OF assms(1)]
  by (simp add: read_first_line_def getline_file_def Let_def)

theorem read_errors_witness:
  "rr_status (read_file (quiet_host\<lparr>host_open := (\<lambda>p. Opened ''Mem'' True)\<rparr>) ''/proc/meminfo'') = ok"
  using read_errors [of "quiet_host\<lparr>host_open := (\<lambda>p. Opened ''Mem'' True)\<rparr>" "''/proc/meminfo''" "''Mem''"]
  by simp

section \<open>Texts of the kernel\<close>

text \<open>
  C16. A text of \<open>key : value\<close> blocks, as procfs prints /proc/cpuinfo, is read back block by block, with
  every entry under its key and in order.
\<close>

theorem colon_blocks_read_back:
  assumes "list_all block_printable bl"
  shows "parse_colon_blocks (concat (map show_block bl)) = bl"
  using parse_show_blocks [of bl] assms by (simp add: list_all_iff)

theorem colon_blocks_read_back_witness:
  "parse_colon_blocks (concat (map show_block
     [[(''processor'', ''0''), (''model name'', ''Some CPU: v2'')], [(''processor'', ''1'')]])) =
   [[(''processor'', ''0''), (''model name'', ''Some CPU: v2'')], [(''processor'', ''1'')]]"
  by (rule colon_blocks_read_back) code_simp

text \<open>
  C17. Whatever the text, every block that \<open>parse_colon_blocks\<close> returns has an entry, no key twice, and
  keys and values without white space at their ends.
\<close>

theorem colon_blocks_wellformed:
  "list_all (\<lambda>b. b \<noteq> [] \<and> distinct (map fst b) \<and>
     list_all (\<lambda>e. trim (fst e) = fst e \<and> trim (snd e) = snd e \<and> CHR '':'' \<notin> set (fst e)) b)
   (parse_colon_blocks txt)"
proof -
  have "distinct (map fst b) \<and>
      list_all (\<lambda>e. trim (fst e) = fst e \<and> trim (snd e) = snd e \<and> CHR '':'' \<notin> set (fst e)) b" if "block_ok b" for b
    using that by (auto simp: block_ok_def list_all_iff)
  then show ?thesis
    using parse_colon_blocks_ok [of _ "txt"] unfolding list_all_iff [of _ "parse_colon_blocks txt"] by blast
qed

text \<open>
  C18. An os-release file with double-quoted values, written with a backslash before each special
  character, is reported as it was meant: the last assignment of a key counts, an empty value
  counts as missing, and the pretty name is preferred to the name.
\<close>

theorem os_release_read_back:
  assumes "list_all assignment_printable es" "CHR 0x5C \<in> E" "CHR 0x0A \<notin> E"
    "host_open h (etc_path opts ''/os-release'') =
       Opened (concat (map (\<lambda>e. show_assignment E e @ [CHR 0x0A]) es)) fails"
  shows "let entry = (\<lambda>k. case map_of (rev es) k of None \<Rightarrow> [] | Some v \<Rightarrow> v);
      field = (\<lambda>v. if v = [] then unavailable not_found else field_value v)
    in os_distro_id (collect_os opts h) = field (entry ''ID'') \<and>
      os_distro_name (collect_os opts h) =
        field (if entry ''PRETTY_NAME'' = [] then entry ''NAME'' else entry ''PRETTY_NAME'') \<and>
      os_distro_version (collect_os opts h) =
        field (if entry ''VERSION_ID'' = [] then entry ''VERSION'' else entry ''VERSION_ID'')"
proof -
  let ?m = "foldl (\<lambda>m (k, v). AList.update k v m) [] es"
  have parsed: "parse_os_release (concat (map (\<lambda>e. show_assignment E e @ [CHR 0x0A]) es)) = ?m"
    using parse_os_release_show assms by (simp add: list_all_iff)
  have entry: "map_of ?m k = map_of (rev es) k" for k
    using std_map.lookup_puts [of "[]" es k] by (simp split: option.split)
  have read: "read_file h (etc_path opts ''/os-release'') =
      \<lparr>rr_status = ok, rr_value = concat (map (\<lambda>e. show_assignment E e @ [CHR 0x0A]) es)\<rparr>"
    using read_file_opened [OF assms(4)] by simp
  have val: "map_value ?m k = (case map_of (rev es) k of None \<Rightarrow> None | Some v \<Rightarrow> if v = [] then None else Some v)" for k
    by (simp add: map_value_def entry)
  show ?thesis
    by (simp add: Let_def collect_os_def os_common_fields_def distro_fields_def read parsed os_release_field_def val
        split: option.split)
qed

theorem os_release_read_back_witness:
  "os_distro_name (collect_os cli_options (file_host ''/etc/os-release''
     (concat (map (\<lambda>e. show_assignment {CHR 0x5C, CHR 0x22} e @ [CHR 0x0A])
       [(''NAME'', ''Linux''), (''PRETTY_NAME'', ''A '' @ [CHR 0x22] @ ''big'' @ [CHR 0x22] @ '' one'')])))) =
   field_value (''A '' @ [CHR 0x22] @ ''big'' @ [CHR 0x22] @ '' one'')"
proof -
  let ?es = "[(''NAME'', ''Linux''), (''PRETTY_NAME'', ''A '' @ [CHR 0x22] @ ''big'' @ [CHR 0x22] @ '' one'')]"
  have "list_all assignment_printable ?es" by code_simp
  moreover have "etc_path cli_options ''/os-release'' = ''/etc/os-release''" by code_simp
  ultimately show ?thesis
    using os_release_read_back [of ?es "{CHR 0x5C, CHR 0x22}" _ cli_options False]
    by (simp add: file_host_def Let_def)
qed

text \<open>
  C19. The ten fields that are read from /proc/meminfo hold the numbers that the file gives for their
  names, the last one of a name; a name that the file lacks is \<open>not_found\<close>.
\<close>

theorem meminfo_read_back:
  assumes "list_all meminfo_printable es"
    "host_open h (proc_path opts ''/meminfo'') = Opened (concat (map (\<lambda>e. show_meminfo e @ [CHR 0x0A]) es)) fails"
  shows "let entry = (\<lambda>k. case map_of (rev es) k of None \<Rightarrow> unavailable not_found | Some v \<Rightarrow> field_value v);
      m = collect_memory opts h
    in map (\<lambda>f. f m) [mem_total_kb, mem_free_kb, mem_available_kb, mem_buffers_kb, mem_cached_kb,
        mem_swap_total_kb, mem_swap_free_kb, mem_hugepage_size_kb, mem_hugepages_total, mem_hugepages_free] =
      map entry [''MemTotal'', ''MemFree'', ''MemAvailable'', ''Buffers'', ''Cached'',
        ''SwapTotal'', ''SwapFree'', ''Hugepagesize'', ''HugePages_Total'', ''HugePages_Free'']"
proof -
  have "read_file h (proc_path opts ''/meminfo'') =
      \<lparr>rr_status = ok, rr_value = concat (map (\<lambda>e. show_meminfo e @ [CHR 0x0A]) es)\<rparr>"
    using read_file_opened [OF assms(2)] by simp
  then show ?thesis
    using meminfo_field_show [of es] assms(1) by (simp add: list_all_iff collect_memory_def sysfs_memory_fields_def meminfo_fields_def)
qed

theorem meminfo_read_back_witness:
  "mem_free_kb (collect_memory cli_options (file_host ''/proc/meminfo''
     (concat (map (\<lambda>e. show_meminfo e @ [CHR 0x0A]) [(''MemTotal'', 2048), (''MemFree'', 1024)])))) = field_value 1024"
proof -
  have "list_all meminfo_printable [(''MemTotal'', 2048), (''MemFree'', 1024)]" by code_simp
  moreover have "proc_path cli_options ''/meminfo'' = ''/proc/meminfo''" by code_simp
  ultimately show ?thesis
    using meminfo_read_back [of "[(''MemTotal'', 2048), (''MemFree'', 1024)]" _ cli_options False]
    by (simp add: file_host_def Let_def)
qed

section \<open>Devices\<close>

text \<open>
  C20. The lists of PCI devices, disks, network interfaces and thermal zones are complete and have no
  entry twice: their names are exactly the entries of the sysfs directory that pass the test of the
  collector, in strictly ascending order.
\<close>

theorem device_lists_complete:
  assumes "posix_host h"
  shows "lists_entries h (sys_path opts ''/bus/pci/devices'')
      (\<lambda>n. path_is_dir h (join_path (sys_path opts ''/bus/pci/devices'') n))
      (map (\<lambda>d. val (pci_pci_address d)) (collect_pci opts h)) \<and>
    lists_entries h (sys_path opts ''/block'')
      (\<lambda>n. \<not> is_pseudo_block_device n \<and> path_is_dir h (join_path (sys_path opts ''/block'') n))
      (map (\<lambda>b. val (block_name b)) (collect_block opts h)) \<and>
    lists_entries h (sys_path opts ''/class/net'')
      (\<lambda>n. path_is_dir h (join_path (sys_path opts ''/class/net'') n))
      (map (\<lambda>i. val (net_name i)) (collect_net opts h)) \<and>
    lists_entries h (sys_path opts ''/class/thermal'') (\<lambda>n. starts_with n ''thermal_zone'')
      (map (\<lambda>z. val (zone_name z)) (collect_thermal opts h))"
  unfolding addresses_collect_pci names_collect_block names_collect_net names_collect_thermal
  by (intro conjI lists_entries_filter assms)

theorem device_lists_complete_witness:
  "map (\<lambda>i. val (net_name i)) (collect_net cli_options (secret_host ''alice'')) = [''eth0'']"
proof -
  let ?ns = "map (\<lambda>i. val (net_name i)) (collect_net cli_options (secret_host ''alice''))"
  have p: "sys_path cli_options ''/class/net'' = ''/sys/class/net''"
    "join_path ''/sys/class/net'' ''eth0'' = ''/sys/class/net/eth0''" by code_simp+
  have "sorted_wrt (<) ?ns" "set ?ns = {''eth0''}"
    using device_lists_complete [OF secret_posix, of "''alice''" cli_options]
    by (auto simp: lists_entries_def p secret_host_def path_is_dir_def)
  then show ?thesis by (intro sorted_distinct_set_unique) (simp_all add: strict_sorted_iff)
qed

text \<open>
  C21. Every cache of the host is reported once: no two entries have the same key, every cache
  directory has an entry with its key, and the entries keep the order of the directories.
\<close>

theorem caches_reported_once:
  "distinct (map cache_key (collect_cache opts h)) \<and>
   cache_key ` set (collect_cache opts h) = cache_key ` set (all_caches opts h) \<and>
   subseq (collect_cache opts h) (all_caches opts h)"
  by (rule collect_cache_dedupe)

text \<open>
  C22. No GPU is reported twice, be it found as a DRM card, as a PCI device, or as both.
\<close>

theorem gpus_reported_once:
  assumes "posix_host h"
  shows "distinct (map (\<lambda>g. val (gpu_pci_address g)) (collect_gpu opts h))"
  by (rule distinct_gpu_addresses [OF assms])

theorem gpus_reported_once_witness:
  "distinct (map (\<lambda>g. val (gpu_pci_address g)) (collect_gpu cli_options gpu_host))"
  by (rule gpus_reported_once [OF gpu_posix])

text \<open>
  C23. Every device of the PCI bus whose class says display controller is reported as a GPU, under its
  address.
\<close>

theorem display_devices_reported:
  assumes "a \<in> set (list_dir h (sys_path opts ''/bus/pci/devices''))"
    "is_display_class (read_string_field h
       (join_path (join_path (sys_path opts ''/bus/pci/devices'') a) ''class'') True)"
  shows "\<exists>g. g \<in> set (collect_gpu opts h) \<and> gpu_pci_address g = field_value a"
  using gpu_display_complete [OF assms] by blast

theorem display_devices_reported_witness:
  "\<exists>g. g \<in> set (collect_gpu cli_options gpu_host) \<and> gpu_pci_address g = field_value ''0000:01:00.0''"
proof -
  have root: "sys_path cli_options ''/bus/pci/devices'' = ''/sys/bus/pci/devices''"
    "join_path (join_path ''/sys/bus/pci/devices'' ''0000:01:00.0'') ''class'' = ''/sys/bus/pci/devices/0000:01:00.0/class''"
    by code_simp+
  have "read_first_line gpu_host ''/sys/bus/pci/devices/0000:01:00.0/class'' =
      \<lparr>rr_status = ok, rr_value = ''0x030000''\<rparr>"
    by (rule read_first_line_line [of _ _ _ "[]" False]) (simp_all add: gpu_host_def)
  moreover have "trim ''0x030000'' = ''0x030000''" by code_simp
  ultimately show ?thesis
    by (intro display_devices_reported)
      (simp_all add: root read_string_field_def is_display_class_def starts_with_def list_dir_def gpu_host_def)
qed

text \<open>
  C24. The CPU section counts its topology. The sockets are the different packages. The cores per
  socket are the \<open>cpu cores\<close> of the first block of /proc/cpuinfo where it has them, and otherwise the
  largest number of different cores in a package; the threads per core are \<open>siblings\<close> divided by
  \<open>cpu cores\<close> where the block has both and does not divide by zero, and otherwise the largest number
  of entries at one core. Without any entry that has both numbers the counts that are taken from the
  topology are unavailable. An entry of a CPU directory has the core and package numbers of its sysfs
  files where these can be read. The only condition is that the number of entries fits into 64 bits.
\<close>

theorem topology_counted:
  assumes "length (cpu_topology (collect_cpu opts h)) < 18446744073709551616"
  shows "let c = collect_cpu opts h; ps = places (cpu_topology c); blk = first_cpuinfo_block opts h;
      cores = u64_from_map blk [''cpu cores'']; siblings = u64_from_map blk [''siblings'']
    in (valid (cpu_sockets c) \<longleftrightarrow> ps \<noteq> []) \<and>
      unat (val (cpu_sockets c)) = Finite_Set.card (fst ` set ps) \<and>
      (if valid cores then cpu_cores_per_socket c = cores
       else (valid (cpu_cores_per_socket c) \<longleftrightarrow> ps \<noteq> []) \<and>
         unat (val (cpu_cores_per_socket c)) =
           Max (insert 0 ((\<lambda>p. Finite_Set.card {core. (p, core) \<in> set ps}) ` fst ` set ps))) \<and>
      (if valid siblings \<and> valid cores \<and> val cores \<noteq> 0
       then cpu_threads_per_core c = field_value (val siblings div val cores)
       else (valid (cpu_threads_per_core c) \<longleftrightarrow> ps \<noteq> []) \<and>
         unat (val (cpu_threads_per_core c)) = Max (insert 0 (count_list ps ` set ps))) \<and>
      (cpu_dirs opts h = [] \<or> list_all2 (entry_of_dir h) (cpu_dirs opts h) (cpu_topology c))"
proof -
  let ?es = "cpu_topology (collect_cpu opts h)" and ?blk = "first_cpuinfo_block opts h"
  let ?f = "u64_from_map ?blk [''cpu cores'']" and ?g = "u64_from_map ?blk [''siblings'']"
  have sockets: "valid (sockets_field (count_topology ?es)) \<longleftrightarrow> places ?es \<noteq> []"
    using conjunct1 [OF sockets_counted [of ?es]] by simp
  have threads: "valid ?g \<and> valid ?f \<and> val ?f \<noteq> 0 \<Longrightarrow>
      threads_field (count_topology ?es) ?f ?g = field_value (val ?g div val ?f)"
    by (simp add: threads_field_def del: u64_from_map.simps)
  show ?thesis
    unfolding Let_def collect_cpu_counts(2-4)
    using sockets conjunct2 [OF sockets_counted [of ?es]] threads
      cores_counted [of ?f ?es] threads_counted [of ?g ?f, OF _ assms]
      counts_answered(1) [of ?f ?es] counts_answered(2) [of ?g ?f ?es] topology_of_dirs [of opts h]
    by (simp add: cores_in_def cores_field_def del: u64_from_map.simps) blast
qed

theorem topology_counted_witness:
  "let h = file_host ''/proc/cpuinfo'' (concat (map show_block
       [[(''processor'', ''0''), (''physical id'', ''0''), (''core id'', ''0''), (''siblings'', ''4''), (''cpu cores'', ''2'')]]))
   in cpu_cores_per_socket (collect_cpu cli_options h) = field_value 2 \<and>
     cpu_threads_per_core (collect_cpu cli_options h) = field_value 2"
proof -
  let ?b = "[(''processor'', ''0''), (''physical id'', ''0''), (''core id'', ''0''), (''siblings'', ''4''), (''cpu cores'', ''2'')]"
  define h where "h = file_host ''/proc/cpuinfo'' (concat (map show_block [?b]))"
  have "list_all block_printable [?b]" by code_simp
  then have "parse_colon_blocks (concat (map show_block [?b])) = [?b]"
    using parse_show_blocks [of "[?b]"] unfolding list_all_iff by blast
  then have bs: "cpuinfo_blocks cli_options h = [?b]"
    by (simp only: h_def cpuinfo_blocks_def cpuinfo_host_read Let_def read_result.simps simp_thms if_True)
  have "sys_path cli_options ''/devices/system/cpu'' = ''/sys/devices/system/cpu''" by code_simp
  then have "list_dir h (sys_path cli_options ''/devices/system/cpu'') = []"
    by (simp add: h_def list_dir_def file_host_def quiet_host_def)
  then have "cpu_dirs cli_options h = []" using length_cpu_dirs [of cli_options h] by simp
  then have "length (cpu_topology (collect_cpu cli_options h)) \<le> 1"
    by (simp add: collect_cpu_counts(1) bs cpu_topology_list_def add_cpuinfo_topology_def map_filter_simps
        split: option.split)
  then have small: "length (cpu_topology (collect_cpu cli_options h)) < 18446744073709551616" by simp
  have n: "to_string_u64 4 = ''4''" "to_string_u64 2 = ''2''" by code_simp+
  have "parse_u64 ''4'' = Some 4" "parse_u64 ''2'' = Some 2"
    using u64_codec.parse_show [of 4] u64_codec.parse_show [of 2] unfolding n by simp_all
  then have "u64_from_map (first_cpuinfo_block cli_options h) [''cpu cores''] = field_value 2"
    "u64_from_map (first_cpuinfo_block cli_options h) [''siblings''] = field_value 4"
    by (simp_all add: first_cpuinfo_block_def bs map_value_def)
  then show ?thesis using topology_counted [OF small] unfolding Let_def h_def [symmetric] by simp
qed

text \<open>
  C25. The topology has one entry per CPU directory, in the order of the CPU numbers, and its logical
  ids are the numbers of the directories whose names are \<open>cpu\<close> and a 32-bit number.
\<close>

theorem topology_order:
  assumes "cpu_dirs opts h \<noteq> []"
  shows "map (\<lambda>e. unat (val (topo_logical_id e))) (cpu_topology (collect_cpu opts h)) =
      map (\<lambda>cpu. unat (fst cpu)) (cpu_dirs opts h) \<and>
    sorted (map (\<lambda>cpu. unat (fst cpu)) (cpu_dirs opts h)) \<and>
    fst ` set (cpu_dirs opts h) =
      {i. Some i \<in> cpu_dir_id ` set (list_dir h (sys_path opts ''/devices/system/cpu''))}"
proof -
  have ids: "map topo_logical_id (cpu_topology (collect_cpu opts h)) =
      map (\<lambda>cpu. field_value (ucast (fst cpu))) (cpu_dirs opts h)"
    using topology_logical_ids [OF assms] by (simp add: collect_cpu_def cpu_file_fields_def Let_def)
  have small: "unat (ucast (fst cpu) :: u32) = unat (fst cpu)" if "cpu \<in> set (cpu_dirs opts h)" for cpu
    using cpu_dirs_u32 [of "fst cpu" "snd cpu" opts h] that by (simp add: unat_ucast_u32)
  have "map (\<lambda>e. unat (val (topo_logical_id e))) (cpu_topology (collect_cpu opts h)) =
      map (\<lambda>f. unat (val f)) (map topo_logical_id (cpu_topology (collect_cpu opts h)))" by simp
  also have "\<dots> = map (\<lambda>cpu. unat (fst cpu)) (cpu_dirs opts h)" unfolding ids using small by simp
  finally show ?thesis
    using sorted_cpu_dirs [of opts h] cpu_dirs_ids [of opts h]
    by (auto simp: sorted_map word_le_nat_alt elim!: sorted_wrt_mono_rel [rotated])
qed

theorem topology_order_witness:
  "map (\<lambda>e. unat (val (topo_logical_id e))) (cpu_topology (collect_cpu cli_options cpu_host)) =
   map (\<lambda>cpu. unat (fst cpu)) (cpu_dirs cli_options cpu_host)"
proof -
  have "to_string_u64 1 = ''1''" by code_simp
  then have "parse_u64 ''1'' = Some 1" using u64_codec.parse_show [of 1] by simp
  then have "cpu_dir_id ''cpu1'' = Some 1" by (simp add: cpu_dir_id_def starts_with_def)
  moreover have "sys_path cli_options ''/devices/system/cpu'' = ''/sys/devices/system/cpu''" by code_simp
  then have "''cpu1'' \<in> set (list_dir cpu_host (sys_path cli_options ''/devices/system/cpu''))"
    by (simp add: set_list_dir cpu_host_def)
  ultimately have "Some 1 \<in> cpu_dir_id ` set (list_dir cpu_host (sys_path cli_options ''/devices/system/cpu''))"
    by force
  then have "1 \<in> fst ` set (cpu_dirs cli_options cpu_host)" unfolding cpu_dirs_ids by blast
  then have "cpu_dirs cli_options cpu_host \<noteq> []" by auto
  then show ?thesis using topology_order by blast
qed

section \<open>Processor\<close>

text \<open>
  C26. When the first block of /proc/cpuinfo has the flags of one family, exactly the features of that
  family are answered; every feature of the other families is \<open>unsupported\<close>.
\<close>

theorem isa_family_answered:
  assumes "read_file h (proc_path opts ''/cpuinfo'') = \<lparr>rr_status = ok, rr_value = txt\<rparr>"
    "parse_colon_blocks txt = b # bs" "source_raw (find_feature_source b) \<noteq> []"
  shows "list_all (answered_for (source_family (find_feature_source b))) (isa_features_fields (collect_isa opts h))"
  by (rule collect_isa_answers [OF assms])

theorem isa_family_answered_witness:
  "list_all (answered_for Family_arm) (isa_features_fields (collect_isa cli_options (file_host ''/proc/cpuinfo''
     (concat (map show_block [[(''processor'', ''0''), (''Features'', ''fp asimd aes'')]])))))"
proof -
  let ?bl = "[[(''processor'', ''0''), (''Features'', ''fp asimd aes'')]]"
  have "list_all block_printable ?bl" by code_simp
  then have bl: "parse_colon_blocks (concat (map show_block ?bl)) = ?bl"
    using parse_show_blocks [of ?bl] unfolding list_all_iff by blast
  have "find_feature_source (hd ?bl) = \<lparr>source_raw = ''fp asimd aes'', source_family = Family_arm\<rparr>"
    by (simp add: find_feature_source_def map_value_def)
  then show ?thesis using isa_family_answered [OF cpuinfo_host_read bl] by simp
qed

text \<open>
  C27. In a RISC-V ISA string an extension is present when its letter stands before the first
  underscore, when the letter \<open>g\<close> stands there and covers it, or when a name after an underscore
  starts with it.
\<close>

theorem riscv_extension_present:
  assumes "w = ''rv32'' \<or> w = ''rv64'' \<and> \<not> sublist ''rv32'' (w @ base @ rest)"
    "map tolower (w @ base @ rest) = w @ base @ rest"
    "CHR ''_'' \<notin> set base" "rest = [] \<or> hd rest = CHR ''_''"
  shows "riscv_has_extension (w @ base @ rest) c \<longleftrightarrow>
    c \<in> set base \<or> (CHR ''g'' \<in> set base \<and> c \<in> set ''imafd'') \<or> sublist [CHR ''_'', c] rest"
  by (rule riscv_has_extension_iff [OF assms])

theorem riscv_extension_present_witness:
  "riscv_has_extension ''rv64gc_zba'' (CHR ''f'') \<and> \<not> riscv_has_extension ''rv64gc_zba'' (CHR ''v'')"
proof -
  have "find_str ''rv32'' ''rv64gc_zba'' = None" by code_simp
  then have no: "\<not> sublist ''rv32'' (''rv64'' @ ''gc'' @ ''_zba'')"
    using find_str_iff_sublist [of "''rv32''" "''rv64gc_zba''"] by simp
  have low: "map tolower (''rv64'' @ ''gc'' @ ''_zba'') = ''rv64'' @ ''gc'' @ ''_zba''" by code_simp
  have ext: "riscv_has_extension (''rv64'' @ ''gc'' @ ''_zba'') c \<longleftrightarrow>
      c \<in> set ''gc'' \<or> (CHR ''g'' \<in> set ''gc'' \<and> c \<in> set ''imafd'') \<or> sublist [CHR ''_'', c] ''_zba''" for c
    using no low by (intro riscv_extension_present) simp_all
  have "\<not> sublist [CHR ''_'', CHR ''v''] ''_zba''"
    by (simp add: sublist_Cons_right)
  then show ?thesis using ext [of "CHR ''f''"] ext [of "CHR ''v''"] by simp
qed

text \<open>
  C28. Without \<open>allow_perf_open\<close> every hardware counter is \<open>unsupported\<close>, and what
  \<open>perf_event_open\<close> would answer has no influence on the whole section.
\<close>

theorem counters_need_permission:
  assumes "\<not> allow_perf_open opts" "posix_host h"
  shows "list_all (\<lambda>e. snd e = Bool_field (unavailable unsupported))
      (perf_counter_availability_fields (perf_available (collect_perf opts h))) \<and>
    collect_perf opts h = collect_perf opts (h\<lparr>host_perf_open := answer\<rparr>)"
proof -
  have "same_view opts h (h\<lparr>host_perf_open := answer\<rparr>)"
    using assms(1) by (simp add: same_view_def same_file_view_def)
  from perf.view [OF this assms(2)] show ?thesis
    using counters_opt_in [OF assms(1), of _ _ h] by (auto simp: list_all_iff)
qed

theorem counters_need_permission_witness:
  "collect_perf cli_options quiet_host = collect_perf cli_options (quiet_host\<lparr>host_perf_open := (\<lambda>c. None)\<rparr>)"
  using counters_need_permission [OF _ quiet_posix, of cli_options "\<lambda>c. None"]
  by (simp add: cli_options_def default_options_def)

section \<open>Power, firmware and network\<close>

text \<open>
  C29. Whether the machine runs on battery is decided by all its power supplies, as sysfs lists them:
  with a mains supply, when there is a battery and no mains supply is online; without one, when the
  first status that can be read from a battery is \<open>Discharging\<close>; otherwise the answer is
  \<open>not_found\<close>. The status and the capacity that are reported are the first that can be read from a
  battery, in the order of the listing, or the failure of the last battery that was tried.
\<close>

theorem battery_decision:
  "let root = sys_path opts ''/class/power_supply''; names = list_dir h root; p = collect_power opts h;
       batteries = filter (is_battery h root) names;
       statuses = map (\<lambda>n. read_string_field h (join_path (join_path root n) ''status'') True) batteries;
       capacities = map (\<lambda>n. read_u64_field h (join_path (join_path root n) ''capacity'') 1) batteries
   in power_battery_status p = first_valid no_field statuses \<and>
     power_battery_capacity_percent p = first_valid no_field capacities \<and>
     power_on_battery p =
       (if list_ex (is_mains h root) names
        then field_value (batteries \<noteq> [] \<and> \<not> list_ex (mains_online h root) names)
        else case List.find valid statuses of
            Some status \<Rightarrow> field_value (val status = ''Discharging'')
          | None \<Rightarrow> unavailable not_found)"
proof -
  have "list_ex P names \<longleftrightarrow> filter P names \<noteq> []" for P and names :: "string list"
    by (induction names) auto
  then show ?thesis
    using battery_fields [OF refl refl, of opts h] on_battery_cases [OF refl refl, of opts h]
    by (simp add: Let_def battery_readings_def)
qed

text \<open>
  C30. The secure boot state is the fifth byte of the first firmware variable whose name starts with
  \<open>SecureBoot-\<close>; a variable that can not be read or is too short is an error, never a state, and a
  machine without UEFI has none.
\<close>

theorem secure_boot_decision:
  "let efivars = sys_path opts ''/firmware/efi/efivars''
   in plat_secure_boot (collect_platform opts h) =
     (if \<not> path_is_dir h (sys_path opts ''/firmware/efi'') then unavailable not_found
      else case List.find (\<lambda>n. starts_with n ''SecureBoot-'') (list_dir h efivars) of
          None \<Rightarrow> unavailable not_found
        | Some n \<Rightarrow>
            (let content = read_file h (join_path efivars n)
             in if rr_status content \<noteq> ok then unavailable (rr_status content)
                else if length (rr_value content) < 5 then unavailable parse_error
                else field_value (rr_value content ! 4 \<noteq> CHR 0x00)))"
  by (simp add: Let_def collect_platform_def collect_secure_boot_def secure_boot_loop_first)

text \<open>
  C31. With \<open>include_sensitive\<close> and the real /sys, an interface is reported with exactly the addresses
  that \<open>getifaddrs\<close> lists under its name, in its order, separated by commas.
\<close>

theorem interface_addresses_reported:
  assumes "sysfs_root opts = ''/sys''" "include_sensitive opts" "host_ifaddrs h = Some ifs"
    "n \<in> set (collect_net opts h)" "ipv4_of (val (net_name n)) ifs \<noteq> [] \<or> ipv6_of (val (net_name n)) ifs \<noteq> []"
  shows "net_ipv4_addresses n = field_value (commas (ipv4_of (val (net_name n)) ifs)) \<and>
    net_ipv6_addresses n = field_value (commas (ipv6_of (val (net_name n)) ifs))"
proof -
  have "join_values vs = commas vs" for vs by (induction vs rule: join_values.induct) simp_all
  then show ?thesis using interface_addresses_listed [OF assms(1-4)] assms(5) by auto
qed

theorem interface_addresses_reported_witness:
  "\<exists>n. n \<in> set (collect_net default_options (secret_host ''10.0.0.7'')) \<and>
     net_ipv4_addresses n = field_value ''10.0.0.7''"
proof -
  let ?h = "secret_host ''10.0.0.7''" and ?o = default_options
  let ?n = "net_interface ?o ?h (collect_addresses ?o ?h) (sys_path ?o ''/class/net'') ''eth0''"
  have p: "sys_path ?o ''/class/net'' = ''/sys/class/net''"
    "join_path ''/sys/class/net'' ''eth0'' = ''/sys/class/net/eth0''" by code_simp+
  have n: "?n \<in> set (collect_net ?o ?h)"
    by (simp add: collect_net_def net_interfaces_def Let_def p list_dir_def path_is_dir_def secret_host_def)
  have "val (net_name ?n) = ''eth0''" by (simp add: net_interface_def Let_def default_options_def split: option.split)
  moreover have "ipv4_of ''eth0'' [(''eth0'', Inet (Some ''10.0.0.7''))] = [''10.0.0.7'']"
    by (simp add: ipv4_of_def map_filter_simps)
  ultimately show ?thesis
    using interface_addresses_reported [OF _ _ _ n, of "[(''eth0'', Inet (Some ''10.0.0.7''))]"] n
    by (auto simp: default_options_def secret_host_def)
qed

text \<open>
  C32. The link speed is the number the driver writes; a negative one, as drivers write for a link
  that is down, is \<open>not_found\<close> and never a huge unsigned number.
\<close>

theorem link_speed:
  assumes "read_first_line h p = \<lparr>rr_status = ok, rr_value = to_string_i64 v\<rparr>"
  shows "if sint v < 0 then read_speed_mbps h p = unavailable not_found
    else \<exists>w. read_speed_mbps h p = field_value w \<and> int (unat w) = sint v"
  using read_speed_cases [OF assms, of v] i64_codec.parse_show [of v] by auto

theorem link_speed_witness:
  "read_speed_mbps (file_host ''/sys/class/net/eth0/speed'' (''-1'' @ [CHR 0x0A])) ''/sys/class/net/eth0/speed'' =
   unavailable not_found"
proof -
  let ?h = "file_host ''/sys/class/net/eth0/speed'' (''-1'' @ [CHR 0x0A])"
  have "to_string_i64 (- 1) = ''-1''" by code_simp
  moreover have "read_first_line ?h ''/sys/class/net/eth0/speed'' = \<lparr>rr_status = ok, rr_value = ''-1''\<rparr>"
    by (rule file_host_line) simp
  ultimately show ?thesis using link_speed [of ?h "''/sys/class/net/eth0/speed''" "- 1"] by simp
qed

text \<open>
  C33. The machine is reported to run under a hypervisor exactly when the CPU has the hypervisor flag
  or one of three vendor files names a known hypervisor; the vendor reported is that of the first such file.
\<close>

theorem hypervisor_decision:
  "let v = collect_virtualization opts h;
       hint = (\<lambda>p. valid (read_string_field h p True) \<and>
                   contains_virtualization_hint (val (read_string_field h p True)));
       files = [sys_path opts ''/hypervisor/type'', sys_path opts ''/class/dmi/id/product_name'',
                sys_path opts ''/class/dmi/id/sys_vendor'']
   in virt_hypervisor_vendor v =
        (case List.find hint files of None \<Rightarrow> unavailable not_found | Some p \<Rightarrow> read_string_field h p True) \<and>
      (virt_running_under_hypervisor v = field_value True \<longleftrightarrow>
        ''hypervisor'' \<in> flag_words (cpu_flags opts h) \<or> list_ex hint files)"
proof -
  let ?hint = "\<lambda>p. valid (read_string_field h p True) \<and> contains_virtualization_hint (val (read_string_field h p True))"
  let ?files = "[sys_path opts ''/hypervisor/type'', sys_path opts ''/class/dmi/id/product_name'',
    sys_path opts ''/class/dmi/id/sys_vendor'']"
  have vendor: "virt_hypervisor_vendor (collect_virtualization opts h) =
      (case List.find ?hint ?files of None \<Rightarrow> unavailable not_found | Some p \<Rightarrow> read_string_field h p True)"
    by (simp add: collect_virtualization_def virtualization_fields_def Let_def detected_hypervisor_vendor_def hinted_vendor_loop_first
        del: hinted_vendor_loop.simps)
  then have "valid (virt_hypervisor_vendor (collect_virtualization opts h)) \<longleftrightarrow> list_ex ?hint ?files" by simp
  with vendor show ?thesis
    using running_under_hypervisor_iff [of opts h] unfolding Let_def by blast
qed

section \<open>Command line and Python module\<close>

text \<open>
  C34. The program ends with exit code 0 and nothing on standard error, or with exit code 2, nothing on
  standard output and a message with its name on standard error.
\<close>

theorem exit_codes:
  "case main_program args h of (code, out, err) \<Rightarrow>
     code = 0 \<and> out \<noteq> [] \<and> err = [] \<or> code = 2 \<and> out = [] \<and> prefix ''archspec-inspect: '' err"
proof (cases "parse_args cli_options ''text'' args")
  case (Return code out err)
  then show ?thesis using parse_args_failed_cleanly [of cli_options "''text''" args]
    by (simp add: main_program_def failed_cleanly_def)
next
  case (Run opts f)
  then show ?thesis by (simp add: main_program_def Let_def print_text_def newline_def)
qed

text \<open>
  C35. A list of category names is accepted exactly when all of them are known, and then exactly the
  named categories are selected.
\<close>

theorem category_list_selects:
  assumes "ns \<noteq> []" "list_all (\<lambda>n. n \<noteq> [] \<and> CHR '','' \<notin> set n) ns" "commas ns \<notin> {''all'', ''none''}"
  shows "if set ns \<subseteq> snd ` set category_table
    then \<exists>cats. parse_categories (commas ns) = Inr cats \<and>
      list_all (\<lambda>e. has_category cats (fst e) = (snd e \<in> set ns)) category_table
    else \<exists>msg. parse_categories (commas ns) = Inl msg"
proof -
  have "commas ns \<noteq> []" using assms(1,2) by (cases ns rule: commas.cases) simp_all
  then have eq: "parse_categories (commas ns) = add_names cat_none ns"
    using assms lines_by_join [of ns] by (simp add: parse_categories_def list_all_iff)
  have none: "\<not> has_category cat_none c" for c by (simp add: has_category_def cat_and_def cat_none_def)
  show ?thesis
  proof (cases "add_names cat_none ns")
    case (Inl msg)
    then show ?thesis using add_names_known [of cat_none ns] eq by auto
  next
    case (Inr cats)
    then have "list_all (\<lambda>e. has_category cats (fst e) = (snd e \<in> set ns)) category_table"
      using add_names_selects [OF Inr] none by (simp add: list_all_iff)
    moreover have "set ns \<subseteq> snd ` set category_table" using Inr add_names_known [of cat_none ns] by blast
    ultimately show ?thesis using eq Inr by simp
  qed
qed

theorem category_list_selects_witness:
  "\<exists>cats. parse_categories ''os,net'' = Inr cats \<and>
     list_all (\<lambda>e. has_category cats (fst e) = (snd e \<in> {''os'', ''net''})) category_table"
  using category_list_selects [of "[''os'', ''net'']"] by (simp add: category_table_def)

text \<open>
  C36. The machine-readable contract of \<open>--capabilities\<close> is true of the program. Wherever the option
  stands after arguments that are understood, and whatever follows, the program prints the same
  object and reads nothing of the host. Its formats are exactly those that \<open>--format\<close> accepts; its
  categories are exactly the single names that \<open>--categories\<close> accepts, besides \<open>all\<close>; it is safe by
  default, since no run without the flag \<open>--include-sensitive\<close> includes sensitive data; and it
  supports redaction, since a final \<open>--redact\<close> turns sensitive data off and keeps all else.
\<close>

theorem capabilities_true:
  assumes "parse_args cli_options ''text'' args = Run opts fmt"
  shows "\<exists>line formats cats.
     main_program (args @ ''--capabilities'' # later) h = (0, line @ newline, []) \<and>
     decode line = Some (JObj [
       (''name'', JStr ''archspec-inspect''), (''version'', JStr lib_version),
       (''report_schema_version'', JStr report_schema_version),
       (''formats'', JArr (map JStr formats)), (''categories'', JArr (map JStr cats)),
       (''safe_by_default'', JBool True), (''supports_redaction'', JBool True)]) \<and>
     (\<forall>n. n \<in> set formats \<longleftrightarrow> (\<exists>q f. parse_args cli_options ''text'' [''--format'', n] = Run q f)) \<and>
     (\<forall>n. CHR '','' \<notin> set n \<and> n \<noteq> ''all'' \<longrightarrow>
        n \<in> set cats \<longleftrightarrow> (\<exists>q f. parse_args cli_options ''text'' [''--categories'', n] = Run q f)) \<and>
     (''--include-sensitive'' \<notin> set args \<longrightarrow> \<not> include_sensitive opts) \<and>
     parse_args cli_options ''text'' (args @ [''--redact'']) = Run (opts\<lparr>include_sensitive := False\<rparr>) fmt"
proof (intro exI conjI allI impI)
  show "main_program (args @ ''--capabilities'' # later) h = (0, render capabilities_value @ newline, [])"
    by (rule capabilities_anywhere [OF assms])
  show "decode (render capabilities_value) = Some (JObj [
       (''name'', JStr ''archspec-inspect''), (''version'', JStr lib_version),
       (''report_schema_version'', JStr report_schema_version),
       (''formats'', JArr (map JStr capability_formats)),
       (''categories'', JArr (map JStr (map snd category_table))),
       (''safe_by_default'', JBool True), (''supports_redaction'', JBool True)])"
    unfolding capabilities_value_def by (rule decode_render)
  show "n \<in> set capability_formats \<longleftrightarrow> (\<exists>q f. parse_args cli_options ''text'' [''--format'', n] = Run q f)" for n
    by (rule format_accepted [symmetric])
  show "n \<in> set (map snd category_table) \<longleftrightarrow>
      (\<exists>q f. parse_args cli_options ''text'' [''--categories'', n] = Run q f)"
    if "CHR '','' \<notin> set n \<and> n \<noteq> ''all''" for n
    unfolding category_accepted set_map
    by (rule parse_single_category [OF conjunct1 [OF that] conjunct2 [OF that], symmetric])
  show "\<not> include_sensitive opts" if "''--include-sensitive'' \<notin> set args"
    by (rule parse_args_sensitive [OF assms _ that]) (simp add: cli_options_def)
  show "parse_args cli_options ''text'' (args @ [''--redact'']) = Run (opts\<lparr>include_sensitive := False\<rparr>) fmt"
    by (rule redact_last [OF assms])
qed

theorem capabilities_true_witness:
  "\<exists>line. main_program [''--json'', ''--capabilities'', ''--nonsense''] quiet_host = (0, line @ newline, [])"
proof -
  have "parse_args cli_options ''text'' [''--json''] = Run cli_options ''json''"
    by (simp add: parse_args.simps(2) argument_turn_def)
  from capabilities_true [OF this, of "[''--nonsense'']" quiet_host] show ?thesis by auto
qed

text \<open>
  C37. The command line and the Python module read the same selection from the same list of known
  category names.
\<close>

theorem cli_python_same_lists:
  assumes "ns \<noteq> []" "set ns \<subseteq> snd ` set category_table"
  shows "\<exists>cats. parse_categories (commas ns) = Inr cats \<and>
    native_parse_categories (Py_text (Utf8 (commas ns))) = Inr cats"
proof -
  have "\<exists>cats. add_names cat_none ns = Inr cats" using assms(2) add_names_known by blast
  then have "\<exists>cats. parse_categories (commas ns) = Inr cats"
    using assms commas_special(1) [OF assms] lines_by_join [of ns] category_names
    by (fastforce simp: parse_categories_def)
  then show ?thesis using cli_python_agree [OF assms] by blast
qed

theorem cli_python_same_lists_witness:
  "\<exists>cats. parse_categories ''cpu,memory'' = Inr cats \<and>
     native_parse_categories (Py_text (Utf8 ''cpu,memory'')) = Inr cats"
  using cli_python_same_lists [of "[''cpu'', ''memory'']"] by (simp add: category_table_def)

text \<open>
  C38. When the arguments of the command line and of the Python module ask for the same options, the
  module returns the very JSON text that the program prints, or raises \<open>UnicodeDecodeError\<close>; it
  returns exactly when every string of the report is UTF-8. Called without arguments it asks for the
  options of a plain \<open>--json\<close>, so it redacts by default as the program does.
\<close>

theorem python_returns_cli_json:
  assumes "parse_args cli_options ''text'' args = Run opts ''json''" "py_options a = Inr opts"
  shows "\<exists>r j. main_program args h = (0, r @ newline, []) \<and> decode r = Some j \<and>
    collect_json a h = (if list_all utf8_text (json_strings j) then Inr r else Inl Decode_error) \<and>
    py_options default_py_args = Inr cli_options"
proof (intro exI conjI)
  let ?r = "collect_report opts h"
  show "main_program args h = (0, to_json_report ?r @ newline, [])"
    using assms(1) by (simp add: main_program_def)
  show "decode (to_json_report ?r) = Some (report_value ?r)" by (rule report_json.decode_encode)
  show "collect_json a h = (if list_all utf8_text (json_strings (report_value ?r))
      then Inr (to_json_report ?r) else Inl Decode_error)"
    by (rule collect_json_decodes [OF assms(2)])
qed (rule py_options_default)

theorem python_returns_cli_json_witness:
  "\<exists>r j. main_program [''--json''] quiet_host = (0, r @ newline, []) \<and> decode r = Some j \<and>
    collect_json default_py_args quiet_host =
      (if list_all utf8_text (json_strings j) then Inr r else Inl Decode_error)"
proof -
  have "parse_args cli_options ''text'' [''--json''] = Run cli_options ''json''"
    by (simp add: parse_args.simps(2) argument_turn_def)
  from python_returns_cli_json [OF this py_options_default, of quiet_host] show ?thesis by blast
qed

text \<open>
  C39. \<open>parse_categories\<close> of the Python module neither leaks a reference nor uses or releases one that
  it no longer holds, whatever the items of the iterable are and wherever it fails; following the
  references does not change its result.
\<close>

theorem python_references_balanced:
  "held_after {} (fst (traced_parse_categories v)) = Some {} \<and>
   snd (traced_parse_categories v) = native_parse_categories v"
  by (intro conjI references_balanced traced_result)

text \<open>
  C40. A JSON string literal contains no control character and ends at the first quotation mark that
  is not escaped, and reading it gives back every byte of the text.
\<close>

theorem json_strings_read_back:
  "\<exists>body. json_string s = [CHR 0x22] @ body @ [CHR 0x22] \<and>
     read_string (body @ [CHR 0x22] @ rest) = Some (s, rest) \<and>
     list_all (\<lambda>c. of_char c \<ge> (32 :: nat)) (json_string s)"
proof -
  have "list_all (\<lambda>c. of_char c \<ge> (32 :: nat)) (escape_char c)" for c
    using hex_digit_printable by (auto simp: escape_char_def hex4_def)
  then have "list_all (\<lambda>c. of_char c \<ge> (32 :: nat)) (escape_json s)"
    by (auto simp: escape_json_concat list_all_iff)
  then show ?thesis using read_string_escape [of s rest] by (simp add: json_string_def)
qed

end
